(* ===== verification/Rust_Prelude.thy ===== *)
theory Rust_Prelude
  imports
    Main
    "HOL-Library.Char_ord"
    "HOL-Library.List_Lexorder"
    "HOL-Library.Option_ord"
    "HOL-Library.Product_Lexorder"
    "HOL-Library.Signed_Division"
    "HOL-Library.Sublist"
begin

text \<open>
  What the components of sbagent share of Rust and its standard library: results and the
  sequencing of checks (\<open>bail!\<close> and \<open>?\<close>), indexed loops over slices, strings as UTF-8 byte
  lists with the operations the sources use (trim, split, strip, byte slices, integer parsing and
  zero-padded formatting), fixed-width integer casts, \<open>std::cmp::Reverse\<close>, and the
  ordered-map interface of \<open>BTreeMap\<close> with its sorted association-list provider.
\<close>

named_theorems result_simps \<open>rewriting of results, check sequences and indexed loops\<close>

named_theorems btree_simps \<open>the laws of the ordered map and of the loops that build one\<close>

section \<open>Results\<close>

text \<open>
  \<open>Result<T, E>\<close> is \<open>'e + 'a\<close> with \<open>Inl\<close> the error. A validator returns
  \<open>Result<()>\<close>; the statements of its body are run in order and the first error is returned.
\<close>

type_synonym 'e check = "'e + unit"

abbreviation Ok_unit :: "'e + unit" where
  "Ok_unit \<equiv> Inr ()"

definition bail_if :: "bool \<Rightarrow> 'e \<Rightarrow> 'e check" where
  "bail_if b e = (if b then Inl e else Ok_unit)"

fun checks :: "'e check list \<Rightarrow> 'e check" where
  "checks [] = Ok_unit"
| "checks (c # cs) = (case c of Inl e \<Rightarrow> Inl e | Inr _ \<Rightarrow> checks cs)"

text \<open>The \<open>with_context\<close> combinator: wraps the error, keeps the value.\<close>

definition with_context :: "('e \<Rightarrow> 'f) \<Rightarrow> 'e + 'a \<Rightarrow> 'f + 'a" where
  "with_context f r = (case r of Inl e \<Rightarrow> Inl (f e) | Inr a \<Rightarrow> Inr a)"

text \<open>The \<open>for (i, x) in xs.iter().enumerate()\<close> loop whose body may return early.\<close>

fun for_each :: "(nat \<Rightarrow> 'a \<Rightarrow> 'e check) \<Rightarrow> nat \<Rightarrow> 'a list \<Rightarrow> 'e check" where
  "for_each f i [] = Ok_unit"
| "for_each f i (x # xs) = (case f i x of Inl e \<Rightarrow> Inl e | Inr _ \<Rightarrow> for_each f (Suc i) xs)"

text \<open>
  The loop \<open>if !seen.insert(key) { bail }\<close> followed by further checks on the element:
  \<open>seen\<close> is the set of the keys of the elements before.
\<close>

fun for_each_seen ::
  "('a \<Rightarrow> 'k) \<Rightarrow> (nat \<Rightarrow> 'k set \<Rightarrow> 'a \<Rightarrow> 'e check) \<Rightarrow> nat \<Rightarrow> 'k set \<Rightarrow> 'a list \<Rightarrow> 'e check" where
  "for_each_seen key f i seen [] = Ok_unit"
| "for_each_seen key f i seen (x # xs) =
     (case f i seen x of Inl e \<Rightarrow> Inl e
      | Inr _ \<Rightarrow> for_each_seen key f (Suc i) (insert (key x) seen) xs)"

lemma bail_if_simps [simp, result_simps]:
  "bail_if True e = Inl e"
  "bail_if False e = Ok_unit"
  by (simp_all add: bail_if_def)

lemma bail_if_Inr [simp, result_simps]: "bail_if b e = Ok_unit \<longleftrightarrow> \<not> b"
  by (simp add: bail_if_def)

lemma bail_if_Inl [simp, result_simps]: "bail_if b e = Inl e' \<longleftrightarrow> b \<and> e' = e"
  by (auto simp add: bail_if_def)

lemma with_context_simps [simp, result_simps]:
  "with_context f (Inr a) = Inr a"
  "with_context f (Inl e) = Inl (f e)"
  by (simp_all add: with_context_def)

lemma with_context_Inr [simp, result_simps]: "with_context f r = Inr a \<longleftrightarrow> r = Inr a"
  by (simp add: with_context_def split: sum.split)

lemma with_context_Inl [simp, result_simps]:
  "with_context f r = Inl e \<longleftrightarrow> (\<exists>e'. r = Inl e' \<and> e = f e')"
  by (auto simp add: with_context_def split: sum.splits)

lemma checks_Inr [result_simps]: "checks cs = Ok_unit \<longleftrightarrow> (\<forall>c \<in> set cs. c = Ok_unit)"
  by (induction cs) (auto split: sum.split)

lemma checks_Cons_ok [simp, result_simps]:
  "checks (c # cs) = Ok_unit \<longleftrightarrow> c = Ok_unit \<and> checks cs = Ok_unit"
  by (cases c) simp_all

declare checks.simps(2) [simp del]

lemma for_each_Inr [result_simps]:
  "for_each f i xs = Ok_unit \<longleftrightarrow> (\<forall>j < length xs. f (i + j) (xs ! j) = Ok_unit)"
proof (induction xs arbitrary: i)
  case (Cons x xs)
  have *: "(\<forall>j < length (x # xs). P j) \<longleftrightarrow> P 0 \<and> (\<forall>j < length xs. P (Suc j))" for P
    by (auto simp: less_Suc_eq_0_disj)
  show ?case
    by (subst *) (auto simp: Cons.IH split: sum.split)
qed simp

lemma for_each_const_Inr:
  "for_each (\<lambda>_. f) i xs = Ok_unit \<longleftrightarrow> (\<forall>x \<in> set xs. f x = Ok_unit)"
  by (auto simp: for_each_Inr all_set_conv_all_nth)

lemma for_each_seen_Inr:
  assumes body: "\<And>i seen x. f i seen x = Ok_unit \<longleftrightarrow> key x \<notin> seen \<and> g i x"
  shows "for_each_seen key f i seen xs = Ok_unit
   \<longleftrightarrow> distinct (map key xs) \<and> set (map key xs) \<inter> seen = {} \<and> (\<forall>j < length xs. g (i + j) (xs ! j))"
proof (induction xs arbitrary: i seen)
  case (Cons x xs)
  have *: "(\<forall>j < length (x # xs). P j) \<longleftrightarrow> P 0 \<and> (\<forall>j < length xs. P (Suc j))" for P
    by (auto simp: less_Suc_eq_0_disj)
  have **: "(case f i seen x of Inl e \<Rightarrow> Inl e | Inr _ \<Rightarrow> r) = Ok_unit
      \<longleftrightarrow> (key x \<notin> seen \<and> g i x) \<and> r = Ok_unit" for r
    using body[of i seen x] by (cases "f i seen x") auto
  show ?case
    by (subst *) (auto simp: Cons.IH **)
qed simp

text \<open>The \<open>?\<close> operator: continue with the value, or return the error.\<close>

definition and_then :: "'e + 'a \<Rightarrow> ('a \<Rightarrow> 'e + 'b) \<Rightarrow> 'e + 'b" where
  "and_then r f = (case r of Inl e \<Rightarrow> Inl e | Inr a \<Rightarrow> f a)"

lemma and_then_simps [simp]: "and_then (Inl e) f = Inl e" "and_then (Inr a) f = f a"
  by (simp_all add: and_then_def)

lemma and_then_Inr [result_simps]: "and_then r f = Inr b \<longleftrightarrow> (\<exists>a. r = Inr a \<and> f a = Inr b)"
  by (cases r) simp_all

text \<open>Sequencing of operations on the world: an error ends the sequence and keeps what happened before.\<close>

definition then_do :: "('s \<Rightarrow> ('e + 'a) \<times> 's) \<Rightarrow> ('a \<Rightarrow> 's \<Rightarrow> ('e + 'b) \<times> 's) \<Rightarrow> 's \<Rightarrow> ('e + 'b) \<times> 's" where
  "then_do m f w = (case m w of (Inl e, w') \<Rightarrow> (Inl e, w') | (Inr a, w') \<Rightarrow> f a w')"

definition give :: "'a \<Rightarrow> 's \<Rightarrow> ('e + 'a) \<times> 's" where
  "give a w = (Inr a, w)"

definition fail_with :: "'e \<Rightarrow> 's \<Rightarrow> ('e + 'a) \<times> 's" where
  "fail_with e w = (Inl e, w)"

definition in_context :: "('e \<Rightarrow> 'f) \<Rightarrow> ('s \<Rightarrow> ('e + 'a) \<times> 's) \<Rightarrow> 's \<Rightarrow> ('f + 'a) \<times> 's" where
  "in_context f m w = (case m w of (r, w') \<Rightarrow> (with_context f r, w'))"

lemma then_do_Inr [result_simps]:
  "then_do m f w = (Inr b, w'') \<longleftrightarrow> (\<exists>a w'. m w = (Inr a, w') \<and> f a w' = (Inr b, w''))"
  by (auto simp: then_do_def split: prod.splits sum.splits)

lemma give_Inr [result_simps]: "give a w = (Inr b, w') \<longleftrightarrow> a = b \<and> w = w'"
  by (simp add: give_def)

lemma fail_with_Inr [simp]: "fail_with e w \<noteq> (Inr b, w')"
  by (simp add: fail_with_def)

lemma in_context_Inr [result_simps]: "in_context f m w = (Inr b, w') \<longleftrightarrow> m w = (Inr b, w')"
  by (auto simp: in_context_def with_context_def split: prod.splits sum.splits)

text \<open>The \<open>collect::<Result<Vec<_>, _>>\<close> of a fallible iterator: the first error wins.\<close>

fun collect_results :: "('e + 'a) list \<Rightarrow> 'e + 'a list" where
  "collect_results [] = Inr []"
| "collect_results (r # rs) =
     (case r of Inl e \<Rightarrow> Inl e
      | Inr a \<Rightarrow> (case collect_results rs of Inl e \<Rightarrow> Inl e | Inr as \<Rightarrow> Inr (a # as)))"

lemma collect_results_Inr [result_simps]: "collect_results rs = Inr as \<longleftrightarrow> rs = map Inr as"
proof
  show "collect_results rs = Inr as \<Longrightarrow> rs = map Inr as"
    by (induction rs arbitrary: as) (auto split: sum.splits)
  show "rs = map Inr as \<Longrightarrow> collect_results rs = Inr as"
    by (induction as arbitrary: rs) auto
qed

fun collect_options :: "'a option list \<Rightarrow> 'a list option" where
  "collect_options [] = Some []"
| "collect_options (r # rs) =
     (case r of None \<Rightarrow> None
      | Some a \<Rightarrow> (case collect_options rs of None \<Rightarrow> None | Some as \<Rightarrow> Some (a # as)))"

lemma collect_options_Some [result_simps]: "collect_options rs = Some as \<longleftrightarrow> rs = map Some as"
proof
  show "collect_options rs = Some as \<Longrightarrow> rs = map Some as"
    by (induction rs arbitrary: as) (auto split: option.splits)
  show "rs = map Some as \<Longrightarrow> collect_options rs = Some as"
    by (induction as arbitrary: rs) auto
qed

section \<open>Fixed-width integers\<close>

text \<open>
  The \<open>as i64\<close> and \<open>as i32\<close> casts and the wrapping two's-complement arithmetic of the release
  profile, on \<open>int\<close>.
\<close>

definition wrap_signed :: "nat \<Rightarrow> int \<Rightarrow> int" where
  "wrap_signed w x = (x + 2 ^ (w - 1)) mod 2 ^ w - 2 ^ (w - 1)"

abbreviation as_i64 :: "int \<Rightarrow> int" where
  "as_i64 \<equiv> wrap_signed 64"

abbreviation as_i32 :: "int \<Rightarrow> int" where
  "as_i32 \<equiv> wrap_signed 32"

definition u64_max :: nat where
  "u64_max = 2 ^ 64 - 1"

definition in_i64 :: "int \<Rightarrow> bool" where
  "in_i64 x \<longleftrightarrow> - (2 ^ 63) \<le> x \<and> x < 2 ^ 63"

text \<open>\<open>u64::saturating_mul\<close>, and \<open>i64::checked_mul\<close> / \<open>checked_add\<close>.\<close>

definition saturating_mul_u64 :: "nat \<Rightarrow> nat \<Rightarrow> nat" where
  "saturating_mul_u64 a b = min (a * b) u64_max"

definition checked_i64 :: "int \<Rightarrow> int option" where
  "checked_i64 x = (if in_i64 x then Some x else None)"

lemma as_i64_id [simp]: "- 9223372036854775808 \<le> x \<Longrightarrow> x < 9223372036854775808 \<Longrightarrow> as_i64 x = x"
  by (simp add: wrap_signed_def)

lemma as_i32_id [simp]: "- 2147483648 \<le> x \<Longrightarrow> x < 2147483648 \<Longrightarrow> as_i32 x = x"
  by (simp add: wrap_signed_def)

lemma wrap_signed_range:
  "0 < w \<Longrightarrow> - (2 ^ (w - 1)) \<le> wrap_signed w x \<and> wrap_signed w x < 2 ^ (w - 1)"
proof -
  assume "0 < w"
  then have "(2::int) ^ w = 2 * 2 ^ (w - 1)"
    by (simp add: power_eq_if)
  moreover have "(x + 2 ^ (w - 1)) mod 2 ^ w < (2::int) ^ w" "0 \<le> (x + 2 ^ (w - 1)) mod (2::int) ^ w"
    by simp_all
  ultimately show ?thesis
    unfolding wrap_signed_def by linarith
qed

text \<open>Rust's \<open>/\<close> truncates; on a non-negative dividend it is \<open>div\<close>.\<close>

lemma sdiv_nonneg [simp]: "0 \<le> a \<Longrightarrow> 0 < b \<Longrightarrow> a sdiv b = a div (b::int)"
  by (simp add: signed_divide_int_def sgn_if)

lemma smod_nonneg [simp]: "0 \<le> a \<Longrightarrow> 0 < b \<Longrightarrow> a smod b = a mod (b::int)"
  by (cases "a = 0") (simp_all add: signed_modulo_int_def sgn_if)

lemma sdiv_floor:
  fixes z k :: int
  assumes "0 < k"
  shows "(if 0 \<le> z then z else z - (k - 1)) sdiv k = z div k"
proof (cases "0 \<le> z")
  case False
  have eq: "(k - 1 - z) div k = - (z div k)"
  proof -
    have "z = k * (z div k) + z mod k" by simp
    moreover have "0 \<le> z mod k" "z mod k < k" using assms by simp_all
    ultimately have "k - 1 - z = k * (- (z div k)) + (k - 1 - z mod k)"
      by (simp add: algebra_simps)
    moreover have "0 \<le> k - 1 - z mod k" "k - 1 - z mod k < k"
      using \<open>0 \<le> z mod k\<close> \<open>z mod k < k\<close> by linarith+
    ultimately show ?thesis
      by (metis add.commute div_mult_self2 div_pos_pos_trivial less_irrefl add_0 assms)
  qed
  moreover have "\<bar>z - (k - 1)\<bar> = k - 1 - z" using False assms by simp
  moreover have "z - (k - 1) < 0" using False assms by simp
  ultimately show ?thesis
    using False assms by (simp add: signed_divide_int_def)
qed (simp add: assms)

section \<open>Lexicographic keys\<close>

text \<open>
  \<open>a.cmp(b).then_with(..)\<close> is the lexicographic order on tuples of keys (\<open>None\<close> below
  \<open>Some\<close>), and a comparison with its arguments swapped is the order of \<open>std::cmp::Reverse\<close>;
  \<open>sort_by\<close> is stable, as is \<open>sort_key\<close>.
\<close>

lemma lex_less_iff:
  fixes a a' :: "'a::linorder" and b b' :: "'b::linorder"
  shows "(a, b) < (a', b') \<longleftrightarrow> a < a' \<or> (a = a' \<and> b < b')"
  by auto

datatype 'a reverse = Reverse (unreverse: 'a)

instantiation reverse :: (linorder) linorder
begin

definition less_eq_reverse :: "'a reverse \<Rightarrow> 'a reverse \<Rightarrow> bool" where
  "less_eq_reverse a b \<longleftrightarrow> unreverse b \<le> unreverse a"

definition less_reverse :: "'a reverse \<Rightarrow> 'a reverse \<Rightarrow> bool" where
  "less_reverse a b \<longleftrightarrow> unreverse b < unreverse a"

instance
  by standard (auto simp: less_eq_reverse_def less_reverse_def intro: reverse.expand)

end

lemma reverse_less [simp]: "Reverse a < Reverse b \<longleftrightarrow> b < a" "Reverse a \<le> Reverse b \<longleftrightarrow> b \<le> a"
  by (simp_all add: less_eq_reverse_def less_reverse_def)

end
