(* ===== verification/Rust_Strings.thy ===== *)
theory Rust_Strings
  imports Rust_Prelude
begin

text \<open>
  The string operations of the Rust standard library that the sources call. A \<open>String\<close> is its
  UTF-8 encoding, a list of bytes (\<open>char\<close>), so lengths and slices are in bytes as in Rust. The
  second half proves that zero-padded decimal formatting and integer parsing are inverse.
\<close>

section \<open>Prefixes, splitting, blanks\<close>

definition starts_with :: "string \<Rightarrow> string \<Rightarrow> bool" where
  "starts_with s p \<longleftrightarrow> prefix p s"

definition strip_prefix :: "string \<Rightarrow> string \<Rightarrow> string option" where
  "strip_prefix s p = (if prefix p s then Some (drop (length p) s) else None)"

definition ends_with :: "string \<Rightarrow> string \<Rightarrow> bool" where
  "ends_with s p \<longleftrightarrow> suffix p s"

definition strip_suffix :: "string \<Rightarrow> string \<Rightarrow> string option" where
  "strip_suffix s p = (if suffix p s then Some (take (length s - length p) s) else None)"

text \<open>\<open>slice::join\<close>, and \<open>Path::join\<close> on Unix path text.\<close>

fun join_strings :: "string \<Rightarrow> string list \<Rightarrow> string" where
  "join_strings sep [] = []"
| "join_strings sep [x] = x"
| "join_strings sep (x # y # xs) = x @ sep @ join_strings sep (y # xs)"

definition path_join :: "string \<Rightarrow> string \<Rightarrow> string" where
  "path_join base p =
     (if starts_with p ''/'' then p
      else if base = [] \<or> ends_with base ''/'' then base @ p
      else base @ ''/'' @ p)"

definition contains_char :: "string \<Rightarrow> char \<Rightarrow> bool" where
  "contains_char s c \<longleftrightarrow> c \<in> set s"

text \<open>\<open>str::split(char)\<close>: the pieces between the separators; at least one piece.\<close>

fun split_char :: "char \<Rightarrow> string \<Rightarrow> string list" where
  "split_char c [] = [[]]"
| "split_char c (x # xs) =
     (if x = c then [] # split_char c xs
      else (case split_char c xs of [] \<Rightarrow> [[x]] | p # ps \<Rightarrow> (x # p) # ps))"

text \<open>\<open>str::trim_end_matches(char)\<close>.\<close>

definition trim_end_char :: "char \<Rightarrow> string \<Rightarrow> string" where
  "trim_end_char c s = rev (dropWhile (\<lambda>x. x = c) (rev s))"

text \<open>
  \<open>s.trim().is_empty()\<close>: every code point of \<open>s\<close> has the Unicode property White_Space. The
  one-byte ones are U+0009 to U+000D and U+0020, the others are the two- and three-byte UTF-8
  sequences of U+0085, U+00A0, U+1680, U+2000 to U+200A, U+2028, U+2029, U+202F, U+205F, U+3000.
\<close>

definition ascii_ws :: "char \<Rightarrow> bool" where
  "ascii_ws c \<longleftrightarrow> of_char c \<in> {9 .. 13 :: nat} \<or> of_char c = (32 :: nat)"

definition ws2 :: "nat \<Rightarrow> nat \<Rightarrow> bool" where
  "ws2 a b \<longleftrightarrow> a = 194 \<and> (b = 133 \<or> b = 160)"

definition ws3 :: "nat \<Rightarrow> nat \<Rightarrow> nat \<Rightarrow> bool" where
  "ws3 a b c \<longleftrightarrow>
     (a = 225 \<and> b = 154 \<and> c = 128)
   \<or> (a = 226 \<and> b = 128 \<and> (128 \<le> c \<and> c \<le> 138 \<or> c = 168 \<or> c = 169 \<or> c = 175))
   \<or> (a = 226 \<and> b = 129 \<and> c = 159)
   \<or> (a = 227 \<and> b = 128 \<and> c = 128)"

fun is_blank :: "string \<Rightarrow> bool" where
  "is_blank [] = True"
| "is_blank [a] = ascii_ws a"
| "is_blank [a, b] =
     (if ascii_ws a then is_blank [b] else ws2 (of_char a) (of_char b))"
| "is_blank (a # b # c # s) =
     (if ascii_ws a then is_blank (b # c # s)
      else if ws2 (of_char a) (of_char b) then is_blank (c # s)
      else ws3 (of_char a) (of_char b) (of_char c) \<and> is_blank s)"

text \<open>
  \<open>&s[i..j]\<close> panics (\<open>None\<close>) out of range and off a character boundary; a byte is not a boundary
  when it is a UTF-8 continuation byte.
\<close>

definition is_char_boundary :: "string \<Rightarrow> nat \<Rightarrow> bool" where
  "is_char_boundary s i \<longleftrightarrow>
     i = length s \<or> (i < length s \<and> \<not> (128 \<le> (of_char (s ! i) :: nat) \<and> (of_char (s ! i) :: nat) < 192))"

definition byte_slice :: "string \<Rightarrow> nat \<Rightarrow> nat \<Rightarrow> string option" where
  "byte_slice s i j =
     (if i \<le> j \<and> j \<le> length s \<and> is_char_boundary s i \<and> is_char_boundary s j
      then Some (take (j - i) (drop i s)) else None)"

text \<open>
  \<open>str::lines\<close>: the pieces between newlines without a trailing empty one, each without its
  trailing carriage return.
\<close>

definition strip_cr :: "string \<Rightarrow> string" where
  "strip_cr l = (case strip_suffix l [CHR 0x0D] of Some l' \<Rightarrow> l' | None \<Rightarrow> l)"

definition rust_lines :: "string \<Rightarrow> string list" where
  "rust_lines s =
     (let ps = split_char (CHR 0x0A) s;
          body = map strip_cr (butlast ps)
      in if last ps = [] then body else body @ [last ps])"

section \<open>Bytes\<close>

definition is_ascii_digit :: "char \<Rightarrow> bool" where
  "is_ascii_digit c \<longleftrightarrow> of_char c \<in> {48 .. 57 :: nat}"

definition is_ascii_lowercase :: "char \<Rightarrow> bool" where
  "is_ascii_lowercase c \<longleftrightarrow> of_char c \<in> {97 .. 122 :: nat}"

definition is_ascii_uppercase :: "char \<Rightarrow> bool" where
  "is_ascii_uppercase c \<longleftrightarrow> of_char c \<in> {65 .. 90 :: nat}"

definition is_ascii_hexdigit :: "char \<Rightarrow> bool" where
  "is_ascii_hexdigit c \<longleftrightarrow>
     of_char c \<in> {48 .. 57 :: nat} \<or> of_char c \<in> {65 .. 70 :: nat} \<or> of_char c \<in> {97 .. 102 :: nat}"

section \<open>Decimal numbers\<close>

definition digit_char :: "nat \<Rightarrow> char" where
  "digit_char d = char_of (48 + d)"

definition char_digit :: "char \<Rightarrow> nat" where
  "char_digit c = of_char c - 48"

fun show_nat :: "nat \<Rightarrow> string" where
  "show_nat n = (if n < 10 then [digit_char n] else show_nat (n div 10) @ [digit_char (n mod 10)])"

declare show_nat.simps [simp del]

text \<open>\<open>{n:0w}\<close>: zero-padded to width \<open>w\<close>; the sign counts towards the width.\<close>

definition pad_left :: "nat \<Rightarrow> string \<Rightarrow> string" where
  "pad_left w s = replicate (w - length s) (CHR ''0'') @ s"

definition show_int_pad :: "nat \<Rightarrow> int \<Rightarrow> string" where
  "show_int_pad w x =
     (if x < 0 then CHR ''-'' # pad_left (w - 1) (show_nat (nat (- x))) else pad_left w (show_nat (nat x)))"

definition digits_value :: "string \<Rightarrow> nat" where
  "digits_value s = foldl (\<lambda>n c. 10 * n + char_digit c) 0 s"

text \<open>
  \<open>str::parse\<close> for unsigned and signed integers: an optional sign (no minus when unsigned), at
  least one digit, digits only, in range.
\<close>

definition parse_digits :: "string \<Rightarrow> nat option" where
  "parse_digits s = (if s \<noteq> [] \<and> list_all is_ascii_digit s then Some (digits_value s) else None)"

definition parse_unsigned :: "nat \<Rightarrow> string \<Rightarrow> nat option" where
  "parse_unsigned w s =
     (let ds = (case s of c # cs \<Rightarrow> if c = CHR ''+'' then cs else s | [] \<Rightarrow> [])
      in case parse_digits ds of
           Some n \<Rightarrow> if n < 2 ^ w then Some n else None
         | None \<Rightarrow> None)"

definition parse_signed :: "nat \<Rightarrow> string \<Rightarrow> int option" where
  "parse_signed w s =
     (case s of [] \<Rightarrow> None
      | c # cs \<Rightarrow>
          if c = CHR ''-'' then
            (case parse_digits cs of
               Some n \<Rightarrow> if n \<le> 2 ^ (w - 1) then Some (- int n) else None
             | None \<Rightarrow> None)
          else
            (case parse_digits (if c = CHR ''+'' then cs else s) of
               Some n \<Rightarrow> if n < 2 ^ (w - 1) then Some (int n) else None
             | None \<Rightarrow> None))"

section \<open>Formatting and parsing are inverse\<close>

lemma of_char_digit_char [simp]: "d < 10 \<Longrightarrow> (of_char (digit_char d) :: nat) = 48 + d"
  by (simp add: digit_char_def)

lemma is_ascii_digit_digit_char [simp]: "d < 10 \<Longrightarrow> is_ascii_digit (digit_char d)"
  by (simp add: is_ascii_digit_def)

lemma char_digit_digit_char [simp]: "d < 10 \<Longrightarrow> char_digit (digit_char d) = d"
  by (simp add: char_digit_def)

lemma is_ascii_digit_simps [simp]:
  "is_ascii_digit (CHR ''0'')" "\<not> is_ascii_digit (CHR ''-'')" "\<not> is_ascii_digit (CHR ''+'')"
  "\<not> is_ascii_digit (CHR ''T'')" "\<not> is_ascii_digit (CHR '':'')" "\<not> is_ascii_digit (CHR ''Z'')"
  "\<not> is_ascii_digit (CHR ''/'')" "\<not> is_ascii_digit (CHR ''.'')"
  by (simp_all add: is_ascii_digit_def)

lemma is_ascii_digit_neq:
  assumes "is_ascii_digit c"
  shows "c \<noteq> CHR ''-''" "c \<noteq> CHR ''+''" "c \<noteq> CHR ''T''" "c \<noteq> CHR '':''" "c \<noteq> CHR ''Z''"
    "c \<noteq> CHR ''/''" "c \<noteq> CHR ''.''" "c \<noteq> CHR 0x5C" "c \<noteq> CHR 0x00"
  using assms by (auto simp: is_ascii_digit_def)

lemma digits_value_append: "digits_value (s @ t) = digits_value s * 10 ^ length t + digits_value t"
proof (induction t rule: rev_induct)
  case (snoc c t)
  have "digits_value (s @ t @ [c]) = 10 * digits_value (s @ t) + char_digit c"
    by (simp add: digits_value_def)
  moreover have "digits_value (t @ [c]) = 10 * digits_value t + char_digit c"
    by (simp add: digits_value_def)
  ultimately show ?case
    by (simp add: snoc algebra_simps)
qed (simp add: digits_value_def)

lemma digits_value_simps [simp]:
  "digits_value [] = 0"
  "digits_value [c] = char_digit c"
  by (simp_all add: digits_value_def)

lemma digits_value_zeros [simp]: "digits_value (replicate k (CHR ''0'')) = 0"
  by (induction k) (simp_all add: digits_value_def char_digit_def)

lemma list_all_show_nat [simp]: "list_all is_ascii_digit (show_nat n)"
proof (induction n rule: show_nat.induct)
  case (1 n)
  then show ?case by (subst show_nat.simps) auto
qed

lemma show_nat_nonempty [simp]: "show_nat n \<noteq> []"
  by (subst show_nat.simps) simp

lemma digits_value_show_nat [simp]: "digits_value (show_nat n) = n"
proof (induction n rule: show_nat.induct)
  case (1 n)
  then show ?case
    by (subst show_nat.simps) (auto simp: digits_value_append)
qed

lemma length_show_nat_le: "n < 10 ^ k \<Longrightarrow> 0 < k \<Longrightarrow> length (show_nat n) \<le> k"
proof (induction n arbitrary: k rule: show_nat.induct)
  case (1 n)
  show ?case
  proof (cases "n < 10")
    case True
    with "1.prems" show ?thesis by (subst show_nat.simps) simp
  next
    case False
    with "1.prems" obtain j where k: "k = Suc j" "0 < j"
      by (metis One_nat_def Suc_pred linorder_not_less not_gr_zero power_one_right)
    with "1.prems" have "n div 10 < 10 ^ j"
      by (simp add: div_less_iff_less_mult mult.commute)
    with "1.IH"[OF False] k have "length (show_nat (n div 10)) \<le> j" by blast
    with False k show ?thesis by (subst show_nat.simps) simp
  qed
qed

lemma pad_left_digits [simp]: "list_all is_ascii_digit s \<Longrightarrow> list_all is_ascii_digit (pad_left w s)"
  by (auto simp: pad_left_def list_all_iff)

lemma pad_left_nonempty [simp]: "s \<noteq> [] \<Longrightarrow> pad_left w s \<noteq> []"
  by (simp add: pad_left_def)

lemma digits_value_pad_left [simp]: "digits_value (pad_left w s) = digits_value s"
  by (simp add: pad_left_def digits_value_append)

lemma length_pad_left [simp]: "length (pad_left w s) = max w (length s)"
  by (simp add: pad_left_def)

lemma parse_digits_pad [simp]: "parse_digits (pad_left w (show_nat n)) = Some n"
  by (simp add: parse_digits_def)

lemma length_pad_show:
  "n < 10 ^ w \<Longrightarrow> 0 < w \<Longrightarrow> length (pad_left w (show_nat n)) = w"
  using length_show_nat_le[of n w] by simp

lemma parse_digits_first:
  assumes "parse_digits s = Some n"
  shows "\<exists>c cs. s = c # cs \<and> is_ascii_digit c"
  using assms by (cases s) (auto simp: parse_digits_def split: if_splits)

lemma parse_unsigned_digits:
  assumes "parse_digits s = Some n" "n < 2 ^ w"
  shows "parse_unsigned w s = Some n"
  using assms parse_digits_first[OF assms(1)] is_ascii_digit_neq
  by (auto simp: parse_unsigned_def Let_def)

lemma parse_signed_digits:
  assumes "parse_digits s = Some n" "n < 2 ^ (w - 1)"
  shows "parse_signed w s = Some (int n)"
  using assms parse_digits_first[OF assms(1)] is_ascii_digit_neq
  by (auto simp: parse_signed_def)

lemma parse_unsigned_range: "parse_unsigned w s = Some n \<Longrightarrow> n < 2 ^ w"
  by (auto simp: parse_unsigned_def Let_def split: option.splits if_splits)

lemma parse_signed_range:
  assumes "parse_signed w s = Some x"
  shows "- (2 ^ (w - 1)) \<le> x \<and> x < 2 ^ (w - 1)"
proof -
  consider n where "x = - int n" "n \<le> 2 ^ (w - 1)" | n where "x = int n" "n < 2 ^ (w - 1)"
    using assms by (auto simp: parse_signed_def split: list.splits if_splits option.splits)
  then show ?thesis
  proof cases
    case (1 n)
    then have "int n \<le> int (2 ^ (w - 1))" by (simp only: of_nat_le_iff)
    then have "int n \<le> 2 ^ (w - 1)" by simp
    moreover have "(0::int) < 2 ^ (w - 1)" by simp
    ultimately show ?thesis using 1(1) by linarith
  next
    case (2 n)
    then have "int n < int (2 ^ (w - 1))" by (simp only: of_nat_less_iff)
    then have "int n < 2 ^ (w - 1)" by simp
    then show ?thesis using 2(1) by linarith
  qed
qed

lemma show_int_pad_nonneg: "0 \<le> x \<Longrightarrow> show_int_pad w x = pad_left w (show_nat (nat x))"
  by (simp add: show_int_pad_def)

lemma strip_suffix_append [simp]: "strip_suffix (t @ p) p = Some t"
  by (simp add: strip_suffix_def suffix_def)

lemma strip_prefix_append [simp]: "strip_prefix (p @ t) p = Some t"
  by (simp add: strip_prefix_def)

section \<open>Splitting is inverse to joining\<close>

lemma split_char_nonempty [simp]: "split_char c s \<noteq> []"
  by (induction s) (auto split: list.split)

lemma split_char_noc [simp]: "c \<notin> set s \<Longrightarrow> split_char c s = [s]"
  by (induction s) auto

lemma split_char_append: "c \<notin> set s \<Longrightarrow> split_char c (s @ c # t) = s # split_char c t"
  by (induction s) auto

lemma split_char_pieces: "p \<in> set (split_char c s) \<Longrightarrow> c \<notin> set p"
  by (induction s arbitrary: p) (auto split: list.splits if_splits)

lemma list_all_digit_notin:
  assumes "list_all is_ascii_digit s"
  shows "CHR ''-'' \<notin> set s" "CHR ''+'' \<notin> set s" "CHR ''T'' \<notin> set s" "CHR '':'' \<notin> set s"
    "CHR ''Z'' \<notin> set s" "CHR ''/'' \<notin> set s" "CHR ''.'' \<notin> set s" "CHR 0x5C \<notin> set s" "CHR 0x00 \<notin> set s"
proof -
  have notin: "c \<notin> set s" if "\<not> is_ascii_digit c" for c
    using assms that by (auto simp: list_all_iff)
  show "CHR ''-'' \<notin> set s" "CHR ''+'' \<notin> set s" "CHR ''T'' \<notin> set s" "CHR '':'' \<notin> set s"
    "CHR ''Z'' \<notin> set s" "CHR ''/'' \<notin> set s" "CHR ''.'' \<notin> set s" "CHR 0x5C \<notin> set s" "CHR 0x00 \<notin> set s"
    by (rule notin, simp add: is_ascii_digit_def)+
qed

end
