(* ===== verification/BTree_Map.thy ===== *)
theory BTree_Map
  imports Rust_Prelude
begin

text \<open>
  \<open>std::collections::BTreeMap\<close>: a map iterated in key order. The locale \<open>ordered_map\<close> is the
  interface the projections use (\<open>entry(k)\<close> followed by a modification, \<open>get\<close>, iteration) with
  the loops they build on it proved once; the provider is the sorted association list.
\<close>

type_synonym ('k, 'v) btree_map = "('k \<times> 'v) list"

section \<open>The provider\<close>

text \<open>
  \<open>*entry(k).or_default()\<close> with a modification, and \<open>insert\<close> as the modification that ignores
  the old value.
\<close>

fun bt_alter :: "'k::linorder \<Rightarrow> ('v option \<Rightarrow> 'v) \<Rightarrow> ('k, 'v) btree_map \<Rightarrow> ('k, 'v) btree_map" where
  "bt_alter k f [] = [(k, f None)]"
| "bt_alter k f ((k', v) # m) =
     (if k < k' then (k, f None) # (k', v) # m
      else if k = k' then (k, f (Some v)) # m
      else (k', v) # bt_alter k f m)"

definition bt_empty :: "('k, 'v) btree_map" where
  "bt_empty = []"

definition bt_get :: "('k, 'v) btree_map \<Rightarrow> 'k \<Rightarrow> 'v option" where
  "bt_get m k = map_of m k"

definition bt_insert :: "'k::linorder \<Rightarrow> 'v \<Rightarrow> ('k, 'v) btree_map \<Rightarrow> ('k, 'v) btree_map" where
  "bt_insert k v = bt_alter k (\<lambda>_. v)"

text \<open>\<open>entry(k).or_default().push(x)\<close> on a map of vectors.\<close>

definition push_entry :: "'v \<Rightarrow> 'v list option \<Rightarrow> 'v list" where
  "push_entry x v = (case v of None \<Rightarrow> [x] | Some xs \<Rightarrow> xs @ [x])"

definition bt_push :: "'k::linorder \<Rightarrow> 'v \<Rightarrow> ('k, 'v list) btree_map \<Rightarrow> ('k, 'v list) btree_map" where
  "bt_push k x = bt_alter k (push_entry x)"

definition bt_invar :: "('k::linorder, 'v) btree_map \<Rightarrow> bool" where
  "bt_invar m \<longleftrightarrow> sorted_wrt (<) (map fst m)"

text \<open>\<open>values_mut\<close> and \<open>into_iter().map\<close> with unchanged keys.\<close>

definition bt_map_values :: "('v \<Rightarrow> 'w) \<Rightarrow> ('k, 'v) btree_map \<Rightarrow> ('k, 'w) btree_map" where
  "bt_map_values g m = map (\<lambda>(k, v). (k, g v)) m"

section \<open>The interface\<close>

locale ordered_map =
  fixes empty :: "'m"
    and alter :: "'k::linorder \<Rightarrow> ('v option \<Rightarrow> 'v) \<Rightarrow> 'm \<Rightarrow> 'm"
    and get :: "'m \<Rightarrow> 'k \<Rightarrow> 'v option"
    and entries :: "'m \<Rightarrow> ('k \<times> 'v) list"
    and invar :: "'m \<Rightarrow> bool"
  assumes invar_empty: "invar empty"
    and invar_alter: "invar m \<Longrightarrow> invar (alter k f m)"
    and get_empty: "get empty k = None"
    and get_alter: "invar m \<Longrightarrow> get (alter k f m) j = (if j = k then Some (f (get m k)) else get m j)"
    and entries_get: "invar m \<Longrightarrow> map_of (entries m) k = get m k"
    and entries_sorted: "invar m \<Longrightarrow> sorted_wrt (<) (map fst (entries m))"
begin

text \<open>A loop that modifies the entry of each element's key.\<close>

definition alter_all :: "('a \<Rightarrow> 'k) \<Rightarrow> ('a \<Rightarrow> 'v option \<Rightarrow> 'v) \<Rightarrow> 'a list \<Rightarrow> 'm \<Rightarrow> 'm" where
  "alter_all key upd xs m = fold (\<lambda>x. alter (key x) (upd x)) xs m"

lemma invar_alter_all: "invar m \<Longrightarrow> invar (alter_all key upd xs m)"
  unfolding alter_all_def by (induction xs arbitrary: m) (simp_all add: invar_alter)

text \<open>The entry of a key after the loop is the left fold of the updates of the elements with that key.\<close>

lemma get_alter_all:
  "invar m \<Longrightarrow> get (alter_all key upd xs m) k
     = fold (\<lambda>x v. Some (upd x v)) (filter (\<lambda>x. key x = k) xs) (get m k)"
  unfolding alter_all_def
  by (induction xs arbitrary: m) (auto simp: invar_alter get_alter)

lemma distinct_keys: "invar m \<Longrightarrow> distinct (map fst (entries m))"
  using entries_sorted strict_sorted_iff by blast

lemma in_entries_iff: "invar m \<Longrightarrow> (k, v) \<in> set (entries m) \<longleftrightarrow> get m k = Some v"
  using distinct_keys entries_get by (metis map_of_eq_Some_iff)

lemma keys_entries: "invar m \<Longrightarrow> set (map fst (entries m)) = {k. get m k \<noteq> None}"
proof -
  assume i: "invar m"
  have "k \<in> fst ` set (entries m) \<longleftrightarrow> get m k \<noteq> None" for k
    using entries_get[OF i, of k] map_of_eq_None_iff[of "entries m" k] by metis
  then show ?thesis by auto
qed

text \<open>Two maps with the same lookups iterate over the same entries.\<close>

lemma entries_ext:
  assumes "invar m" "invar m'" "\<And>k. get m k = get m' k"
  shows "entries m = entries m'"
proof -
  have eq: "map fst (entries m) = map fst (entries m')"
    using keys_entries[OF assms(1)] keys_entries[OF assms(2)] assms(3)
      entries_sorted[OF assms(1)] entries_sorted[OF assms(2)]
    by (intro strict_sorted_equal) simp_all
  moreover have "map snd (entries m) = map snd (entries m')"
  proof (intro nth_equalityI)
    show "length (map snd (entries m)) = length (map snd (entries m'))"
      using eq by (metis length_map)
    fix i assume i: "i < length (map snd (entries m))"
    then have i': "i < length (entries m)" "i < length (entries m')"
      using eq by (simp_all add: map_eq_imp_length_eq[OF eq])
    have "get m (fst (entries m ! i)) = Some (snd (entries m ! i))"
      using i' in_entries_iff[OF assms(1)] by (metis nth_mem prod.collapse)
    moreover have "get m' (fst (entries m' ! i)) = Some (snd (entries m' ! i))"
      using i' in_entries_iff[OF assms(2)] by (metis nth_mem prod.collapse)
    moreover have "fst (entries m ! i) = fst (entries m' ! i)"
      using eq i' by (metis nth_map)
    ultimately show "map snd (entries m) ! i = map snd (entries m') ! i"
      using i' assms(3) by simp
  qed
  ultimately show ?thesis by (simp add: pair_list_eqI)
qed

end

section \<open>The sorted association list provides it\<close>

lemma set_keys_bt_alter: "set (map fst (bt_alter k f m)) = insert k (set (map fst m))"
  by (induction k f m rule: bt_alter.induct) (simp_all add: insert_commute)

lemma bt_invar_alter: "bt_invar m \<Longrightarrow> bt_invar (bt_alter k f m)"
  unfolding bt_invar_def
proof (induction k f m rule: bt_alter.induct)
  case (2 k f k' v m)
  have "\<forall>x \<in> set (map fst (bt_alter k f m)). k' < x" if "k' < k"
    using "2.prems" that unfolding set_keys_bt_alter by simp
  then show ?case
    using 2 by (auto dest: order.strict_trans)
qed simp

lemma map_of_notin_sorted:
  assumes "sorted_wrt (<) (k # map fst m)"
  shows "map_of m (k::'k::linorder) = None"
proof (rule ccontr)
  assume "map_of m k \<noteq> None"
  then obtain v where "(k, v) \<in> set m" by (auto dest: map_of_SomeD)
  then have "k \<in> set (map fst m)" by force
  with assms show False by auto
qed

lemma bt_get_alter:
  "bt_invar m \<Longrightarrow> bt_get (bt_alter k f m) j = (if j = k then Some (f (bt_get m k)) else bt_get m j)"
  unfolding bt_get_def bt_invar_def
proof (induction m)
  case (Cons p m)
  have "map_of m k = None" if "k < fst p"
    using Cons.prems that by (intro map_of_notin_sorted) (auto dest: order.strict_trans)
  then show ?case using Cons by (cases p) auto
qed simp

interpretation bt: ordered_map bt_empty bt_alter bt_get id bt_invar
proof unfold_locales
  show "bt_invar bt_empty" by (simp add: bt_invar_def bt_empty_def)
  show "bt_get bt_empty k = None" for k by (simp add: bt_get_def bt_empty_def)
  show "map_of (id m) k = bt_get m k" for m k by (simp add: bt_get_def)
  show "bt_invar m \<Longrightarrow> sorted_wrt (<) (map fst (id m))" for m by (simp add: bt_invar_def)
qed (simp_all add: bt_invar_alter bt_get_alter)

lemma bt_get_insert [btree_simps]:
  "bt_invar m \<Longrightarrow> bt_get (bt_insert k v m) j = (if j = k then Some v else bt_get m j)"
  by (simp add: bt_insert_def bt_get_alter)

lemma bt_invar_insert [btree_simps]: "bt_invar m \<Longrightarrow> bt_invar (bt_insert k v m)"
  by (simp add: bt_insert_def bt_invar_alter)

lemma bt_empty_simps [btree_simps, simp]: "bt_invar bt_empty" "bt_get bt_empty k = None"
  by (simp_all add: bt_empty_def bt_invar_def bt_get_def)

section \<open>Grouping loops\<close>

text \<open>The loop \<open>for x in xs { map.entry(key(x)).or_default().push(val(x)) }\<close>.\<close>

definition group_by :: "('a \<Rightarrow> 'k::linorder) \<Rightarrow> ('a \<Rightarrow> 'v) \<Rightarrow> 'a list \<Rightarrow> ('k, 'v list) btree_map" where
  "group_by key val xs = fold (\<lambda>x. bt_push (key x) (val x)) xs bt_empty"

lemma fold_push:
  "fold (\<lambda>x v. Some (push_entry (val x) v)) xs v =
     (if xs = [] then v else Some ((case v of None \<Rightarrow> [] | Some ys \<Rightarrow> ys) @ map val xs))"
  by (induction xs arbitrary: v) (auto simp: push_entry_def split: option.splits)

lemma group_by_alter_all: "group_by key val xs = bt.alter_all key (\<lambda>x. push_entry (val x)) xs bt_empty"
  by (simp add: group_by_def bt.alter_all_def bt_push_def)

lemma group_by_invar [btree_simps, simp]: "bt_invar (group_by key val xs)"
  by (simp add: group_by_alter_all bt.invar_alter_all)

lemma group_by_get [btree_simps]:
  "bt_get (group_by key val xs) k =
     (let ys = filter (\<lambda>x. key x = k) xs in if ys = [] then None else Some (map val ys))"
  by (simp add: group_by_alter_all bt.get_alter_all fold_push Let_def)

text \<open>The loop \<open>for x in xs { map.insert(key(x), val(x)) }\<close>: the last element with a key wins.\<close>

definition insert_all :: "('a \<Rightarrow> 'k::linorder) \<Rightarrow> ('a \<Rightarrow> 'v) \<Rightarrow> 'a list \<Rightarrow> ('k, 'v) btree_map" where
  "insert_all key val xs = fold (\<lambda>x. bt_insert (key x) (val x)) xs bt_empty"

lemma insert_all_alter_all: "insert_all key val xs = bt.alter_all key (\<lambda>x _. val x) xs bt_empty"
  by (simp add: insert_all_def bt.alter_all_def bt_insert_def)

lemma insert_all_invar [btree_simps, simp]: "bt_invar (insert_all key val xs)"
  by (simp add: insert_all_alter_all bt.invar_alter_all)

lemma insert_all_get [btree_simps]:
  "bt_get (insert_all key val xs) k =
     (let ys = filter (\<lambda>x. key x = k) xs in if ys = [] then None else Some (val (last ys)))"
proof -
  have "fold (\<lambda>x v. Some (val x)) ys w = (if ys = [] then w else Some (val (last ys)))" for ys w
    by (induction ys arbitrary: w) auto
  then show ?thesis by (simp add: insert_all_alter_all bt.get_alter_all Let_def)
qed

lemma bt_map_values_get [btree_simps]: "bt_get (bt_map_values g m) k = map_option g (bt_get m k)"
  unfolding bt_get_def bt_map_values_def by (induction m) auto

lemma bt_map_values_keys: "map fst (bt_map_values g m) = map fst m"
  by (simp add: bt_map_values_def comp_def case_prod_beta)

lemma bt_map_values_invar [btree_simps, simp]: "bt_invar m \<Longrightarrow> bt_invar (bt_map_values g m)"
  by (simp add: bt_invar_def bt_map_values_keys)

end
