(* ===== verification/Ledger_Model.thy ===== *)
theory Ledger_Model
  imports Complex_Main Rust_Strings BTree_Map
begin

text \<open>
  The records of the two operator ledgers: one line of \<open>sessions.jsonl\<close>
  (\<open>models/session_record.rs\<close>) and one line of \<open>maintain.jsonl\<close>
  (\<open>models/maintain_event.rs\<close>), with their validators and their versioned line readers. JSON
  parsing and the derived deserialisers belong to serde and are parameters of the readers.
\<close>

section \<open>Shared enums of models/common.rs used by the ledgers\<close>

datatype delivery_mode = NormalPr | ConsensusPocPr | ConsensusIssue

definition derive_delivery_mode :: "bool \<Rightarrow> bool option \<Rightarrow> delivery_mode" where
  "derive_delivery_mode consensus_breaking poc_implementable =
     (if \<not> consensus_breaking then NormalPr
      else if poc_implementable = Some True then ConsensusPocPr
      else ConsensusIssue)"

definition mode_bench_eligible :: "delivery_mode \<Rightarrow> bool" where
  "mode_bench_eligible m \<longleftrightarrow> m = NormalPr"

text \<open>
  An \<open>f64\<close>: every finite double is a rational. Only comparisons, finiteness and the sums of the
  sources that are named below are modelled on it.
\<close>

datatype f64 = Fin rat | NaN | PosInf | NegInf

section \<open>Session records\<close>

datatype session_record_kind = SessionCompleted

datatype session_status = Succeeded | SessionFailed | SessionAborted

datatype target_status = Accepted | Rejected | Aborted | Failed

datatype target_status_stage = Optimizer | Merge | Bench

record session_range =
  rg_start_at :: "nat option"
  rg_count :: "nat option"
  rg_warmup :: "nat option"
  rg_filter :: "string option"
  rg_network :: string

record target_bench =
  tb_baseline_run_ids :: "int list"
  tb_candidate_run_ids :: "int list"
  tb_baseline_total_us :: int
  tb_candidate_total_us :: int
  tb_improvement_pct :: f64
  tb_passes_noise_floor :: bool

record target_record =
  tr_id :: string
  tr_family_id :: string
  tr_bucket :: string
  tr_delivery_mode :: delivery_mode
  tr_status :: target_status
  tr_status_stage :: "target_status_stage option"
  tr_reason_code :: "string option"
  tr_head_sha :: "string option"
  tr_pr_url :: "string option"
  tr_issue_url :: "string option"
  tr_bench :: "target_bench option"

text \<open>The \<open>schema_version\<close> marker is a unit struct: it carries no information in memory.\<close>

record session_record =
  sr_kind :: session_record_kind
  sr_id :: string
  sr_artifact_branch :: string
  sr_artifact_sha :: string
  sr_artifact_url :: "string option"
  sr_started_at :: string
  sr_finished_at :: string
  sr_status :: session_status
  sr_failure_phase :: "string option"
  sr_failure_reason :: "string option"
  sr_sbagent_version :: string
  sr_sbagent_git_sha :: "string option"
  sr_range :: session_range
  sr_baseline_run_ids :: "int list"
  sr_phase_durations_secs :: "(string, f64) btree_map"
  sr_targets :: "target_record list"
  sr_source_url :: "string option"
  sr_source_branch :: "string option"
  sr_source_sha :: "string option"
  sr_source_fetched_at :: "string option"

datatype target_record_error =
    StageOnAccepted string
  | StageRequired string target_status

definition validate_target_record :: "target_record \<Rightarrow> target_record_error check" where
  "validate_target_record t =
     (case (tr_status t, tr_status_stage t) of
        (Accepted, None) \<Rightarrow> Ok_unit
      | (Accepted, Some _) \<Rightarrow> Inl (StageOnAccepted (tr_id t))
      | (s, None) \<Rightarrow> Inl (StageRequired (tr_id t) s)
      | (_, Some _) \<Rightarrow> Ok_unit)"

section \<open>Maintenance events\<close>

datatype maint_event_kind =
    PrOpen | PrMerged | PrClosedUnmerged | PrStale | PrForcePushed | PrBranchDeleted
  | IssueOpen | IssueClosed

definition is_terminal :: "maint_event_kind \<Rightarrow> bool" where
  "is_terminal k \<longleftrightarrow> k \<in> {PrMerged, PrClosedUnmerged, IssueClosed}"

definition is_pr :: "maint_event_kind \<Rightarrow> bool" where
  "is_pr k \<longleftrightarrow> k \<in> {PrOpen, PrMerged, PrClosedUnmerged, PrStale, PrForcePushed, PrBranchDeleted}"

definition is_issue :: "maint_event_kind \<Rightarrow> bool" where
  "is_issue k \<longleftrightarrow> k \<in> {IssueOpen, IssueClosed}"

record maint_event =
  me_kind :: maint_event_kind
  me_observed_at :: string
  me_session_id :: string
  me_target_id :: "string option"
  me_family_id :: "string option"
  me_fix_signature :: "string option"
  me_pr_url :: "string option"
  me_issue_url :: "string option"
  me_prior_state :: "string option"
  me_new_state :: string
  me_head_sha :: "string option"

datatype maint_event_error =
    EmptyObservedAt | EmptySessionId | EmptyNewState
  | PrUrlRequired | IssueUrlRequired | HeadShaRequired

definition validate_maint_event :: "maint_event \<Rightarrow> maint_event_error check" where
  "validate_maint_event e = checks [
     bail_if (is_blank (me_observed_at e)) EmptyObservedAt,
     bail_if (is_blank (me_session_id e)) EmptySessionId,
     bail_if (is_blank (me_new_state e)) EmptyNewState,
     (case (is_pr (me_kind e), me_pr_url e, me_issue_url e) of
        (True, Some _, None) \<Rightarrow> Ok_unit
      | (True, _, _) \<Rightarrow> Inl PrUrlRequired
      | (False, pr, iss) \<Rightarrow>
          if is_issue (me_kind e)
          then (if pr = None \<and> iss \<noteq> None then Ok_unit else Inl IssueUrlRequired)
          else Ok_unit),
     bail_if (me_kind e = PrForcePushed
        \<and> is_blank (case me_head_sha e of Some h \<Rightarrow> h | None \<Rightarrow> [])) HeadShaRequired]"

section \<open>JSON values and the versioned line readers\<close>

datatype json =
    JNull | JBool bool | JInt int | JFloat f64 | JStr string | JArr "json list"
  | JObj "(string \<times> json) list"

definition json_get :: "json \<Rightarrow> string \<Rightarrow> json option" where
  "json_get v k = (case v of JObj m \<Rightarrow> map_of m k | _ \<Rightarrow> None)"

definition as_u64 :: "json \<Rightarrow> nat option" where
  "as_u64 v = (case v of JInt n \<Rightarrow> if 0 \<le> n \<and> n < 2 ^ 64 then Some (nat n) else None | _ \<Rightarrow> None)"

text \<open>\<open>Map::insert\<close> keeps the position of a present key; \<open>Map::remove\<close> drops the key.\<close>

fun obj_insert :: "string \<Rightarrow> json \<Rightarrow> (string \<times> json) list \<Rightarrow> (string \<times> json) list" where
  "obj_insert k v [] = [(k, v)]"
| "obj_insert k v ((k', v') # m) = (if k = k' then (k, v) # m else (k', v') # obj_insert k v m)"

definition obj_remove :: "string \<Rightarrow> (string \<times> json) list \<Rightarrow> (string \<times> json) list" where
  "obj_remove k m = filter (\<lambda>(k', _). k' \<noteq> k) m"

datatype ('e, 'd) ledger_error =
    NotValidJson 'e
  | FailedPromotion nat 'd
  | LineV3 'd
  | UnsupportedVersion nat

definition schema_version_of :: "json \<Rightarrow> nat" where
  "schema_version_of v =
     (case Option.bind (json_get v ''schema_version'') as_u64 of Some n \<Rightarrow> n | None \<Rightarrow> 1)"

definition promote_to_v3 :: "json \<Rightarrow> json" where
  "promote_to_v3 v =
     (case v of
        JObj m \<Rightarrow> JObj (obj_remove ''stacks_core_base_sha'' (obj_insert ''schema_version'' (JInt 3) m))
      | _ \<Rightarrow> v)"

definition session_from_ledger_line ::
  "(string \<Rightarrow> 'e + json) \<Rightarrow> (json \<Rightarrow> 'd + session_record) \<Rightarrow> string \<Rightarrow> ('e, 'd) ledger_error + session_record" where
  "session_from_ledger_line from_str from_value line =
     (case from_str line of Inl e \<Rightarrow> Inl (NotValidJson e)
      | Inr value \<Rightarrow>
          (let v = schema_version_of value
           in if v = 1 \<or> v = 2 then
                (case from_value (promote_to_v3 value) of
                   Inl e \<Rightarrow> Inl (FailedPromotion v e) | Inr rec \<Rightarrow> Inr rec)
              else if v = 3 then
                (case from_value value of Inl e \<Rightarrow> Inl (LineV3 e) | Inr rec \<Rightarrow> Inr rec)
              else Inl (UnsupportedVersion v)))"

datatype ('e, 'd) maint_line_error =
    MaintNotValidJson 'e
  | MaintLineV1 'd
  | MaintInvalid maint_event_error
  | MaintUnsupportedVersion nat

definition maint_from_ledger_line ::
  "(string \<Rightarrow> 'e + json) \<Rightarrow> (json \<Rightarrow> 'd + maint_event) \<Rightarrow> string \<Rightarrow> ('e, 'd) maint_line_error + maint_event" where
  "maint_from_ledger_line from_str from_value line =
     (case from_str line of Inl e \<Rightarrow> Inl (MaintNotValidJson e)
      | Inr value \<Rightarrow>
          (let version = schema_version_of value
           in if version = 1 then
                (case from_value value of Inl e \<Rightarrow> Inl (MaintLineV1 e)
                 | Inr event \<Rightarrow>
                     (case validate_maint_event event of
                        Inl e \<Rightarrow> Inl (MaintInvalid e) | Inr _ \<Rightarrow> Inr event))
              else Inl (MaintUnsupportedVersion version)))"

section \<open>Lemmas\<close>

lemma validate_target_record_ok:
  "validate_target_record t = Ok_unit \<longleftrightarrow> (tr_status_stage t = None \<longleftrightarrow> tr_status t = Accepted)"
  by (auto simp: validate_target_record_def split: target_status.splits option.splits)

lemma is_issue_not_pr: "is_issue k \<longleftrightarrow> \<not> is_pr k"
  by (cases k) (simp_all add: is_issue_def is_pr_def)

lemma validate_maint_event_ok:
  "validate_maint_event e = Ok_unit \<longleftrightarrow>
     \<not> is_blank (me_observed_at e) \<and> \<not> is_blank (me_session_id e) \<and> \<not> is_blank (me_new_state e)
     \<and> (is_pr (me_kind e) \<longrightarrow> me_pr_url e \<noteq> None \<and> me_issue_url e = None)
     \<and> (is_issue (me_kind e) \<longrightarrow> me_pr_url e = None \<and> me_issue_url e \<noteq> None)
     \<and> (me_kind e = PrForcePushed \<longrightarrow> (\<exists>h. me_head_sha e = Some h \<and> \<not> is_blank h))"
  unfolding validate_maint_event_def checks_Inr
  by (cases "is_pr (me_kind e)"; cases "me_pr_url e"; cases "me_issue_url e"; cases "me_head_sha e")
    (auto simp: is_issue_not_pr)

lemma obj_insert_other: "k \<noteq> j \<Longrightarrow> map_of (obj_insert k v m) j = map_of m j"
  by (induction k v m rule: obj_insert.induct) auto

lemma obj_insert_same [simp]: "map_of (obj_insert k v m) k = Some v"
  by (induction k v m rule: obj_insert.induct) auto

lemma obj_remove_get: "map_of (obj_remove k m) j = (if j = k then None else map_of m j)"
  unfolding obj_remove_def by (induction m) auto

lemma obj_insert_present: "map_of m k = Some v \<Longrightarrow> obj_insert k v m = m"
  by (induction k v m rule: obj_insert.induct) auto

lemma obj_remove_absent: "map_of m k = None \<Longrightarrow> obj_remove k m = m"
  unfolding obj_remove_def by (induction m) (auto split: if_splits)

end
