(* ===== verification/Ledger_IO.thy ===== *)
theory Ledger_IO
  imports Ledger_Model
begin

text \<open>
  The readers of \<open>sessions.jsonl\<close> (\<open>session/ledger_reader.rs\<close>) and of \<open>maintain.jsonl\<close>
  (\<open>session/maintain_ledger.rs\<close>) and the append-only writer of the latter. The outcome of
  \<open>fs::read_to_string\<close> is an argument; what the two lossy loops share is proved once in the
  locale \<open>lossy_reader\<close>.
\<close>

section \<open>Reading\<close>

datatype 'io read_outcome = NotFound | IoFailed 'io | Content string

text \<open>An unparseable line, with its error value (the source keeps the rendering of it).\<close>

record 'e skipped_line =
  sl_line_number :: nat
  sl_error :: 'e

record 'e ledger_read_report =
  lr_records :: "session_record list"
  lr_skipped :: "'e skipped_line list"

record 'e maint_ledger_report =
  ml_events :: "maint_event list"
  ml_skipped :: "'e skipped_line list"

definition ledger_report_default :: "'e ledger_read_report" where
  "ledger_report_default = \<lparr>lr_records = [], lr_skipped = []\<rparr>"

definition maint_report_default :: "'e maint_ledger_report" where
  "maint_report_default = \<lparr>ml_events = [], ml_skipped = []\<rparr>"

fun session_lines_loop ::
  "(string \<Rightarrow> 'e + session_record) \<Rightarrow> nat \<Rightarrow> string list \<Rightarrow> 'e ledger_read_report \<Rightarrow> 'e ledger_read_report" where
  "session_lines_loop parse idx [] report = report"
| "session_lines_loop parse idx (line # lines) report =
     session_lines_loop parse (Suc idx) lines
       (if is_blank line then report
        else case parse line of
               Inr rec \<Rightarrow> report\<lparr>lr_records := lr_records report @ [rec]\<rparr>
             | Inl e \<Rightarrow> report\<lparr>lr_skipped := lr_skipped report
                          @ [\<lparr>sl_line_number = idx + 1, sl_error = e\<rparr>]\<rparr>)"

definition ledger_read_all ::
  "(string \<Rightarrow> 'e + session_record) \<Rightarrow> 'io read_outcome \<Rightarrow> 'io + 'e ledger_read_report" where
  "ledger_read_all parse raw =
     (case raw of
        Content s \<Rightarrow> Inr (session_lines_loop parse 0 (rust_lines s) ledger_report_default)
      | NotFound \<Rightarrow> Inr ledger_report_default
      | IoFailed e \<Rightarrow> Inl e)"

fun maint_lines_loop ::
  "(string \<Rightarrow> 'e + maint_event) \<Rightarrow> nat \<Rightarrow> string list \<Rightarrow> 'e maint_ledger_report \<Rightarrow> 'e maint_ledger_report" where
  "maint_lines_loop parse idx [] report = report"
| "maint_lines_loop parse idx (line # lines) report =
     maint_lines_loop parse (Suc idx) lines
       (if is_blank line then report
        else case parse line of
               Inr event \<Rightarrow> report\<lparr>ml_events := ml_events report @ [event]\<rparr>
             | Inl e \<Rightarrow> report\<lparr>ml_skipped := ml_skipped report
                          @ [\<lparr>sl_line_number = idx + 1, sl_error = e\<rparr>]\<rparr>)"

definition maint_read_all ::
  "(string \<Rightarrow> 'e + maint_event) \<Rightarrow> 'io read_outcome \<Rightarrow> 'io + 'e maint_ledger_report" where
  "maint_read_all parse raw =
     (case raw of
        Content s \<Rightarrow> Inr (maint_lines_loop parse 0 (rust_lines s) maint_report_default)
      | NotFound \<Rightarrow> Inr maint_report_default
      | IoFailed e \<Rightarrow> Inl e)"

section \<open>Appending\<close>

text \<open>
  The file system's answers to one append: whether the path has a parent and its creation
  succeeds, whether the file opens, and after how many bytes the write fails, if it does.
\<close>

record 'io append_io =
  ai_has_parent :: bool
  ai_create_dir :: "'io option"
  ai_open :: "'io option"
  ai_write :: "(nat \<times> 'io) option"

datatype ('io, 's) append_error =
    InvalidEvent maint_event_error
  | CreatingParent 'io
  | Serializing 's
  | OpeningForAppend 'io
  | Appending 'io

text \<open>The file is its content, \<open>None\<close> when absent; the result is returned with the file after.\<close>

definition append_event ::
  "(maint_event \<Rightarrow> 's + string) \<Rightarrow> 'io append_io \<Rightarrow> maint_event \<Rightarrow> string option
     \<Rightarrow> (('io, 's) append_error + unit) \<times> string option" where
  "append_event to_json io event file =
     (case validate_maint_event event of
        Inl e \<Rightarrow> (Inl (InvalidEvent e), file)
      | Inr _ \<Rightarrow>
     (case (if ai_has_parent io then ai_create_dir io else None) of
        Some e \<Rightarrow> (Inl (CreatingParent e), file)
      | None \<Rightarrow>
     (case to_json event of
        Inl e \<Rightarrow> (Inl (Serializing e), file)
      | Inr json \<Rightarrow>
          (let line = json @ [CHR 0x0A]
           in case ai_open io of
                Some e \<Rightarrow> (Inl (OpeningForAppend e), file)
              | None \<Rightarrow>
                  (let old = (case file of None \<Rightarrow> [] | Some s \<Rightarrow> s)
                   in case ai_write io of
                        Some (n, e) \<Rightarrow> (Inl (Appending e), Some (old @ take n line))
                      | None \<Rightarrow> (Inr (), Some (old @ line)))))))"

section \<open>What a lossy reader does\<close>

text \<open>The non-blank lines of a file, with their 1-based numbers.\<close>

definition numbered :: "nat \<Rightarrow> string list \<Rightarrow> (nat \<times> string) list" where
  "numbered i lines = filter (\<lambda>(_, l). \<not> is_blank l) (zip [i + 1 ..< i + 1 + length lines] lines)"

lemma numbered_Nil [simp]: "numbered i [] = []"
  by (simp add: numbered_def)

lemma numbered_Cons:
  "numbered i (l # ls) = (if is_blank l then [] else [(i + 1, l)]) @ numbered (Suc i) ls"
proof -
  have "[i + 1 ..< i + 1 + length (l # ls)] = (i + 1) # [Suc i + 1 ..< Suc i + 1 + length ls]"
    by (subst upt_conv_Cons) simp_all
  then show ?thesis by (simp add: numbered_def)
qed

lemma numbered_append: "numbered i (ls @ ms) = numbered i ls @ numbered (i + length ls) ms"
  by (induction ls arbitrary: i) (simp_all add: numbered_Cons)

definition parsed :: "(string \<Rightarrow> 'e + 'r) \<Rightarrow> (nat \<times> string) list \<Rightarrow> 'r list" where
  "parsed parse nls = List.map_filter (\<lambda>(_, l). case parse l of Inr r \<Rightarrow> Some r | Inl _ \<Rightarrow> None) nls"

definition unparsed :: "(string \<Rightarrow> 'e + 'r) \<Rightarrow> (nat \<times> string) list \<Rightarrow> 'e skipped_line list" where
  "unparsed parse nls =
     List.map_filter (\<lambda>(n, l). case parse l of Inr _ \<Rightarrow> None
        | Inl e \<Rightarrow> Some \<lparr>sl_line_number = n, sl_error = e\<rparr>) nls"

lemma parsed_simps [simp]:
  "parsed parse [] = []"
  "parsed parse ((n, l) # nls) = (case parse l of Inr r \<Rightarrow> [r] | Inl _ \<Rightarrow> []) @ parsed parse nls"
  "parsed parse (xs @ ys) = parsed parse xs @ parsed parse ys"
  by (simp_all add: parsed_def map_filter_def split: sum.split)

lemma unparsed_simps [simp]:
  "unparsed parse [] = []"
  "unparsed parse ((n, l) # nls) =
     (case parse l of Inr _ \<Rightarrow> [] | Inl e \<Rightarrow> [\<lparr>sl_line_number = n, sl_error = e\<rparr>]) @ unparsed parse nls"
  "unparsed parse (xs @ ys) = unparsed parse xs @ unparsed parse ys"
  by (simp_all add: unparsed_def map_filter_def split: sum.split)

text \<open>No non-blank line is lost and none is counted twice.\<close>

lemma parsed_unparsed_length:
  "length (parsed parse nls) + length (unparsed parse nls) = length nls"
  by (induction nls) (auto split: sum.split)

locale lossy_reader =
  fixes loop :: "nat \<Rightarrow> string list \<Rightarrow> 'rep \<Rightarrow> 'rep"
    and parse :: "string \<Rightarrow> 'e + 'r"
    and good :: "'rep \<Rightarrow> 'r list"
    and skipped :: "'rep \<Rightarrow> 'e skipped_line list"
    and keep :: "'r \<Rightarrow> 'rep \<Rightarrow> 'rep"
    and skip :: "'e skipped_line \<Rightarrow> 'rep \<Rightarrow> 'rep"
  assumes loop_Nil: "loop i [] rep = rep"
    and loop_Cons: "loop i (l # ls) rep =
          loop (Suc i) ls
            (if is_blank l then rep
             else case parse l of Inr r \<Rightarrow> keep r rep
                  | Inl e \<Rightarrow> skip \<lparr>sl_line_number = i + 1, sl_error = e\<rparr> rep)"
    and good_keep: "good (keep r rep) = good rep @ [r]"
    and good_skip: "good (skip s rep) = good rep"
    and skipped_keep: "skipped (keep r rep) = skipped rep"
    and skipped_skip: "skipped (skip s rep) = skipped rep @ [s]"
begin

lemma good_loop: "good (loop i ls rep) = good rep @ parsed parse (numbered i ls)"
  by (induction ls arbitrary: i rep)
    (simp_all add: loop_Nil loop_Cons good_keep good_skip numbered_Cons split: sum.split)

lemma skipped_loop: "skipped (loop i ls rep) = skipped rep @ unparsed parse (numbered i ls)"
  by (induction ls arbitrary: i rep)
    (simp_all add: loop_Nil loop_Cons skipped_keep skipped_skip numbered_Cons split: sum.split)

lemma line_count:
  "good rep = [] \<Longrightarrow> skipped rep = []
   \<Longrightarrow> length (good (loop i ls rep)) + length (skipped (loop i ls rep)) = length (numbered i ls)"
  by (simp add: good_loop skipped_loop parsed_unparsed_length)

end

interpretation sl: lossy_reader "session_lines_loop parse" parse lr_records lr_skipped
    "\<lambda>r rep. rep\<lparr>lr_records := lr_records rep @ [r]\<rparr>"
    "\<lambda>s rep. rep\<lparr>lr_skipped := lr_skipped rep @ [s]\<rparr>"
  for parse
  by unfold_locales simp_all

interpretation ml: lossy_reader "maint_lines_loop parse" parse ml_events ml_skipped
    "\<lambda>r rep. rep\<lparr>ml_events := ml_events rep @ [r]\<rparr>"
    "\<lambda>s rep. rep\<lparr>ml_skipped := ml_skipped rep @ [s]\<rparr>"
  for parse
  by unfold_locales simp_all

lemma ledger_report_default_simps [simp]:
  "lr_records ledger_report_default = []" "lr_skipped ledger_report_default = []"
  "ml_events maint_report_default = []" "ml_skipped maint_report_default = []"
  by (simp_all add: ledger_report_default_def maint_report_default_def)

section \<open>Lines of an appended file\<close>

lemma butlast_split_append:
  "split_char c (s @ t) = butlast (split_char c s) @ (last (split_char c s) @ hd (split_char c t)) # tl (split_char c t)"
  by (induction s) (auto split: list.splits)

lemma split_char_single_empty: "split_char c s = [[]] \<longleftrightarrow> s = []"
  by (cases s) (auto split: list.splits)

lemma split_newline_terminated:
  assumes "s = [] \<or> last s = c"
  shows "last (split_char c s) = []"
  using assms
  by (induction s) (auto split: list.splits if_splits simp: split_char_single_empty)

lemma rust_lines_append:
  assumes "s = [] \<or> last s = CHR 0x0A" "CHR 0x0A \<notin> set l"
  shows "rust_lines (s @ l @ [CHR 0x0A]) = rust_lines s @ [strip_cr l]"
proof -
  have "split_char (CHR 0x0A) (l @ [CHR 0x0A]) = [l, []]"
    using assms(2) by (simp add: split_char_append)
  then have "split_char (CHR 0x0A) (s @ l @ [CHR 0x0A]) = butlast (split_char (CHR 0x0A) s) @ [l, []]"
    using split_newline_terminated[OF assms(1)] by (simp add: butlast_split_append)
  then show ?thesis
    using split_newline_terminated[OF assms(1)] by (simp add: rust_lines_def butlast_append)
qed

section \<open>Properties\<close>

lemma in_unparsed:
  "k \<in> set (unparsed parse nls) \<longleftrightarrow>
     (\<exists>l. (sl_line_number k, l) \<in> set nls \<and> parse l = Inl (sl_error k))"
proof (induction nls)
  case (Cons p nls)
  show ?case
    by (cases p; cases "parse (snd p)"; cases k) (use Cons in auto)
qed simp

lemma in_numbered:
  "(n, l) \<in> set (numbered i ls) \<longleftrightarrow>
     i < n \<and> n \<le> i + length ls \<and> l = ls ! (n - i - 1) \<and> \<not> is_blank l"
proof (induction ls arbitrary: i)
  case (Cons a ls)
  show ?case
    unfolding numbered_Cons set_append Un_iff Cons.IH
    by (cases "n = Suc i") (auto simp: nth_Cons' less_Suc_eq_le)
qed simp

lemma unparsed_numbers: "sorted_wrt (<) (map sl_line_number (unparsed parse (numbered i ls)))"
proof (induction ls arbitrary: i)
  case (Cons a ls)
  have "Suc i < sl_line_number k" if "k \<in> set (unparsed parse (numbered (Suc i) ls))" for k
    using that by (auto simp: in_unparsed in_numbered)
  with Cons[of "Suc i"] show ?case
    by (auto simp: numbered_Cons split: sum.splits)
qed simp

text \<open>C38: reading a sessions ledger never fails on its content: every non-blank line is accounted
  for exactly once, as a record (in file order) or as a skipped line; the skipped lines are reported
  in file order with the 1-based number of a line that is not blank and does not parse, and with
  that line's error.\<close>

theorem ledger_read_accounts_for_lines:
  "\<exists>r. ledger_read_all parse (Content s) = Inr r
     \<and> length (lr_records r) + length (lr_skipped r) = length (filter (\<lambda>l. \<not> is_blank l) (rust_lines s))
     \<and> map Inr (lr_records r) = filter (\<lambda>x. \<exists>y. x = Inr y) (map parse (filter (\<lambda>l. \<not> is_blank l) (rust_lines s)))
     \<and> sorted_wrt (<) (map sl_line_number (lr_skipped r))
     \<and> (\<forall>n e. \<lparr>sl_line_number = n, sl_error = e\<rparr> \<in> set (lr_skipped r) \<longleftrightarrow>
          0 < n \<and> n \<le> length (rust_lines s) \<and> \<not> is_blank (rust_lines s ! (n - 1))
          \<and> parse (rust_lines s ! (n - 1)) = Inl e)"
proof -
  let ?ls = "rust_lines s"
  have snd_numbered: "map snd (numbered i ls) = filter (\<lambda>l. \<not> is_blank l) ls" for i ls
    by (induction ls arbitrary: i) (simp_all add: numbered_Cons)
  have len: "length (numbered 0 ?ls) = length (filter (\<lambda>l. \<not> is_blank l) ?ls)"
    by (metis length_map snd_numbered)
  have "map Inr (parsed parse nls) = filter (\<lambda>x. \<exists>y. x = Inr y) (map parse (map snd nls))" for nls
    by (induction nls) (auto split: sum.split)
  then have recs: "map Inr (parsed parse (numbered 0 ?ls))
      = filter (\<lambda>x. \<exists>y. x = Inr y) (map parse (filter (\<lambda>l. \<not> is_blank l) ?ls))"
    by (metis snd_numbered)
  let ?r = "session_lines_loop parse 0 ?ls ledger_report_default"
  have "ledger_read_all parse (Content s) = Inr ?r"
    by (simp add: ledger_read_all_def)
  moreover have "length (lr_records ?r) + length (lr_skipped ?r) = length (filter (\<lambda>l. \<not> is_blank l) ?ls)"
    by (simp add: sl.line_count len)
  moreover have "sorted_wrt (<) (map sl_line_number (lr_skipped ?r))"
    by (simp add: sl.skipped_loop unparsed_numbers)
  moreover have "map Inr (lr_records ?r)
      = filter (\<lambda>x. \<exists>y. x = Inr y) (map parse (filter (\<lambda>l. \<not> is_blank l) ?ls))"
    by (simp add: sl.good_loop recs)
  moreover have "\<lparr>sl_line_number = n, sl_error = e\<rparr> \<in> set (lr_skipped ?r) \<longleftrightarrow>
          0 < n \<and> n \<le> length ?ls \<and> \<not> is_blank (?ls ! (n - 1)) \<and> parse (?ls ! (n - 1)) = Inl e" for n e
    by (auto simp: sl.skipped_loop in_unparsed in_numbered)
  ultimately show ?thesis by blast
qed

lemma maint_read_appended:
  assumes "s = [] \<or> last s = CHR 0x0A" "CHR 0x0A \<notin> set l" "maint_read_all parse (Content s) = Inr r"
  shows "\<exists>r'. maint_read_all parse (Content (s @ l @ [CHR 0x0A])) = Inr r'
     \<and> ml_events r' = ml_events r @ parsed parse (numbered (length (rust_lines s)) [strip_cr l])
     \<and> ml_skipped r' = ml_skipped r @ unparsed parse (numbered (length (rust_lines s)) [strip_cr l])"
  using assms(3)
  by (auto simp: maint_read_all_def rust_lines_append[OF assms(1,2)] ml.good_loop ml.skipped_loop numbered_append)

definition well_behaved_io :: "'io append_io \<Rightarrow> bool" where
  "well_behaved_io io \<longleftrightarrow>
     (ai_has_parent io \<longrightarrow> ai_create_dir io = None) \<and> ai_open io = None \<and> ai_write io = None"

definition newline_terminated :: "string option \<Rightarrow> bool" where
  "newline_terminated file \<longleftrightarrow> (case file of None \<Rightarrow> True | Some s \<Rightarrow> s = [] \<or> last s = CHR 0x0A)"

definition file_outcome :: "string option \<Rightarrow> string read_outcome" where
  "file_outcome file = (case file of None \<Rightarrow> NotFound | Some s \<Rightarrow> Content s)"

lemma file_outcome_read:
  "maint_read_all parse (file_outcome file) =
   maint_read_all parse (Content (case file of None \<Rightarrow> [] | Some s \<Rightarrow> s))"
  by (auto simp: file_outcome_def maint_read_all_def rust_lines_def split: option.split)

lemma append_event_read:
  assumes "validate_maint_event event = Ok_unit" "well_behaved_io io" "newline_terminated file"
    and "to_json event = Inr j" "CHR 0x0A \<notin> set j" "\<not> is_blank j" "last j \<noteq> CHR 0x0D"
    and "from_str j = Inr v" "schema_version_of v = 1" "from_value v = Inr event"
    and "maint_read_all (maint_from_ledger_line from_str from_value) (file_outcome file) = Inr r"
    and "append_event to_json io event file = (res, file')"
  shows "res = Ok_unit \<and> newline_terminated file'
    \<and> (\<exists>r'. maint_read_all (maint_from_ledger_line from_str from_value) (file_outcome file') = Inr r'
         \<and> ml_events r' = ml_events r @ [event] \<and> ml_skipped r' = ml_skipped r)"
proof -
  define s where "s = (case file of None \<Rightarrow> [] | Some s \<Rightarrow> s)"
  have s: "s = [] \<or> last s = CHR 0x0A"
    using assms(3) by (auto simp: newline_terminated_def s_def split: option.splits)
  have j: "strip_cr j = j"
    using assms(7) by (auto simp: strip_cr_def strip_suffix_def suffix_def)
  have out: "res = Ok_unit" "file' = Some (s @ j @ [CHR 0x0A])"
    using assms(1,2,4,12) by (auto simp: append_event_def well_behaved_io_def s_def Let_def split: if_splits)
  have line: "maint_from_ledger_line from_str from_value j = Inr event"
    using assms(1,8-10) by (simp add: maint_from_ledger_line_def)
  have "maint_read_all (maint_from_ledger_line from_str from_value) (Content s :: string read_outcome) = Inr r"
    using assms(11) by (simp add: file_outcome_read s_def)
  from maint_read_appended[OF s assms(5) this] show ?thesis
    using line assms(6) out by (simp add: j file_outcome_def newline_terminated_def numbered_Cons)
qed

text \<open>C37: a valid event appended to a maintain ledger that ends with a newline (or is empty or
  absent) is read back: the events after are the events before followed by the appended one, no line
  is newly skipped, and the file ends with a newline again. The serialiser is assumed to give one
  non-blank line that parses back to a version-1 value of the event.\<close>

theorem append_then_read:
  assumes "validate_maint_event event = Ok_unit" "well_behaved_io io" "newline_terminated file"
    and "to_json event = Inr j" "CHR 0x0A \<notin> set j" "\<not> is_blank j" "last j \<noteq> CHR 0x0D"
    and "from_str j = Inr v" "schema_version_of v = 1" "from_value v = Inr event"
    and "maint_read_all (maint_from_ledger_line from_str from_value) (file_outcome file) = Inr r"
    and "append_event to_json io event file = (res, file')"
  shows "res = Ok_unit \<and> newline_terminated file'
    \<and> (\<exists>r'. maint_read_all (maint_from_ledger_line from_str from_value) (file_outcome file') = Inr r'
         \<and> ml_events r' = ml_events r @ [event] \<and> ml_skipped r' = ml_skipped r)"
  using append_event_read[OF assms] .

definition sample_event :: maint_event where
  "sample_event = \<lparr>me_kind = PrOpen, me_observed_at = ''2026-01-01T00:00:00Z'', me_session_id = ''s'',
     me_target_id = None, me_family_id = None, me_fix_signature = None, me_pr_url = Some ''u'',
     me_issue_url = None, me_prior_state = None, me_new_state = ''open'', me_head_sha = None\<rparr>"

theorem append_then_read_witness:
  "\<exists>r'. maint_read_all (maint_from_ledger_line
           (\<lambda>l. if l = ''{}'' then Inr (JObj [(''schema_version'', JInt 1)]) else Inl l)
           (\<lambda>_. Inr sample_event :: unit + maint_event))
         (file_outcome (Some (''{}'' @ [CHR 0x0A]))) = Inr r' \<and> ml_events r' = [sample_event]"
proof -
  let ?from_str = "\<lambda>l. if l = ''{}'' then Inr (JObj [(''schema_version'', JInt 1)]) else Inl l"
  let ?from_value = "\<lambda>_. Inr sample_event :: unit + maint_event"
  let ?io = "\<lparr>ai_has_parent = True, ai_create_dir = None, ai_open = None, ai_write = None\<rparr> :: unit append_io"
  let ?to_json = "\<lambda>_. Inr ''{}'' :: unit + string"
  have ev: "append_event ?to_json ?io sample_event None = (Inr (), Some (''{}'' @ [CHR 0x0A]))"
    by code_simp
  have v: "validate_maint_event sample_event = Ok_unit" by code_simp
  have j: "?from_str ''{}'' = Inr (JObj [(''schema_version'', JInt 1)])" by simp
  have sv: "schema_version_of (JObj [(''schema_version'', JInt 1)]) = 1" by code_simp
  have r: "maint_read_all (maint_from_ledger_line ?from_str ?from_value) (file_outcome None) = Inr maint_report_default"
    by (simp add: maint_read_all_def file_outcome_def)
  have io: "well_behaved_io ?io" "newline_terminated None"
    by (simp_all add: well_behaved_io_def newline_terminated_def)
  have line: "CHR 0x0A \<notin> set ''{}''" "\<not> is_blank ''{}''" "last ''{}'' \<noteq> CHR 0x0D"
    by (simp_all add: ascii_ws_def ws2_def)
  show ?thesis
    using append_then_read[where to_json = ?to_json and from_value = ?from_value,
        OF v io refl line j sv refl r ev] by auto
qed

lemma append_event_extends:
  "\<exists>t. (case snd (append_event to_json io event file) of None \<Rightarrow> [] | Some s' \<Rightarrow> s')
     = (case file of None \<Rightarrow> [] | Some s \<Rightarrow> s) @ t"
  by (auto simp: append_event_def Let_def split: sum.splits option.splits)

text \<open>However an append ends (an invalid event, a failing directory, serialiser or file, a
  write cut short), the events and the skipped lines read before stay a prefix of what is read
  after, provided the ledger was newline-terminated.\<close>

theorem append_keeps_history:
  assumes "newline_terminated file"
    and "maint_read_all parse (file_outcome file) = Inr r"
    and "append_event to_json io event file = (res, file')"
  shows "\<exists>r'. maint_read_all parse (file_outcome file') = Inr r'
     \<and> prefix (ml_events r) (ml_events r') \<and> prefix (ml_skipped r) (ml_skipped r')"
proof -
  define s where "s = (case file of None \<Rightarrow> [] | Some s \<Rightarrow> s)"
  have s: "s = [] \<or> last s = CHR 0x0A"
    using assms(1) by (auto simp: newline_terminated_def s_def split: option.splits)
  obtain t where t: "(case file' of None \<Rightarrow> [] | Some s' \<Rightarrow> s') = s @ t"
    using append_event_extends assms(3) s_def by (metis snd_conv)
  have r: "maint_read_all parse (Content s :: string read_outcome) = Inr r"
    using assms(2) by (simp add: file_outcome_read s_def)
  have "split_char (CHR 0x0A) (s @ t) =
      butlast (split_char (CHR 0x0A) s) @ split_char (CHR 0x0A) t" for t
    using split_newline_terminated[OF s] by (simp add: butlast_split_append)
  then have "\<exists>ls. rust_lines (s @ t) = rust_lines s @ ls" for t
    using split_newline_terminated[OF s] unfolding rust_lines_def
    by (auto simp: butlast_append Let_def)
  then obtain ls where "rust_lines (s @ t) = rust_lines s @ ls" by blast
  then show ?thesis
    using r t unfolding file_outcome_read
    by (auto simp: maint_read_all_def ml.good_loop ml.skipped_loop numbered_append)
qed

theorem append_keeps_history_witness:
  "\<exists>r'. maint_read_all (\<lambda>l. Inl l) (file_outcome (Some (''x'' @ [CHR 0x0A] @ ''{''))) = Inr r'
     \<and> prefix [\<lparr>sl_line_number = 1, sl_error = ''x''\<rparr>] (ml_skipped r')"
proof -
  have ev: "append_event (\<lambda>_. Inr ''{}'')
      \<lparr>ai_has_parent = True, ai_create_dir = None, ai_open = None, ai_write = Some (1, ())\<rparr>
      \<lparr>me_kind = PrOpen, me_observed_at = ''2026-01-01T00:00:00Z'', me_session_id = ''s'', me_target_id = None,
       me_family_id = None, me_fix_signature = None, me_pr_url = Some ''u'', me_issue_url = None,
       me_prior_state = None, me_new_state = ''open'', me_head_sha = None\<rparr> (Some (''x'' @ [CHR 0x0A]))
    = (Inl (Appending ()) :: (unit, unit) append_error + unit, Some (''x'' @ [CHR 0x0A] @ ''{''))"
    by code_simp
  show ?thesis
    using append_keeps_history[OF _ _ ev, of "\<lambda>l. Inl l"]
    by (force simp: newline_terminated_def file_outcome_def maint_read_all_def maint_report_default_def
      rust_lines_def strip_cr_def strip_suffix_def suffix_def ascii_ws_def)
qed

lemma promote_to_v3_get:
  "json_get (promote_to_v3 (JObj m)) k =
     (if k = ''stacks_core_base_sha'' then None
      else if k = ''schema_version'' then Some (JInt 3) else map_of m k)"
  by (simp add: promote_to_v3_def json_get_def obj_remove_get obj_insert_other)

text \<open>A version-1 or version-2 line of the sessions ledger is read by promoting its object to
  version 3: the version becomes 3, \<open>stacks_core_base_sha\<close> is dropped, every other field is kept,
  and the promoted object written as a line of its own reads as the same record through the
  version-3 branch.\<close>

theorem ledger_line_promotion:
  assumes "from_str line = Inr (JObj m)" "schema_version_of (JObj m) = 1 \<or> schema_version_of (JObj m) = 2"
    and "from_str line' = Inr (promote_to_v3 (JObj m))"
  shows "(session_from_ledger_line from_str from_value line = Inr rec
      \<longleftrightarrow> session_from_ledger_line from_str from_value line' = Inr rec)
    \<and> json_get (promote_to_v3 (JObj m)) k =
     (if k = ''stacks_core_base_sha'' then None
      else if k = ''schema_version'' then Some (JInt 3) else json_get (JObj m) k)"
proof
  have "schema_version_of (promote_to_v3 (JObj m)) = 3"
    using promote_to_v3_get[of m "''schema_version''"] by (simp add: schema_version_of_def as_u64_def)
  with assms show "session_from_ledger_line from_str from_value line = Inr rec
      \<longleftrightarrow> session_from_ledger_line from_str from_value line' = Inr rec"
    by (auto simp: session_from_ledger_line_def Let_def split: sum.splits)
qed (simp only: promote_to_v3_get, simp add: json_get_def)

theorem ledger_line_promotion_witness:
  "json_get (promote_to_v3 (JObj [(''stacks_core_base_sha'', JNull), (''id'', JStr ''s'')])) ''id''
     = Some (JStr ''s'')"
proof -
  let ?m = "[(''stacks_core_base_sha'', JNull), (''id'', JStr ''s'')]"
  let ?from_str = "\<lambda>l. if l = ''v1'' then Inr (JObj ?m) else Inr (promote_to_v3 (JObj ?m)) :: unit + json"
  have "?from_str ''v1'' = Inr (JObj ?m)" "?from_str ''v3'' = Inr (promote_to_v3 (JObj ?m))"
    by simp_all
  moreover have "schema_version_of (JObj ?m) = 1" by code_simp
  ultimately show ?thesis
    using ledger_line_promotion[where m = ?m and k = "''id''" and line = "''v1''" and line' = "''v3''" and from_str = ?from_str
        and from_value = "\<lambda>_. Inl ()"]
    by (simp add: json_get_def)
qed

end
