(* ===== verification/History_Projection.thy ===== *)
theory History_Projection
  imports Ledger_IO "HOL-Library.Multiset"
begin

text \<open>
  The read-side projection over the two ledgers (\<open>session/history_projection.rs\<close>): attempts per
  fix signature, signatures per family, the latest lifecycle state per artifact URL and the
  maintenance events per session.
\<close>

record projected_attempt =
  pa_session_id :: string
  pa_target_id :: string
  pa_fix_signature :: string
  pa_family_id :: string
  pa_finished_at :: string
  pa_status :: target_status
  pa_delivery_mode :: delivery_mode
  pa_reason_code :: "string option"
  pa_source_sha :: "string option"
  pa_pr_url :: "string option"
  pa_issue_url :: "string option"
  pa_target_head_sha :: "string option"

record projected_signature =
  ps_fix_signature :: string
  ps_attempts :: "projected_attempt list"

record projected_artifact_state =
  as_url :: string
  as_kind :: maint_event_kind
  as_observed_at :: string
  as_new_state :: string
  as_head_sha :: "string option"

record projected_maintenance_event =
  pm_session_id :: string
  pm_kind :: maint_event_kind
  pm_observed_at :: string
  pm_target_id :: "string option"
  pm_new_state :: string
  pm_pr_url :: "string option"
  pm_issue_url :: "string option"

record history_projection =
  hp_sessions :: "session_record list"
  hp_attempts_by_signature :: "(string, projected_attempt list) btree_map"
  hp_signatures_by_family :: "(string, projected_signature list) btree_map"
  hp_artifacts_by_url :: "(string, projected_artifact_state) btree_map"
  hp_maintenance_events_by_session :: "(string, projected_maintenance_event list) btree_map"

section \<open>Construction\<close>

definition projected_attempt_of :: "session_record \<Rightarrow> target_record \<Rightarrow> projected_attempt" where
  "projected_attempt_of session target =
     \<lparr>pa_session_id = sr_id session, pa_target_id = tr_id target, pa_fix_signature = tr_id target,
      pa_family_id = tr_family_id target, pa_finished_at = sr_finished_at session,
      pa_status = tr_status target, pa_delivery_mode = tr_delivery_mode target,
      pa_reason_code = tr_reason_code target, pa_source_sha = sr_source_sha session,
      pa_pr_url = tr_pr_url target, pa_issue_url = tr_issue_url target,
      pa_target_head_sha = tr_head_sha target\<rparr>"

text \<open>The attempts in the order the two nested loops visit them.\<close>

definition ledger_attempts :: "session_record list \<Rightarrow> projected_attempt list" where
  "ledger_attempts sessions =
     concat (map (\<lambda>session. map (projected_attempt_of session) (sr_targets session)) sessions)"

definition attempt_key :: "projected_attempt \<Rightarrow> (string \<times> string \<times> string) reverse" where
  "attempt_key a = Reverse (pa_finished_at a, pa_session_id a, pa_target_id a)"

definition sort_attempts_newest_first :: "projected_attempt list \<Rightarrow> projected_attempt list" where
  "sort_attempts_newest_first = sort_key attempt_key"

definition latest_finished_at :: "projected_signature \<Rightarrow> string" where
  "latest_finished_at sig = (case ps_attempts sig of [] \<Rightarrow> [] | a # _ \<Rightarrow> pa_finished_at a)"

definition event_url :: "maint_event \<Rightarrow> string option" where
  "event_url e = (case me_pr_url e of Some u \<Rightarrow> Some u | None \<Rightarrow> me_issue_url e)"

definition projected_artifact_state_of :: "string \<Rightarrow> maint_event \<Rightarrow> projected_artifact_state" where
  "projected_artifact_state_of url e =
     \<lparr>as_url = url, as_kind = me_kind e, as_observed_at = me_observed_at e,
      as_new_state = me_new_state e, as_head_sha = me_head_sha e\<rparr>"

definition project_artifacts_by_observed_at ::
  "maint_event list \<Rightarrow> (string, projected_artifact_state) btree_map" where
  "project_artifacts_by_observed_at events =
     fold (\<lambda>e out. case event_url e of None \<Rightarrow> out
             | Some url \<Rightarrow> bt_insert url (projected_artifact_state_of url e) out)
       (sort_key (\<lambda>e. (me_observed_at e, me_pr_url e, me_issue_url e)) events) bt_empty"

definition projected_maintenance_event_of :: "maint_event \<Rightarrow> projected_maintenance_event" where
  "projected_maintenance_event_of e =
     \<lparr>pm_session_id = me_session_id e, pm_kind = me_kind e, pm_observed_at = me_observed_at e,
      pm_target_id = me_target_id e, pm_new_state = me_new_state e, pm_pr_url = me_pr_url e,
      pm_issue_url = me_issue_url e\<rparr>"

definition project_maintenance_events_by_session ::
  "maint_event list \<Rightarrow> (string, projected_maintenance_event list) btree_map" where
  "project_maintenance_events_by_session events =
     bt_map_values
       (sort_key (\<lambda>e. (pm_observed_at e, pm_target_id e, pm_pr_url e, pm_issue_url e)))
       (group_by me_session_id projected_maintenance_event_of events)"

text \<open>\<open>by_family_signature.entry(family).or_default().entry(signature).or_default().push(attempt)\<close>.\<close>

definition push_family_signature ::
  "projected_attempt \<Rightarrow> (string, (string, projected_attempt list) btree_map) btree_map
     \<Rightarrow> (string, (string, projected_attempt list) btree_map) btree_map" where
  "push_family_signature a =
     bt_alter (pa_family_id a)
       (\<lambda>v. bt_push (pa_fix_signature a) a (case v of None \<Rightarrow> bt_empty | Some m \<Rightarrow> m))"

definition family_signatures ::
  "(string, projected_attempt list) btree_map \<Rightarrow> projected_signature list" where
  "family_signatures by_signature =
     sort_key (\<lambda>s. (Reverse (latest_finished_at s), ps_fix_signature s))
       (map (\<lambda>(sig, attempts).
          \<lparr>ps_fix_signature = sig, ps_attempts = sort_attempts_newest_first attempts\<rparr>) by_signature)"

definition from_ledgers_v1 :: "session_record list \<Rightarrow> maint_event list \<Rightarrow> history_projection" where
  "from_ledgers_v1 sessions maintain_events =
     (let artifacts_by_url = project_artifacts_by_observed_at maintain_events;
          attempts = ledger_attempts sessions;
          attempts_by_signature =
            bt_map_values sort_attempts_newest_first
              (fold (\<lambda>a. bt_push (pa_fix_signature a) a) attempts bt_empty);
          signatures_by_family =
            bt_map_values family_signatures (fold push_family_signature attempts bt_empty)
      in \<lparr>hp_sessions = sessions, hp_attempts_by_signature = attempts_by_signature,
          hp_signatures_by_family = signatures_by_family, hp_artifacts_by_url = artifacts_by_url,
          hp_maintenance_events_by_session = project_maintenance_events_by_session maintain_events\<rparr>)"

section \<open>Accessors\<close>

definition hp_session :: "history_projection \<Rightarrow> string \<Rightarrow> session_record option" where
  "hp_session h sid = List.find (\<lambda>s. sr_id s = sid) (hp_sessions h)"

definition attempts_for_signature :: "history_projection \<Rightarrow> string \<Rightarrow> projected_attempt list" where
  "attempts_for_signature h sig =
     (case bt_get (hp_attempts_by_signature h) sig of Some v \<Rightarrow> v | None \<Rightarrow> [])"

definition signatures_for_family :: "history_projection \<Rightarrow> string \<Rightarrow> projected_signature list" where
  "signatures_for_family h family_id =
     (case bt_get (hp_signatures_by_family h) family_id of Some v \<Rightarrow> v | None \<Rightarrow> [])"

definition signatures :: "history_projection \<Rightarrow> projected_signature list" where
  "signatures h = concat (map snd (hp_signatures_by_family h))"

definition latest_artifact_state :: "history_projection \<Rightarrow> string \<Rightarrow> projected_artifact_state option" where
  "latest_artifact_state h url = bt_get (hp_artifacts_by_url h) url"

definition maintenance_events_for_session ::
  "history_projection \<Rightarrow> string \<Rightarrow> projected_maintenance_event list" where
  "maintenance_events_for_session h session_id =
     (case bt_get (hp_maintenance_events_by_session h) session_id of Some v \<Rightarrow> v | None \<Rightarrow> [])"

record ('e, 'f) history_projection_read_report =
  hr_projection :: history_projection
  hr_skipped_sessions :: "'e skipped_line list"
  hr_skipped_maintain :: "'f skipped_line list"

datatype 'io projection_error = ReadingSessions 'io | ReadingMaintain 'io

definition read_operator_projection_v1 ::
  "(string \<Rightarrow> 'e + session_record) \<Rightarrow> (string \<Rightarrow> 'f + maint_event)
     \<Rightarrow> 'io read_outcome \<Rightarrow> 'io read_outcome
     \<Rightarrow> 'io projection_error + ('e, 'f) history_projection_read_report" where
  "read_operator_projection_v1 parse_session parse_event sessions_file maintain_file =
     (case ledger_read_all parse_session sessions_file of
        Inl e \<Rightarrow> Inl (ReadingSessions e)
      | Inr sessions \<Rightarrow>
          (case maint_read_all parse_event maintain_file of
             Inl e \<Rightarrow> Inl (ReadingMaintain e)
           | Inr maintain \<Rightarrow>
               Inr \<lparr>hr_projection = from_ledgers_v1 (lr_records sessions) (ml_events maintain),
                    hr_skipped_sessions = lr_skipped sessions,
                    hr_skipped_maintain = ml_skipped maintain\<rparr>))"

section \<open>The entries of the projection\<close>

lemma sort_key_Nil_iff [simp]: "sort_key f xs = [] \<longleftrightarrow> xs = []"
  by (metis length_0_conv length_sort)

lemma last_filter: "xs \<noteq> [] \<Longrightarrow> P (last xs) \<Longrightarrow> last (filter P xs) = last xs"
  by (induction xs rule: rev_induct) simp_all

text \<open>The last element of a stable sort: the greatest key, and the last of the elements that have it.\<close>

lemma last_sort_key:
  fixes f :: "'a \<Rightarrow> 'b::linorder" and xs :: "'a list"
  assumes "xs \<noteq> []"
  defines "e \<equiv> last (sort_key f xs)"
  shows "e \<in> set xs" "\<And>x. x \<in> set xs \<Longrightarrow> f x \<le> f e" "last (filter (\<lambda>x. f x = f e) xs) = e"
proof -
  have ne: "sort_key f xs \<noteq> []" using assms(1) by simp
  show "e \<in> set xs" using ne last_in_set[OF ne] by (simp add: e_def)
  show "f x \<le> f e" if "x \<in> set xs" for x
  proof -
    have "sorted (map f (butlast (sort_key f xs) @ [e]))"
      using ne by (simp add: e_def)
    moreover have "x \<in> set (butlast (sort_key f xs) @ [e])"
      using ne that by (simp only: e_def append_butlast_last_id) simp
    ultimately show ?thesis by (auto simp: sorted_append)
  qed
  have "filter (\<lambda>x. f x = f e) xs = filter (\<lambda>x. f x = f e) (sort_key f xs)"
    by (simp add: sort_key_stable)
  then show "last (filter (\<lambda>x. f x = f e) xs) = e"
    using last_filter[OF ne, of "\<lambda>x. f x = f e"] by (simp add: e_def)
qed

lemma fold_option_insert:
  "fold (\<lambda>x m. case u x of None \<Rightarrow> m | Some k \<Rightarrow> bt_insert k (val k x) m) xs m =
   fold (\<lambda>x. bt_insert (the (u x)) (val (the (u x)) x)) (filter (\<lambda>x. u x \<noteq> None) xs) m"
  by (induction xs arbitrary: m) (auto split: option.split)

lemma latest_artifact_state_from_ledgers:
  "latest_artifact_state (from_ledgers_v1 sessions events) url =
     (let es = sort_key (\<lambda>e. (me_observed_at e, me_pr_url e, me_issue_url e))
                 (filter (\<lambda>e. event_url e = Some url) events)
      in if es = [] then None else Some (projected_artifact_state_of url (last es)))"
proof -
  let ?u = "\<lambda>e. event_url e" let ?f = "\<lambda>e. (me_observed_at e, me_pr_url e, me_issue_url e)"
  have filt: "filter (\<lambda>e. the (?u e) = url) (filter (\<lambda>e. ?u e \<noteq> None) xs) = filter (\<lambda>e. ?u e = Some url) xs"
    for xs by (induction xs) auto
  have "latest_artifact_state (from_ledgers_v1 sessions events) url
      = bt_get (insert_all (\<lambda>e. the (?u e)) (\<lambda>e. projected_artifact_state_of (the (?u e)) e)
          (filter (\<lambda>e. ?u e \<noteq> None) (sort_key ?f events))) url"
    by (simp add: latest_artifact_state_def from_ledgers_v1_def Let_def
        project_artifacts_by_observed_at_def fold_option_insert insert_all_def)
  also have "\<dots> = (let es = sort_key ?f (filter (\<lambda>e. event_url e = Some url) events)
      in if es = [] then None else Some (projected_artifact_state_of (the (?u (last es))) (last es)))"
    by (simp only: insert_all_get filt filter_sort)
  also have "\<dots> = (let es = sort_key ?f (filter (\<lambda>e. event_url e = Some url) events)
      in if es = [] then None else Some (projected_artifact_state_of url (last es)))"
  proof (cases "sort_key ?f (filter (\<lambda>e. event_url e = Some url) events) = []")
    case False
    then have "last (sort_key ?f (filter (\<lambda>e. event_url e = Some url) events)) \<in> {e. event_url e = Some url}"
      using last_in_set[OF False] by simp
    then show ?thesis by (simp add: Let_def)
  qed simp
  finally show ?thesis .
qed

lemma attempts_for_signature_from_ledgers:
  "attempts_for_signature (from_ledgers_v1 sessions events) sig =
     sort_attempts_newest_first (filter (\<lambda>a. pa_fix_signature a = sig) (ledger_attempts sessions))"
proof -
  have "hp_attempts_by_signature (from_ledgers_v1 sessions events) =
      bt_map_values sort_attempts_newest_first (group_by pa_fix_signature (\<lambda>a. a) (ledger_attempts sessions))"
    by (simp add: from_ledgers_v1_def Let_def group_by_def)
  then show ?thesis
    by (simp add: attempts_for_signature_def bt_map_values_get group_by_get Let_def
        sort_attempts_newest_first_def)
qed

lemma push_family_signature_all:
  "fold push_family_signature attempts bt_empty =
   bt.alter_all pa_family_id
     (\<lambda>a v. bt_push (pa_fix_signature a) a (case v of None \<Rightarrow> bt_empty | Some m \<Rightarrow> m)) attempts bt_empty"
  by (simp add: bt.alter_all_def push_family_signature_def[abs_def])

lemma family_map_get:
  "bt_get (fold push_family_signature attempts bt_empty) fam =
     (let ys = filter (\<lambda>a. pa_family_id a = fam) attempts
      in if ys = [] then None else Some (group_by pa_fix_signature (\<lambda>a. a) ys))"
proof -
  have fold: "fold (\<lambda>a v. Some (bt_push (pa_fix_signature a) a (case v of None \<Rightarrow> bt_empty | Some m \<Rightarrow> m))) ys w
      = (if ys = [] then w
         else Some (fold (\<lambda>a. bt_push (pa_fix_signature a) a) ys (case w of None \<Rightarrow> bt_empty | Some m \<Rightarrow> m)))"
    for ys w by (induction ys arbitrary: w) auto
  show ?thesis
    unfolding push_family_signature_all bt.get_alter_all[OF bt_empty_simps(1)] fold
    by (simp add: group_by_def Let_def)
qed

lemma signatures_for_family_from_ledgers:
  "signatures_for_family (from_ledgers_v1 sessions events) fam =
     family_signatures (group_by pa_fix_signature (\<lambda>a. a)
       (filter (\<lambda>a. pa_family_id a = fam) (ledger_attempts sessions)))"
proof -
  have "family_signatures (group_by pa_fix_signature (\<lambda>a. a) []) = []"
    by (simp add: family_signatures_def group_by_def bt_empty_def)
  then show ?thesis
    by (simp add: signatures_for_family_def from_ledgers_v1_def bt_map_values_get family_map_get Let_def)
qed

lemma family_map_invar: "bt_invar (fold push_family_signature attempts bt_empty)"
  by (simp add: push_family_signature_all bt.invar_alter_all)

lemma maintenance_events_from_ledgers:
  "maintenance_events_for_session (from_ledgers_v1 sessions events) sid =
     sort_key (\<lambda>e. (pm_observed_at e, pm_target_id e, pm_pr_url e, pm_issue_url e))
       (map projected_maintenance_event_of (filter (\<lambda>e. me_session_id e = sid) events))"
  by (simp add: maintenance_events_for_session_def from_ledgers_v1_def Let_def
      project_maintenance_events_by_session_def bt_map_values_get group_by_get)

section \<open>Properties\<close>

text \<open>C34: the lifecycle state the projection reports for a URL is the state of the latest event
  recorded for that URL: it is an event of that URL with the greatest observation time, and among
  the events with its time and URL fields it is the last one in the ledger; there is none exactly
  when the ledger has no event of that URL.\<close>

theorem latest_artifact_state_is_latest:
  "case latest_artifact_state (from_ledgers_v1 sessions events) url of
     None \<Rightarrow> filter (\<lambda>e. event_url e = Some url) events = []
   | Some st \<Rightarrow> (\<exists>e \<in> set events. event_url e = Some url \<and> st = projected_artifact_state_of url e
        \<and> list_all (\<lambda>e'. event_url e' = Some url \<longrightarrow> me_observed_at e' \<le> me_observed_at e) events
        \<and> last (filter (\<lambda>e'. me_observed_at e' = me_observed_at e \<and> me_pr_url e' = me_pr_url e
                          \<and> me_issue_url e' = me_issue_url e) events) = e)"
proof (cases "filter (\<lambda>e. event_url e = Some url) events = []")
  case True
  then show ?thesis by (simp add: latest_artifact_state_from_ledgers)
next
  case False
  let ?f = "\<lambda>e. (me_observed_at e, me_pr_url e, me_issue_url e)"
  let ?es = "filter (\<lambda>e. event_url e = Some url) events"
  define e where "e = last (sort_key ?f ?es)"
  note L = last_sort_key[OF False, where f = ?f, folded e_def]
  have "sort_key ?f ?es \<noteq> []" using False by (simp only: sort_key_Nil_iff not_False_eq_True)
  then have "latest_artifact_state (from_ledgers_v1 sessions events) url = Some (projected_artifact_state_of url e)"
    by (simp add: latest_artifact_state_from_ledgers e_def)
  moreover have "e \<in> set events" "event_url e = Some url" using L(1) by simp_all
  moreover have "me_observed_at e' \<le> me_observed_at e" if "e' \<in> set events" "event_url e' = Some url" for e'
    using L(2)[of e'] that by (auto simp: less_eq_prod_simp)
  moreover have "filter (\<lambda>x. ?f x = ?f e) ?es = filter (\<lambda>e'. me_observed_at e' = me_observed_at e
       \<and> me_pr_url e' = me_pr_url e \<and> me_issue_url e' = me_issue_url e) events"
    using \<open>event_url e = Some url\<close> by (auto simp: event_url_def intro!: filter_cong split: option.splits)
  ultimately show ?thesis using L(3) by (auto simp: list_all_iff)
qed

theorem latest_artifact_state_is_latest_witness:
  "latest_artifact_state (from_ledgers_v1 [] [sample_event\<lparr>me_kind := PrMerged, me_observed_at := ''2026-02''\<rparr>,
      sample_event]) ''u'' = Some (projected_artifact_state_of ''u''
        (sample_event\<lparr>me_kind := PrMerged, me_observed_at := ''2026-02''\<rparr>))"
proof -
  let ?m = "sample_event\<lparr>me_kind := PrMerged, me_observed_at := ''2026-02''\<rparr>"
  have "event_url ?m = Some ''u''" "\<not> me_observed_at ?m \<le> me_observed_at sample_event"
    by code_simp+
  then show ?thesis
    using latest_artifact_state_is_latest[where sessions = "[]" and events = "[?m, sample_event]" and url = "''u''"]
    by (auto split: option.splits)
qed

text \<open>The attempts of a fix signature are exactly the archived target rows whose id is that
  signature, over all sessions and with multiplicity, ordered newest first by finish time, then
  session id, then target id.\<close>

theorem attempts_for_signature_complete:
  "mset (attempts_for_signature (from_ledgers_v1 sessions events) sig) =
     mset (concat (map (\<lambda>s. map (projected_attempt_of s) (filter (\<lambda>t. tr_id t = sig) (sr_targets s))) sessions))
   \<and> sorted_wrt (\<lambda>a b. (pa_finished_at b, pa_session_id b, pa_target_id b)
                   \<le> (pa_finished_at a, pa_session_id a, pa_target_id a))
       (attempts_for_signature (from_ledgers_v1 sessions events) sig)"
proof
  have "filter (\<lambda>a. pa_fix_signature a = sig) (ledger_attempts sessions)
      = concat (map (\<lambda>s. map (projected_attempt_of s) (filter (\<lambda>t. tr_id t = sig) (sr_targets s))) sessions)"
    by (simp add: ledger_attempts_def filter_concat comp_def filter_map projected_attempt_of_def)
  then show "mset (attempts_for_signature (from_ledgers_v1 sessions events) sig) =
     mset (concat (map (\<lambda>s. map (projected_attempt_of s) (filter (\<lambda>t. tr_id t = sig) (sr_targets s))) sessions))"
    by (simp add: attempts_for_signature_from_ledgers sort_attempts_newest_first_def)
  have "sorted_wrt (\<le>) (map attempt_key (attempts_for_signature (from_ledgers_v1 sessions events) sig))"
    by (simp add: attempts_for_signature_from_ledgers sort_attempts_newest_first_def)
  then show "sorted_wrt (\<lambda>a b. (pa_finished_at b, pa_session_id b, pa_target_id b)
                   \<le> (pa_finished_at a, pa_session_id a, pa_target_id a))
       (attempts_for_signature (from_ledgers_v1 sessions events) sig)"
    by (simp add: sorted_wrt_map attempt_key_def)
qed

lemma family_signatures_set:
  assumes "bt_invar m"
  shows "set (family_signatures m) = {\<lparr>ps_fix_signature = sig, ps_attempts = sort_attempts_newest_first as\<rparr> | sig as.
           bt_get m sig = Some as}"
  using bt.in_entries_iff[OF assms] by (auto simp: family_signatures_def image_iff)

lemma family_signatures_distinct:
  assumes "bt_invar m"
  shows "distinct (map ps_fix_signature (family_signatures m))"
proof -
  let ?l = "map (\<lambda>(sig, attempts). \<lparr>ps_fix_signature = sig, ps_attempts = sort_attempts_newest_first attempts\<rparr>) m"
  have "map ps_fix_signature ?l = map fst m" by (simp add: comp_def case_prod_beta)
  then have "distinct (map ps_fix_signature ?l)" using bt.distinct_keys[OF assms] by (simp only: id_apply)
  then have "distinct ?l" "inj_on ps_fix_signature (set ?l)" by (simp_all only: distinct_map)
  then show ?thesis
    unfolding family_signatures_def distinct_map[of ps_fix_signature] distinct_sort set_sort by blast
qed

text \<open>The signatures of a family: each signature with a row in the family appears exactly once,
  with exactly that family's rows of the signature; signatures come newest first by their latest
  finish time, ties by signature.\<close>

theorem signatures_for_family_spec:
  "let sigs = signatures_for_family (from_ledgers_v1 sessions events) fam in
     distinct (map ps_fix_signature sigs)
   \<and> set sigs = {\<lparr>ps_fix_signature = sig, ps_attempts = sort_attempts_newest_first
          (filter (\<lambda>a. pa_family_id a = fam \<and> pa_fix_signature a = sig) (ledger_attempts sessions))\<rparr> | sig.
        sig \<in> pa_fix_signature ` {a \<in> set (ledger_attempts sessions). pa_family_id a = fam}}
   \<and> sorted_wrt (\<lambda>s t. latest_finished_at t < latest_finished_at s
        \<or> (latest_finished_at t = latest_finished_at s \<and> ps_fix_signature s \<le> ps_fix_signature t)) sigs"
proof -
  let ?g = "group_by pa_fix_signature (\<lambda>a. a) (filter (\<lambda>a. pa_family_id a = fam) (ledger_attempts sessions))"
  have "sorted_wrt (\<le>) (map (\<lambda>s. (Reverse (latest_finished_at s), ps_fix_signature s)) (family_signatures ?g))"
    by (simp add: family_signatures_def)
  then have "sorted_wrt (\<lambda>s t. latest_finished_at t < latest_finished_at s
        \<or> (latest_finished_at t = latest_finished_at s \<and> ps_fix_signature s \<le> ps_fix_signature t)) (family_signatures ?g)"
    unfolding sorted_wrt_map by (rule sorted_wrt_mono_rel[rotated]) (auto simp: less_eq_prod_simp)
  moreover have "bt_get ?g sig = Some as \<longleftrightarrow>
      sig \<in> pa_fix_signature ` {a \<in> set (ledger_attempts sessions). pa_family_id a = fam}
      \<and> as = filter (\<lambda>a. pa_family_id a = fam \<and> pa_fix_signature a = sig) (ledger_attempts sessions)" for sig as
    by (auto simp: group_by_get Let_def filter_empty_conv conj_commute image_iff)
  ultimately show ?thesis
    unfolding Let_def signatures_for_family_from_ledgers
    by (auto simp: family_signatures_set family_signatures_distinct)
qed

end
