(* ===== verification/Model_Common.thy ===== *)
theory Model_Common
  imports Ledger_Model
begin

text \<open>
  The types and validators the artifact models share (\<open>models/common.rs\<close>): selection lenses,
  buckets, the measurement protocol an analyzer attaches to a target (invocations, samples, expected
  signals), its database evidence, and the run-id tables of the bench phases; with the logical-path
  rule for bundled queries (\<open>queries.rs\<close>).
\<close>

section \<open>Enums and plain records\<close>

datatype selection_lens = TxLatency | TenureThroughput | CommitTime

datatype family_kind = TxFamily | BlockFamily | ContractFamily

datatype bucket = BlockProcessing | BlockCommit

datatype risk = Low | Medium | High

datatype breakage_class =
    ClarityCostWeight | ClarityVmBehavior | MiningFlow | BlockValidation | MarfLayout | OnChainFormat

record improvement_vector =
  iv_tx_latency :: f64
  iv_tenure_throughput :: f64
  iv_commit_time :: f64

record hotspot =
  hs_span :: string
  hs_self_wall_us :: int
  hs_total_wall_us :: int
  hs_calls :: int
  hs_location :: string

datatype lens_disposition_status = Addressed | NotActionable

record lens_disposition_entry =
  ld_family_id :: string
  ld_lens :: selection_lens
  ld_status :: lens_disposition_status
  ld_reason :: "string option"

definition BENCH_INVOCATION_HARD_MAX :: nat where
  "BENCH_INVOCATION_HARD_MAX = 16"

section \<open>Expected signals\<close>

definition f64_is_finite :: "f64 \<Rightarrow> bool" where
  "f64_is_finite x \<longleftrightarrow> (case x of Fin _ \<Rightarrow> True | _ \<Rightarrow> False)"

text \<open>IEEE comparison: false whenever an operand is NaN.\<close>

definition f64_less :: "f64 \<Rightarrow> f64 \<Rightarrow> bool" where
  "f64_less x y \<longleftrightarrow>
     (case (x, y) of
        (Fin a, Fin b) \<Rightarrow> a < b
      | (Fin _, PosInf) \<Rightarrow> True
      | (NegInf, Fin _) \<Rightarrow> True
      | (NegInf, PosInf) \<Rightarrow> True
      | _ \<Rightarrow> False)"

datatype signal_direction = Improves | Neutral | Regresses

record expected_signal =
  es_axis :: selection_lens
  es_direction :: signal_direction
  es_estimate_pct :: "f64 option"
  es_tolerance_pct :: "f64 option"

datatype expected_signal_error = BadTolerance f64 | BadEstimate f64

definition validate_expected_signal :: "expected_signal \<Rightarrow> expected_signal_error check" where
  "validate_expected_signal s = checks [
     (case es_tolerance_pct s of
        Some t \<Rightarrow> bail_if (\<not> f64_is_finite t \<or> f64_less t (Fin 0)) (BadTolerance t)
      | None \<Rightarrow> Ok_unit),
     (case es_estimate_pct s of
        Some e \<Rightarrow> bail_if (\<not> f64_is_finite e) (BadEstimate e)
      | None \<Rightarrow> Ok_unit)]"

section \<open>Bench samples and invocations\<close>

datatype profiler_mode = Rich

datatype bench_samples =
    Txids "string list"
  | Blocks "string list"
  | BlockRange nat nat

definition is_hex_hash :: "string \<Rightarrow> bool" where
  "is_hex_hash s \<longleftrightarrow> length s = 66 \<and> starts_with s ''0x'' \<and> list_all is_ascii_hexdigit (drop 2 s)"

datatype bench_samples_error =
    TxidsEmpty | TxidsTooMany nat | TxidNotHash nat string
  | BlocksEmpty | BlocksTooMany nat | BlockNotHash nat string
  | StartAtZero | CountZero | CountTooLarge nat

definition validate_bench_samples :: "bench_samples \<Rightarrow> bench_samples_error check" where
  "validate_bench_samples b =
     (case b of
        Txids txids \<Rightarrow> checks [
          bail_if (txids = []) TxidsEmpty,
          bail_if (16 < length txids) (TxidsTooMany (length txids)),
          for_each (\<lambda>i h. bail_if (\<not> is_hex_hash h) (TxidNotHash i h)) 0 txids]
      | Blocks blocks \<Rightarrow> checks [
          bail_if (blocks = []) BlocksEmpty,
          bail_if (16 < length blocks) (BlocksTooMany (length blocks)),
          for_each (\<lambda>i h. bail_if (\<not> is_hex_hash h) (BlockNotHash i h)) 0 blocks]
      | BlockRange start_at count \<Rightarrow> checks [
          bail_if (start_at = 0) StartAtZero,
          bail_if (count = 0) CountZero,
          bail_if (50000 < count) (CountTooLarge count)])"

record bench_invocation =
  bi_id :: string
  bi_label :: string
  bi_purpose :: string
  bi_samples :: bench_samples
  bi_warmup :: nat
  bi_repetitions :: nat
  bi_profiler :: profiler_mode
  bi_expected_signal :: expected_signal

definition is_valid_invocation_id :: "string \<Rightarrow> bool" where
  "is_valid_invocation_id s \<longleftrightarrow>
     (if s = [] \<or> 40 < length s then False
      else if \<not> is_ascii_lowercase (s ! 0) then False
      else if \<not> (is_ascii_lowercase (last s) \<or> is_ascii_digit (last s)) then False
      else list_all (\<lambda>b. is_ascii_lowercase b \<or> is_ascii_digit b \<or> b = CHR ''-'') s)"

datatype bench_invocation_error =
    BadInvocationId string
  | BlankLabel string
  | BlankPurpose string
  | BadSamples string bench_samples_error
  | WarmupRange string nat
  | RepetitionsRange string nat
  | BadSignal string expected_signal_error

definition validate_bench_invocation :: "bench_invocation \<Rightarrow> bench_invocation_error check" where
  "validate_bench_invocation iv = checks [
     bail_if (\<not> is_valid_invocation_id (bi_id iv)) (BadInvocationId (bi_id iv)),
     bail_if (is_blank (bi_label iv)) (BlankLabel (bi_id iv)),
     bail_if (is_blank (bi_purpose iv)) (BlankPurpose (bi_id iv)),
     with_context (BadSamples (bi_id iv)) (validate_bench_samples (bi_samples iv)),
     bail_if (200 < bi_warmup iv) (WarmupRange (bi_id iv) (bi_warmup iv)),
     bail_if (\<not> (1 \<le> bi_repetitions iv \<and> bi_repetitions iv \<le> 200))
       (RepetitionsRange (bi_id iv) (bi_repetitions iv)),
     with_context (BadSignal (bi_id iv)) (validate_expected_signal (bi_expected_signal iv))]"

section \<open>Verification replay\<close>

record verification_replay =
  vr_rationale :: string
  vr_invocations :: "bench_invocation list"
  vr_suspected_spans :: "string list option"

datatype replay_error =
    BlankRationale
  | NoInvocations
  | TooManyInvocations nat
  | DuplicateInvocation nat string
  | BadInvocation nat bench_invocation_error
  | AxisMismatch nat selection_lens selection_lens
  | BlankSpan nat

definition replay_axis_check :: "bench_invocation list \<Rightarrow> replay_error check" where
  "replay_axis_check invs =
     (case invs of [] \<Rightarrow> Ok_unit
      | first # rest \<Rightarrow>
          (let first_axis = es_axis (bi_expected_signal first)
           in for_each (\<lambda>i iv. bail_if (es_axis (bi_expected_signal iv) \<noteq> first_axis)
                (AxisMismatch i (es_axis (bi_expected_signal iv)) first_axis)) 1 rest))"

definition validate_verification_replay :: "verification_replay \<Rightarrow> replay_error check" where
  "validate_verification_replay vr = checks [
     bail_if (is_blank (vr_rationale vr)) BlankRationale,
     bail_if (vr_invocations vr = []) NoInvocations,
     bail_if (BENCH_INVOCATION_HARD_MAX < length (vr_invocations vr))
       (TooManyInvocations (length (vr_invocations vr))),
     for_each_seen bi_id
       (\<lambda>i seen iv. checks [
          bail_if (bi_id iv \<in> seen) (DuplicateInvocation i (bi_id iv)),
          with_context (BadInvocation i) (validate_bench_invocation iv)])
       0 {} (vr_invocations vr),
     replay_axis_check (vr_invocations vr),
     (case vr_suspected_spans vr of
        Some spans \<Rightarrow> for_each (\<lambda>i s. bail_if (is_blank s) (BlankSpan i)) 0 spans
      | None \<Rightarrow> Ok_unit)]"

section \<open>Evidence queries\<close>

text \<open>\<open>Path::components\<close> on Unix: repeated separators and interior dots vanish.\<close>

datatype path_component = RootDir | CurDir | ParentDir | Normal string

definition path_components :: "string \<Rightarrow> path_component list" where
  "path_components p =
     (let pieces = split_char (CHR ''/'') p
      in (if starts_with p ''/'' then [RootDir] else if hd pieces = ''.'' then [CurDir] else [])
         @ map (\<lambda>x. if x = ''..'' then ParentDir else Normal x)
             (filter (\<lambda>x. x \<noteq> [] \<and> x \<noteq> ''.'') pieces))"

text \<open>The names of \<open>BUNDLED_QUERIES\<close>.\<close>

definition bundled_query_names :: "string list" where
  "bundled_query_names = [
     ''README.md'', ''baseline_empty_block_breakdown.sql'', ''block_timing_breakdown.sql'',
     ''compare_block_timing_between_runs.sql'', ''compare_run_summary.sql'',
     ''compare_spans_between_runs.sql'', ''profiler_trace_block.sql'', ''profiler_trace_tx.sql'',
     ''run_summary.sql'', ''span_per_block_distribution.sql'', ''span_per_sample_distribution.sql'',
     ''span_recurrence.sql'', ''span_run_drift.sql'', ''top_blocks_for_span.sql'',
     ''top_clarity_consumers_by_contract.sql'', ''top_contract_calls.sql'',
     ''top_spans_by_call_count.sql'', ''top_spans_by_self_wall.sql'', ''top_txs_by_duration.sql'',
     ''tx_type_distribution.sql'', ''txs_for_contract.sql'']"

definition is_bundled_query_logical_path :: "string \<Rightarrow> bool" where
  "is_bundled_query_logical_path path \<longleftrightarrow>
     (case path_components path of
        [Normal dir, Normal file] \<Rightarrow>
          dir = ''queries'' \<and> list_ex (\<lambda>name. ends_with name ''.sql'' \<and> file = name) bundled_query_names
      | _ \<Rightarrow> False)"

record evidence_query =
  eq_purpose :: string
  eq_sql_path :: string
  eq_params :: "(string, string) btree_map"
  eq_output_path :: string
  eq_key_observation :: string
  eq_supports_invocations :: "string list"

datatype evidence_query_error =
    BlankQueryPurpose | NotBundledQuery string | BlankOutputPath | BlankKeyObservation
  | NoSupportedInvocations

definition validate_evidence_query :: "evidence_query \<Rightarrow> evidence_query_error check" where
  "validate_evidence_query q = checks [
     bail_if (is_blank (eq_purpose q)) BlankQueryPurpose,
     bail_if (\<not> is_bundled_query_logical_path (eq_sql_path q)) (NotBundledQuery (eq_sql_path q)),
     bail_if (is_blank (eq_output_path q)) BlankOutputPath,
     bail_if (is_blank (eq_key_observation q)) BlankKeyObservation,
     bail_if (eq_supports_invocations q = []) NoSupportedInvocations]"

datatype evidence_error =
    EvidenceRequired
  | BadEvidence nat evidence_query_error
  | UnknownInvocation nat string
  | InvocationWithoutReplay nat

definition validate_evidence_queries_for_replay ::
  "evidence_query list \<Rightarrow> verification_replay option \<Rightarrow> bool \<Rightarrow> evidence_error check" where
  "validate_evidence_queries_for_replay evidence_queries replay required =
     (let invocation_ids = map_option (\<lambda>vr. set (map bi_id (vr_invocations vr))) replay
      in checks [
        bail_if (required \<and> evidence_queries = []) EvidenceRequired,
        for_each (\<lambda>i q. checks [
          with_context (BadEvidence i) (validate_evidence_query q),
          (case invocation_ids of
             Some ids \<Rightarrow> for_each (\<lambda>_ iv. bail_if (iv \<notin> ids) (UnknownInvocation i iv)) 0
                (eq_supports_invocations q)
           | None \<Rightarrow> bail_if (eq_supports_invocations q \<noteq> []) (InvocationWithoutReplay i))])
          0 evidence_queries])"

section \<open>Run-id tables\<close>

record invocation_run_id =
  ir_invocation_id :: string
  ir_run_id :: int

text \<open>\<open>InvocationRunIds\<close> is its \<open>entries\<close>.\<close>

type_synonym invocation_run_ids = "invocation_run_id list"

definition run_ids :: "invocation_run_ids \<Rightarrow> int list" where
  "run_ids entries = map ir_run_id entries"

datatype run_ids_error = BadRunInvocationId nat string | NonPositiveRunId nat int | DuplicateRunInvocation nat string

definition validate_invocation_run_ids :: "invocation_run_ids \<Rightarrow> run_ids_error check" where
  "validate_invocation_run_ids entries =
     for_each_seen ir_invocation_id
       (\<lambda>i seen e. checks [
          bail_if (\<not> is_valid_invocation_id (ir_invocation_id e)) (BadRunInvocationId i (ir_invocation_id e)),
          bail_if (ir_run_id e \<le> 0) (NonPositiveRunId i (ir_run_id e)),
          bail_if (ir_invocation_id e \<in> seen) (DuplicateRunInvocation i (ir_invocation_id e))])
       0 {} entries"

section \<open>What the validators accept\<close>

lemma validate_expected_signal_ok [result_simps]:
  "validate_expected_signal s = Ok_unit \<longleftrightarrow>
     (\<forall>t. es_tolerance_pct s = Some t \<longrightarrow> (\<exists>r \<ge> 0. t = Fin r))
   \<and> (\<forall>e. es_estimate_pct s = Some e \<longrightarrow> (\<exists>r. e = Fin r))"
  by (auto simp: validate_expected_signal_def f64_is_finite_def f64_less_def
      split: option.splits f64.splits)

lemma validate_bench_samples_ok [result_simps]:
  "validate_bench_samples b = Ok_unit \<longleftrightarrow>
     (case b of
        Txids hs \<Rightarrow> hs \<noteq> [] \<and> length hs \<le> 16 \<and> list_all is_hex_hash hs
      | Blocks hs \<Rightarrow> hs \<noteq> [] \<and> length hs \<le> 16 \<and> list_all is_hex_hash hs
      | BlockRange start_at count \<Rightarrow> 1 \<le> start_at \<and> 1 \<le> count \<and> count \<le> 50000)"
  by (auto simp: validate_bench_samples_def for_each_Inr list_all_length
      split: bench_samples.splits)

lemma validate_bench_invocation_ok [result_simps]:
  "validate_bench_invocation iv = Ok_unit \<longleftrightarrow>
     is_valid_invocation_id (bi_id iv) \<and> \<not> is_blank (bi_label iv) \<and> \<not> is_blank (bi_purpose iv)
   \<and> validate_bench_samples (bi_samples iv) = Ok_unit
   \<and> bi_warmup iv \<le> 200 \<and> 1 \<le> bi_repetitions iv \<and> bi_repetitions iv \<le> 200
   \<and> validate_expected_signal (bi_expected_signal iv) = Ok_unit"
  by (auto simp: validate_bench_invocation_def)

lemma replay_axis_check_ok:
  "replay_axis_check invs = Ok_unit \<longleftrightarrow>
     (\<exists>axis. \<forall>iv \<in> set invs. es_axis (bi_expected_signal iv) = axis)"
  by (cases invs) (auto simp: replay_axis_check_def Let_def for_each_Inr all_set_conv_all_nth)

lemma validate_verification_replay_ok [result_simps]:
  "validate_verification_replay vr = Ok_unit \<longleftrightarrow>
     \<not> is_blank (vr_rationale vr)
   \<and> vr_invocations vr \<noteq> [] \<and> length (vr_invocations vr) \<le> BENCH_INVOCATION_HARD_MAX
   \<and> distinct (map bi_id (vr_invocations vr))
   \<and> (\<forall>iv \<in> set (vr_invocations vr). validate_bench_invocation iv = Ok_unit)
   \<and> (\<exists>axis. \<forall>iv \<in> set (vr_invocations vr). es_axis (bi_expected_signal iv) = axis)
   \<and> (\<forall>spans. vr_suspected_spans vr = Some spans \<longrightarrow> (\<forall>s \<in> set spans. \<not> is_blank s))"
proof -
  have loop: "for_each_seen bi_id (\<lambda>i seen iv. checks [
        bail_if (bi_id iv \<in> seen) (DuplicateInvocation i (bi_id iv)),
        with_context (BadInvocation i) (validate_bench_invocation iv)]) 0 {} invs = Ok_unit
      \<longleftrightarrow> distinct (map bi_id invs) \<and> (\<forall>iv \<in> set invs. validate_bench_invocation iv = Ok_unit)" for invs
    by (subst for_each_seen_Inr[where g = "\<lambda>_ iv. validate_bench_invocation iv = Ok_unit"])
      (auto simp: all_set_conv_all_nth)
  show ?thesis
    unfolding validate_verification_replay_def checks_Cons_ok
    by (auto simp: loop replay_axis_check_ok for_each_Inr all_set_conv_all_nth not_less split: option.splits)
qed

lemma validate_evidence_query_ok [result_simps]:
  "validate_evidence_query q = Ok_unit \<longleftrightarrow>
     \<not> is_blank (eq_purpose q) \<and> is_bundled_query_logical_path (eq_sql_path q)
   \<and> \<not> is_blank (eq_output_path q) \<and> \<not> is_blank (eq_key_observation q) \<and> eq_supports_invocations q \<noteq> []"
  by (auto simp: validate_evidence_query_def)

text \<open>
  Without a replay no evidence can be accepted at all: a query must support an invocation, and an
  invocation cannot be referenced.
\<close>

lemma validate_evidence_ok [result_simps]:
  "validate_evidence_queries_for_replay qs replay required = Ok_unit \<longleftrightarrow>
     (required \<longrightarrow> qs \<noteq> [])
   \<and> (case replay of
        None \<Rightarrow> qs = []
      | Some vr \<Rightarrow> \<forall>q \<in> set qs. validate_evidence_query q = Ok_unit
           \<and> set (eq_supports_invocations q) \<subseteq> bi_id ` set (vr_invocations vr))"
proof (cases replay)
  case None
  have "(\<forall>j < length qs. validate_evidence_query (qs ! j) = Ok_unit \<and> eq_supports_invocations (qs ! j) = [])
      \<longleftrightarrow> qs = []"
    by (cases qs) (auto simp: validate_evidence_query_ok intro: exI[of _ 0])
  then show ?thesis
    using None by (simp add: validate_evidence_queries_for_replay_def for_each_Inr)
next
  case (Some vr)
  have "for_each (\<lambda>_ iv. bail_if (iv \<notin> ids) (UnknownInvocation i iv)) 0 xs = Ok_unit \<longleftrightarrow> set xs \<subseteq> ids" for i ids xs
    by (auto simp: for_each_Inr subset_iff in_set_conv_nth)
  then show ?thesis
    using Some by (auto simp: validate_evidence_queries_for_replay_def for_each_Inr all_set_conv_all_nth)
qed

lemma validate_invocation_run_ids_ok [result_simps]:
  "validate_invocation_run_ids entries = Ok_unit \<longleftrightarrow>
     distinct (map ir_invocation_id entries)
   \<and> (\<forall>e \<in> set entries. is_valid_invocation_id (ir_invocation_id e) \<and> 0 < ir_run_id e)"
  unfolding validate_invocation_run_ids_def
  by (subst for_each_seen_Inr[where g = "\<lambda>_ e. is_valid_invocation_id (ir_invocation_id e) \<and> 0 < ir_run_id e"])
    (auto simp: all_set_conv_all_nth)

end
