(* ===== verification/Target_Models.thy ===== *)
theory Target_Models
  imports Model_Common
begin

text \<open>
  The output of an analyzer (\<open>models/analyze.rs\<close>) and of the merge phase
  (\<open>models/targets.rs\<close>) with their cross-field validators: consensus routing, the derived
  delivery fields, and the measurement protocol a bench-eligible target must carry.
\<close>

section \<open>Analyses\<close>

record lens_disposition =
  di_lens :: selection_lens
  di_status :: lens_disposition_status
  di_reason :: "string option"

record analyzer_target =
  at_target_span :: string
  at_bucket :: bucket
  at_fix_signature :: string
  at_hotspot :: hotspot
  at_files :: "string list"
  at_evidence :: string
  at_evidence_queries :: "evidence_query list"
  at_proposed_change :: string
  at_expected_improvement :: improvement_vector
  at_risk :: risk
  at_verification_plan :: string
  at_verification_replay :: "verification_replay option"
  at_consensus_breaking :: bool
  at_breakage_class :: "breakage_class option"
  at_poc_implementable :: "bool option"
  at_poc_test_scope :: "string list option"
  at_consensus_writeup :: "string option"

datatype routing_error =
    BadReplay replay_error
  | BreakageClassRequired | PocImplementableRequired | WriteupRequired
  | BlockValidationPoc | PocScopeRequired | PocScopeForbidden
  | ForbiddenBreakageClass | ForbiddenPocImplementable | ForbiddenPocScope | ForbiddenWriteup
  | ReplayRequired
  | EvidenceRejected evidence_error

definition validate_analyzer_target :: "analyzer_target \<Rightarrow> routing_error check" where
  "validate_analyzer_target t = checks [
     (case at_verification_replay t of
        Some vr \<Rightarrow> with_context BadReplay (validate_verification_replay vr)
      | None \<Rightarrow> Ok_unit),
     (if at_consensus_breaking t then checks [
        bail_if (at_breakage_class t = None) BreakageClassRequired,
        bail_if (at_poc_implementable t = None) PocImplementableRequired,
        bail_if (at_consensus_writeup t = None) WriteupRequired,
        bail_if (at_breakage_class t = Some BlockValidation \<and> at_poc_implementable t \<noteq> Some False)
          BlockValidationPoc,
        (if at_poc_implementable t = Some True
         then (case at_poc_test_scope t of
                 Some s \<Rightarrow> bail_if (s = []) PocScopeRequired
               | None \<Rightarrow> Inl PocScopeRequired)
         else bail_if (at_poc_test_scope t \<noteq> None) PocScopeForbidden)]
      else checks [
        bail_if (at_breakage_class t \<noteq> None) ForbiddenBreakageClass,
        bail_if (at_poc_implementable t \<noteq> None) ForbiddenPocImplementable,
        bail_if (at_poc_test_scope t \<noteq> None) ForbiddenPocScope,
        bail_if (at_consensus_writeup t \<noteq> None) ForbiddenWriteup,
        bail_if (at_verification_replay t = None) ReplayRequired]),
     with_context EvidenceRejected
       (validate_evidence_queries_for_replay (at_evidence_queries t) (at_verification_replay t)
          (\<not> at_consensus_breaking t))]"

record accepted_analysis =
  aa_family_id :: string
  aa_selection_lens :: selection_lens
  aa_lens_disposition :: lens_disposition
  aa_targets :: "analyzer_target list"
  aa_global_materiality_note :: "string option"

record rejected_analysis =
  ra_family_id :: string
  ra_reason :: string

datatype analysis = AcceptedA accepted_analysis | RejectedA rejected_analysis

definition analysis_family_id :: "analysis \<Rightarrow> string" where
  "analysis_family_id a = (case a of AcceptedA x \<Rightarrow> aa_family_id x | RejectedA r \<Rightarrow> ra_family_id r)"

definition analysis_is_accepted :: "analysis \<Rightarrow> bool" where
  "analysis_is_accepted a \<longleftrightarrow> (case a of AcceptedA _ \<Rightarrow> True | RejectedA _ \<Rightarrow> False)"

datatype analysis_error =
    LensMismatch selection_lens selection_lens
  | DispositionReasonRequired
  | AddressedWithoutTargets
  | BadAnalyzerTarget nat routing_error

definition validate_accepted_analysis :: "accepted_analysis \<Rightarrow> analysis_error check" where
  "validate_accepted_analysis a =
     (let d = aa_lens_disposition a
      in checks [
        bail_if (di_lens d \<noteq> aa_selection_lens a) (LensMismatch (di_lens d) (aa_selection_lens a)),
        bail_if (di_status d = NotActionable \<and> di_reason d = None) DispositionReasonRequired,
        bail_if (di_status d = Addressed \<and> aa_targets a = []) AddressedWithoutTargets,
        for_each (\<lambda>i t. with_context (BadAnalyzerTarget i) (validate_analyzer_target t)) 0 (aa_targets a)])"

definition validate_analysis :: "analysis \<Rightarrow> analysis_error check" where
  "validate_analysis a = (case a of AcceptedA x \<Rightarrow> validate_accepted_analysis x | RejectedA _ \<Rightarrow> Ok_unit)"

section \<open>Merged targets\<close>

datatype merge_method = Llm

record merged_from =
  mf_family_id :: string
  mf_target_index :: nat

record rejected_by_merge =
  rm_family_id :: string
  rm_target_index :: nat
  rm_reason :: string

record merged_target =
  mt_id :: string
  mt_merged_from :: "merged_from list"
  mt_convergence_count :: nat
  mt_rank :: "nat option"
  mt_target_span :: string
  mt_bucket :: bucket
  mt_hotspot :: hotspot
  mt_files :: "string list"
  mt_evidence :: string
  mt_evidence_queries :: "evidence_query list"
  mt_proposed_change :: string
  mt_expected_improvement :: improvement_vector
  mt_risk :: risk
  mt_verification_plan :: string
  mt_verification_replay :: "verification_replay option"
  mt_merge_notes :: "string option"
  mt_contributor_differences :: "string list option"
  mt_consensus_breaking :: bool
  mt_breakage_class :: "breakage_class option"
  mt_poc_implementable :: "bool option"
  mt_poc_test_scope :: "string list option"
  mt_consensus_writeup :: "string option"
  mt_delivery_mode :: delivery_mode
  mt_bench_eligible :: bool

datatype merged_target_error =
    Routing routing_error
  | MergedFromEmpty
  | ConvergenceMismatch nat nat
  | ForbiddenConsensusField
  | DeliveryModeMismatch delivery_mode delivery_mode
  | BenchEligibleMismatch bool delivery_mode

definition validate_merged_target :: "merged_target \<Rightarrow> merged_target_error check" where
  "validate_merged_target t = checks [
     (case mt_verification_replay t of
        Some vr \<Rightarrow> with_context (\<lambda>e. Routing (BadReplay e)) (validate_verification_replay vr)
      | None \<Rightarrow> Ok_unit),
     bail_if (mt_merged_from t = []) MergedFromEmpty,
     bail_if (length (mt_merged_from t) \<noteq> mt_convergence_count t)
       (ConvergenceMismatch (mt_convergence_count t) (length (mt_merged_from t))),
     (if mt_consensus_breaking t then checks [
        bail_if (mt_breakage_class t = None) (Routing BreakageClassRequired),
        bail_if (mt_poc_implementable t = None) (Routing PocImplementableRequired),
        bail_if (mt_consensus_writeup t = None) (Routing WriteupRequired),
        bail_if (mt_breakage_class t = Some BlockValidation \<and> mt_poc_implementable t \<noteq> Some False)
          (Routing BlockValidationPoc),
        (if mt_poc_implementable t = Some True
         then (case mt_poc_test_scope t of
                 Some s \<Rightarrow> bail_if (s = []) (Routing PocScopeRequired)
               | None \<Rightarrow> Inl (Routing PocScopeRequired))
         else bail_if (mt_poc_test_scope t \<noteq> None) (Routing PocScopeForbidden))]
      else bail_if (mt_breakage_class t \<noteq> None \<or> mt_poc_implementable t \<noteq> None
             \<or> mt_poc_test_scope t \<noteq> None \<or> mt_consensus_writeup t \<noteq> None) ForbiddenConsensusField),
     (let expected_dm = derive_delivery_mode (mt_consensus_breaking t) (mt_poc_implementable t)
      in bail_if (mt_delivery_mode t \<noteq> expected_dm) (DeliveryModeMismatch (mt_delivery_mode t) expected_dm)),
     bail_if (mt_bench_eligible t \<noteq> mode_bench_eligible (mt_delivery_mode t))
       (BenchEligibleMismatch (mt_bench_eligible t) (mt_delivery_mode t)),
     bail_if (mt_bench_eligible t \<and> mt_verification_replay t = None) (Routing ReplayRequired),
     with_context (\<lambda>e. Routing (EvidenceRejected e))
       (validate_evidence_queries_for_replay (mt_evidence_queries t) (mt_verification_replay t)
          (mt_bench_eligible t))]"

record optimization_targets =
  ot_session_id :: string
  ot_baseline_run_id :: int
  ot_baseline_rerun_id :: int
  ot_noise_floor_pct :: f64
  ot_merge_method :: merge_method
  ot_merge_model :: string
  ot_targets :: "merged_target list"
  ot_rejected_by_merge :: "rejected_by_merge list"
  ot_lens_dispositions :: "lens_disposition_entry list"

datatype optimization_targets_error =
    BadMergedTarget nat merged_target_error
  | DispositionWithoutReason nat string

definition validate_optimization_targets :: "optimization_targets \<Rightarrow> optimization_targets_error check" where
  "validate_optimization_targets o' = checks [
     for_each (\<lambda>i t. with_context (BadMergedTarget i) (validate_merged_target t)) 0 (ot_targets o'),
     for_each (\<lambda>i d. bail_if (ld_status d = NotActionable \<and> ld_reason d = None)
       (DispositionWithoutReason i (ld_family_id d))) 0 (ot_lens_dispositions o')]"

section \<open>What the validators accept\<close>

text \<open>The consensus-routing rule the two validators spell out branch by branch.\<close>

definition routing_ok ::
  "bool \<Rightarrow> breakage_class option \<Rightarrow> bool option \<Rightarrow> string list option \<Rightarrow> string option \<Rightarrow> bool" where
  "routing_ok consensus breakage poc scope writeup \<longleftrightarrow>
     (if consensus
      then breakage \<noteq> None \<and> poc \<noteq> None \<and> writeup \<noteq> None
         \<and> (breakage = Some BlockValidation \<longrightarrow> poc = Some False)
         \<and> (if poc = Some True then (\<exists>s. scope = Some s \<and> s \<noteq> []) else scope = None)
      else breakage = None \<and> poc = None \<and> scope = None \<and> writeup = None)"

definition protocol_ok :: "verification_replay option \<Rightarrow> evidence_query list \<Rightarrow> bool \<Rightarrow> bool" where
  "protocol_ok replay qs required \<longleftrightarrow>
     (\<forall>vr. replay = Some vr \<longrightarrow> validate_verification_replay vr = Ok_unit)
   \<and> (required \<longrightarrow> replay \<noteq> None)
   \<and> validate_evidence_queries_for_replay qs replay required = Ok_unit"

lemma validate_analyzer_target_ok [result_simps]:
  "validate_analyzer_target t = Ok_unit \<longleftrightarrow>
     routing_ok (at_consensus_breaking t) (at_breakage_class t) (at_poc_implementable t)
       (at_poc_test_scope t) (at_consensus_writeup t)
   \<and> protocol_ok (at_verification_replay t) (at_evidence_queries t) (\<not> at_consensus_breaking t)"
  unfolding validate_analyzer_target_def routing_ok_def protocol_ok_def
  by (cases "at_consensus_breaking t"; cases "at_verification_replay t"; cases "at_poc_test_scope t") auto

lemma derive_normal: "derive_delivery_mode c p = NormalPr \<longleftrightarrow> \<not> c"
  by (simp add: derive_delivery_mode_def)

lemma validate_merged_target_ok [result_simps]:
  "validate_merged_target t = Ok_unit \<longleftrightarrow>
     mt_merged_from t \<noteq> [] \<and> mt_convergence_count t = length (mt_merged_from t)
   \<and> routing_ok (mt_consensus_breaking t) (mt_breakage_class t) (mt_poc_implementable t)
       (mt_poc_test_scope t) (mt_consensus_writeup t)
   \<and> mt_delivery_mode t = derive_delivery_mode (mt_consensus_breaking t) (mt_poc_implementable t)
   \<and> mt_bench_eligible t = (\<not> mt_consensus_breaking t)
   \<and> protocol_ok (mt_verification_replay t) (mt_evidence_queries t) (\<not> mt_consensus_breaking t)"
proof (cases "mt_delivery_mode t = derive_delivery_mode (mt_consensus_breaking t) (mt_poc_implementable t)")
  case True
  then show ?thesis
    unfolding validate_merged_target_def routing_ok_def protocol_ok_def Let_def checks_Cons_ok
    by (cases "mt_consensus_breaking t"; cases "mt_verification_replay t"; cases "mt_poc_test_scope t")
      (auto simp: mode_bench_eligible_def derive_normal)
qed (simp add: validate_merged_target_def Let_def)

lemma validate_accepted_analysis_ok:
  "validate_accepted_analysis a = Ok_unit \<longleftrightarrow>
     di_lens (aa_lens_disposition a) = aa_selection_lens a
   \<and> (di_status (aa_lens_disposition a) = NotActionable \<longrightarrow> di_reason (aa_lens_disposition a) \<noteq> None)
   \<and> (di_status (aa_lens_disposition a) = Addressed \<longrightarrow> aa_targets a \<noteq> [])
   \<and> (\<forall>t \<in> set (aa_targets a). validate_analyzer_target t = Ok_unit)"
  by (auto simp: validate_accepted_analysis_def Let_def for_each_Inr all_set_conv_all_nth)

lemma validate_optimization_targets_ok:
  "validate_optimization_targets m = Ok_unit \<longleftrightarrow>
     (\<forall>t \<in> set (ot_targets m). validate_merged_target t = Ok_unit)
   \<and> (\<forall>d \<in> set (ot_lens_dispositions m). ld_status d = NotActionable \<longrightarrow> ld_reason d \<noteq> None)"
  by (auto simp: validate_optimization_targets_def for_each_Inr all_set_conv_all_nth)

section \<open>Properties\<close>

text \<open>C3: a merged target that validates is routed by its consensus flags alone: it is benchmarked
  exactly when it breaks no consensus rule, and then ships as a normal PR with one to sixteen valid
  invocations with pairwise distinct ids that all measure the same axis, and at least one bundled
  evidence query, every one of which supports a listed invocation; when it breaks consensus it ships
  as a proof-of-concept PR with a test scope, or as an issue, and never as a PR when the breakage is
  in block validation.\<close>

theorem merged_target_routing:
  assumes "validate_merged_target t = Ok_unit"
  shows "mt_bench_eligible t = (\<not> mt_consensus_breaking t)
    \<and> (mt_delivery_mode t = NormalPr \<longleftrightarrow> mt_bench_eligible t)
    \<and> (mt_bench_eligible t \<longrightarrow> (\<exists>vr. mt_verification_replay t = Some vr
          \<and> vr_invocations vr \<noteq> [] \<and> length (vr_invocations vr) \<le> 16
          \<and> distinct (map bi_id (vr_invocations vr))
          \<and> (\<forall>iv \<in> set (vr_invocations vr). validate_bench_invocation iv = Ok_unit)
          \<and> (\<exists>axis. \<forall>iv \<in> set (vr_invocations vr). es_axis (bi_expected_signal iv) = axis)
          \<and> mt_evidence_queries t \<noteq> []
          \<and> (\<forall>q \<in> set (mt_evidence_queries t). is_bundled_query_logical_path (eq_sql_path q)
               \<and> eq_supports_invocations q \<noteq> []
               \<and> set (eq_supports_invocations q) \<subseteq> bi_id ` set (vr_invocations vr))))
    \<and> (mt_delivery_mode t = ConsensusPocPr \<longleftrightarrow> mt_consensus_breaking t \<and> mt_poc_implementable t = Some True)
    \<and> (mt_delivery_mode t = ConsensusPocPr \<longrightarrow>
         mt_breakage_class t \<noteq> Some BlockValidation \<and> (\<exists>s. mt_poc_test_scope t = Some s \<and> s \<noteq> []))
    \<and> (mt_breakage_class t = Some BlockValidation \<longrightarrow> mt_delivery_mode t = ConsensusIssue)"
proof -
  have ok: "routing_ok (mt_consensus_breaking t) (mt_breakage_class t) (mt_poc_implementable t)
       (mt_poc_test_scope t) (mt_consensus_writeup t)"
    and dm: "mt_delivery_mode t = derive_delivery_mode (mt_consensus_breaking t) (mt_poc_implementable t)"
    and be: "mt_bench_eligible t = (\<not> mt_consensus_breaking t)"
    and pr: "protocol_ok (mt_verification_replay t) (mt_evidence_queries t) (\<not> mt_consensus_breaking t)"
    using assms by (simp_all add: validate_merged_target_ok)
  show ?thesis
  proof (cases "mt_consensus_breaking t")
    case True
    with ok dm be show ?thesis
      by (auto simp: routing_ok_def derive_delivery_mode_def split: if_splits)
  next
    case False
    with pr obtain vr where vr: "mt_verification_replay t = Some vr"
      "validate_verification_replay vr = Ok_unit"
      "validate_evidence_queries_for_replay (mt_evidence_queries t) (Some vr) True = Ok_unit"
      by (auto simp: protocol_ok_def)
    with False ok dm be show ?thesis
      by (simp add: routing_ok_def derive_delivery_mode_def validate_verification_replay_ok
          validate_evidence_ok validate_evidence_query_ok BENCH_INVOCATION_HARD_MAX_def)
  qed
qed

definition sample_signal :: expected_signal where
  "sample_signal = \<lparr>es_axis = TxLatency, es_direction = Improves, es_estimate_pct = Some (Fin 5), es_tolerance_pct = Some (Fin 1)\<rparr>"

definition sample_replay :: verification_replay where
  "sample_replay = \<lparr>vr_rationale = ''warm'', vr_invocations = [\<lparr>bi_id = ''warm-1'', bi_label = ''w'', bi_purpose = ''p'',
     bi_samples = BlockRange 1 10, bi_warmup = 1, bi_repetitions = 3, bi_profiler = Rich,
     bi_expected_signal = sample_signal\<rparr>], vr_suspected_spans = None\<rparr>"

definition sample_query :: evidence_query where
  "sample_query = \<lparr>eq_purpose = ''p'', eq_sql_path = ''queries/run_summary.sql'', eq_params = [], eq_output_path = ''o'',
     eq_key_observation = ''k'', eq_supports_invocations = [''warm-1'']\<rparr>"

definition sample_target :: analyzer_target where
  "sample_target = \<lparr>at_target_span = ''s'', at_bucket = BlockCommit, at_fix_signature = ''fix'',
     at_hotspot = \<lparr>hs_span = ''s'', hs_self_wall_us = 1, hs_total_wall_us = 2, hs_calls = 3, hs_location = ''a.rs:1''\<rparr>,
     at_files = [], at_evidence = ''e'', at_evidence_queries = [sample_query], at_proposed_change = ''c'',
     at_expected_improvement = \<lparr>iv_tx_latency = Fin 1, iv_tenure_throughput = Fin 0, iv_commit_time = Fin 0\<rparr>,
     at_risk = Low, at_verification_plan = ''v'', at_verification_replay = Some sample_replay,
     at_consensus_breaking = False, at_breakage_class = None, at_poc_implementable = None,
     at_poc_test_scope = None, at_consensus_writeup = None\<rparr>"

text \<open>An analyzer target carried into the merge output on its own, with the derived fields filled in.\<close>

definition carry_target :: "string \<Rightarrow> nat \<Rightarrow> analyzer_target \<Rightarrow> merged_target" where
  "carry_target family i t =
     \<lparr>mt_id = at_fix_signature t, mt_merged_from = [\<lparr>mf_family_id = family, mf_target_index = i\<rparr>],
      mt_convergence_count = 1, mt_rank = None, mt_target_span = at_target_span t, mt_bucket = at_bucket t,
      mt_hotspot = at_hotspot t, mt_files = at_files t, mt_evidence = at_evidence t,
      mt_evidence_queries = at_evidence_queries t, mt_proposed_change = at_proposed_change t,
      mt_expected_improvement = at_expected_improvement t, mt_risk = at_risk t,
      mt_verification_plan = at_verification_plan t, mt_verification_replay = at_verification_replay t,
      mt_merge_notes = None, mt_contributor_differences = None,
      mt_consensus_breaking = at_consensus_breaking t, mt_breakage_class = at_breakage_class t,
      mt_poc_implementable = at_poc_implementable t, mt_poc_test_scope = at_poc_test_scope t,
      mt_consensus_writeup = at_consensus_writeup t,
      mt_delivery_mode = derive_delivery_mode (at_consensus_breaking t) (at_poc_implementable t),
      mt_bench_eligible = mode_bench_eligible (derive_delivery_mode (at_consensus_breaking t) (at_poc_implementable t))\<rparr>"

text \<open>C39: the analyzer-side and the merge-side validators agree on routing, protocol and evidence:
  a target an analyzer emits is accepted if and only if the same target, carried into the merge
  output alone with its delivery fields derived, is accepted there.\<close>

theorem analyzer_and_merge_validators_agree:
  "validate_merged_target (carry_target family i t) = Ok_unit \<longleftrightarrow> validate_analyzer_target t = Ok_unit"
  by (simp add: validate_merged_target_ok validate_analyzer_target_ok carry_target_def
      mode_bench_eligible_def derive_normal)

lemma sample_target_valid: "validate_analyzer_target sample_target = Ok_unit"
proof -
  have "is_valid_invocation_id ''warm-1''" "\<not> is_blank ''warm''" "\<not> is_blank ''w''" "\<not> is_blank ''p''"
    by code_simp+
  then have "validate_verification_replay sample_replay = Ok_unit"
    by (simp add: validate_verification_replay_ok validate_bench_invocation_ok validate_bench_samples_ok
        validate_expected_signal_ok sample_replay_def sample_signal_def BENCH_INVOCATION_HARD_MAX_def)
  moreover have "validate_evidence_queries_for_replay [sample_query] (Some sample_replay) True = Ok_unit"
    by code_simp
  ultimately show ?thesis
    by (simp add: validate_analyzer_target_ok routing_ok_def protocol_ok_def sample_target_def)
qed

theorem merged_target_routing_witness:
  "validate_merged_target (carry_target ''fam'' 0 sample_target) = Ok_unit
   \<and> mt_delivery_mode (carry_target ''fam'' 0 sample_target) = NormalPr"
proof -
  have v: "validate_merged_target (carry_target ''fam'' 0 sample_target) = Ok_unit"
    using sample_target_valid
    by (simp add: validate_merged_target_ok validate_analyzer_target_ok carry_target_def
      mode_bench_eligible_def derive_normal)
  have "mt_consensus_breaking (carry_target ''fam'' 0 sample_target) = False"
    by (simp add: carry_target_def sample_target_def)
  with v merged_target_routing[OF v] show ?thesis by blast
qed

text \<open>The hand-written test for invocation ids accepts exactly the strings of the documented
  pattern: a lowercase letter, optionally followed by at most 38 letters, digits or hyphens and a
  final letter or digit. An accepted id is a single path component without separators or dots.\<close>

theorem invocation_id_matches_pattern:
  "(is_valid_invocation_id s \<longleftrightarrow>
     (\<exists>a. is_ascii_lowercase a \<and> (s = [a] \<or> (\<exists>m z. s = a # m @ [z] \<and> length m \<le> 38
        \<and> list_all (\<lambda>c. is_ascii_lowercase c \<or> is_ascii_digit c \<or> c = CHR ''-'') m
        \<and> (is_ascii_lowercase z \<or> is_ascii_digit z)))))
   \<and> (is_valid_invocation_id s \<longrightarrow> path_components s = [Normal s])"
proof (cases s)
  case Nil
  then show ?thesis by (simp add: is_valid_invocation_id_def)
next
  case s: (Cons a r)
  have chars: "c \<noteq> CHR ''/''" "c \<noteq> CHR ''.''" if "is_ascii_lowercase c \<or> is_ascii_digit c \<or> c = CHR ''-''" for c
    using that by (auto simp: is_ascii_lowercase_def is_ascii_digit_def)
  have "path_components s = [Normal s]" if "is_valid_invocation_id s"
  proof -
    have "\<forall>c \<in> set s. c \<noteq> CHR ''/'' \<and> c \<noteq> CHR ''.''"
      using that chars by (auto simp: is_valid_invocation_id_def list_all_iff split: if_splits)
    then have "CHR ''/'' \<notin> set s" "a \<noteq> CHR ''.''" "a \<noteq> CHR ''/''" using s by auto
    then show ?thesis using s by (auto simp: path_components_def starts_with_def)
  qed
  moreover have "is_valid_invocation_id s \<longleftrightarrow>
     (\<exists>a. is_ascii_lowercase a \<and> (s = [a] \<or> (\<exists>m z. s = a # m @ [z] \<and> length m \<le> 38
        \<and> list_all (\<lambda>c. is_ascii_lowercase c \<or> is_ascii_digit c \<or> c = CHR ''-'') m
        \<and> (is_ascii_lowercase z \<or> is_ascii_digit z))))"
    by (cases r rule: rev_cases) (auto simp: s is_valid_invocation_id_def)
  ultimately show ?thesis by blast
qed

theorem invocation_id_matches_pattern_witness:
  "is_valid_invocation_id ''warm-1'' \<and> path_components ''warm-1'' = [Normal ''warm-1'']"
proof -
  have "is_valid_invocation_id ''warm-1''" by code_simp
  then show ?thesis using invocation_id_matches_pattern[of "''warm-1''"] by blast
qed

end
