(* ===== verification/Dedup.thy ===== *)
theory Dedup
  imports History_Projection Target_Models
begin

text \<open>
  Cross-session dedup by exact fix signature (\<open>session/dedup.rs\<close>): what history says of a signature
  and the deterministic decision that blocks an analyzer target before optimizer fan-out.
\<close>

definition DEDUP_REASON_OPEN_PR :: string where "DEDUP_REASON_OPEN_PR = ''dedup:open-pr''"
definition DEDUP_REASON_OPEN_ISSUE :: string where "DEDUP_REASON_OPEN_ISSUE = ''dedup:open-issue''"
definition DEDUP_REASON_MERGED :: string where "DEDUP_REASON_MERGED = ''dedup:merged''"
definition DEDUP_REASON_REPEATED_FAILURE :: string where
  "DEDUP_REASON_REPEATED_FAILURE = ''dedup:repeated-failure''"

lemmas dedup_reasons = DEDUP_REASON_OPEN_PR_def DEDUP_REASON_OPEN_ISSUE_def DEDUP_REASON_MERGED_def
  DEDUP_REASON_REPEATED_FAILURE_def

definition is_dedup_reason :: "string \<Rightarrow> bool" where
  "is_dedup_reason reason \<longleftrightarrow>
     reason = DEDUP_REASON_OPEN_PR \<or> reason = DEDUP_REASON_OPEN_ISSUE
   \<or> reason = DEDUP_REASON_MERGED \<or> reason = DEDUP_REASON_REPEATED_FAILURE"

record dedup_decision =
  dd_family_id :: string
  dd_target_index :: nat
  dd_fix_signature :: string
  dd_reason :: string
  dd_detail :: string

definition to_rejected_by_merge :: "dedup_decision \<Rightarrow> rejected_by_merge" where
  "to_rejected_by_merge d =
     \<lparr>rm_family_id = dd_family_id d, rm_target_index = dd_target_index d, rm_reason = dd_reason d\<rparr>"

record signature_state =
  ss_open_pr :: "string option"
  ss_open_issue :: "string option"
  ss_merged_pr :: "string option"
  ss_unsuccessful_attempts :: nat

record dedup_projection =
  dp_by_signature :: "(string, signature_state) btree_map"
  dp_threshold :: nat

datatype artifact_state =
    ArtOpen | ArtMerged | ArtClosedUnmerged | ArtStale | ArtBranchDeleted | ArtIssueOpen | ArtIssueClosed

definition signature_state_default :: signature_state where
  "signature_state_default =
     \<lparr>ss_open_pr = None, ss_open_issue = None, ss_merged_pr = None, ss_unsuccessful_attempts = 0\<rparr>"

definition unsuccessful_from_archived_status :: "target_status \<Rightarrow> bool" where
  "unsuccessful_from_archived_status s \<longleftrightarrow> s = Rejected \<or> s = Failed \<or> s = Aborted"

definition artifact_state_from_projection :: "projected_artifact_state \<Rightarrow> artifact_state" where
  "artifact_state_from_projection st =
     (case as_kind st of
        PrOpen \<Rightarrow> ArtOpen | PrForcePushed \<Rightarrow> ArtOpen
      | PrMerged \<Rightarrow> ArtMerged
      | PrClosedUnmerged \<Rightarrow> ArtClosedUnmerged
      | PrStale \<Rightarrow> ArtStale
      | PrBranchDeleted \<Rightarrow> ArtBranchDeleted
      | IssueOpen \<Rightarrow> ArtIssueOpen
      | IssueClosed \<Rightarrow> ArtIssueClosed)"

definition get_or_insert :: "'a option \<Rightarrow> 'a \<Rightarrow> 'a option" where
  "get_or_insert old x = (case old of Some y \<Rightarrow> Some y | None \<Rightarrow> Some x)"

text \<open>\<open>latest_artifact_state(url).map(artifact_state_from_projection).unwrap_or(default)\<close>.\<close>

definition artifact_state_or :: "history_projection \<Rightarrow> artifact_state \<Rightarrow> string \<Rightarrow> artifact_state" where
  "artifact_state_or h dflt url =
     (case latest_artifact_state h url of Some st \<Rightarrow> artifact_state_from_projection st | None \<Rightarrow> dflt)"

definition bump :: "signature_state \<Rightarrow> signature_state" where
  "bump st = st\<lparr>ss_unsuccessful_attempts := ss_unsuccessful_attempts st + 1\<rparr>"

definition note_attempt :: "history_projection \<Rightarrow> projected_attempt \<Rightarrow> signature_state \<Rightarrow> signature_state" where
  "note_attempt h attempt state =
     (let st1 = (if unsuccessful_from_archived_status (pa_status attempt) then bump state else state);
          st2 = (case pa_pr_url attempt of None \<Rightarrow> st1
                 | Some pr_url \<Rightarrow>
                     (case artifact_state_or h ArtOpen pr_url of
                        ArtOpen \<Rightarrow> st1\<lparr>ss_open_pr := get_or_insert (ss_open_pr st1) pr_url\<rparr>
                      | ArtMerged \<Rightarrow> st1\<lparr>ss_merged_pr := Some pr_url\<rparr>
                      | ArtClosedUnmerged \<Rightarrow> bump st1
                      | _ \<Rightarrow> st1))
      in case pa_issue_url attempt of None \<Rightarrow> st2
         | Some issue_url \<Rightarrow>
             (case artifact_state_or h ArtIssueOpen issue_url of
                ArtIssueOpen \<Rightarrow> st2\<lparr>ss_open_issue := get_or_insert (ss_open_issue st2) issue_url\<rparr>
              | ArtIssueClosed \<Rightarrow> bump st2
              | _ \<Rightarrow> st2))"

definition from_history_projection :: "history_projection \<Rightarrow> nat \<Rightarrow> dedup_projection" where
  "from_history_projection history threshold =
     \<lparr>dp_by_signature =
        fold (\<lambda>signature.
          fold (\<lambda>attempt. bt_alter (pa_fix_signature attempt)
                  (\<lambda>v. note_attempt history attempt
                     (case v of None \<Rightarrow> signature_state_default | Some s \<Rightarrow> s)))
            (attempts_for_signature history (ps_fix_signature signature)))
          (signatures history) bt_empty,
      dp_threshold = threshold\<rparr>"

definition dedup_from_ledgers :: "session_record list \<Rightarrow> maint_event list \<Rightarrow> nat \<Rightarrow> dedup_projection" where
  "dedup_from_ledgers sessions maintain_events threshold =
     from_history_projection (from_ledgers_v1 sessions maintain_events) threshold"

definition decision_for ::
  "dedup_projection \<Rightarrow> string \<Rightarrow> nat \<Rightarrow> analyzer_target \<Rightarrow> dedup_decision option" where
  "decision_for p family_id target_index target =
     (case bt_get (dp_by_signature p) (at_fix_signature target) of
        None \<Rightarrow> None
      | Some state \<Rightarrow>
          (let decide = (\<lambda>reason detail. Some
                 \<lparr>dd_family_id = family_id, dd_target_index = target_index,
                  dd_fix_signature = at_fix_signature target, dd_reason = reason, dd_detail = detail\<rparr>)
           in case ss_open_pr state of
                Some url \<Rightarrow> decide DEDUP_REASON_OPEN_PR (''matching open PR: '' @ url)
              | None \<Rightarrow>
             (case ss_open_issue state of
                Some url \<Rightarrow> decide DEDUP_REASON_OPEN_ISSUE (''matching open issue: '' @ url)
              | None \<Rightarrow>
             (case ss_merged_pr state of
                Some url \<Rightarrow> decide DEDUP_REASON_MERGED (''matching merged PR: '' @ url)
              | None \<Rightarrow>
                  if 0 < dp_threshold p \<and> dp_threshold p \<le> ss_unsuccessful_attempts state
                  then decide DEDUP_REASON_REPEATED_FAILURE
                         (show_nat (ss_unsuccessful_attempts state) @ '' unsuccessful archived attempt(s)'')
                  else None))))"

section \<open>What the loop over the attempts computes\<close>

text \<open>What one attempt contributes: an open PR, an open issue, a merged PR, and failures.\<close>

definition open_pr_of :: "history_projection \<Rightarrow> projected_attempt \<Rightarrow> string option" where
  "open_pr_of h a = (case pa_pr_url a of
     Some u \<Rightarrow> if artifact_state_or h ArtOpen u = ArtOpen then Some u else None | None \<Rightarrow> None)"

definition merged_pr_of :: "history_projection \<Rightarrow> projected_attempt \<Rightarrow> string option" where
  "merged_pr_of h a = (case pa_pr_url a of
     Some u \<Rightarrow> if artifact_state_or h ArtOpen u = ArtMerged then Some u else None | None \<Rightarrow> None)"

definition open_issue_of :: "history_projection \<Rightarrow> projected_attempt \<Rightarrow> string option" where
  "open_issue_of h a = (case pa_issue_url a of
     Some u \<Rightarrow> if artifact_state_or h ArtIssueOpen u = ArtIssueOpen then Some u else None | None \<Rightarrow> None)"

definition failures_of :: "history_projection \<Rightarrow> projected_attempt \<Rightarrow> nat" where
  "failures_of h a =
     (if unsuccessful_from_archived_status (pa_status a) then 1 else 0)
   + (case pa_pr_url a of
        Some u \<Rightarrow> if artifact_state_or h ArtOpen u = ArtClosedUnmerged then 1 else 0 | None \<Rightarrow> 0)
   + (case pa_issue_url a of
        Some u \<Rightarrow> if artifact_state_or h ArtIssueOpen u = ArtIssueClosed then 1 else 0 | None \<Rightarrow> 0)"

definition first_some :: "('a \<Rightarrow> 'b option) \<Rightarrow> 'a list \<Rightarrow> 'b option" where
  "first_some f xs = (case List.map_filter f xs of [] \<Rightarrow> None | y # _ \<Rightarrow> Some y)"

lemma first_some_Nil [simp]: "first_some f [] = None"
  by (simp add: first_some_def map_filter_def)

lemma first_some_Cons: "first_some f (x # xs) = (case f x of Some y \<Rightarrow> Some y | None \<Rightarrow> first_some f xs)"
  by (simp add: first_some_def map_filter_def split: option.split)

lemma first_some_append: "first_some f (xs @ ys) = (case first_some f xs of Some y \<Rightarrow> Some y | None \<Rightarrow> first_some f ys)"
  by (induction xs) (auto simp: first_some_Cons split: option.split)

lemma first_some_None: "first_some f xs = None \<longleftrightarrow> (\<forall>x \<in> set xs. f x = None)"
  by (induction xs) (auto simp: first_some_Cons split: option.split)

lemma first_some_Some: "first_some f xs = Some y \<Longrightarrow> \<exists>x \<in> set xs. f x = Some y"
  by (induction xs) (auto simp: first_some_Cons split: option.splits)

lemma signature_state_default_simps [simp]:
  "ss_open_pr signature_state_default = None" "ss_open_issue signature_state_default = None"
  "ss_merged_pr signature_state_default = None" "ss_unsuccessful_attempts signature_state_default = 0"
  by (simp_all add: signature_state_default_def)

lemma note_attempt_fields:
  "ss_open_pr (note_attempt h a st) = (case ss_open_pr st of Some u \<Rightarrow> Some u | None \<Rightarrow> open_pr_of h a)"
  "ss_open_issue (note_attempt h a st) = (case ss_open_issue st of Some u \<Rightarrow> Some u | None \<Rightarrow> open_issue_of h a)"
  "ss_merged_pr (note_attempt h a st) = (case merged_pr_of h a of Some u \<Rightarrow> Some u | None \<Rightarrow> ss_merged_pr st)"
  "ss_unsuccessful_attempts (note_attempt h a st) = ss_unsuccessful_attempts st + failures_of h a"
  by (auto simp: note_attempt_def bump_def get_or_insert_def open_pr_of_def open_issue_of_def
      merged_pr_of_def failures_of_def Let_def split: option.split artifact_state.split)

lemma fold_note_attempt:
  "ss_open_pr (fold (note_attempt h) as st) = (case ss_open_pr st of Some u \<Rightarrow> Some u | None \<Rightarrow> first_some (open_pr_of h) as)"
  "ss_open_issue (fold (note_attempt h) as st) =
     (case ss_open_issue st of Some u \<Rightarrow> Some u | None \<Rightarrow> first_some (open_issue_of h) as)"
  "ss_merged_pr (fold (note_attempt h) as st) =
     (case first_some (merged_pr_of h) (rev as) of Some u \<Rightarrow> Some u | None \<Rightarrow> ss_merged_pr st)"
  "ss_unsuccessful_attempts (fold (note_attempt h) as st) =
     ss_unsuccessful_attempts st + sum_list (map (failures_of h) as)"
  by (induction as arbitrary: st)
    (auto simp: note_attempt_fields first_some_Cons first_some_append split: option.split)

lemma from_history_projection_alter_all:
  "dp_by_signature (from_history_projection h threshold) =
   bt.alter_all pa_fix_signature
     (\<lambda>a v. note_attempt h a (case v of None \<Rightarrow> signature_state_default | Some s \<Rightarrow> s))
     (concat (map (\<lambda>s. attempts_for_signature h (ps_fix_signature s)) (signatures h))) bt_empty"
proof -
  have "fold (\<lambda>s. fold f (g s)) ss m = fold f (concat (map g ss)) m" for f g ss and m :: 'c
    by (induction ss arbitrary: m) simp_all
  then show ?thesis
    by (simp add: from_history_projection_def bt.alter_all_def)
qed

lemma fold_note_option:
  "fold (\<lambda>a v. Some (note_attempt h a (case v of None \<Rightarrow> signature_state_default | Some s \<Rightarrow> s))) as v =
     (if as = [] then v
      else Some (fold (note_attempt h) as (case v of None \<Rightarrow> signature_state_default | Some s \<Rightarrow> s)))"
  by (induction as arbitrary: v) auto

section \<open>How often a signature is visited\<close>

lemma filter_concat_eq_replicate:
  assumes "\<And>s. s \<in> set ss \<Longrightarrow> key s = k \<Longrightarrow> g s = xs" "\<And>s x. s \<in> set ss \<Longrightarrow> x \<in> set (g s) \<Longrightarrow> P x \<longleftrightarrow> key s = k"
  shows "filter P (concat (map g ss)) = concat (replicate (length (filter (\<lambda>s. key s = k) ss)) xs)"
  using assms
proof (induction ss)
  case (Cons s ss)
  have "filter P (g s) = (if key s = k then xs else [])"
    using Cons.prems(1)[of s] Cons.prems(2)[of s] by (auto simp: filter_id_conv filter_empty_conv)
  moreover have "filter P (concat (map g ss)) = concat (replicate (length (filter (\<lambda>s. key s = k) ss)) xs)"
    by (rule Cons.IH) (use Cons.prems in auto)
  ultimately show ?case by simp
qed simp

lemma attempts_for_signature_key:
  "a \<in> set (attempts_for_signature (from_ledgers_v1 sessions events) sig) \<Longrightarrow> pa_fix_signature a = sig"
  by (simp add: attempts_for_signature_from_ledgers sort_attempts_newest_first_def)

text \<open>The families that have a row of a signature.\<close>

definition families_of :: "session_record list \<Rightarrow> string \<Rightarrow> string set" where
  "families_of sessions sig =
     pa_family_id ` {a \<in> set (ledger_attempts sessions). pa_fix_signature a = sig}"

lemma in_families_of:
  "fam \<in> families_of sessions sig \<longleftrightarrow>
     (\<exists>a \<in> set (ledger_attempts sessions). pa_fix_signature a = sig \<and> pa_family_id a = fam)"
  by (auto simp: families_of_def)

lemma length_filter_concat:
  "length (filter P (concat xss)) = sum_list (map (\<lambda>xs. length (filter P xs)) xss)"
  by (induction xss) simp_all

lemma length_filter_distinct_key:
  "distinct (map key xs) \<Longrightarrow> length (filter (\<lambda>x. key x = k) xs) = (if k \<in> key ` set xs then 1 else 0)"
proof (induction xs)
  case (Cons x xs)
  then show ?case by (auto simp: filter_empty_conv)
qed simp

lemma sum_list_indicator:
  assumes "distinct (map fst es)"
  shows "sum_list (map (\<lambda>e. if Q e then 1 else (0::nat)) es) = card (fst ` {e \<in> set es. Q e})"
proof -
  have inj: "inj_on fst {e \<in> set es. Q e}" and d: "distinct es"
    using assms by (auto simp: distinct_map inj_on_def)
  have "sum_list (map (\<lambda>e. if Q e then 1 else (0::nat)) es) = length (filter Q es)"
    by (induction es) simp_all
  also have "\<dots> = card (set (filter Q es))" using d by (metis distinct_card distinct_filter)
  also have "set (filter Q es) = {e \<in> set es. Q e}" by auto
  finally show ?thesis using inj by (simp add: card_image)
qed

lemma family_signatures_keys:
  assumes "bt_invar m"
  shows "ps_fix_signature ` set (family_signatures m) = {k. bt_get m k \<noteq> None}"
proof -
  have "ps_fix_signature ` set (family_signatures m) = set (map fst m)"
    by (force simp: family_signatures_def)
  then show ?thesis using bt.keys_entries[OF assms] by simp
qed

lemma signature_visits:
  "length (filter (\<lambda>s. ps_fix_signature s = sig) (signatures (from_ledgers_v1 sessions events)))
     = card (families_of sessions sig)"
proof -
  let ?raw = "fold push_family_signature (ledger_attempts sessions) bt_empty"
  let ?h = "from_ledgers_v1 sessions events"
  have hp: "hp_signatures_by_family ?h = bt_map_values family_signatures ?raw"
    by (simp add: from_ledgers_v1_def Let_def)
  have inv: "bt_invar (hp_signatures_by_family ?h)" by (simp add: hp family_map_invar)
  have entry: "(fam, v) \<in> set (hp_signatures_by_family ?h) \<longleftrightarrow>
      filter (\<lambda>a. pa_family_id a = fam) (ledger_attempts sessions) \<noteq> []
      \<and> v = family_signatures (group_by pa_fix_signature (\<lambda>a. a)
              (filter (\<lambda>a. pa_family_id a = fam) (ledger_attempts sessions)))" for fam v
  proof -
    have "bt_get (hp_signatures_by_family ?h) fam =
        map_option family_signatures (bt_get ?raw fam)"
      unfolding hp by (rule bt_map_values_get)
    moreover have "(fam, v) \<in> set (hp_signatures_by_family ?h) \<longleftrightarrow>
        bt_get (hp_signatures_by_family ?h) fam = Some v"
      using bt.in_entries_iff[OF inv, of fam v] unfolding id_apply .
    ultimately show ?thesis
      unfolding family_map_get Let_def by (auto split: if_splits)
  qed
  have keys: "sig \<in> ps_fix_signature ` set v \<longleftrightarrow> fam \<in> families_of sessions sig"
    and dist: "distinct (map ps_fix_signature v)"
    if "(fam, v) \<in> set (hp_signatures_by_family ?h)" for fam v
    using that unfolding entry
    by (auto simp: family_signatures_keys family_signatures_distinct group_by_get
        filter_empty_conv in_families_of Let_def split: if_splits)
  have "length (filter (\<lambda>s. ps_fix_signature s = sig) (signatures ?h))
      = sum_list (map (\<lambda>e. if fst e \<in> families_of sessions sig then 1 else 0) (hp_signatures_by_family ?h))"
    unfolding signatures_def length_filter_concat map_map comp_def
    by (intro arg_cong[where f = sum_list] map_cong refl)
      (clarsimp simp del: length_0_conv simp: keys length_filter_distinct_key[OF dist])
  also have "\<dots> = card (fst ` {e \<in> set (hp_signatures_by_family ?h). fst e \<in> families_of sessions sig})"
    using bt.distinct_keys[OF inv] by (simp add: sum_list_indicator)
  also have "fst ` {e \<in> set (hp_signatures_by_family ?h). fst e \<in> families_of sessions sig} = families_of sessions sig"
    using entry by (force simp: image_iff filter_empty_conv families_of_def)
  finally show ?thesis .
qed

lemma dedup_get:
  fixes sessions :: "session_record list" and events :: "maint_event list" and sig :: string
  defines "h \<equiv> from_ledgers_v1 sessions events"
  defines "visits \<equiv> concat (replicate (card (families_of sessions sig)) (attempts_for_signature h sig))"
  shows "bt_get (dp_by_signature (dedup_from_ledgers sessions events threshold)) sig =
    (if visits = [] then None else Some (fold (note_attempt h) visits signature_state_default))"
proof -
  have "filter (\<lambda>a. pa_fix_signature a = sig)
      (concat (map (\<lambda>s. attempts_for_signature h (ps_fix_signature s)) (signatures h))) = visits"
    unfolding visits_def h_def signature_visits[symmetric, where events = events]
    by (rule filter_concat_eq_replicate) (auto dest: attempts_for_signature_key)
  then show ?thesis
    by (simp add: dedup_from_ledgers_def from_history_projection_alter_all bt.get_alter_all
        fold_note_option h_def[symmetric])
qed

lemma first_some_replicate:
  "first_some f (concat (replicate k xs)) = (if k = 0 then None else first_some f xs)"
proof (induction k)
  case (Suc k)
  then show ?case by (cases "first_some f xs") (auto simp: first_some_append)
qed simp

lemma rev_concat_replicate: "rev (concat (replicate k xs)) = concat (replicate k (rev xs))"
proof (induction k)
  case (Suc k)
  have "concat (replicate k ys) @ ys = ys @ concat (replicate k ys)" for ys :: "'a list"
    by (induction k) simp_all
  with Suc show ?case by simp
qed simp

lemma sum_list_replicate_concat:
  "sum_list (map f (concat (replicate k xs))) = k * (sum_list (map f xs) :: nat)"
  by (induction k) (simp_all add: algebra_simps)

lemma families_of_empty:
  "families_of sessions sig = {} \<longleftrightarrow> attempts_for_signature (from_ledgers_v1 sessions events) sig = []"
  by (auto simp: families_of_def attempts_for_signature_from_ledgers sort_attempts_newest_first_def filter_empty_conv)

lemma families_of_card_pos:
  "0 < card (families_of sessions sig) \<longleftrightarrow> attempts_for_signature (from_ledgers_v1 sessions events) sig \<noteq> []"
proof -
  have "finite (families_of sessions sig)" by (simp add: families_of_def)
  then show ?thesis using families_of_empty[of sessions sig events] by (simp add: card_gt_0_iff)
qed

section \<open>Properties\<close>

text \<open>C1: the dedup decision for an analyzer target, from the two ledgers. With the archived attempts
  of its fix signature newest first: an attempt whose PR is open (or has no recorded state) blocks it
  and the newest such PR is named; otherwise an open (or unrecorded) issue does; otherwise a merged
  PR does, the oldest being named; otherwise it is blocked when a non-zero threshold is reached by
  the failures (archived as rejected, failed or aborted, a PR closed unmerged, an issue closed)
  counted once per family that has the signature. In every other case, and for a signature that was
  never archived, there is no decision.\<close>

theorem dedup_decision_spec:
  fixes sessions :: "session_record list" and events :: "maint_event list" and t :: analyzer_target
  shows "let h = from_ledgers_v1 sessions events; sig = at_fix_signature t;
       as = attempts_for_signature h sig;
       failures = card (families_of sessions sig) * sum_list (map (failures_of h) as);
       decide = (\<lambda>reason detail. Some \<lparr>dd_family_id = fam, dd_target_index = i, dd_fix_signature = sig,
                   dd_reason = reason, dd_detail = detail\<rparr>)
     in decision_for (dedup_from_ledgers sessions events threshold) fam i t =
        (case first_some (open_pr_of h) as of
           Some url \<Rightarrow> decide DEDUP_REASON_OPEN_PR (''matching open PR: '' @ url)
         | None \<Rightarrow> (case first_some (open_issue_of h) as of
             Some url \<Rightarrow> decide DEDUP_REASON_OPEN_ISSUE (''matching open issue: '' @ url)
           | None \<Rightarrow> (case first_some (merged_pr_of h) (rev as) of
               Some url \<Rightarrow> decide DEDUP_REASON_MERGED (''matching merged PR: '' @ url)
             | None \<Rightarrow> if 0 < threshold \<and> threshold \<le> failures
                       then decide DEDUP_REASON_REPEATED_FAILURE
                              (show_nat failures @ '' unsuccessful archived attempt(s)'')
                       else None)))"
proof -
  define h where "h = from_ledgers_v1 sessions events"
  define as where "as = attempts_for_signature h (at_fix_signature t)"
  define k where "k = card (families_of sessions (at_fix_signature t))"
  have kpos: "k \<noteq> 0 \<longleftrightarrow> as \<noteq> []"
    using families_of_card_pos[of sessions "at_fix_signature t" events] by (simp add: k_def as_def h_def)
  then have vis: "concat (replicate k as) = [] \<longleftrightarrow> as = []" by (cases k) auto
  have thr: "dp_threshold (dedup_from_ledgers sessions events threshold) = threshold"
    by (simp add: dedup_from_ledgers_def from_history_projection_def)
  note get = dedup_get[where sessions = sessions and events = events and sig = "at_fix_signature t" and threshold = threshold, folded h_def as_def k_def, folded as_def]
  note fields = fold_note_attempt[of h "concat (replicate k as)" signature_state_default]
  show ?thesis
  proof (cases "as = []")
    case True
    then show ?thesis
      unfolding Let_def decision_for_def h_def[symmetric] as_def[symmetric] k_def[symmetric] get thr
      by simp arith
  next
    case False
    with kpos have k: "k \<noteq> 0" by simp
    show ?thesis
      unfolding Let_def decision_for_def h_def[symmetric] as_def[symmetric] k_def[symmetric] get vis thr
      using False k
      by (simp add: fields first_some_replicate rev_concat_replicate
          sum_list_replicate_concat split: option.split)
  qed
qed

definition archived_row :: "string \<Rightarrow> string \<Rightarrow> target_status \<Rightarrow> target_record" where
  "archived_row sig family status =
     \<lparr>tr_id = sig, tr_family_id = family, tr_bucket = ''block_commit'', tr_delivery_mode = NormalPr,
      tr_status = status, tr_status_stage = (if status = Accepted then None else Some Bench),
      tr_reason_code = None, tr_head_sha = None, tr_pr_url = None, tr_issue_url = None, tr_bench = None\<rparr>"

definition archived_session :: "string \<Rightarrow> string \<Rightarrow> target_record list \<Rightarrow> session_record" where
  "archived_session sid finished targets =
     \<lparr>sr_kind = SessionCompleted, sr_id = sid, sr_artifact_branch = ''b'', sr_artifact_sha = ''a'', sr_artifact_url = None,
      sr_started_at = finished, sr_finished_at = finished, sr_status = Succeeded, sr_failure_phase = None,
      sr_failure_reason = None, sr_sbagent_version = ''v'', sr_sbagent_git_sha = None,
      sr_range = \<lparr>rg_start_at = None, rg_count = None, rg_warmup = None, rg_filter = None, rg_network = ''mainnet''\<rparr>,
      sr_baseline_run_ids = [], sr_phase_durations_secs = [], sr_targets = targets,
      sr_source_url = None, sr_source_branch = None, sr_source_sha = None, sr_source_fetched_at = None\<rparr>"

text \<open>Failures are counted once per family: with a signature archived as rejected once in each
  of two families, the projection holds two attempts of it, but four unsuccessful attempts, so that a
  threshold of four blocks it and says so.\<close>

theorem dedup_counts_attempts_per_family:
  "let sessions = [archived_session ''s1'' ''2026-01-01'' [archived_row ''fix'' ''fam-a'' Rejected],
                   archived_session ''s2'' ''2026-01-02'' [archived_row ''fix'' ''fam-b'' Rejected]]
   in length (attempts_for_signature (from_ledgers_v1 sessions []) ''fix'') = 2
    \<and> map_option dd_detail (decision_for (dedup_from_ledgers sessions [] 4) ''fam-a'' 0 sample_target)
        = Some ''4 unsuccessful archived attempt(s)''"
  unfolding Let_def by (rule conjI; code_simp)

end
