(* ===== verification/Merge.thy ===== *)
theory Merge
  imports Dedup
begin

text \<open>
  Phase 1.7 (\<open>session/merge.rs\<close>): the dedup filter before the LLM consolidation pass, the two
  shortcuts that skip it, and the validator of the merge output against the source analyses. The
  rendered prompt and the agent harness are a parameter: one invocation is the record of what the
  coordinator observes of it.
\<close>

section \<open>Dedup filter\<close>

fun filter_targets ::
  "dedup_projection \<Rightarrow> string \<Rightarrow> nat \<Rightarrow> analyzer_target list \<Rightarrow> analyzer_target list \<times> dedup_decision list" where
  "filter_targets p family idx [] = ([], [])"
| "filter_targets p family idx (t # ts) =
     (let (kept, decisions) = filter_targets p family (Suc idx) ts
      in case decision_for p family idx t of
           Some d \<Rightarrow> (kept, d # decisions)
         | None \<Rightarrow> (t # kept, decisions))"

fun filter_accepted_for_dedup ::
  "dedup_projection \<Rightarrow> accepted_analysis list \<Rightarrow> accepted_analysis list \<times> dedup_decision list" where
  "filter_accepted_for_dedup p [] = ([], [])"
| "filter_accepted_for_dedup p (a # as) =
     (let (kept, ds) = filter_targets p (aa_family_id a) 0 (aa_targets a);
          (filtered, decisions) = filter_accepted_for_dedup p as
      in (a\<lparr>aa_targets := kept\<rparr> # filtered, ds @ decisions))"

definition dedup_rejections :: "dedup_decision list \<Rightarrow> rejected_by_merge list" where
  "dedup_rejections decisions = map to_rejected_by_merge decisions"

definition lens_dispositions_from_accepted :: "accepted_analysis list \<Rightarrow> lens_disposition_entry list" where
  "lens_dispositions_from_accepted accepted =
     map (\<lambda>a. \<lparr>ld_family_id = aa_family_id a, ld_lens = di_lens (aa_lens_disposition a),
               ld_status = di_status (aa_lens_disposition a), ld_reason = di_reason (aa_lens_disposition a)\<rparr>)
       accepted"

definition dedup_summary_markdown :: "dedup_decision list \<Rightarrow> string" where
  "dedup_summary_markdown decisions =
     (if decisions = [] then ''none''
      else join_strings ''; ''
        (map (\<lambda>d. dd_family_id d @ '' target['' @ show_nat (dd_target_index d) @ ''] '' @ dd_reason d
                  @ '' ('' @ dd_detail d @ '')'') decisions))"

section \<open>The output validator\<close>

datatype merge_output_error =
    MergeModel optimization_targets_error
  | CoverageFailed nat nat
  | DedupRejectionFailed
  | UnknownDedupReason string string nat
  | LensCoverageFailed
  | CrossBucket string nat
  | IntraAnalysis string string
  | CrossConsensus string nat
  | EvidenceMismatch string nat nat

text \<open>The pairs \<open>(family_id, target_index)\<close> of the accepted analyses with their targets, in loop order.\<close>

definition analysis_pairs :: "accepted_analysis list \<Rightarrow> ((string \<times> nat) \<times> analyzer_target) list" where
  "analysis_pairs accepted =
     concat (map (\<lambda>a. map (\<lambda>(i, t). ((aa_family_id a, i), t)) (List.enumerate 0 (aa_targets a))) accepted)"

definition mf_pair :: "merged_from \<Rightarrow> string \<times> nat" where
  "mf_pair mf = (mf_family_id mf, mf_target_index mf)"

definition rm_pair :: "rejected_by_merge \<Rightarrow> string \<times> nat" where
  "rm_pair r = (rm_family_id r, rm_target_index r)"

text \<open>The references of the output in the order they are put into \<open>accounted\<close>.\<close>

definition accounted_pairs :: "optimization_targets \<Rightarrow> (string \<times> nat) list" where
  "accounted_pairs m =
     concat (map (\<lambda>t. map mf_pair (mt_merged_from t)) (ot_targets m)) @ map rm_pair (ot_rejected_by_merge m)"

fun intra_analysis_check :: "string \<Rightarrow> string set \<Rightarrow> merged_from list \<Rightarrow> merge_output_error check" where
  "intra_analysis_check tid seen [] = Ok_unit"
| "intra_analysis_check tid seen (mf # mfs) =
     (if mf_family_id mf \<in> seen then Inl (IntraAnalysis tid (mf_family_id mf))
      else intra_analysis_check tid (insert (mf_family_id mf) seen) mfs)"

text \<open>The values a merged target's references have in one of the per-pair maps, as a set.\<close>

definition contributor_values ::
  "((string \<times> nat), 'v) btree_map \<Rightarrow> merged_target \<Rightarrow> 'v set" where
  "contributor_values m t = set (List.map_filter (\<lambda>mf. bt_get m (mf_pair mf)) (mt_merged_from t))"

definition single_valued_check :: "'v set \<Rightarrow> 'v \<Rightarrow> bool" where
  "single_valued_check vs v \<longleftrightarrow> 1 < card vs \<or> (card vs = 1 \<and> v \<notin> vs)"

definition validate_merge_output_with_dedup ::
  "optimization_targets \<Rightarrow> accepted_analysis list \<Rightarrow> dedup_decision list \<Rightarrow> merge_output_error check" where
  "validate_merge_output_with_dedup m accepted expected_dedup =
     (let pairs = analysis_pairs accepted;
          expected_pairs = set (map fst pairs);
          accepted_family_ids = set (map aa_family_id accepted);
          bucket_by_pair = insert_all fst (\<lambda>(_, t). at_bucket t) pairs;
          consensus_by_pair = insert_all fst (\<lambda>(_, t). (at_consensus_breaking t, at_breakage_class t)) pairs;
          evidence_by_pair = insert_all fst (\<lambda>(_, t). at_evidence_queries t) pairs;
          accounted = set (accounted_pairs m);
          duplicate = (\<not> distinct (accounted_pairs m));
          dedup_rows = filter (\<lambda>r. starts_with (rm_reason r) ''dedup:'') (ot_rejected_by_merge m);
          present_lens = map ld_family_id (ot_lens_dispositions m)
      in checks [
        with_context MergeModel (validate_optimization_targets m),
        bail_if (duplicate \<or> accounted \<noteq> expected_pairs)
          (CoverageFailed (card expected_pairs) (card accounted)),
        bail_if (set (map (\<lambda>r. (rm_family_id r, rm_target_index r, rm_reason r)) dedup_rows)
                 \<noteq> set (map (\<lambda>d. (dd_family_id d, dd_target_index d, dd_reason d)) expected_dedup))
          DedupRejectionFailed,
        for_each (\<lambda>_ r. bail_if (starts_with (rm_reason r) ''dedup:'' \<and> \<not> is_dedup_reason (rm_reason r))
            (UnknownDedupReason (rm_reason r) (rm_family_id r) (rm_target_index r))) 0 (ot_rejected_by_merge m),
        bail_if (\<not> distinct present_lens \<or> set present_lens \<noteq> accepted_family_ids) LensCoverageFailed,
        for_each (\<lambda>_ t. bail_if (single_valued_check (contributor_values bucket_by_pair t) (mt_bucket t))
            (CrossBucket (mt_id t) (card (contributor_values bucket_by_pair t)))) 0 (ot_targets m),
        for_each (\<lambda>_ t. intra_analysis_check (mt_id t) {} (mt_merged_from t)) 0 (ot_targets m),
        for_each (\<lambda>_ t. bail_if (single_valued_check (contributor_values consensus_by_pair t)
              (mt_consensus_breaking t, mt_breakage_class t))
            (CrossConsensus (mt_id t) (card (contributor_values consensus_by_pair t)))) 0 (ot_targets m),
        for_each (\<lambda>_ t.
            (let expected = set (concat (List.map_filter (\<lambda>mf. bt_get evidence_by_pair (mf_pair mf)) (mt_merged_from t)))
             in bail_if (set (mt_evidence_queries t) \<noteq> expected)
                  (EvidenceMismatch (mt_id t) (card expected) (card (set (mt_evidence_queries t)))))) 0
          (ot_targets m)])"

definition validate_merge_output ::
  "optimization_targets \<Rightarrow> accepted_analysis list \<Rightarrow> merge_output_error check" where
  "validate_merge_output m accepted = validate_merge_output_with_dedup m accepted []"

section \<open>The phase\<close>

text \<open>The session-level fields of \<open>candidates.json\<close> the phase copies.\<close>

record candidates_header =
  ch_session_id :: string
  ch_baseline_run_id :: int
  ch_baseline_rerun_id :: int
  ch_noise_floor_pct :: f64

definition empty_targets ::
  "candidates_header \<Rightarrow> rejected_by_merge list \<Rightarrow> lens_disposition_entry list \<Rightarrow> optimization_targets" where
  "empty_targets c rejected lens =
     \<lparr>ot_session_id = ch_session_id c, ot_baseline_run_id = ch_baseline_run_id c,
      ot_baseline_rerun_id = ch_baseline_rerun_id c, ot_noise_floor_pct = ch_noise_floor_pct c,
      ot_merge_method = Llm, ot_merge_model = [], ot_targets = [], ot_rejected_by_merge = rejected,
      ot_lens_dispositions = lens\<rparr>"

text \<open>
  What the coordinator observes of one LLM invocation: the conversation id, whether the two output
  files are present and non-empty, their modification times before and after (\<open>None\<close> when
  unreadable), and the parsed targets.
\<close>

record 'e merge_invocation =
  mi_conversation_id :: "string option"
  mi_targets_non_empty :: bool
  mi_message_non_empty :: bool
  mi_pre_targets_mtime :: "int option"
  mi_post_targets_mtime :: "int option"
  mi_pre_message_mtime :: "int option"
  mi_post_message_mtime :: "int option"
  mi_targets :: "'e + optimization_targets"

record merge_outputs =
  mo_accepted_input_count :: nat
  mo_merged_target_count :: nat
  mo_empty_input_shortcut :: bool
  mo_deduped_target_count :: nat
  mo_llm_invoked :: bool
  mo_conversation_id :: "string option"

datatype 'e merge_error =
    LoadFailed 'e
  | AnalysisInvalid string analysis_error
  | HistoryFailed 'e
  | InvokeFailed 'e
  | TargetsMissing | MessageMissing | TargetsStale | MessageStale
  | TargetsUnreadable 'e
  | OutputInvalid merge_output_error

definition accepted_of :: "(string, analysis) btree_map \<Rightarrow> accepted_analysis list" where
  "accepted_of analyses =
     List.map_filter (\<lambda>(_, a). case a of AcceptedA x \<Rightarrow> Some x | RejectedA _ \<Rightarrow> None) analyses"

definition stale_mtime :: "int option \<Rightarrow> int option \<Rightarrow> bool" where
  "stale_mtime pre post \<longleftrightarrow> (case (pre, post) of (Some a, Some b) \<Rightarrow> b = a | _ \<Rightarrow> False)"

text \<open>
  The dedup inputs: the shared projection of a chained run, or one read from the operator ledgers.
\<close>

definition compute_dedup_filtered_inputs ::
  "history_projection option \<Rightarrow> 'e + history_projection \<Rightarrow> nat \<Rightarrow> accepted_analysis list
     \<Rightarrow> 'e + (accepted_analysis list \<times> dedup_decision list)" where
  "compute_dedup_filtered_inputs shared ledgers threshold accepted =
     (case (case shared of Some h \<Rightarrow> Inr h | None \<Rightarrow> ledgers) of
        Inl e \<Rightarrow> Inl e
      | Inr history \<Rightarrow> Inr (filter_accepted_for_dedup (from_history_projection history threshold) accepted))"

text \<open>
  The phase returns its result with the \<open>optimization-targets.json\<close> the coordinator has written, if it
  has: the file is written before it is validated. The coordinator's own file writes succeed.
\<close>

definition merge_run ::
  "'e + candidates_header \<Rightarrow> 'e + (string, analysis) btree_map \<Rightarrow> history_projection option
     \<Rightarrow> 'e + history_projection \<Rightarrow> nat
     \<Rightarrow> (accepted_analysis list \<Rightarrow> dedup_decision list \<Rightarrow> 'e + 'e merge_invocation)
     \<Rightarrow> ('e merge_error + merge_outputs) \<times> optimization_targets option" where
  "merge_run candidates analyses shared ledgers threshold invoke =
     (case candidates of Inl e \<Rightarrow> (Inl (LoadFailed e), None) | Inr c \<Rightarrow>
      case analyses of Inl e \<Rightarrow> (Inl (LoadFailed e), None) | Inr analyses_map \<Rightarrow>
      case for_each (\<lambda>_ (fid, a). with_context (AnalysisInvalid fid) (validate_analysis a)) 0 analyses_map of
        Inl e \<Rightarrow> (Inl e, None)
      | Inr _ \<Rightarrow>
     (let accepted = accepted_of analyses_map
      in if length accepted = 0 then
           (let empty = empty_targets c [] []
            in case validate_merge_output empty accepted of
                 Inl e \<Rightarrow> (Inl (OutputInvalid e), Some empty)
               | Inr _ \<Rightarrow> (Inr \<lparr>mo_accepted_input_count = 0, mo_merged_target_count = 0,
                   mo_empty_input_shortcut = True, mo_deduped_target_count = 0, mo_llm_invoked = False,
                   mo_conversation_id = None\<rparr>, Some empty))
         else
           (case compute_dedup_filtered_inputs shared ledgers threshold accepted of
              Inl e \<Rightarrow> (Inl (HistoryFailed e), None)
            | Inr (filtered, decisions) \<Rightarrow>
               if list_all (\<lambda>a. aa_targets a = []) filtered then
                 (let empty = empty_targets c (dedup_rejections decisions) (lens_dispositions_from_accepted accepted)
                  in case validate_merge_output_with_dedup empty accepted decisions of
                       Inl e \<Rightarrow> (Inl (OutputInvalid e), Some empty)
                     | Inr _ \<Rightarrow> (Inr \<lparr>mo_accepted_input_count = length accepted, mo_merged_target_count = 0,
                         mo_empty_input_shortcut = False, mo_deduped_target_count = length decisions,
                         mo_llm_invoked = False, mo_conversation_id = None\<rparr>, Some empty))
               else
                 (case invoke filtered decisions of Inl e \<Rightarrow> (Inl (InvokeFailed e), None)
                  | Inr out \<Rightarrow>
                    if \<not> mi_targets_non_empty out then (Inl TargetsMissing, None)
                    else if \<not> mi_message_non_empty out then (Inl MessageMissing, None)
                    else if stale_mtime (mi_pre_targets_mtime out) (mi_post_targets_mtime out) then (Inl TargetsStale, None)
                    else if stale_mtime (mi_pre_message_mtime out) (mi_post_message_mtime out) then (Inl MessageStale, None)
                    else case mi_targets out of Inl e \<Rightarrow> (Inl (TargetsUnreadable e), None)
                    | Inr raw \<Rightarrow>
                      (let m = raw\<lparr>ot_rejected_by_merge := ot_rejected_by_merge raw @ dedup_rejections decisions\<rparr>
                       in case validate_merge_output_with_dedup m accepted decisions of
                            Inl e \<Rightarrow> (Inl (OutputInvalid e), Some m)
                          | Inr _ \<Rightarrow> (Inr \<lparr>mo_accepted_input_count = length accepted,
                              mo_merged_target_count = length (ot_targets m), mo_empty_input_shortcut = False,
                              mo_deduped_target_count = length decisions, mo_llm_invoked = True,
                              mo_conversation_id = mi_conversation_id out\<rparr>, Some m))))))"

section \<open>What the validator accepts\<close>

lemma in_analysis_pairs:
  "((fam, i), t) \<in> set (analysis_pairs accepted) \<longleftrightarrow>
     (\<exists>a \<in> set accepted. aa_family_id a = fam \<and> i < length (aa_targets a) \<and> aa_targets a ! i = t)"
  by (force simp: analysis_pairs_def in_set_enumerate_eq)

lemma analysis_pairs_keys:
  "set (map fst (analysis_pairs accepted)) =
     {(aa_family_id a, i) | a i. a \<in> set accepted \<and> i < length (aa_targets a)}"
  by (force simp: analysis_pairs_def in_set_enumerate_eq image_iff)

text \<open>With distinct family ids, a pair's entry in a per-pair map is the value of its one target.\<close>

lemma pair_lookup:
  assumes "distinct (map aa_family_id accepted)" "a \<in> set accepted" "i < length (aa_targets a)"
  shows "bt_get (insert_all fst (\<lambda>(_, t). f t) (analysis_pairs accepted)) (aa_family_id a, i)
    = Some (f (aa_targets a ! i))"
proof -
  let ?ys = "filter (\<lambda>x. fst x = (aa_family_id a, i)) (analysis_pairs accepted)"
  have all: "x = ((aa_family_id a, i), aa_targets a ! i)" if asm: "x \<in> set ?ys" for x
  proof -
    define t where "t = snd x"
    have x: "x = ((aa_family_id a, i), t)" "((aa_family_id a, i), t) \<in> set (analysis_pairs accepted)"
      using asm unfolding t_def by (auto simp: prod_eq_iff) (metis fst_conv prod.collapse)
    then obtain b where "b \<in> set accepted" "aa_family_id b = aa_family_id a" "aa_targets b ! i = t"
      by (auto simp: in_analysis_pairs)
    moreover from this assms(1,2) have "b = a" by (auto simp: distinct_map inj_on_def)
    ultimately show ?thesis using x by simp
  qed
  have "((aa_family_id a, i), aa_targets a ! i) \<in> set ?ys"
    using assms(2,3) by (auto simp: in_analysis_pairs)
  then have ne: "?ys \<noteq> []" by force
  from all[OF last_in_set[OF ne]] ne show ?thesis
    by (simp add: insert_all_get Let_def)
qed

lemma intra_analysis_check_ok:
  "intra_analysis_check tid seen mfs = Ok_unit \<longleftrightarrow>
     distinct (map mf_family_id mfs) \<and> set (map mf_family_id mfs) \<inter> seen = {}"
  by (induction mfs arbitrary: seen) auto

lemma single_valued_check_False:
  assumes "finite vs" "vs \<noteq> {}" "\<not> single_valued_check vs v"
  shows "vs = {v}"
proof -
  from assms have "card vs = 1" "v \<in> vs"
    by (auto simp: single_valued_check_def card_gt_0_iff not_less le_Suc_eq)
  then show ?thesis by (metis card_1_singletonE singletonD)
qed

lemma map_filter_all_Some:
  "(\<And>x. x \<in> set xs \<Longrightarrow> f x = Some (g x)) \<Longrightarrow> List.map_filter f xs = map g xs"
  by (induction xs) (simp_all add: map_filter_def)

text \<open>The reading of a reference: the analyzer target it names.\<close>

definition names_target :: "accepted_analysis list \<Rightarrow> merged_from \<Rightarrow> analyzer_target \<Rightarrow> bool" where
  "names_target accepted mf t \<longleftrightarrow>
     (\<exists>a \<in> set accepted. aa_family_id a = mf_family_id mf \<and> mf_target_index mf < length (aa_targets a)
        \<and> aa_targets a ! mf_target_index mf = t)"

lemma names_target_lookup:
  assumes "distinct (map aa_family_id accepted)" "names_target accepted mf t"
  shows "bt_get (insert_all fst (\<lambda>(_, t). f t) (analysis_pairs accepted)) (mf_pair mf) = Some (f t)"
proof -
  obtain a where a: "a \<in> set accepted" "mf_target_index mf < length (aa_targets a)"
    "aa_family_id a = mf_family_id mf" "aa_targets a ! mf_target_index mf = t"
    using assms(2) by (auto simp: names_target_def)
  show ?thesis using pair_lookup[OF assms(1) a(1,2), of f] a(3,4) by (simp add: mf_pair_def)
qed

lemma contributor_values_names:
  assumes "distinct (map aa_family_id accepted)"
    and "\<And>mf. mf \<in> set (mt_merged_from t) \<Longrightarrow> names_target accepted mf (target_of mf)"
  shows "contributor_values (insert_all fst (\<lambda>(_, t). f t) (analysis_pairs accepted)) t
     = (\<lambda>mf. f (target_of mf)) ` set (mt_merged_from t)"
  unfolding contributor_values_def
  by (subst map_filter_all_Some[where g = "\<lambda>mf. f (target_of mf)"])
    (auto intro: names_target_lookup[OF assms(1) assms(2)])

lemma count_list_distinct: "distinct xs \<Longrightarrow> x \<in> set xs \<Longrightarrow> count_list xs x = 1"
  by (induction xs) auto

section \<open>The dedup filter partitions the targets\<close>

lemma decision_for_fields:
  assumes "decision_for p fam i t = Some d"
  shows "dd_family_id d = fam" "dd_target_index d = i" "dd_fix_signature d = at_fix_signature t"
    "is_dedup_reason (dd_reason d)"
  using assms
  by (auto simp: decision_for_def Let_def is_dedup_reason_def split: option.splits if_splits)

lemma dedup_reason_prefix: "is_dedup_reason r \<Longrightarrow> starts_with r ''dedup:''"
  by (auto simp: is_dedup_reason_def starts_with_def dedup_reasons)

lemma filter_targets_eq:
  "filter_targets p fam idx ts =
     (map snd (filter (\<lambda>(i, t). decision_for p fam i t = None) (List.enumerate idx ts)),
      List.map_filter (\<lambda>(i, t). decision_for p fam i t) (List.enumerate idx ts))"
  by (induction ts arbitrary: idx) (auto simp: map_filter_def split: option.splits)

lemma filter_accepted_eq:
  "filter_accepted_for_dedup p accepted =
     (map (\<lambda>a. a\<lparr>aa_targets := fst (filter_targets p (aa_family_id a) 0 (aa_targets a))\<rparr>) accepted,
      concat (map (\<lambda>a. snd (filter_targets p (aa_family_id a) 0 (aa_targets a))) accepted))"
  by (induction accepted) (auto simp: Let_def split: prod.splits)

lemma map_filter_concat: "List.map_filter f (concat xss) = concat (map (List.map_filter f) xss)"
  by (induction xss) (simp_all add: map_filter_def)

text \<open>The decisions are those of the pairs, in loop order.\<close>

lemma filter_accepted_decisions:
  "snd (filter_accepted_for_dedup p accepted) =
     List.map_filter (\<lambda>((fam, i), t). decision_for p fam i t) (analysis_pairs accepted)"
proof -
  have "List.map_filter (\<lambda>((fam, i), t). decision_for p fam i t)
        (map (\<lambda>(i, t). ((fam, i), t)) xs)
      = List.map_filter (\<lambda>(i, t). decision_for p fam i t) xs" for fam xs
    by (induction xs) (auto simp: map_filter_def)
  then show ?thesis
    by (simp add: filter_accepted_eq filter_targets_eq analysis_pairs_def comp_def map_filter_concat)
qed

section \<open>Properties\<close>

text \<open>C2: a merge output that validates accounts for every target of the accepted analyses exactly once
  and for nothing else; the rows rejected with a \<open>dedup:\<close> reason are exactly the coordinator's dedup
  decisions; every accepted family has exactly one lens disposition; and every merged target groups
  targets of distinct families that have its bucket, its consensus flag and its breakage class, with
  exactly their evidence queries.\<close>

theorem merge_output_sound:
  assumes ok: "validate_merge_output_with_dedup m accepted decisions = Ok_unit"
    and dist: "distinct (map aa_family_id accepted)"
  shows "(\<forall>a \<in> set accepted. \<forall>i < length (aa_targets a). count_list (accounted_pairs m) (aa_family_id a, i) = 1)
    \<and> set (accounted_pairs m) \<subseteq> {(aa_family_id a, i) | a i. a \<in> set accepted \<and> i < length (aa_targets a)}
    \<and> {(rm_family_id r, rm_target_index r, rm_reason r) | r.
          r \<in> set (ot_rejected_by_merge m) \<and> starts_with (rm_reason r) ''dedup:''}
        = {(dd_family_id d, dd_target_index d, dd_reason d) | d. d \<in> set decisions}
    \<and> mset (map ld_family_id (ot_lens_dispositions m)) = mset (map aa_family_id accepted)
    \<and> (\<forall>t \<in> set (ot_targets m). validate_merged_target t = Ok_unit
         \<and> distinct (map mf_family_id (mt_merged_from t))
         \<and> (\<exists>target_of. (\<forall>mf \<in> set (mt_merged_from t). names_target accepted mf (target_of mf)
               \<and> at_bucket (target_of mf) = mt_bucket t
               \<and> at_consensus_breaking (target_of mf) = mt_consensus_breaking t
               \<and> at_breakage_class (target_of mf) = mt_breakage_class t)
             \<and> set (mt_evidence_queries t) = (\<Union>mf \<in> set (mt_merged_from t). set (at_evidence_queries (target_of mf)))))"
proof -
  note V = ok[unfolded validate_merge_output_with_dedup_def Let_def checks_Cons_ok with_context_Inr
      bail_if_Inr for_each_const_Inr validate_optimization_targets_ok analysis_pairs_keys intra_analysis_check_ok]
  have d: "distinct (accounted_pairs m)"
    and cov: "set (accounted_pairs m) = {(aa_family_id a, i) | a i. a \<in> set accepted \<and> i < length (aa_targets a)}"
    using V by blast+
  have refs: "\<exists>t'. names_target accepted mf t'" if "t \<in> set (ot_targets m)" "mf \<in> set (mt_merged_from t)" for t mf
  proof -
    have "mf_pair mf \<in> set (accounted_pairs m)" using that by (auto simp: accounted_pairs_def)
    then show ?thesis by (force simp: cov mf_pair_def names_target_def)
  qed
  have lens: "mset (map ld_family_id (ot_lens_dispositions m)) = mset (map aa_family_id accepted)"
    by (subst set_eq_iff_mset_eq_distinct[symmetric]) (use V dist in blast)+
  have merged: "\<exists>target_of. (\<forall>mf \<in> set (mt_merged_from t). names_target accepted mf (target_of mf)
               \<and> at_bucket (target_of mf) = mt_bucket t
               \<and> at_consensus_breaking (target_of mf) = mt_consensus_breaking t
               \<and> at_breakage_class (target_of mf) = mt_breakage_class t)
             \<and> set (mt_evidence_queries t) = (\<Union>mf \<in> set (mt_merged_from t). set (at_evidence_queries (target_of mf)))"
    if t: "t \<in> set (ot_targets m)" for t
  proof -
    obtain target_of where names: "\<And>mf. mf \<in> set (mt_merged_from t) \<Longrightarrow> names_target accepted mf (target_of mf)"
      using refs[OF t] by metis
    note cv = contributor_values_names[OF dist names]
    have ne: "mt_merged_from t \<noteq> []" using V t by (auto simp: validate_merged_target_ok)
    have b: "(\<lambda>mf. at_bucket (target_of mf)) ` set (mt_merged_from t) = {mt_bucket t}"
      using V t by (intro single_valued_check_False) (auto simp: cv ne)
    have c: "(\<lambda>mf. (at_consensus_breaking (target_of mf), at_breakage_class (target_of mf))) ` set (mt_merged_from t)
        = {(mt_consensus_breaking t, mt_breakage_class t)}"
      using V t by (intro single_valued_check_False) (auto simp: cv ne)
    have e: "set (mt_evidence_queries t) = (\<Union>mf \<in> set (mt_merged_from t). set (at_evidence_queries (target_of mf)))"
    proof -
      let ?get = "\<lambda>mf. bt_get (insert_all fst (\<lambda>(_, t). at_evidence_queries t) (analysis_pairs accepted)) (mf_pair mf)"
      have "List.map_filter ?get (mt_merged_from t) = map (\<lambda>mf. at_evidence_queries (target_of mf)) (mt_merged_from t)"
        by (rule map_filter_all_Some) (rule names_target_lookup[OF dist names])
      moreover have "set (mt_evidence_queries t) = set (concat (List.map_filter ?get (mt_merged_from t)))"
        using V t by blast
      ultimately show ?thesis by auto
    qed
    have "at_bucket (target_of mf) = mt_bucket t"
      "(at_consensus_breaking (target_of mf), at_breakage_class (target_of mf)) = (mt_consensus_breaking t, mt_breakage_class t)"
      if "mf \<in> set (mt_merged_from t)" for mf
      using imageI[OF that] b c by (metis (mono_tags, lifting) singletonD)+
    with names e show ?thesis by blast
  qed
  have once: "count_list (accounted_pairs m) (aa_family_id a, i) = 1"
    if "a \<in> set accepted" "i < length (aa_targets a)" for a i
    using that cov by (intro count_list_distinct[OF d]) blast
  have rows: "{(rm_family_id r, rm_target_index r, rm_reason r) | r.
          r \<in> set (ot_rejected_by_merge m) \<and> starts_with (rm_reason r) ''dedup:''}
        = {(dd_family_id d, dd_target_index d, dd_reason d) | d. d \<in> set decisions}"
    using conjunct1[OF conjunct2[OF conjunct2[OF V]]] unfolding set_map set_filter not_not by (simp only: image_Collect) blast
  have valid: "validate_merged_target t = Ok_unit \<and> distinct (map mf_family_id (mt_merged_from t))"
    if "t \<in> set (ot_targets m)" for t using V that by blast
  show ?thesis
    by (intro conjI ballI allI impI)
      ((rule equalityD1[OF cov] rows lens)
       | (rule once conjunct1[OF valid] conjunct2[OF valid] merged; assumption))+
qed

definition sample_header :: candidates_header where
  "sample_header = \<lparr>ch_session_id = ''s'', ch_baseline_run_id = 1, ch_baseline_rerun_id = 2, ch_noise_floor_pct = Fin 1\<rparr>"

definition sample_analysis :: "string \<Rightarrow> analyzer_target list \<Rightarrow> accepted_analysis" where
  "sample_analysis fam ts = \<lparr>aa_family_id = fam, aa_selection_lens = TxLatency,
     aa_lens_disposition = \<lparr>di_lens = TxLatency, di_status = (if ts = [] then NotActionable else Addressed), di_reason = Some ''r''\<rparr>,
     aa_targets = ts, aa_global_materiality_note = None\<rparr>"

definition singleton_output :: "accepted_analysis list \<Rightarrow> merged_target list \<Rightarrow> rejected_by_merge list \<Rightarrow> optimization_targets" where
  "singleton_output accepted ts rejected =
     (empty_targets sample_header rejected (lens_dispositions_from_accepted accepted))\<lparr>ot_targets := ts\<rparr>"

lemma sample_merge_valid:
  "validate_merge_output_with_dedup
     (singleton_output [sample_analysis ''fam'' [sample_target]] [carry_target ''fam'' 0 sample_target] [])
     [sample_analysis ''fam'' [sample_target]] [] = Ok_unit"
  unfolding validate_merge_output_with_dedup_def Let_def checks_Cons_ok with_context_Inr bail_if_Inr for_each_const_Inr
proof (intro conjI)
  show "validate_optimization_targets
      (singleton_output [sample_analysis ''fam'' [sample_target]] [carry_target ''fam'' 0 sample_target] []) = Ok_unit"
    using sample_target_valid
    by (simp add: validate_optimization_targets_ok singleton_output_def empty_targets_def
        lens_dispositions_from_accepted_def sample_analysis_def validate_merged_target_ok
        validate_analyzer_target_ok carry_target_def mode_bench_eligible_def derive_normal)
qed code_simp+

theorem merge_output_sound_witness:
  "count_list (accounted_pairs (singleton_output [sample_analysis ''fam'' [sample_target]]
     [carry_target ''fam'' 0 sample_target] [])) (''fam'', 0) = 1"
proof -
  have "distinct (map aa_family_id [sample_analysis ''fam'' [sample_target]])" by simp
  from merge_output_sound[OF sample_merge_valid this] show ?thesis
    by (simp add: sample_analysis_def)
qed

lemma map_fst_analysis_pairs:
  "map fst (analysis_pairs accepted) =
     concat (map (\<lambda>a. map (Pair (aa_family_id a)) [0 ..< length (aa_targets a)]) accepted)"
proof -
  have "map fst (map (\<lambda>(i, t). ((f, i), t)) (List.enumerate n ts)) = map (Pair f) [n ..< n + length ts]"
    for f :: string and n and ts :: "analyzer_target list"
    by (induction ts arbitrary: n) (simp_all add: upt_conv_Cons del: upt_Suc)
  then have "map fst (map (\<lambda>(i, t). ((f, i), t)) (List.enumerate 0 ts)) = map (Pair f) [0 ..< length ts]"
    for f :: string and ts :: "analyzer_target list"
    by (metis add_0)
  then show ?thesis by (simp only: analysis_pairs_def map_concat map_map comp_def)
qed

lemma distinct_analysis_pairs:
  assumes "distinct (map aa_family_id accepted)"
  shows "distinct (map fst (analysis_pairs accepted))"
  using assms unfolding map_fst_analysis_pairs
  by (induction accepted) (auto simp: distinct_map inj_on_def)

lemma length_analysis_pairs: "length (analysis_pairs accepted) = sum_list (map (\<lambda>a. length (aa_targets a)) accepted)"
  by (simp add: analysis_pairs_def length_concat comp_def)

lemma accepted_of_distinct:
  assumes "bt_invar analyses" "\<forall>(fid, a) \<in> set analyses. analysis_family_id a = fid"
  shows "distinct (map aa_family_id (accepted_of analyses))"
proof -
  have "map aa_family_id (accepted_of analyses) = map fst (filter (\<lambda>(_, a). analysis_is_accepted a) analyses)"
    using assms(2) unfolding accepted_of_def
    by (induction analyses)
      (auto simp: map_filter_def analysis_is_accepted_def analysis_family_id_def split: analysis.splits)
  moreover have "distinct (map fst analyses)"
    using bt.distinct_keys[OF assms(1)] by (simp only: id_apply)
  ultimately show ?thesis by (simp add: distinct_map_filter)
qed

lemma accepted_of_valid:
  assumes "\<forall>(fid, a) \<in> set analyses. validate_analysis a = Ok_unit" "x \<in> set (accepted_of analyses)"
  shows "validate_accepted_analysis x = Ok_unit"
  using assms by (fastforce simp: accepted_of_def map_filter_def validate_analysis_def split: analysis.splits)

text \<open>When the filter leaves no target, every pair has its decision.\<close>

lemma all_filtered_decisions:
  assumes "filter_accepted_for_dedup p accepted = (filtered, decisions)" "list_all (\<lambda>a. aa_targets a = []) filtered"
  shows "map rm_pair (dedup_rejections decisions) = map fst (analysis_pairs accepted)"
proof -
  have all: "decision_for p fam i t \<noteq> None" if pair: "((fam, i), t) \<in> set (analysis_pairs accepted)" for fam i t
  proof -
    obtain a where a: "a \<in> set accepted" "aa_family_id a = fam" "i < length (aa_targets a)" "aa_targets a ! i = t"
      using pair by (auto simp: in_analysis_pairs)
    have "fst (filter_targets p (aa_family_id a) 0 (aa_targets a)) = []"
      using assms a(1) by (auto simp: filter_accepted_eq list_all_iff)
    then have "\<forall>x \<in> set (List.enumerate 0 (aa_targets a)). \<not> (\<lambda>(i, t). decision_for p (aa_family_id a) i t = None) x"
      by (simp add: filter_targets_eq filter_empty_conv)
    moreover have "(i, t) \<in> set (List.enumerate 0 (aa_targets a))" using a(3,4) by (auto simp: in_set_enumerate_eq)
    ultimately show ?thesis using a(2) by fastforce
  qed
  have "map rm_pair (dedup_rejections (List.map_filter (\<lambda>((fam, i), t). decision_for p fam i t) ps)) = map fst ps"
    if "\<forall>((fam, i), t) \<in> set ps. decision_for p fam i t \<noteq> None" for ps
    using that
    by (induction ps)
      (auto simp: map_filter_def dedup_rejections_def to_rejected_by_merge_def rm_pair_def dest: decision_for_fields)
  with all have "map rm_pair (dedup_rejections (List.map_filter (\<lambda>((fam, i), t). decision_for p fam i t) (analysis_pairs accepted)))
      = map fst (analysis_pairs accepted)" by blast
  moreover have "decisions = List.map_filter (\<lambda>((fam, i), t). decision_for p fam i t) (analysis_pairs accepted)"
    using assms(1) filter_accepted_decisions[of p accepted] by simp
  ultimately show ?thesis by simp
qed

lemma decisions_dedup_reason:
  assumes "filter_accepted_for_dedup p accepted = (filtered, decisions)" "d \<in> set decisions"
  shows "is_dedup_reason (dd_reason d)"
proof -
  have "decisions = List.map_filter (\<lambda>((fam, i), t). decision_for p fam i t) (analysis_pairs accepted)"
    using assms(1) filter_accepted_decisions[of p accepted] by simp
  with assms(2) obtain fam i t where "decision_for p fam i t = Some d"
    by (auto simp: map_filter_def split: prod.splits)
  then show ?thesis by (rule decision_for_fields)
qed

lemma shortcut_output_valid:
  assumes filt: "filter_accepted_for_dedup p accepted = (filtered, decisions)" "list_all (\<lambda>a. aa_targets a = []) filtered"
    and dist: "distinct (map aa_family_id accepted)"
    and valid: "\<And>a. a \<in> set accepted \<Longrightarrow> validate_accepted_analysis a = Ok_unit"
  shows "validate_merge_output_with_dedup
     (empty_targets c (dedup_rejections decisions) (lens_dispositions_from_accepted accepted)) accepted decisions = Ok_unit"
proof -
  let ?m = "empty_targets c (dedup_rejections decisions) (lens_dispositions_from_accepted accepted)"
  have acc: "accounted_pairs ?m = map fst (analysis_pairs accepted)"
    using all_filtered_decisions[OF filt] by (simp add: accounted_pairs_def empty_targets_def)
  have reason: "starts_with (dd_reason d) ''dedup:''" "is_dedup_reason (dd_reason d)" if "d \<in> set decisions" for d
    using decisions_dedup_reason[OF filt(1) that] dedup_reason_prefix by blast+
  have lens: "map ld_family_id (ot_lens_dispositions ?m) = map aa_family_id accepted"
    by (simp add: empty_targets_def lens_dispositions_from_accepted_def comp_def)
  have model: "validate_optimization_targets ?m = Ok_unit"
    using valid by (auto simp: validate_optimization_targets_ok empty_targets_def
        lens_dispositions_from_accepted_def validate_accepted_analysis_ok)
  have rows: "set (map (\<lambda>r. (rm_family_id r, rm_target_index r, rm_reason r))
      (filter (\<lambda>r. starts_with (rm_reason r) ''dedup:'') (ot_rejected_by_merge ?m)))
      = set (map (\<lambda>d. (dd_family_id d, dd_target_index d, dd_reason d)) decisions)"
    using reason(1) by (force simp: empty_targets_def dedup_rejections_def to_rejected_by_merge_def)
  show ?thesis
    unfolding validate_merge_output_with_dedup_def Let_def acc lens rows
    using model distinct_analysis_pairs[OF dist] dist reason
    by (simp add: for_each_const_Inr empty_targets_def dedup_rejections_def to_rejected_by_merge_def)
qed

lemma validate_all_analyses:
  "for_each (\<lambda>_ (fid, a). with_context (AnalysisInvalid fid) (validate_analysis a)) 0 analyses = Ok_unit
     \<longleftrightarrow> (\<forall>(fid, a) \<in> set analyses. validate_analysis a = Ok_unit)"
  by (subst for_each_const_Inr) auto

text \<open>The merge phase succeeds without the LLM whenever there is nothing left to merge: with valid
  analyses that carry the family id of their directory, and no target surviving the dedup filter (no
  accepted analysis at all, none with targets, or every target blocked by history), the phase returns
  success, invokes no LLM, and writes an output with no merged target, one rejection row per analyzer
  target and one disposition per accepted family, which passes the phase's own validator.\<close>

theorem merge_shortcut_succeeds:
  assumes inv: "bt_invar analyses" "\<forall>(fid, a) \<in> set analyses. analysis_family_id a = fid"
    and valid: "\<forall>(fid, a) \<in> set analyses. validate_analysis a = Ok_unit"
    and filt: "compute_dedup_filtered_inputs shared ledgers threshold (accepted_of analyses) = Inr (filtered, decisions)"
      "list_all (\<lambda>a. aa_targets a = []) filtered"
  shows "\<exists>out m. merge_run (Inr c) (Inr analyses) shared ledgers threshold invoke = (Inr out, Some m)
     \<and> \<not> mo_llm_invoked out \<and> mo_accepted_input_count out = length (accepted_of analyses)
     \<and> ot_targets m = []
     \<and> map rm_pair (ot_rejected_by_merge m) = map fst (analysis_pairs (accepted_of analyses))
     \<and> map ld_family_id (ot_lens_dispositions m) = map aa_family_id (accepted_of analyses)
     \<and> validate_merge_output_with_dedup m (accepted_of analyses) decisions = Ok_unit"
proof -
  let ?acc = "accepted_of analyses"
  let ?m = "empty_targets c (dedup_rejections decisions) (lens_dispositions_from_accepted ?acc)"
  obtain p where f: "filter_accepted_for_dedup p ?acc = (filtered, decisions)"
    using filt(1) by (auto simp: compute_dedup_filtered_inputs_def split: sum.splits option.splits)
  note ok = shortcut_output_valid[OF f filt(2) accepted_of_distinct[OF inv] accepted_of_valid[OF valid], of c]
  have rows: "map rm_pair (ot_rejected_by_merge ?m) = map fst (analysis_pairs ?acc)"
    "map ld_family_id (ot_lens_dispositions ?m) = map aa_family_id ?acc" "ot_targets ?m = []"
    using all_filtered_decisions[OF f filt(2)]
    by (simp_all add: empty_targets_def lens_dispositions_from_accepted_def comp_def)
  have all: "for_each (\<lambda>_ (fid, a). with_context (AnalysisInvalid fid) (validate_analysis a)) 0 analyses = Ok_unit"
    using valid by (simp only: validate_all_analyses)
  show ?thesis
  proof (cases "?acc = []")
    case True
    with f have "decisions = []" by simp
    with True have m: "?m = empty_targets c [] []"
      by (simp add: dedup_rejections_def lens_dispositions_from_accepted_def)
    with True \<open>decisions = []\<close> ok have "validate_merge_output (empty_targets c [] []) ?acc = Ok_unit"
      by (simp add: validate_merge_output_def)
    then have "\<exists>out. merge_run (Inr c) (Inr analyses) shared ledgers threshold invoke = (Inr out, Some ?m)
        \<and> \<not> mo_llm_invoked out \<and> mo_accepted_input_count out = length ?acc"
      using True unfolding m by (simp add: merge_run_def all Let_def)
    with ok rows show ?thesis by blast
  next
    case False
    with ok rows filt show ?thesis by (simp add: merge_run_def all Let_def)
  qed
qed

theorem merge_shortcut_succeeds_witness:
  "\<exists>out m. merge_run (Inr sample_header) (Inr [(''fam'', AcceptedA (sample_analysis ''fam'' []))])
      (Some (from_ledgers_v1 [] [])) (Inl ()) 3 (\<lambda>_ _. Inl ()) = (Inr out, Some m) \<and> \<not> mo_llm_invoked out"
proof -
  let ?as = "[(''fam'', AcceptedA (sample_analysis ''fam'' []))]"
  have "bt_invar ?as" by (simp add: bt_invar_def)
  moreover have "\<forall>(fid, a) \<in> set ?as. analysis_family_id a = fid"
    by (simp add: analysis_family_id_def sample_analysis_def)
  moreover have "\<forall>(fid, a) \<in> set ?as. validate_analysis a = Ok_unit"
    by (simp add: validate_analysis_def validate_accepted_analysis_ok sample_analysis_def)
  moreover have "compute_dedup_filtered_inputs (Some (from_ledgers_v1 [] [])) (Inl ()) 3 (accepted_of ?as)
      = Inr ([sample_analysis ''fam'' []], [])"
    by (simp add: compute_dedup_filtered_inputs_def accepted_of_def map_filter_def sample_analysis_def)
  moreover have "list_all (\<lambda>a. aa_targets a = []) [sample_analysis ''fam'' []]"
    by (simp add: sample_analysis_def)
  ultimately show ?thesis
    using merge_shortcut_succeeds[of ?as "Some (from_ledgers_v1 [] [])" "Inl ()" 3 "[sample_analysis ''fam'' []]" "[]"
        sample_header "\<lambda>_ _. Inl ()"] by blast
qed

text \<open>C12: whatever the LLM produced, a merge phase that reports success has written an output that
  accounts for every target of the accepted analyses: the merged references and the rejections
  together are as many as the analyzer targets, the reported count is the number of merged targets,
  and every target blocked by history is rejected with its dedup reason.\<close>

theorem merge_run_accounts:
  assumes run: "merge_run (Inr c) (Inr analyses) shared ledgers threshold invoke = (Inr out, written)"
    and inv: "bt_invar analyses" "\<forall>(fid, a) \<in> set analyses. analysis_family_id a = fid"
    and hist: "compute_dedup_filtered_inputs shared ledgers threshold (accepted_of analyses) = Inr (filtered, decisions)"
  shows "\<exists>m. written = Some m \<and> mo_merged_target_count out = length (ot_targets m)
     \<and> mo_deduped_target_count out = length decisions
     \<and> sum_list (map (\<lambda>t. length (mt_merged_from t)) (ot_targets m)) + length (ot_rejected_by_merge m)
        = sum_list (map (\<lambda>a. length (aa_targets a)) (accepted_of analyses))
     \<and> (\<forall>d \<in> set decisions. to_rejected_by_merge d \<in> set (ot_rejected_by_merge m))"
proof -
  let ?acc = "accepted_of analyses"
  obtain p where f: "filter_accepted_for_dedup p ?acc = (filtered, decisions)"
    using hist by (auto simp: compute_dedup_filtered_inputs_def split: sum.splits option.splits)
  have "?acc = [] \<Longrightarrow> decisions = []" using f by simp
  then obtain m where m: "written = Some m" "mo_merged_target_count out = length (ot_targets m)"
    "mo_deduped_target_count out = length decisions"
    "validate_merge_output_with_dedup m ?acc decisions = Ok_unit"
    "set (dedup_rejections decisions) \<subseteq> set (ot_rejected_by_merge m)"
    using run hist
    by (auto simp: merge_run_def validate_merge_output_def Let_def empty_targets_def dedup_rejections_def
        split: sum.splits if_splits)
  note V = m(4)[unfolded validate_merge_output_with_dedup_def Let_def checks_Cons_ok bail_if_Inr]
  have "distinct (accounted_pairs m)" "set (accounted_pairs m) = set (map fst (analysis_pairs ?acc))"
    using V by blast+
  then have "length (accounted_pairs m) = length (analysis_pairs ?acc)"
    using distinct_analysis_pairs[OF accepted_of_distinct[OF inv]] by (metis distinct_card length_map)
  then have "sum_list (map (\<lambda>t. length (mt_merged_from t)) (ot_targets m)) + length (ot_rejected_by_merge m)
        = sum_list (map (\<lambda>a. length (aa_targets a)) ?acc)"
    by (simp add: accounted_pairs_def length_concat comp_def length_analysis_pairs)
  with m show ?thesis by (auto simp: dedup_rejections_def)
qed

definition sample_invocation :: "unit merge_invocation" where
  "sample_invocation = \<lparr>mi_conversation_id = None, mi_targets_non_empty = True, mi_message_non_empty = True,
     mi_pre_targets_mtime = None, mi_post_targets_mtime = Some 1, mi_pre_message_mtime = Some 0,
     mi_post_message_mtime = Some 1,
     mi_targets = Inr (singleton_output [sample_analysis ''fam'' [sample_target]] [carry_target ''fam'' 0 sample_target] [])\<rparr>"

lemma sample_filter:
  "compute_dedup_filtered_inputs (Some (from_ledgers_v1 [] [])) (Inl ()) 3
     (accepted_of [(''fam'', AcceptedA (sample_analysis ''fam'' [sample_target]))])
   = Inr ([sample_analysis ''fam'' [sample_target]], [])"
proof -
  have "decision_for (from_history_projection (from_ledgers_v1 [] []) 3) ''fam'' 0 sample_target = None"
    by code_simp
  then show ?thesis
    by (simp add: compute_dedup_filtered_inputs_def sample_analysis_def accepted_of_def map_filter_def)
qed

lemma sample_merge_run:
  "\<exists>out written. merge_run (Inr sample_header) (Inr [(''fam'', AcceptedA (sample_analysis ''fam'' [sample_target]))])
      (Some (from_ledgers_v1 [] [])) (Inl ()) 3 (\<lambda>_ _. Inr sample_invocation) = (Inr out, written)"
proof -
  let ?a = "sample_analysis ''fam'' [sample_target]"
  let ?out = "singleton_output [?a] [carry_target ''fam'' 0 sample_target] []"
  have acc: "accepted_of [(''fam'', AcceptedA ?a)] = [?a]" by (simp add: accepted_of_def map_filter_def)
  have v: "validate_analysis (AcceptedA ?a) = Ok_unit"
    using sample_target_valid by (simp add: validate_analysis_def validate_accepted_analysis_ok sample_analysis_def)
  have e: "?out\<lparr>ot_rejected_by_merge := ot_rejected_by_merge ?out @ dedup_rejections []\<rparr> = ?out"
    by (simp add: dedup_rejections_def)
  have "aa_targets ?a \<noteq> []" by (simp add: sample_analysis_def)
  then show ?thesis
    by (simp add: merge_run_def acc sample_filter[unfolded acc] v e sample_merge_valid stale_mtime_def sample_invocation_def Let_def)
qed

theorem merge_run_accounts_witness:
  "\<exists>out m. merge_run (Inr sample_header) (Inr [(''fam'', AcceptedA (sample_analysis ''fam'' [sample_target]))])
      (Some (from_ledgers_v1 [] [])) (Inl ()) 3 (\<lambda>_ _. Inr sample_invocation) = (Inr out, Some m)
    \<and> sum_list (map (\<lambda>t. length (mt_merged_from t)) (ot_targets m)) + length (ot_rejected_by_merge m) = 1"
proof -
  let ?as = "[(''fam'', AcceptedA (sample_analysis ''fam'' [sample_target]))]"
  obtain out written where run: "merge_run (Inr sample_header) (Inr ?as)
      (Some (from_ledgers_v1 [] [])) (Inl ()) 3 (\<lambda>_ _. Inr sample_invocation) = (Inr out, written)"
    using sample_merge_run by blast
  have inv: "bt_invar ?as" "\<forall>(fid, a) \<in> set ?as. analysis_family_id a = fid"
    by (simp_all add: bt_invar_def analysis_family_id_def sample_analysis_def)
  from merge_run_accounts[OF run inv sample_filter] run show ?thesis
    by (auto simp: accepted_of_def map_filter_def sample_analysis_def)
qed

text \<open>The dedup filter removes targets from the arrays the LLM is shown while the validator counts
  in the arrays before the filter. When the first of two targets of a family is blocked by history,
  an output that merges the one target shown at index 0 as \<open>(family, 0)\<close>, completed with the
  coordinator's dedup row, fails the coverage check; the index the validator wants is 1.\<close>

theorem dedup_filter_shifts_indices:
  "let a = sample_analysis ''fam'' [sample_target, sample_target\<lparr>at_fix_signature := ''other''\<rparr>];
       p = dedup_from_ledgers [archived_session ''s1'' ''2026-01-01'' [archived_row ''fix'' ''fam'' Rejected]] [] 1;
       shown = fst (filter_accepted_for_dedup p [a]); ds = snd (filter_accepted_for_dedup p [a]);
       out = (\<lambda>i. (empty_targets sample_header (dedup_rejections ds) (lens_dispositions_from_accepted [a]))
          \<lparr>ot_targets := [carry_target ''fam'' i (aa_targets (hd shown) ! 0)]\<rparr>)
   in map aa_targets shown = [[sample_target\<lparr>at_fix_signature := ''other''\<rparr>]]
    \<and> distinct (accounted_pairs (out 1)) \<and> set (accounted_pairs (out 1)) = set (map fst (analysis_pairs [a]))
    \<and> \<not> distinct (accounted_pairs (out 0))
    \<and> validate_merge_output_with_dedup (out 0) [a] ds \<noteq> Ok_unit"
proof -
  let ?t = "sample_target\<lparr>at_fix_signature := ''other''\<rparr>"
  let ?a = "sample_analysis ''fam'' [sample_target, ?t]"
  let ?p = "dedup_from_ledgers [archived_session ''s1'' ''2026-01-01'' [archived_row ''fix'' ''fam'' Rejected]] [] 1"
  obtain d where d: "decision_for ?p ''fam'' 0 sample_target = Some d"
  proof -
    have "decision_for ?p ''fam'' 0 sample_target \<noteq> None" by code_simp
    then show ?thesis using that by blast
  qed
  have n: "decision_for ?p ''fam'' (Suc 0) ?t = None" by code_simp
  have f: "filter_accepted_for_dedup ?p [?a] = ([?a\<lparr>aa_targets := [?t]\<rparr>], [d])"
    by (simp add: sample_analysis_def d[unfolded One_nat_def] n[unfolded One_nat_def])
  let ?out = "\<lambda>i. (empty_targets sample_header (dedup_rejections [d]) (lens_dispositions_from_accepted [?a]))
          \<lparr>ot_targets := [carry_target ''fam'' i ?t]\<rparr>"
  have acc: "accounted_pairs (?out i) = [(''fam'', i), (''fam'', 0)]" for i
    using decision_for_fields[OF d]
    by (simp add: accounted_pairs_def empty_targets_def dedup_rejections_def to_rejected_by_merge_def
        rm_pair_def mf_pair_def carry_target_def)
  have pairs: "map fst (analysis_pairs [?a]) = [(''fam'', 0), (''fam'', 1)]"
    by (simp add: analysis_pairs_def sample_analysis_def)
  have "validate_merge_output_with_dedup (?out 0) [?a] [d] \<noteq> Ok_unit"
    unfolding validate_merge_output_with_dedup_def Let_def checks_Cons_ok bail_if_Inr acc by simp
  then show ?thesis
    unfolding Let_def f fst_conv snd_conv by (simp add: acc pairs insert_commute)
qed

text \<open>The merge validator does not look at the ids of the merged targets. An accepted output stays
  accepted when every id is replaced by one and the same arbitrary text, so neither uniqueness nor
  the kebab-case shape that the schema documents holds of what the phase lets through, although the
  id names the target's directory, branch and verdict in all later phases.\<close>

theorem merge_target_ids_unchecked:
  assumes "validate_merge_output_with_dedup m accepted decisions = Ok_unit"
  shows "validate_merge_output_with_dedup (m\<lparr>ot_targets := map (\<lambda>t. t\<lparr>mt_id := x\<rparr>) (ot_targets m)\<rparr>) accepted decisions = Ok_unit"
proof -
  have same: "validate_merged_target (t\<lparr>mt_id := x\<rparr>) = validate_merged_target t" for t
    by (simp add: validate_merged_target_def)
  have "accounted_pairs (m\<lparr>ot_targets := map (\<lambda>t. t\<lparr>mt_id := x\<rparr>) (ot_targets m)\<rparr>) = accounted_pairs m"
    by (simp add: accounted_pairs_def comp_def)
  with assms show ?thesis
    by (simp add: validate_merge_output_with_dedup_def Let_def checks_Inr bail_if_Inr with_context_Inr for_each_const_Inr
        validate_optimization_targets_ok same contributor_values_def intra_analysis_check_ok)
qed

theorem merge_target_ids_unchecked_witness:
  "\<exists>m. map mt_id (ot_targets m) = [''../..''] \<and>
     validate_merge_output_with_dedup m [sample_analysis ''fam'' [sample_target]] [] = Ok_unit"
proof -
  let ?m = "singleton_output [sample_analysis ''fam'' [sample_target]] [carry_target ''fam'' 0 sample_target] []"
  let ?m' = "?m\<lparr>ot_targets := map (\<lambda>t. t\<lparr>mt_id := ''../..''\<rparr>) (ot_targets ?m)\<rparr>"
  have "map mt_id (ot_targets ?m') = [''../..'']" by (simp add: singleton_output_def)
  then show ?thesis
    using merge_target_ids_unchecked[OF sample_merge_valid, of "''../..''"] by (intro exI[of _ ?m'] conjI)
qed

end
