(* ===== verification/Calendar.thy ===== *)
theory Calendar
  imports Rust_Strings
begin

text \<open>
  Civil-time arithmetic. The sources carry three copies of Hinnant's conversions
  (\<open>types.rs\<close>, \<open>session/maintain.rs\<close>, \<open>session/autonomy.rs\<close>), each with its own integer
  widths. This theory states the Gregorian calendar by its day-successor function, gives the
  conversions on unbounded integers once, proves them inverse to each other and equal to
  iterating the successor, and shows that each copy in the sources computes them in the range
  where it is used.
\<close>

section \<open>The Gregorian calendar\<close>

type_synonym date = "int \<times> int \<times> int"

definition leap_year :: "int \<Rightarrow> bool" where
  "leap_year y \<longleftrightarrow> y mod 4 = 0 \<and> (y mod 100 \<noteq> 0 \<or> y mod 400 = 0)"

definition days_in_month :: "int \<Rightarrow> int \<Rightarrow> int" where
  "days_in_month y m =
     (if m = 2 then (if leap_year y then 29 else 28)
      else if m \<in> {4, 6, 9, 11} then 30 else 31)"

fun valid_date :: "date \<Rightarrow> bool" where
  "valid_date (y, m, d) \<longleftrightarrow> 1 \<le> m \<and> m \<le> 12 \<and> 1 \<le> d \<and> d \<le> days_in_month y m"

fun next_date :: "date \<Rightarrow> date" where
  "next_date (y, m, d) =
     (if d < days_in_month y m then (y, m, d + 1)
      else if m < 12 then (y, m + 1, 1)
      else (y + 1, 1, 1))"

section \<open>The three copies in the sources\<close>

text \<open>
  \<open>types.rs\<close>: the day number is an \<open>i64\<close>, the day of era is read as \<open>u64\<close>, the results are cast
  to \<open>i32\<close> and \<open>u32\<close> (month and day are small, so their casts are the identity).
\<close>

definition types_civil_from_days :: "int \<Rightarrow> date" where
  "types_civil_from_days z0 =
     (let z = z0 + 719468;
          era = (if z \<ge> 0 then z else z - 146096) sdiv 146097;
          doe = z - era * 146097;
          yoe = (doe - doe sdiv 1460 + doe sdiv 36524 - doe sdiv 146096) sdiv 365;
          y = yoe + era * 400;
          doy = doe - (365 * yoe + yoe sdiv 4 - yoe sdiv 100);
          mp = (5 * doy + 2) sdiv 153;
          d = doy - (153 * mp + 2) sdiv 5 + 1;
          m = (if mp < 10 then mp + 3 else mp - 9);
          y = (if m \<le> 2 then y + 1 else y)
      in (as_i32 y, m, d))"

text \<open>\<open>session/maintain.rs\<close>: \<open>i32\<close> year, \<open>u32\<close> month and day.\<close>

definition maintain_days_from_civil :: "int \<Rightarrow> int \<Rightarrow> int \<Rightarrow> int" where
  "maintain_days_from_civil year month day =
     (let y = as_i32 (year - (if month \<le> 2 then 1 else 0));
          era = (if y \<ge> 0 then y else as_i32 (y - 399)) sdiv 400;
          yoe = as_i32 (y - as_i32 (era * 400));
          m = as_i32 month;
          doy = as_i32 (as_i32 (as_i32 (as_i32 (153 * as_i32 (m + (if m > 2 then - 3 else 9))) + 2) sdiv 5
                 + as_i32 day) - 1);
          doe = as_i32 (as_i32 (as_i32 (as_i32 (yoe * 365) + yoe sdiv 4) - yoe sdiv 100) + doy)
      in as_i32 (as_i32 (as_i32 (era * 146097) + doe) - 719468))"

definition maintain_civil_from_days :: "int \<Rightarrow> date" where
  "maintain_civil_from_days days =
     (let z = days + 719468;
          era = (if z \<ge> 0 then z else z - 146096) sdiv 146097;
          doe = z - era * 146097;
          yoe = (doe - doe sdiv 1460 + doe sdiv 36524 - doe sdiv 146096) sdiv 365;
          y = yoe + era * 400;
          doy = doe - (365 * yoe + yoe sdiv 4 - yoe sdiv 100);
          mp = (5 * doy + 2) sdiv 153;
          d = doy - (153 * mp + 2) sdiv 5 + 1;
          m = mp + (if mp < 10 then 3 else - 9)
      in (as_i32 (y + (if m \<le> 2 then 1 else 0)), m, d))"

text \<open>
  \<open>session/autonomy.rs\<close>: \<open>i64\<close> throughout. The arguments of \<open>days_from_civil\<close> come from
  parsed text and are any \<open>i64\<close>, so every operation wraps.
\<close>

definition autonomy_days_from_civil :: "int \<Rightarrow> int \<Rightarrow> int \<Rightarrow> int" where
  "autonomy_days_from_civil y0 m d =
     (let y = as_i64 (y0 - (if m \<le> 2 then 1 else 0));
          era = (if y \<ge> 0 then y else as_i64 (y - 399)) sdiv 400;
          yoe = as_i64 (y - as_i64 (era * 400));
          mp = as_i64 (m + (if m > 2 then - 3 else 9));
          doy = as_i64 (as_i64 (as_i64 (as_i64 (153 * mp) + 2) sdiv 5 + d) - 1);
          doe = as_i64 (as_i64 (as_i64 (as_i64 (yoe * 365) + yoe sdiv 4) - yoe sdiv 100) + doy)
      in as_i64 (as_i64 (as_i64 (era * 146097) + doe) - 719468))"

definition autonomy_civil_from_days :: "int \<Rightarrow> date" where
  "autonomy_civil_from_days z0 =
     (let z = z0 + 719468;
          era = (if z \<ge> 0 then z else z - 146096) sdiv 146097;
          doe = z - era * 146097;
          yoe = (doe - doe sdiv 1460 + doe sdiv 36524 - doe sdiv 146096) sdiv 365;
          y = yoe + era * 400;
          doy = doe - (365 * yoe + yoe sdiv 4 - yoe sdiv 100);
          mp = (5 * doy + 2) sdiv 153;
          d = doy - (153 * mp + 2) sdiv 5 + 1;
          m = mp + (if mp < 10 then 3 else - 9);
          y = y + (if m \<le> 2 then 1 else 0)
      in (y, m, d))"

section \<open>The conversions on unbounded integers\<close>

definition year_start :: "int \<Rightarrow> int" where
  "year_start yoe = 365 * yoe + yoe div 4 - yoe div 100"

definition month_start :: "int \<Rightarrow> int" where
  "month_start mp = (153 * mp + 2) div 5"

definition shift_month :: "int \<Rightarrow> int" where
  "shift_month mp = (if mp < 10 then mp + 3 else mp - 9)"

definition yoe_of_doe :: "int \<Rightarrow> int" where
  "yoe_of_doe doe = (doe - doe div 1460 + doe div 36524 - doe div 146096) div 365"

definition days_from_civil :: "date \<Rightarrow> int" where
  "days_from_civil \<equiv> \<lambda>(y0, m, d).
     (let y = y0 - (if m \<le> 2 then 1 else 0)
      in (y div 400) * 146097 + year_start (y mod 400)
         + (month_start (m + (if m > 2 then - 3 else 9)) + d - 1) - 719468)"

definition civil_from_days :: "int \<Rightarrow> date" where
  "civil_from_days z0 =
     (let z = z0 + 719468;
          doe = z mod 146097;
          yoe = yoe_of_doe doe;
          doy = doe - year_start yoe;
          mp = (5 * doy + 2) div 153;
          d = doy - month_start mp + 1;
          m = (if mp < 10 then mp + 3 else mp - 9)
      in (yoe + (z div 146097) * 400 + (if m \<le> 2 then 1 else 0), m, d))"

section \<open>Years of an era\<close>

lemma yoe_split:
  assumes "0 \<le> yoe" "yoe < (400::int)"
  obtains c q r where "yoe = 100 * c + 4 * q + r" "0 \<le> c" "c \<le> 3" "0 \<le> q" "q \<le> 24" "0 \<le> r" "r \<le> 3"
proof
  let ?c = "yoe div 100" and ?q = "(yoe mod 100) div 4" and ?r = "(yoe mod 100) mod 4"
  have "yoe mod 100 = 4 * ?q + ?r" by simp
  moreover have "yoe = 100 * ?c + yoe mod 100" by simp
  ultimately show "yoe = 100 * ?c + 4 * ?q + ?r" by linarith
  show "0 \<le> ?c" "0 \<le> ?q" "0 \<le> ?r" using assms by simp_all
  have "?r < 4" by simp
  then show "?r \<le> 3" by linarith
  have "?c < 4" using assms by (simp add: div_less_iff_less_mult)
  then show "?c \<le> 3" by linarith
  have "?q < 25" by (simp add: div_less_iff_less_mult)
  then show "?q \<le> 24" by linarith
qed

lemma leap_split:
  assumes "0 \<le> (c::int)" "c \<le> 3" "0 \<le> q" "q \<le> 24" "0 \<le> r" "r \<le> 3"
  shows "leap_year (100 * c + 4 * q + r + 1) \<longleftrightarrow> r = 3 \<and> (q < 24 \<or> c = 3)"
proof -
  have "100 * c + 4 * q + r + 1 = (r + 1) + (25 * c + q) * 4" by simp
  then have "(100 * c + 4 * q + r + 1) mod 4 = (r + 1) mod 4" by (simp only: mod_mult_self1)
  then have 4: "(100 * c + 4 * q + r + 1) mod 4 = 0 \<longleftrightarrow> r = 3"
    using assms(5,6) by presburger
  show ?thesis
  proof (cases "r = 3")
    case True
    define n where "n = 100 * c + (4 * q + 4)"
    have n: "100 * c + 4 * q + r + 1 = n" using True by (simp add: n_def)
    have n4: "n mod 4 = 0" unfolding n_def by presburger
    have n100: "n mod 100 = 0 \<longleftrightarrow> q = 24"
    proof -
      have "n mod 100 = (4 * q + 4) mod 100" unfolding n_def by simp
      also have "\<dots> = 0 \<longleftrightarrow> q = 24"
        using assms(3,4) by (cases "q = 24") simp_all
      finally show ?thesis .
    qed
    have n400: "n mod 400 = 0 \<longleftrightarrow> c = 3" if "q = 24"
    proof -
      have "100 * ((c + 1) mod 4) = (100 * (c + 1)) mod (100 * 4)"
        by (rule mult_mod_right)
      then have "n mod 400 = 100 * ((c + 1) mod 4)"
        using that by (simp add: n_def algebra_simps)
      moreover have "(c + 1) mod 4 = 0 \<longleftrightarrow> c = 3" using assms(1,2) by presburger
      ultimately show ?thesis by simp
    qed
    show ?thesis unfolding n leap_year_def using n4 n100 n400 True assms(4) by auto
  qed (use 4 in \<open>simp add: leap_year_def\<close>)
qed

lemma year_start_split:
  assumes "0 \<le> (c::int)" "0 \<le> q" "q \<le> 24" "0 \<le> r" "r \<le> 3"
  shows "year_start (100 * c + 4 * q + r) = 36524 * c + 1461 * q + 365 * r"
proof -
  have "(100 * c + 4 * q + r) div 4 = 25 * c + q" using assms by presburger
  moreover have "(100 * c + (4 * q + r)) div 100 = c" using assms by simp
  ultimately show ?thesis by (simp add: year_start_def add.assoc)
qed

lemma yoe_of_doe_unique:
  assumes "0 \<le> yoe" "yoe < 400" "0 \<le> doy" "doy \<le> (if leap_year (yoe + 1) then 365 else 364)"
  shows "yoe_of_doe (year_start yoe + doy) = yoe"
proof -
  obtain c q r where yoe: "yoe = 100 * c + 4 * q + r"
    and b: "0 \<le> c" "c \<le> 3" "0 \<le> q" "q \<le> 24" "0 \<le> r" "r \<le> 3"
    using yoe_split[OF assms(1,2)] by metis
  define doe where "doe = 36524 * c + 1461 * q + 365 * r + doy"
  have doe: "year_start yoe + doy = doe"
    using year_start_split[of c q r] b by (simp add: yoe doe_def)
  have leap: "doy \<le> 365" "doy = 365 \<Longrightarrow> r = 3 \<and> (q < 24 \<or> c = 3)"
    using assms(4) leap_split[OF b] by (auto simp: yoe split: if_splits)
  show ?thesis
  proof (cases "doe = 146096")
    case True
    then have "c = 3" "q = 24" "r = 3" using b leap assms(3) unfolding doe_def by linarith+
    then have "yoe = 399" unfolding yoe by simp
    moreover have "yoe_of_doe 146096 = 399" by (simp add: yoe_of_doe_def)
    ultimately show ?thesis unfolding doe True by simp
  next
    case False
    have lt: "doe < 146096"
      using False b leap unfolding doe_def by linarith
    have ge: "0 \<le> doe" using b assms(3) unfolding doe_def by linarith
    have "doe div 146096 = 0"
      using lt ge by simp
    moreover have "doe div 36524 = c"
    proof -
      have "1461 * q + 365 * r + doy < 36524"
        using lt b leap unfolding doe_def by linarith
      then show ?thesis
        using b assms(3) unfolding doe_def by (simp add: add.assoc)
    qed
    moreover have "25 * c + q + doy - 365 < doe div 1460" "doe div 1460 \<le> 25 * c + q + doy"
    proof -
      have eq: "doe = 1460 * (25 * c + q) + (24 * c + q + 365 * r + doy)"
        unfolding doe_def by simp
      have div: "doe div 1460 = (25 * c + q) + (24 * c + q + 365 * r + doy) div 1460"
        unfolding eq by simp
      consider "24 * c + q + 365 * r + doy < 1460" | "1460 \<le> 24 * c + q + 365 * r + doy" by linarith
      then have "doy - 365 < (24 * c + q + 365 * r + doy) div 1460
          \<and> (24 * c + q + 365 * r + doy) div 1460 \<le> doy"
      proof cases
        case 1
        then have "(24 * c + q + 365 * r + doy) div 1460 = 0" using b assms(3) by simp
        moreover have "doy \<noteq> 365" using 1 leap(2) b by linarith
        ultimately show ?thesis using leap(1) assms(3) by linarith
      next
        case 2
        have "(24 * c + q + 365 * r + doy) div 1460 = 1"
          using 2 b leap(1) by (simp add: int_div_pos_eq[where r="24 * c + q + 365 * r + doy - 1460"])
        then show ?thesis using 2 b leap(1) by linarith
      qed
      then show "25 * c + q + doy - 365 < doe div 1460" "doe div 1460 \<le> 25 * c + q + doy"
        unfolding div by linarith+
    qed
    ultimately have "365 * yoe \<le> doe - doe div 1460 + doe div 36524 - doe div 146096"
       "doe - doe div 1460 + doe div 36524 - doe div 146096 < 365 * yoe + 365"
      using doe_def yoe by linarith+
    then show ?thesis unfolding doe yoe_of_doe_def
      by (intro int_div_pos_eq[where r="doe - doe div 1460 + doe div 36524 - doe div 146096 - 365 * yoe"]) linarith+
  qed
qed

lemma year_start_Suc:
  assumes "0 \<le> yoe" "yoe < 399"
  shows "year_start (yoe + 1) = year_start yoe + (if leap_year (yoe + 1) then 366 else 365)"
proof -
  obtain c q r where yoe: "yoe = 100 * c + 4 * q + r"
    and b: "0 \<le> c" "c \<le> 3" "0 \<le> q" "q \<le> 24" "0 \<le> r" "r \<le> 3"
  proof -
    have "yoe < 400" using assms(2) by linarith
    from yoe_split[OF assms(1) this] show ?thesis using that by blast
  qed
  consider "r < 3" | "r = 3" "q < 24" | "r = 3" "q = 24" "c < 3"
    using b assms yoe by linarith
  then show ?thesis
  proof cases
    case 1
    then show ?thesis using year_start_split[of c q r] year_start_split[of c q "r + 1"] leap_split[OF b] b
      by (simp add: yoe add.assoc)
  next
    case 2
    then show ?thesis using year_start_split[of c q r] year_start_split[of c "q + 1" 0] leap_split[OF b] b
      by (simp add: yoe algebra_simps)
  next
    case 3
    then show ?thesis using year_start_split[of c q r] year_start_split[of "c + 1" 0 0] leap_split[OF b] b
      by (simp add: yoe algebra_simps)
  qed
qed

lemma doe_decompose:
  assumes "0 \<le> doe" "doe < 146097"
  shows "\<exists>yoe doy. 0 \<le> yoe \<and> yoe < 400 \<and> 0 \<le> doy
    \<and> doy \<le> (if leap_year (yoe + 1) then 365 else 364) \<and> doe = year_start yoe + doy"
  using assms
proof (induction doe rule: int_ge_induct)
  case base
  show ?case by (intro exI[of _ 0]) (simp add: year_start_def)
next
  case (step doe)
  then obtain yoe doy where IH: "0 \<le> yoe" "yoe < 400" "0 \<le> doy"
    "doy \<le> (if leap_year (yoe + 1) then 365 else 364)" "doe = year_start yoe + doy"
    by auto
  consider "doy < (if leap_year (yoe + 1) then 365 else 364)"
    | "doy = (if leap_year (yoe + 1) then 365 else 364)" "yoe < 399"
    | "doy = (if leap_year (yoe + 1) then 365 else 364)" "yoe = 399"
    using IH(2,4) by linarith
  then show ?case
  proof cases
    case 1
    then show ?thesis using IH by (intro exI[of _ yoe] exI[of _ "doy + 1"]) auto
  next
    case 2
    then show ?thesis using IH year_start_Suc[of yoe]
      by (intro exI[of _ "yoe + 1"] exI[of _ 0]) (auto split: if_splits)
  next
    case 3
    then have "doe = 146096" using IH(5) by (simp add: year_start_def leap_year_def)
    then show ?thesis using step.prems by simp
  qed
qed

lemma month_cases:
  assumes "0 \<le> (mp::int)" "mp \<le> 11"
  obtains "mp = 0" | "mp = 1" | "mp = 2" | "mp = 3" | "mp = 4" | "mp = 5"
    | "mp = 6" | "mp = 7" | "mp = 8" | "mp = 9" | "mp = 10" | "mp = 11"
proof -
  have "mp = 0 \<or> mp = 1 \<or> mp = 2 \<or> mp = 3 \<or> mp = 4 \<or> mp = 5 \<or> mp = 6 \<or> mp = 7
    \<or> mp = 8 \<or> mp = 9 \<or> mp = 10 \<or> mp = 11"
    using assms by presburger
  then show ?thesis using that by blast
qed

lemma month_of_doy_unique:
  assumes "0 \<le> mp" "mp \<le> 11" "1 \<le> d" "d \<le> days_in_month y (shift_month mp)"
  shows "(5 * (month_start mp + d - 1) + 2) div 153 = mp"
proof -
  have "d \<le> (if mp \<in> {1, 3, 6, 8} then 30 else if mp = 11 then 29 else 31)"
    using assms by (cases rule: month_cases[OF assms(1,2)])
      (simp_all add: days_in_month_def shift_month_def split: if_splits)
  then have "153 * mp \<le> 5 * (month_start mp + d - 1) + 2"
    "5 * (month_start mp + d - 1) + 2 < 153 * mp + 153"
    using assms(3) by (cases rule: month_cases[OF assms(1,2)]; simp add: month_start_def)+
  then show ?thesis
    by (intro int_div_pos_eq[where r = "5 * (month_start mp + d - 1) + 2 - 153 * mp"]) linarith+
qed

lemma month_start_Suc:
  assumes "0 \<le> mp" "mp < 11"
  shows "month_start (mp + 1) = month_start mp + days_in_month y (shift_month mp)"
  using assms by (cases rule: month_cases[OF assms(1)])
    (simp_all add: month_start_def days_in_month_def shift_month_def)

lemma doy_decompose:
  assumes "0 \<le> doy" "doy \<le> (if leap_year y then 365 else 364)"
  shows "\<exists>mp d. 0 \<le> mp \<and> mp \<le> 11 \<and> 1 \<le> d \<and> d \<le> days_in_month y (shift_month mp)
    \<and> doy = month_start mp + d - 1"
  using assms
proof (induction doy rule: int_ge_induct)
  case base
  show ?case
    by (intro exI[of _ 0] exI[of _ 1]) (simp add: month_start_def days_in_month_def shift_month_def)
next
  case (step doy)
  then obtain mp d where IH: "0 \<le> mp" "mp \<le> 11" "1 \<le> d" "d \<le> days_in_month y (shift_month mp)"
    "doy = month_start mp + d - 1"
    by auto
  consider "d < days_in_month y (shift_month mp)" | "d = days_in_month y (shift_month mp)" "mp < 11"
    | "d = days_in_month y (shift_month mp)" "mp = 11"
    using IH(2,4) by linarith
  then show ?case
  proof cases
    case 1
    then show ?thesis using IH by (intro exI[of _ mp] exI[of _ "d + 1"]) auto
  next
    case 2
    then show ?thesis using IH month_start_Suc[of mp y]
      by (intro exI[of _ "mp + 1"] exI[of _ 1])
        (auto simp: days_in_month_def)
  next
    case 3
    have "month_start 11 = 337" "days_in_month y (shift_month 11) = (if leap_year y then 29 else 28)"
      by (simp_all add: month_start_def shift_month_def days_in_month_def)
    with 3 have "doy = (if leap_year y then 365 else 364)" using IH(5) by simp
    then show ?thesis using step.prems by (simp split: if_splits)
  qed
qed

lemma leap_year_add: "leap_year (y + 400 * k) = leap_year y"
proof -
  have "(y + 400 * k) mod 4 = y mod 4" "(y + 400 * k) mod 100 = y mod 100"
    using mod_mult_self2[of y 4 "100 * k"] mod_mult_self2[of y 100 "4 * k"] by (simp_all add: mult.assoc[symmetric])
  then show ?thesis by (simp add: leap_year_def)
qed

text \<open>A date, its day of era and its day of March-based year.\<close>

lemma valid_date_march:
  assumes "valid_date (y0, m, d)"
  defines "y \<equiv> y0 - (if m \<le> 2 then 1 else 0)" and "mp \<equiv> m + (if m > 2 then - 3 else 9)"
  shows "0 \<le> mp" "mp \<le> 11" "shift_month mp = m" "1 \<le> d" "d \<le> days_in_month y0 m"
    "y0 = y + (if shift_month mp \<le> 2 then 1 else 0)"
    "month_start mp + d - 1 \<le> (if leap_year (y + 1) then 365 else 364)" "0 \<le> month_start mp + d - 1"
proof -
  show mp: "0 \<le> mp" "mp \<le> 11" "shift_month mp = m" and d: "1 \<le> d" "d \<le> days_in_month y0 m"
    using assms(1) by (auto simp: mp_def shift_month_def)
  show y: "y0 = y + (if shift_month mp \<le> 2 then 1 else 0)"
    by (simp add: mp y_def)
  show "month_start mp + d - 1 \<le> (if leap_year (y + 1) then 365 else 364)"
    using d(2) y unfolding mp(3)[symmetric]
    by (cases rule: month_cases[OF mp(1,2)])
      (simp_all add: month_start_def days_in_month_def shift_month_def split: if_splits)
  show "0 \<le> month_start mp + d - 1"
    using mp(1) d(1) by (simp add: month_start_def)
qed

theorem civil_of_days_of_civil:
  assumes "valid_date D"
  shows "civil_from_days (days_from_civil D) = D"
proof -
  obtain y0 m d where D: "D = (y0, m, d)" by (cases D) auto
  define y mp where "y = y0 - (if m \<le> 2 then 1 else 0)" and "mp = m + (if m > 2 then - 3 else 9)"
  note v = valid_date_march[OF assms[unfolded D], folded y_def mp_def]
  define doy doe where "doy = month_start mp + d - 1" and "doe = year_start (y mod 400) + doy"
  have ymod: "0 \<le> y mod 400" "y mod 400 < 400" by simp_all
  have leap: "leap_year (y mod 400 + 1) = leap_year (y + 1)"
    using leap_year_add[of "y mod 400 + 1" "y div 400"] by (simp add: algebra_simps)
  have doy: "0 \<le> doy" "doy \<le> (if leap_year (y mod 400 + 1) then 365 else 364)"
    using v(7,8) by (simp_all add: doy_def leap)
  have z: "days_from_civil D + 719468 = 146097 * (y div 400) + doe"
    by (simp add: days_from_civil_def D Let_def y_def[symmetric] mp_def[symmetric] doe_def doy_def)
  have doe: "0 \<le> doe" "doe < 146097"
  proof -
    have "year_start (y mod 400) + 365 < 146097 \<or> y mod 400 = 399"
      using ymod unfolding year_start_def by linarith
    moreover have "year_start 399 = 145731" by (simp add: year_start_def)
    ultimately show "doe < 146097" using doy(2) unfolding doe_def by (auto split: if_splits)
    have "0 \<le> year_start (y mod 400)"
      using ymod unfolding year_start_def by linarith
    then show "0 \<le> doe" using doy(1) unfolding doe_def by linarith
  qed
  have mod: "(days_from_civil D + 719468) mod 146097 = doe" "(days_from_civil D + 719468) div 146097 = y div 400"
    unfolding z using doe by simp_all
  have yoe: "yoe_of_doe doe = y mod 400"
    unfolding doe_def by (rule yoe_of_doe_unique[OF ymod doy])
  have A: "doe - year_start (y mod 400) = doy" by (simp add: doe_def)
  have B: "(5 * doy + 2) div 153 = mp"
    unfolding doy_def by (rule month_of_doy_unique[OF v(1,2,4), of y0]) (simp add: v(3,5))
  have "civil_from_days (days_from_civil D)
      = (y mod 400 + y div 400 * 400 + (if shift_month mp \<le> 2 then 1 else 0), shift_month mp,
         doy - month_start mp + 1)"
    by (simp only: civil_from_days_def Let_def mod yoe A B shift_month_def)
  also have "\<dots> = D"
    using v(3,6) by (simp add: D doy_def)
  finally show ?thesis .
qed

theorem days_of_civil_of_days: "days_from_civil (civil_from_days z) = z \<and> valid_date (civil_from_days z)"
proof -
  define doe where "doe = (z + 719468) mod 146097"
  have "0 \<le> doe" "doe < 146097" by (simp_all add: doe_def)
  from doe_decompose[OF this] obtain yoe doy where yd: "0 \<le> yoe" "yoe < 400" "0 \<le> doy"
    "doy \<le> (if leap_year (yoe + 1) then 365 else 364)" "doe = year_start yoe + doy" by blast
  define y where "y = yoe + 400 * ((z + 719468) div 146097)"
  have leap: "leap_year (yoe + 1) = leap_year (y + 1)"
    using leap_year_add[of "yoe + 1" "(z + 719468) div 146097"] by (simp add: y_def algebra_simps)
  from doy_decompose[OF yd(3), of "y + 1"] yd(4) obtain mp d where md: "0 \<le> mp" "mp \<le> 11" "1 \<le> d"
    "d \<le> days_in_month (y + 1) (shift_month mp)" "doy = month_start mp + d - 1"
    unfolding leap by blast
  define D where "D = (y + (if shift_month mp \<le> 2 then 1 else 0), shift_month mp, d)"
  have dim: "days_in_month (y + (if shift_month mp \<le> 2 then 1 else 0)) (shift_month mp) = days_in_month (y + 1) (shift_month mp)"
    by (simp add: days_in_month_def)
  have valid: "valid_date D"
  proof -
    have "1 \<le> shift_month mp" "shift_month mp \<le> 12" using md(1,2) by (simp_all add: shift_month_def)
    then show ?thesis using md(3,4) unfolding D_def valid_date.simps dim by simp
  qed
  have y400: "y div 400 = (z + 719468) div 146097" "y mod 400 = yoe"
    using yd(1,2) by (simp_all add: y_def)
  have "days_from_civil D = z"
  proof -
    have "shift_month mp + (if shift_month mp > 2 then - 3 else 9) = mp"
      using md(1,2) by (simp add: shift_month_def)
    then have "days_from_civil D = ((z + 719468) div 146097) * 146097 + doe - 719468"
      by (simp add: days_from_civil_def D_def y400 yd(5) md(5))
    then show ?thesis by (simp add: doe_def)
  qed
  moreover have "civil_from_days z = D"
    using civil_of_days_of_civil[OF valid] calculation by simp
  ultimately show ?thesis using valid by simp
qed

lemma year_days_Suc:
  "((y + 1) div 400) * 146097 + year_start ((y + 1) mod 400)
   = (y div 400) * 146097 + year_start (y mod 400) + (if leap_year (y + 1) then 366 else 365)"
proof (cases "y mod 400 = 399")
  case True
  define k where "k = y div 400"
  have y: "y = 399 + 400 * k" unfolding k_def using True by presburger
  have "leap_year (400 + 400 * k) = leap_year 400" by (rule leap_year_add)
  then have leap: "leap_year (y + 1)" unfolding y by (simp add: leap_year_def)
  have "y + 1 = 400 * (k + 1)" unfolding y by simp
  then have "(y + 1) div 400 = k + 1" "(y + 1) mod 400 = 0" by simp_all
  then show ?thesis
    using leap True by (simp add: k_def[symmetric] year_start_def)
next
  case False
  have m: "0 \<le> y mod 400" "y mod 400 < 400" by simp_all
  with False have "y mod 400 < 399" by linarith
  moreover have "(y + 1) mod 400 = y mod 400 + 1" "(y + 1) div 400 = y div 400"
  proof -
    obtain q r where qr: "y mod 400 = r" "y div 400 = q" "y + 1 = 400 * q + (r + 1)"
      using mult_div_mod_eq[of 400 y] by (metis add.assoc)
    then show "(y + 1) mod 400 = y mod 400 + 1" "(y + 1) div 400 = y div 400"
      using \<open>y mod 400 < 399\<close> m by (simp_all only: qr(1,2,3) mod_mult_self4 div_mult_self4) simp_all
  qed
  moreover have "leap_year (y mod 400 + 1) = leap_year (y + 1)"
    using leap_year_add[of "y mod 400 + 1" "y div 400"] by (simp add: algebra_simps)
  ultimately show ?thesis
    using year_start_Suc[of "y mod 400"] m by simp
qed

lemma valid_next_date: "valid_date D \<Longrightarrow> valid_date (next_date D)"
  by (cases D) (auto simp: days_in_month_def)

lemma days_from_next_date:
  assumes "valid_date D"
  shows "days_from_civil (next_date D) = days_from_civil D + 1"
proof -
  obtain y m d where D: "D = (y, m, d)" by (cases D) auto
  consider "d < days_in_month y m" | "d = days_in_month y m" "m = 2" | "d = days_in_month y m" "m \<noteq> 2"
  proof -
    have "d \<le> days_in_month y m" using assms by (simp add: D)
    then show ?thesis using that by fastforce
  qed
  then show ?thesis
  proof cases
    case 1
    then show ?thesis by (simp add: D days_from_civil_def Let_def)
  next
    case 2
    then show ?thesis using year_days_Suc[of "y - 1"]
      by (simp add: D days_from_civil_def month_start_def days_in_month_def Let_def)
  next
    case 3
    define mp where "mp = m + (if m > 2 then - 3 else 9)"
    have mp: "0 \<le> mp" "mp < 11" "shift_month mp = m"
      using assms 3 by (auto simp: D mp_def shift_month_def)
    have dim: "days_in_month (y - 1) m = days_in_month y m"
      using 3(2) by (simp add: days_in_month_def)
    show ?thesis
      using 3 assms month_start_Suc[OF mp(1,2), of y] mp(3)
      by (auto simp: D days_from_civil_def Let_def mp_def split: if_splits)
  qed
qed

theorem civil_from_days_Suc: "civil_from_days (z + 1) = next_date (civil_from_days z)"
proof -
  have v: "valid_date (civil_from_days z)" and z: "days_from_civil (civil_from_days z) = z"
    using days_of_civil_of_days by simp_all
  have "civil_from_days (days_from_civil (next_date (civil_from_days z))) = next_date (civil_from_days z)"
    by (rule civil_of_days_of_civil[OF valid_next_date[OF v]])
  then show ?thesis by (simp add: days_from_next_date[OF v] z)
qed

lemma civil_from_days_epoch: "civil_from_days 0 = (1970, 1, 1)"
  by code_simp

theorem civil_from_days_iterate:
  "civil_from_days (int n) = (next_date ^^ n) (1970, 1, 1)"
proof (induction n)
  case 0
  show ?case by (simp add: civil_from_days_epoch)
next
  case (Suc n)
  have "civil_from_days (int (Suc n)) = civil_from_days (int n + 1)" by (simp add: add.commute)
  then show ?case by (simp only: civil_from_days_Suc Suc.IH funpow.simps comp_apply)
qed

text \<open>The intermediate values are non-negative, so the truncating divisions of the sources are floors.\<close>

lemma doe_nonneg:
  assumes "0 \<le> doe" "doe < 146097"
  shows "0 \<le> yoe_of_doe doe" "0 \<le> doe - doe div 1460 + doe div 36524 - doe div 146096"
    "0 \<le> doe - year_start (yoe_of_doe doe)"
    "0 \<le> (5 * (doe - year_start (yoe_of_doe doe)) + 2) div 153"
proof -
  obtain yoe doy where yd: "0 \<le> yoe" "yoe < 400" "0 \<le> doy"
    "doy \<le> (if leap_year (yoe + 1) then 365 else 364)" "doe = year_start yoe + doy"
    using doe_decompose[OF assms] by blast
  have yoe: "yoe_of_doe doe = yoe" using yoe_of_doe_unique[OF yd(1-4)] yd(5) by simp
  show "0 \<le> yoe_of_doe doe" "0 \<le> doe - year_start (yoe_of_doe doe)"
    unfolding yoe using yd(1,3,5) by simp_all
  then show "0 \<le> (5 * (doe - year_start (yoe_of_doe doe)) + 2) div 153" by simp
  show "0 \<le> doe - doe div 1460 + doe div 36524 - doe div 146096"
    using assms by linarith
qed

lemma sdiv_era: "(if 0 \<le> z then z else z - 146096) sdiv 146097 = z div (146097::int)"
proof -
  have "(146096::int) = 146097 - 1" by simp
  then show ?thesis by (simp only: sdiv_floor zero_less_numeral)
qed

lemma minus_era: "z - z div 146097 * 146097 = z mod (146097::int)"
  by (simp add: minus_div_mult_eq_mod)

lemma copies_civil:
  fixes z :: int
  assumes "civil_from_days z = (y, m, d)"
  shows "types_civil_from_days z = (as_i32 y, m, d)"
    and "maintain_civil_from_days z = (as_i32 y, m, d)"
    and "autonomy_civil_from_days z = (y, m, d)"
proof -
  define doe where "doe = (z + 719468) mod 146097"
  have d: "0 \<le> doe" "doe < 146097" by (simp_all add: doe_def)
  note n = doe_nonneg[OF d]
  have yoe: "(doe - doe sdiv 1460 + doe sdiv 36524 - doe sdiv 146096) sdiv 365 = yoe_of_doe doe"
    using d n(2) by (simp add: yoe_of_doe_def)
  have doy: "365 * yoe_of_doe doe + yoe_of_doe doe sdiv 4 - yoe_of_doe doe sdiv 100 = year_start (yoe_of_doe doe)"
    using n(1) by (simp add: year_start_def)
  have mp: "(5 * (doe - year_start (yoe_of_doe doe)) + 2) sdiv 153 = (5 * (doe - year_start (yoe_of_doe doe)) + 2) div 153"
    using n(3) by simp
  have ms: "(153 * ((5 * (doe - year_start (yoe_of_doe doe)) + 2) div 153) + 2) sdiv 5
      = month_start ((5 * (doe - year_start (yoe_of_doe doe)) + 2) div 153)"
    using n(4) by (simp add: month_start_def)
  show "types_civil_from_days z = (as_i32 y, m, d)"
    using assms
    unfolding types_civil_from_days_def civil_from_days_def Let_def sdiv_era minus_era doe_def[symmetric]
      yoe doy mp ms by (auto split: if_splits)
  show "maintain_civil_from_days z = (as_i32 y, m, d)"
    using assms
    unfolding maintain_civil_from_days_def civil_from_days_def Let_def sdiv_era minus_era doe_def[symmetric]
      yoe doy mp ms by (auto split: if_splits)
  show "autonomy_civil_from_days z = (y, m, d)"
    using assms
    unfolding autonomy_civil_from_days_def civil_from_days_def Let_def sdiv_era minus_era doe_def[symmetric]
      yoe doy mp ms by (auto split: if_splits)
qed

section \<open>Dates to days in the sources\<close>

text \<open>
  In the range of four-digit years and two-digit months and days, which is what \<open>maintain.rs\<close>
  can parse, no operation of either copy wraps.
\<close>

lemma era_bounds:
  assumes "- 10000 \<le> y" "y \<le> (9999::int)"
  shows "(if y \<ge> 0 then y else y - 399) sdiv 400 = y div 400" "y - y div 400 * 400 = y mod 400"
    "- 26 \<le> y div 400" "y div 400 \<le> 25" "0 \<le> y mod 400" "y mod 400 < 400"
proof -
  show "(if y \<ge> 0 then y else y - 399) sdiv 400 = y div 400"
  proof -
    have "(399::int) = 400 - 1" by simp
    then show ?thesis by (simp only: sdiv_floor zero_less_numeral)
  qed
  show "- 26 \<le> y div 400" "y div 400 \<le> 25" using assms by linarith+
qed (simp_all add: minus_div_mult_eq_mod)

lemma small_wraps:
  assumes "- 10000000 \<le> x" "x \<le> 10000000"
  shows "as_i32 x = x" "as_i64 x = x"
  using assms by simp_all

lemma copies_days:
  assumes "- 9999 \<le> y0" "y0 \<le> 9999" "0 \<le> m" "m \<le> 99" "0 \<le> d" "d \<le> 99"
  shows "maintain_days_from_civil y0 m d = days_from_civil (y0, m, d)"
    and "autonomy_days_from_civil y0 m d = days_from_civil (y0, m, d)"
proof -
  define y mp where "y = y0 - (if m \<le> 2 then 1 else 0)" and "mp = m + (if m > 2 then - 3 else 9)"
  define yoe ms where "yoe = y mod 400" and "ms = (153 * mp + 2) div 5"
  have y: "- 10000 \<le> y" "y \<le> 9999" using assms(1,2) by (simp_all add: y_def)
  note e = era_bounds[OF y, folded yoe_def]
  have mp: "0 \<le> mp" "mp \<le> 108" using assms(3,4) by (auto simp: mp_def)
  have ms: "0 \<le> ms" "ms \<le> 3400" using mp unfolding ms_def by linarith+
  have q: "0 \<le> yoe div 4" "yoe div 4 \<le> 100" "0 \<le> yoe div 100" "yoe div 100 \<le> 4"
    using e(5,6) by linarith+
  have nn: "0 \<le> 153 * mp + 2" "0 \<le> yoe" using mp e by simp_all
  note eqs =
    small_wraps[of y, OF order_trans[OF _ y(1)] order_trans[OF y(2)], simplified]
  have w1: "as_i32 (y - 399) = y - 399" "as_i64 (y - 399) = y - 399"
    "as_i32 m = m"
    "as_i32 mp = mp" "as_i64 mp = mp" "as_i32 d = d"
    using small_wraps y mp assms by simp_all
  have w2: "as_i32 (y div 400 * 400) = y div 400 * 400" "as_i64 (y div 400 * 400) = y div 400 * 400"
    "as_i32 yoe = yoe" "as_i64 yoe = yoe"
    "as_i32 (153 * mp) = 153 * mp" "as_i64 (153 * mp) = 153 * mp"
    "as_i32 (153 * mp + 2) = 153 * mp + 2" "as_i64 (153 * mp + 2) = 153 * mp + 2"
    using e(3-6) mp by (intro small_wraps; linarith)+
  have w3: "as_i32 (ms + d) = ms + d" "as_i64 (ms + d) = ms + d"
    "as_i32 (ms + d - 1) = ms + d - 1" "as_i64 (ms + d - 1) = ms + d - 1"
    using ms assms(5,6) by (intro small_wraps; linarith)+
  have w4: "as_i32 (yoe * 365) = yoe * 365" "as_i64 (yoe * 365) = yoe * 365"
    "as_i32 (yoe * 365 + yoe div 4) = yoe * 365 + yoe div 4"
    "as_i64 (yoe * 365 + yoe div 4) = yoe * 365 + yoe div 4"
    "as_i32 (yoe * 365 + yoe div 4 - yoe div 100) = yoe * 365 + yoe div 4 - yoe div 100"
    "as_i64 (yoe * 365 + yoe div 4 - yoe div 100) = yoe * 365 + yoe div 4 - yoe div 100"
    using e(5,6) q by (intro small_wraps; linarith)+
  define doe where "doe = yoe * 365 + yoe div 4 - yoe div 100 + (ms + d - 1)"
  have doe: "0 \<le> doe + 1" "doe \<le> 200000" unfolding doe_def using e(5,6) q ms assms(5,6) by linarith+
  have w5: "as_i32 doe = doe" "as_i64 doe = doe"
    "as_i32 (y div 400 * 146097) = y div 400 * 146097" "as_i64 (y div 400 * 146097) = y div 400 * 146097"
    "as_i32 (y div 400 * 146097 + doe) = y div 400 * 146097 + doe"
    "as_i64 (y div 400 * 146097 + doe) = y div 400 * 146097 + doe"
    "as_i32 (y div 400 * 146097 + doe - 719468) = y div 400 * 146097 + doe - 719468"
    "as_i64 (y div 400 * 146097 + doe - 719468) = y div 400 * 146097 + doe - 719468"
    using e(3,4) doe by (intro small_wraps; linarith)+
  have sd: "(153 * mp + 2) sdiv 5 = ms" "yoe sdiv 4 = yoe div 4" "yoe sdiv 100 = yoe div 100"
    using nn by (simp_all add: ms_def)
  have rhs: "days_from_civil (y0, m, d) = y div 400 * 146097 + doe - 719468"
    unfolding days_from_civil_def prod.case Let_def y_def[symmetric] mp_def[symmetric]
      year_start_def month_start_def yoe_def[symmetric] ms_def[symmetric] doe_def by simp
  show "maintain_days_from_civil y0 m d = days_from_civil (y0, m, d)"
    unfolding maintain_days_from_civil_def Let_def y_def[symmetric] eqs w1 mp_def[symmetric] e(1) w2
      e(2) sd w3 w4 doe_def[symmetric] w5 rhs ..
  show "autonomy_days_from_civil y0 m d = days_from_civil (y0, m, d)"
    unfolding autonomy_days_from_civil_def Let_def y_def[symmetric] eqs w1 mp_def[symmetric] e(1) w2
      e(2) sd w3 w4 doe_def[symmetric] w5 rhs ..
qed

text \<open>The three copies of the days-to-date conversion agree with counting: the date of day \<open>n\<close> is
  the \<open>n\<close>-th successor of 1970-01-01 in the proleptic Gregorian calendar, with the year cast to
  \<open>i32\<close> in two of the copies.\<close>

theorem civil_copies_count_days:
  "\<exists>y m d. (next_date ^^ n) (1970, 1, 1) = (y, m, d)
     \<and> types_civil_from_days (int n) = (as_i32 y, m, d)
     \<and> maintain_civil_from_days (int n) = (as_i32 y, m, d)
     \<and> autonomy_civil_from_days (int n) = (y, m, d)"
proof -
  obtain y m d where ymd: "(next_date ^^ n) (1970, 1, 1) = (y, m, d)" by (cases "(next_date ^^ n) (1970, 1, 1)") auto
  then have "civil_from_days (int n) = (y, m, d)" by (simp only: civil_from_days_iterate)
  from copies_civil[OF this] ymd show ?thesis by blast
qed

text \<open>For every valid date of the years -9999 to 9999 the two date-to-days conversions agree, and
  the conversion beside each of them gives the date back.\<close>

theorem civil_days_roundtrip:
  assumes "valid_date (y, m, d)" "- 9999 \<le> y" "y \<le> 9999"
  shows "maintain_days_from_civil y m d = autonomy_days_from_civil y m d
    \<and> maintain_civil_from_days (maintain_days_from_civil y m d) = (y, m, d)
    \<and> autonomy_civil_from_days (autonomy_days_from_civil y m d) = (y, m, d)"
proof -
  have md: "0 \<le> m" "m \<le> 99" "0 \<le> d" "d \<le> 99"
    using assms(1) by (auto simp: days_in_month_def split: if_splits)
  have "as_i32 y = y" using assms(2,3) by simp
  with copies_civil[OF civil_of_days_of_civil[OF assms(1)]] copies_days[OF assms(2,3) md] show ?thesis
    by simp
qed

theorem civil_days_roundtrip_witness:
  "maintain_civil_from_days (maintain_days_from_civil 2024 2 29) = (2024, 2, 29)"
proof -
  have "valid_date (2024, 2, 29)" by code_simp
  moreover have "- 9999 \<le> (2024::int)" "(2024::int) \<le> 9999" by simp_all
  ultimately show ?thesis using civil_days_roundtrip by blast
qed

end
