(* ===== verification/Timestamps.thy ===== *)
theory Timestamps
  imports Calendar
begin

text \<open>
  Timestamps. \<open>std::time::SystemTime\<close> is the signed number of nanoseconds since the Unix epoch.
  The formatters and parsers of \<open>session/maintain.rs\<close> and \<open>session/autonomy.rs\<close>, the staleness
  test of \<open>maintain.rs\<close>, and the session-id stamp of \<open>types.rs\<close>; the theorems are the
  round trips through ISO 8601 text and the shape of the stamp.
\<close>

type_synonym system_time = int

definition nanos :: int where
  "nanos = 1000000000"

datatype ts_error =
    TooShort string
  | ParseIntError string
  | SlicePanic
  | BeforeEpoch string

definition saturate_i64 :: "int \<Rightarrow> int" where
  "saturate_i64 x = max (- (2 ^ 63)) (min (2 ^ 63 - 1) x)"

section \<open>Formatting\<close>

text \<open>\<open>t.duration_since(UNIX_EPOCH).unwrap_or_default().as_secs() as i64\<close>.\<close>

definition unix_secs :: "system_time \<Rightarrow> int" where
  "unix_secs t = as_i64 ((if t < 0 then 0 else t) div nanos)"

definition iso_text :: "int \<Rightarrow> int \<Rightarrow> int \<Rightarrow> int \<Rightarrow> int \<Rightarrow> int \<Rightarrow> string" where
  "iso_text y m d hh mm ss =
     show_int_pad 4 y @ ''-'' @ show_int_pad 2 m @ ''-'' @ show_int_pad 2 d @ ''T''
     @ show_int_pad 2 hh @ '':'' @ show_int_pad 2 mm @ '':'' @ show_int_pad 2 ss @ ''Z''"

definition maintain_format_system_time :: "system_time \<Rightarrow> string" where
  "maintain_format_system_time t =
     (let secs = unix_secs t;
          days = secs div 86400;
          rem = secs mod 86400;
          (year, month, day) = maintain_civil_from_days days;
          hour = rem sdiv 3600;
          minute = (rem smod 3600) sdiv 60;
          sec = rem smod 60
      in iso_text year month day hour minute sec)"

definition autonomy_format_system_time :: "system_time \<Rightarrow> string" where
  "autonomy_format_system_time t =
     (let secs = unix_secs t;
          days = secs div 86400;
          rem = secs mod 86400;
          (y, m, d) = autonomy_civil_from_days days;
          hh = rem sdiv 3600;
          mm = (rem smod 3600) sdiv 60;
          ss = rem smod 60
      in iso_text y m d hh mm ss)"

section \<open>Parsing\<close>

definition slice_parse :: "(string \<Rightarrow> 'a option) \<Rightarrow> string \<Rightarrow> nat \<Rightarrow> nat \<Rightarrow> ts_error + 'a" where
  "slice_parse f s i j =
     (case byte_slice s i j of None \<Rightarrow> Inl SlicePanic
      | Some t \<Rightarrow> (case f t of None \<Rightarrow> Inl (ParseIntError t) | Some v \<Rightarrow> Inr v))"

definition maintain_parse_isoish_utc :: "string \<Rightarrow> ts_error + system_time" where
  "maintain_parse_isoish_utc s =
     (if length s < 19 then Inl (TooShort s)
      else case slice_parse (parse_signed 32) s 0 4 of Inl e \<Rightarrow> Inl e | Inr year \<Rightarrow>
      case slice_parse (parse_unsigned 32) s 5 7 of Inl e \<Rightarrow> Inl e | Inr month \<Rightarrow>
      case slice_parse (parse_unsigned 32) s 8 10 of Inl e \<Rightarrow> Inl e | Inr day \<Rightarrow>
      case slice_parse (parse_unsigned 64) s 11 13 of Inl e \<Rightarrow> Inl e | Inr hour \<Rightarrow>
      case slice_parse (parse_unsigned 64) s 14 16 of Inl e \<Rightarrow> Inl e | Inr minute \<Rightarrow>
      case slice_parse (parse_unsigned 64) s 17 19 of Inl e \<Rightarrow> Inl e | Inr sec \<Rightarrow>
        (let days = maintain_days_from_civil year (int month) (int day);
             total = saturate_i64 (saturate_i64 (days * 86400)
                       + as_i64 (int (hour * 3600 + minute * 60 + sec)))
         in if total < 0 then Inl (BeforeEpoch s) else Inr (total * nanos)))"

definition is_stale :: "string \<Rightarrow> system_time \<Rightarrow> nat \<Rightarrow> ts_error + bool" where
  "is_stale updated_at now stale_after_days =
     (case maintain_parse_isoish_utc updated_at of Inl e \<Rightarrow> Inl e
      | Inr updated \<Rightarrow>
          (let threshold = int (saturating_mul_u64 stale_after_days (24 * 60 * 60)) * nanos
           in Inr ((if updated \<le> now then now - updated else 0) > threshold)))"

definition parse_i64_list :: "string list \<Rightarrow> int list option" where
  "parse_i64_list ps = collect_options (map (parse_signed 64) ps)"

definition autonomy_parse_isoish_utc :: "string \<Rightarrow> system_time option" where
  "autonomy_parse_isoish_utc s0 =
     (let s = (case strip_suffix s0 ''Z'' of Some r \<Rightarrow> r | None \<Rightarrow> s0)
      in case split_char (CHR ''T'') s of
        [dt, tm] \<Rightarrow>
          (case parse_i64_list (split_char (CHR ''-'') dt) of
             Some [y, m, d] \<Rightarrow>
               (let time_head = (case split_char (CHR ''.'') tm of h # _ \<Rightarrow> h | [] \<Rightarrow> tm)
                in case parse_i64_list (split_char (CHR '':'') time_head) of
                  Some [hh, mm, ss] \<Rightarrow>
                    (let days = autonomy_days_from_civil y m d
                     in if days < 0 then None
                        else Option.bind (checked_i64 (days * 86400)) (\<lambda>a.
                             Option.bind (checked_i64 (hh * 3600)) (\<lambda>h.
                             Option.bind (checked_i64 (a + h)) (\<lambda>b.
                             Option.bind (checked_i64 (mm * 60)) (\<lambda>mi.
                             Option.bind (checked_i64 (b + mi)) (\<lambda>c.
                             Option.bind (checked_i64 (c + ss)) (\<lambda>secs.
                               if secs < 0 then None else Some (secs * nanos))))))))
                | _ \<Rightarrow> None)
           | _ \<Rightarrow> None)
      | _ \<Rightarrow> None)"

section \<open>The session-id stamp\<close>

text \<open>\<open>format_ymd_hms_utc\<close> of \<open>types.rs\<close>: \<open>YYYYMMDD-HHMMSS\<close> of a \<open>u64\<close> second count.\<close>

definition format_ymd_hms_utc :: "nat \<Rightarrow> string" where
  "format_ymd_hms_utc secs =
     (let days = secs div 86400;
          s_of_day = secs mod 86400;
          hour = s_of_day div 3600;
          minute = (s_of_day mod 3600) div 60;
          second = s_of_day mod 60;
          (year, month, day) = types_civil_from_days (as_i64 (int days))
      in show_int_pad 4 year @ show_int_pad 2 month @ show_int_pad 2 day @ ''-''
         @ show_int_pad 2 (int hour) @ show_int_pad 2 (int minute) @ show_int_pad 2 (int second))"

section \<open>Years of the supported range\<close>

text \<open>The first second of the year 10000.\<close>

definition year_10000 :: int where
  "year_10000 = 253402300800"

lemma next_date_year_mono: "fst D \<le> fst (next_date D)"
  by (cases D) auto

lemma civil_year_mono: "0 \<le> a \<Longrightarrow> a \<le> b \<Longrightarrow> fst (civil_from_days a) \<le> fst (civil_from_days b)"
proof -
  assume "0 \<le> a" "a \<le> b"
  then obtain n k where nk: "a = int n" "b = int (n + k)"
    by (metis nat_0_le zle_iff_zadd of_nat_add)
  have "fst (civil_from_days (int n)) \<le> fst (civil_from_days (int (n + k)))"
  proof (induction k)
    case (Suc k)
    have "civil_from_days (int (n + Suc k)) = next_date (civil_from_days (int (n + k)))"
      using civil_from_days_Suc[of "int (n + k)"] by (simp add: algebra_simps)
    with Suc next_date_year_mono show ?case by (metis order_trans)
  qed simp
  then show ?thesis by (simp add: nk)
qed

lemma civil_range:
  assumes "0 \<le> z" "z < 2932897"
  obtains y m d where "civil_from_days z = (y, m, d)" "1970 \<le> y" "y \<le> 9999"
    "1 \<le> m" "m \<le> 12" "1 \<le> d" "d \<le> 31" "days_from_civil (y, m, d) = z"
proof -
  obtain y m d where c: "civil_from_days z = (y, m, d)" by (cases "civil_from_days z") auto
  have last: "civil_from_days 2932896 = (9999, 12, 31)" by code_simp
  have v: "valid_date (y, m, d)" and z: "days_from_civil (y, m, d) = z"
    using days_of_civil_of_days[of z] c by simp_all
  have "1970 \<le> y" using civil_year_mono[of 0 z] assms c civil_from_days_epoch by simp
  moreover have "y \<le> 9999" using civil_year_mono[of z 2932896] assms c last by simp
  moreover have "d \<le> 31" using v by (auto simp: days_in_month_def split: if_splits)
  ultimately show ?thesis using that[OF c] v z by simp
qed

section \<open>The text of a date and time, piece by piece\<close>

text \<open>A field of \<open>w\<close> digits of value \<open>n\<close>.\<close>

definition field :: "nat \<Rightarrow> string \<Rightarrow> nat \<Rightarrow> bool" where
  "field w s n \<longleftrightarrow> length s = w \<and> parse_digits s = Some n"

lemma field_show:
  assumes "0 \<le> x" "x < 10 ^ w" "0 < w"
  shows "field w (show_int_pad w x) (nat x)"
proof -
  have "nat x < 10 ^ w"
    using assms(1,2) by (metis nat_less_iff of_nat_numeral of_nat_power)
  then show ?thesis
    using length_pad_show assms by (simp add: field_def show_int_pad_nonneg)
qed

lemma field_digits: "field w s n \<Longrightarrow> list_all is_ascii_digit s"
  by (auto simp: field_def parse_digits_def split: if_splits)

lemmas field_notin = list_all_digit_notin [OF field_digits]

lemma field2: assumes "field 2 s n" obtains a b where "s = [a, b]" "is_ascii_digit a" "is_ascii_digit b"
proof -
  have "length s = Suc (Suc 0)" "list_all is_ascii_digit s"
    using assms field_digits by (auto simp: field_def)
  then show ?thesis using that by (auto simp: length_Suc_conv)
qed

lemma field4: assumes "field 4 s n" obtains a b c d where "s = [a, b, c, d]"
  "is_ascii_digit a" "is_ascii_digit b" "is_ascii_digit c" "is_ascii_digit d"
proof -
  have "length s = Suc (Suc (Suc (Suc 0)))" "list_all is_ascii_digit s"
    using assms field_digits by (auto simp: field_def)
  then show ?thesis using that by (auto simp: length_Suc_conv)
qed

lemma digit_boundary: "is_ascii_digit c \<Longrightarrow> (of_char c :: nat) < 128"
  by (simp add: is_ascii_digit_def)

lemma slice_append:
  assumes "s = p @ t @ q" "list_all (\<lambda>c. (of_char c :: nat) < 128) s"
    "i = length p" "j = length p + length t"
  shows "byte_slice s i j = Some t"
proof -
  have b: "is_char_boundary s k" if "k \<le> length s" for k
  proof (cases "k = length s")
    case False
    then have "(of_char (s ! k) :: nat) < 128" "k < length s"
      using that assms(2) by (simp_all add: list_all_length)
    then show ?thesis by (simp add: is_char_boundary_def)
  qed (simp add: is_char_boundary_def)
  show ?thesis using b[of i] b[of j] assms by (simp add: byte_slice_def)
qed

lemma field_ascii: "field w s n \<Longrightarrow> list_all (\<lambda>c. (of_char c :: nat) < 128) s"
  using field_digits digit_boundary by (fastforce simp: list_all_iff)

lemma slice_parse_field:
  assumes "field w t n" "byte_slice s i j = Some t"
  shows "n < 2 ^ k \<Longrightarrow> slice_parse (parse_unsigned k) s i j = Inr n"
    and "n < 2 ^ (k - 1) \<Longrightarrow> slice_parse (parse_signed k) s i j = Inr (int n)"
  using assms parse_unsigned_digits parse_signed_digits
  by (simp_all add: slice_parse_def field_def)

lemma iso_slices:
  assumes "field 4 y ny" "field 2 m nm" "field 2 d nd" "field 2 hh nh" "field 2 mm nmm" "field 2 ss nss"
  defines "s \<equiv> y @ ''-'' @ m @ ''-'' @ d @ ''T'' @ hh @ '':'' @ mm @ '':'' @ ss @ ''Z''"
  shows "byte_slice s 0 4 = Some y" "byte_slice s 5 7 = Some m" "byte_slice s 8 10 = Some d"
    "byte_slice s 11 13 = Some hh" "byte_slice s 14 16 = Some mm" "byte_slice s 17 19 = Some ss"
    "length s = 20"
proof -
  have len: "length y = 4" "length m = 2" "length d = 2" "length hh = 2" "length mm = 2" "length ss = 2"
    using assms(1-6) by (simp_all add: field_def)
  have ascii: "list_all (\<lambda>c. (of_char c :: nat) < 128) s"
    using field_ascii[OF assms(1)] field_ascii[OF assms(2)] field_ascii[OF assms(3)]
      field_ascii[OF assms(4)] field_ascii[OF assms(5)] field_ascii[OF assms(6)]
    by (simp add: s_def)
  show "byte_slice s 0 4 = Some y"
    by (rule slice_append[where p = "[]", OF _ ascii]) (simp_all add: s_def len)
  show "byte_slice s 5 7 = Some m"
    by (rule slice_append[where p = "y @ ''-''", OF _ ascii]) (simp_all add: s_def len)
  show "byte_slice s 8 10 = Some d"
    by (rule slice_append[where p = "y @ ''-'' @ m @ ''-''", OF _ ascii]) (simp_all add: s_def len)
  show "byte_slice s 11 13 = Some hh"
    by (rule slice_append[where p = "y @ ''-'' @ m @ ''-'' @ d @ ''T''", OF _ ascii])
      (simp_all add: s_def len)
  show "byte_slice s 14 16 = Some mm"
    by (rule slice_append[where p = "y @ ''-'' @ m @ ''-'' @ d @ ''T'' @ hh @ '':''", OF _ ascii])
      (simp_all add: s_def len)
  show "byte_slice s 17 19 = Some ss"
    by (rule slice_append[where p = "y @ ''-'' @ m @ ''-'' @ d @ ''T'' @ hh @ '':'' @ mm @ '':''", OF _ ascii])
      (simp_all add: s_def len)
  show "length s = 20" by (simp add: s_def len)
qed

section \<open>Broken-down times\<close>

text \<open>What the two formatters print for a second count before the year 10000.\<close>

lemma broken_down:
  assumes "0 \<le> secs" "secs < year_10000"
  obtains y m d hh mm ss where
    "civil_from_days (secs div 86400) = (y, m, d)"
    "1970 \<le> y" "y \<le> 9999" "1 \<le> m" "m \<le> 12" "1 \<le> d" "d \<le> 31"
    "hh = secs mod 86400 div 3600" "mm = secs mod 86400 mod 3600 div 60" "ss = secs mod 86400 mod 60"
    "0 \<le> hh" "hh < 24" "0 \<le> mm" "mm < 60" "0 \<le> ss" "ss < 60"
    "days_from_civil (y, m, d) = secs div 86400"
    "days_from_civil (y, m, d) * 86400 + hh * 3600 + mm * 60 + ss = secs"
proof -
  have z: "0 \<le> secs div 86400" "secs div 86400 < 2932897"
    using assms by (simp_all add: year_10000_def div_less_iff_less_mult)
  obtain y m d where c: "civil_from_days (secs div 86400) = (y, m, d)" "1970 \<le> y" "y \<le> 9999"
    "1 \<le> m" "m \<le> 12" "1 \<le> d" "d \<le> 31" "days_from_civil (y, m, d) = secs div 86400"
    by (rule civil_range[OF z])
  define r where "r = secs mod 86400"
  have r: "0 \<le> r" "r < 86400" by (simp_all add: r_def)
  have parts: "0 \<le> r div 3600" "r div 3600 < 24" "0 \<le> r mod 3600 div 60" "r mod 3600 div 60 < 60"
    "0 \<le> r mod 60" "r mod 60 < 60"
    using r by (simp_all add: div_less_iff_less_mult)
  have sum: "secs div 86400 * 86400 + r = secs" by (simp add: r_def)
  have "r mod 3600 mod 60 = r mod 60" by (simp add: mod_mod_cancel)
  then have "r = r div 3600 * 3600 + (r mod 3600 div 60 * 60 + r mod 60)"
    by (metis div_mult_mod_eq)
  then have "days_from_civil (y, m, d) * 86400 + r div 3600 * 3600 + r mod 3600 div 60 * 60 + r mod 60 = secs"
    using sum c(8) by linarith
  then show ?thesis using that[OF c(1-7)] c(8) parts unfolding r_def by blast
qed

lemma format_text:
  assumes "0 \<le> t" "t div nanos < year_10000"
    "civil_from_days (t div nanos div 86400) = (y, m, d)" "y \<le> 9999" "1970 \<le> y"
  defines "r \<equiv> t div nanos mod 86400"
  shows "maintain_format_system_time t = iso_text y m d (r div 3600) (r mod 3600 div 60) (r mod 60)"
    and "autonomy_format_system_time t = iso_text y m d (r div 3600) (r mod 3600 div 60) (r mod 60)"
proof -
  have u: "unix_secs t = t div nanos"
    using assms(1,2) by (simp add: unix_secs_def year_10000_def nanos_def)
  have "0 \<le> r" by (simp add: r_def)
  then have s: "r sdiv 3600 = r div 3600" "r smod 3600 = r mod 3600" "(r smod 3600) sdiv 60 = r mod 3600 div 60"
    "r smod 60 = r mod 60"
    by simp_all
  show "maintain_format_system_time t = iso_text y m d (r div 3600) (r mod 3600 div 60) (r mod 60)"
    using copies_civil(2)[OF assms(3)] assms(4,5) s(1,3,4)
    by (simp add: maintain_format_system_time_def u Let_def r_def[symmetric])
  show "autonomy_format_system_time t = iso_text y m d (r div 3600) (r mod 3600 div 60) (r mod 60)"
    using copies_civil(3)[OF assms(3)] s(1,3,4)
    by (simp add: autonomy_format_system_time_def u Let_def r_def[symmetric])
qed

section \<open>Round trips\<close>

lemma maintain_parse_iso:
  assumes "1970 \<le> y" "y \<le> 9999" "1 \<le> m" "m \<le> 12" "1 \<le> d" "d \<le> 31"
    "0 \<le> hh" "hh < 24" "0 \<le> mm" "mm < 60" "0 \<le> ss" "ss < 60"
    "0 \<le> days_from_civil (y, m, d)" "days_from_civil (y, m, d) < 2932897"
  shows "maintain_parse_isoish_utc (iso_text y m d hh mm ss)
    = Inr ((days_from_civil (y, m, d) * 86400 + hh * 3600 + mm * 60 + ss) * nanos)"
proof -
  have f: "field 4 (show_int_pad 4 y) (nat y)" "field 2 (show_int_pad 2 m) (nat m)"
    "field 2 (show_int_pad 2 d) (nat d)" "field 2 (show_int_pad 2 hh) (nat hh)"
    "field 2 (show_int_pad 2 mm) (nat mm)" "field 2 (show_int_pad 2 ss) (nat ss)"
    using assms by (intro field_show; simp)+
  note sl = iso_slices[OF f, folded iso_text_def]
  have p: "slice_parse (parse_signed 32) (iso_text y m d hh mm ss) 0 4 = Inr y"
    "slice_parse (parse_unsigned 32) (iso_text y m d hh mm ss) 5 7 = Inr (nat m)"
    "slice_parse (parse_unsigned 32) (iso_text y m d hh mm ss) 8 10 = Inr (nat d)"
    "slice_parse (parse_unsigned 64) (iso_text y m d hh mm ss) 11 13 = Inr (nat hh)"
    "slice_parse (parse_unsigned 64) (iso_text y m d hh mm ss) 14 16 = Inr (nat mm)"
    "slice_parse (parse_unsigned 64) (iso_text y m d hh mm ss) 17 19 = Inr (nat ss)"
    using slice_parse_field(2)[OF f(1) sl(1), of 32] slice_parse_field(1)[OF f(2) sl(2), of 32]
      slice_parse_field(1)[OF f(3) sl(3), of 32] slice_parse_field(1)[OF f(4) sl(4), of 64]
      slice_parse_field(1)[OF f(5) sl(5), of 64] slice_parse_field(1)[OF f(6) sl(6), of 64] assms
    by simp_all
  have secs: "int (nat hh * 3600 + nat mm * 60 + nat ss) = hh * 3600 + mm * 60 + ss"
    using assms by simp
  show ?thesis
    using assms copies_days(1)[of y m d]
    by (simp add: maintain_parse_isoish_utc_def sl(7) p secs saturate_i64_def Let_def)
qed

lemma autonomy_parse_iso:
  assumes "1970 \<le> y" "y \<le> 9999" "1 \<le> m" "m \<le> 12" "1 \<le> d" "d \<le> 31"
    "0 \<le> hh" "hh < 24" "0 \<le> mm" "mm < 60" "0 \<le> ss" "ss < 60"
    "0 \<le> days_from_civil (y, m, d)" "days_from_civil (y, m, d) < 2932897"
  shows "autonomy_parse_isoish_utc (iso_text y m d hh mm ss)
    = Some ((days_from_civil (y, m, d) * 86400 + hh * 3600 + mm * 60 + ss) * nanos)"
proof -
  let ?Y = "show_int_pad 4 y" and ?M = "show_int_pad 2 m" and ?D = "show_int_pad 2 d"
    and ?h = "show_int_pad 2 hh" and ?m = "show_int_pad 2 mm" and ?s = "show_int_pad 2 ss"
  have f: "field 4 ?Y (nat y)" "field 2 ?M (nat m)" "field 2 ?D (nat d)"
    "field 2 ?h (nat hh)" "field 2 ?m (nat mm)" "field 2 ?s (nat ss)"
    using assms by (intro field_show; simp)+
  have p: "parse_signed 64 ?Y = Some y" "parse_signed 64 ?M = Some m" "parse_signed 64 ?D = Some d"
    "parse_signed 64 ?h = Some hh" "parse_signed 64 ?m = Some mm" "parse_signed 64 ?s = Some ss"
    using f assms parse_signed_digits[of _ _ 64] by (simp_all add: field_def)
  note ni = field_notin[OF f(1)] field_notin[OF f(2)] field_notin[OF f(3)]
    field_notin[OF f(4)] field_notin[OF f(5)] field_notin[OF f(6)]
  have strip: "strip_suffix (iso_text y m d hh mm ss) ''Z''
      = Some ((?Y @ ''-'' @ ?M @ ''-'' @ ?D) @ CHR ''T'' # (?h @ '':'' @ ?m @ '':'' @ ?s))"
  proof -
    have "iso_text y m d hh mm ss = ((?Y @ ''-'' @ ?M @ ''-'' @ ?D) @ CHR ''T'' # (?h @ '':'' @ ?m @ '':'' @ ?s)) @ ''Z''"
      by (simp add: iso_text_def)
    then show ?thesis by (simp only: strip_suffix_append)
  qed
  have st: "split_char (CHR ''T'') ((?Y @ ''-'' @ ?M @ ''-'' @ ?D) @ CHR ''T'' # (?h @ '':'' @ ?m @ '':'' @ ?s))
      = [?Y @ ''-'' @ ?M @ ''-'' @ ?D, ?h @ '':'' @ ?m @ '':'' @ ?s]"
    using ni by (subst split_char_append) simp_all
  have sd: "split_char (CHR ''-'') (?Y @ ''-'' @ ?M @ ''-'' @ ?D) = [?Y, ?M, ?D]"
    using ni by (simp add: split_char_append)
  have sf: "split_char (CHR ''.'') (?h @ '':'' @ ?m @ '':'' @ ?s) = [?h @ '':'' @ ?m @ '':'' @ ?s]"
    using ni by (intro split_char_noc) simp
  have sc: "split_char (CHR '':'') (?h @ '':'' @ ?m @ '':'' @ ?s) = [?h, ?m, ?s]"
    using ni by (simp add: split_char_append)
  have pl: "parse_i64_list [?Y, ?M, ?D] = Some [y, m, d]" "parse_i64_list [?h, ?m, ?s] = Some [hh, mm, ss]"
    by (simp_all add: parse_i64_list_def p)
  show ?thesis
    unfolding autonomy_parse_isoish_utc_def strip Let_def option.case st list.case sd pl sf sc
    using assms copies_days(2)[of y m d]
    by (simp add: checked_i64_def in_i64_def)
qed

text \<open>C40: A time before the year 10000 that \<open>maintain\<close> prints into \<open>maintain.jsonl\<close> is read back by
  \<open>maintain\<close>'s own parser as the same time, to the second; the autonomy gate prints the same text
  and its parser reads it back to the same time.\<close>

theorem timestamp_roundtrip:
  assumes "0 \<le> t" "t div nanos < year_10000"
  shows "maintain_parse_isoish_utc (maintain_format_system_time t) = Inr (t div nanos * nanos)
    \<and> autonomy_parse_isoish_utc (autonomy_format_system_time t) = Some (t div nanos * nanos)
    \<and> maintain_format_system_time t = autonomy_format_system_time t"
proof -
  have n: "0 \<le> t div nanos" using assms(1) by (simp add: nanos_def)
  obtain y m d hh mm ss where b:
    "civil_from_days (t div nanos div 86400) = (y, m, d)"
    "1970 \<le> y" "y \<le> 9999" "1 \<le> m" "m \<le> 12" "1 \<le> d" "d \<le> 31"
    "hh = t div nanos mod 86400 div 3600" "mm = t div nanos mod 86400 mod 3600 div 60"
    "ss = t div nanos mod 86400 mod 60"
    "0 \<le> hh" "hh < 24" "0 \<le> mm" "mm < 60" "0 \<le> ss" "ss < 60"
    "days_from_civil (y, m, d) = t div nanos div 86400"
    "days_from_civil (y, m, d) * 86400 + hh * 3600 + mm * 60 + ss = t div nanos"
    by (rule broken_down[OF n assms(2)])
  have z: "0 \<le> days_from_civil (y, m, d)" "days_from_civil (y, m, d) < 2932897"
    using assms n unfolding b(17)
    by (simp_all add: year_10000_def div_less_iff_less_mult)
  note fmt = format_text[OF assms b(1) b(3) b(2), folded b(8-10)]
  show ?thesis
    unfolding fmt maintain_parse_iso[OF b(2-7) b(11-16) z] autonomy_parse_iso[OF b(2-7) b(11-16) z] b(18)
    by simp
qed

theorem timestamp_roundtrip_witness:
  "maintain_parse_isoish_utc (maintain_format_system_time (1778284800 * nanos + 5))
     = Inr ((1778284800 * nanos + 5) div nanos * nanos)"
proof -
  have "0 \<le> 1778284800 * nanos + 5" "(1778284800 * nanos + 5) div nanos < year_10000"
    by (simp_all add: nanos_def year_10000_def)
  from timestamp_roundtrip[OF this] show ?thesis by blast
qed

end
