(* ===== verification/Maintain.thy ===== *)
theory Maintain
  imports History_Projection Timestamps
begin

text \<open>
  Maintenance reconciliation (\<open>session/maintain.rs\<close>): the write-side projection of \<open>maintain.jsonl\<close>, the artifacts archived
  sessions published, the lifecycle event one GitHub read gives, and the bounded scan with its
  deferrals. The GitHub client is a parameter; a read is numbered, so that two reads of one artifact
  may differ.
\<close>

section \<open>GitHub reads (session/publish.rs)\<close>

record rate_limit_snapshot =
  rl_remaining :: nat
  rl_limit :: nat
  rl_resets_at :: system_time

definition below_floor_pct :: "rate_limit_snapshot \<Rightarrow> nat \<Rightarrow> bool" where
  "below_floor_pct r floor_pct \<longleftrightarrow>
     (if rl_limit r = 0 then True else rl_remaining r * 100 < rl_limit r * floor_pct)"

record pr_state =
  pr_is_open :: bool
  pr_is_merged :: bool
  pr_is_closed_unmerged :: bool
  pr_is_draft :: bool
  pr_head_sha :: "string option"
  pr_head_ref_deleted :: bool
  pr_base_ref :: string
  pr_updated_at :: string

record issue_lifecycle_state =
  is_is_open :: bool
  is_is_closed :: bool
  is_updated_at :: string

record 't gh_state_read =
  gr_state :: 't
  gr_rate_limit :: rate_limit_snapshot

record 'g gh_client =
  query_pr_state :: "nat \<Rightarrow> string \<Rightarrow> string \<Rightarrow> nat \<Rightarrow> 'g + pr_state gh_state_read"
  query_issue_state :: "nat \<Rightarrow> string \<Rightarrow> string \<Rightarrow> nat \<Rightarrow> 'g + issue_lifecycle_state gh_state_read"

record maintain_settings =
  ms_stale_after_days :: nat
  ms_secondary_rate_limit_floor_pct :: nat

section \<open>Candidates and projection\<close>

datatype artifact_kind = Pr | Issue

record artifact_candidate =
  ac_kind :: artifact_kind
  ac_session :: session_record
  ac_target :: target_record
  ac_url :: string
  ac_owner :: string
  ac_repo :: string
  ac_number :: nat

record artifact_projection =
  ap_terminal :: bool
  ap_head_sha :: "string option"
  ap_head_ref_deleted_emitted :: bool
  ap_stale_emitted :: bool
  ap_last_updated_at :: "string option"

definition artifact_projection_default :: artifact_projection where
  "artifact_projection_default = \<lparr>ap_terminal = False, ap_head_sha = None,
     ap_head_ref_deleted_emitted = False, ap_stale_emitted = False, ap_last_updated_at = None\<rparr>"

definition note_event :: "maint_event \<Rightarrow> artifact_projection \<Rightarrow> artifact_projection" where
  "note_event e p0 =
     (let p = p0\<lparr>ap_terminal := is_terminal (me_kind e), ap_last_updated_at := Some (me_new_state e)\<rparr>;
          p1 = (case me_kind e of
                  PrOpen \<Rightarrow> p | IssueOpen \<Rightarrow> p
                | PrMerged \<Rightarrow> p\<lparr>ap_terminal := True\<rparr>
                | PrClosedUnmerged \<Rightarrow> p\<lparr>ap_terminal := True\<rparr>
                | IssueClosed \<Rightarrow> p\<lparr>ap_terminal := True\<rparr>
                | PrForcePushed \<Rightarrow> p\<lparr>ap_head_sha := me_head_sha e, ap_head_ref_deleted_emitted := False,
                                     ap_stale_emitted := False, ap_terminal := False\<rparr>
                | PrBranchDeleted \<Rightarrow> p\<lparr>ap_head_ref_deleted_emitted := True, ap_terminal := False\<rparr>
                | PrStale \<Rightarrow> p\<lparr>ap_stale_emitted := True, ap_terminal := False\<rparr>)
      in if me_head_sha e \<noteq> None then p1\<lparr>ap_head_sha := me_head_sha e\<rparr> else p1)"

definition project_events :: "maint_event list \<Rightarrow> (string, artifact_projection) btree_map" where
  "project_events events =
     fold (\<lambda>e out. case event_url e of None \<Rightarrow> out
             | Some url \<Rightarrow> bt_alter url (\<lambda>v. note_event e
                 (case v of None \<Rightarrow> artifact_projection_default | Some p \<Rightarrow> p)) out)
       events bt_empty"

datatype url_error = NotGitHubUrl string | WrongSegment string string | BadNumber string

definition parse_github_artifact_url :: "string \<Rightarrow> string \<Rightarrow> url_error + (string \<times> string \<times> nat)" where
  "parse_github_artifact_url url segment =
     (case strip_prefix url ''https://github.com/'' of
        None \<Rightarrow> Inl (NotGitHubUrl url)
      | Some rest \<Rightarrow>
          (case split_char (CHR ''/'') (trim_end_char (CHR ''/'') rest) of
             [owner, repo, seg, num] \<Rightarrow>
               if seg \<noteq> segment then Inl (WrongSegment segment url)
               else (case parse_unsigned 64 num of
                       None \<Rightarrow> Inl (BadNumber url)
                     | Some n \<Rightarrow> Inr (owner, repo, n))
           | _ \<Rightarrow> Inl (WrongSegment segment url)))"

definition candidate ::
  "artifact_kind \<Rightarrow> string \<Rightarrow> session_record \<Rightarrow> target_record \<Rightarrow> string \<Rightarrow> url_error + artifact_candidate" where
  "candidate kind segment session target url =
     (case parse_github_artifact_url url segment of
        Inl e \<Rightarrow> Inl e
      | Inr (owner, repo, number) \<Rightarrow>
          Inr \<lparr>ac_kind = kind, ac_session = session, ac_target = target, ac_url = url,
               ac_owner = owner, ac_repo = repo, ac_number = number\<rparr>)"

text \<open>The candidates of a target: its PR first, then its issue.\<close>

definition target_candidates :: "session_record \<Rightarrow> target_record \<Rightarrow> (url_error + artifact_candidate) list" where
  "target_candidates session target =
     (case tr_pr_url target of None \<Rightarrow> [] | Some url \<Rightarrow> [candidate Pr ''pull'' session target url])
   @ (case tr_issue_url target of None \<Rightarrow> [] | Some url \<Rightarrow> [candidate Issue ''issues'' session target url])"

definition candidates_from_sessions :: "session_record list \<Rightarrow> url_error + artifact_candidate list" where
  "candidates_from_sessions sessions =
     collect_results (concat (map (\<lambda>s. concat (map (target_candidates s) (sr_targets s))) sessions))"

definition is_terminal_artifact :: "(string, artifact_projection) btree_map \<Rightarrow> artifact_candidate \<Rightarrow> bool" where
  "is_terminal_artifact projections c \<longleftrightarrow>
     (case bt_get projections (ac_url c) of Some p \<Rightarrow> ap_terminal p | None \<Rightarrow> False)"

definition needs_github_queries :: "session_record list \<Rightarrow> 'e maint_ledger_report \<Rightarrow> url_error + bool" where
  "needs_github_queries sessions maintain =
     (let projections = project_events (ml_events maintain)
      in case candidates_from_sessions sessions of
           Inl e \<Rightarrow> Inl e
         | Inr cs \<Rightarrow> Inr (list_ex (\<lambda>c. \<not> is_terminal_artifact projections c) cs))"

section \<open>Deriving events\<close>

definition event_for_candidate ::
  "artifact_candidate \<Rightarrow> maint_event_kind \<Rightarrow> string option \<Rightarrow> string \<Rightarrow> string option \<Rightarrow> maint_event" where
  "event_for_candidate c kind prior_state new_state head_sha =
     \<lparr>me_kind = kind, me_observed_at = [], me_session_id = sr_id (ac_session c),
      me_target_id = Some (tr_id (ac_target c)), me_family_id = Some (tr_family_id (ac_target c)),
      me_fix_signature = Some (tr_id (ac_target c)),
      me_pr_url = (if ac_kind c = Pr then Some (ac_url c) else None),
      me_issue_url = (if ac_kind c = Issue then Some (ac_url c) else None),
      me_prior_state = prior_state, me_new_state = new_state, me_head_sha = head_sha\<rparr>"

definition prior_state_string :: "artifact_projection \<Rightarrow> string option" where
  "prior_state_string p =
     (if ap_terminal p then Some ''terminal''
      else if ap_head_ref_deleted_emitted p then Some ''open_branch_deleted''
      else if ap_stale_emitted p then Some ''open_stale''
      else Some ''open'')"

definition derive_pr_event ::
  "artifact_candidate \<Rightarrow> artifact_projection option \<Rightarrow> pr_state \<Rightarrow> system_time \<Rightarrow> maintain_settings
     \<Rightarrow> ts_error + maint_event option" where
  "derive_pr_event c projection state now settings =
     (let prior = Option.bind projection prior_state_string
      in if pr_is_merged state then
           Inr (Some (event_for_candidate c PrMerged prior ''merged'' (pr_head_sha state)))
         else if pr_is_closed_unmerged state then
           Inr (Some (event_for_candidate c PrClosedUnmerged prior ''closed_unmerged'' (pr_head_sha state)))
         else if projection = None \<and> pr_is_open state then
           Inr (Some (event_for_candidate c PrOpen None ''open'' (pr_head_sha state)))
         else case projection of None \<Rightarrow> Inr None
         | Some p \<Rightarrow>
             if (case (pr_head_sha state, ap_head_sha p) of
                   (Some head_sha, Some prior_sha) \<Rightarrow> prior_sha \<noteq> head_sha | _ \<Rightarrow> False) then
               Inr (Some (event_for_candidate c PrForcePushed prior ''open'' (pr_head_sha state)))
             else if pr_head_ref_deleted state \<and> \<not> ap_head_ref_deleted_emitted p then
               Inr (Some (event_for_candidate c PrBranchDeleted prior ''open_branch_deleted'' (pr_head_sha state)))
             else if \<not> ap_stale_emitted p then
               (case is_stale (pr_updated_at state) now (ms_stale_after_days settings) of
                  Inl e \<Rightarrow> Inl e
                | Inr True \<Rightarrow> Inr (Some (event_for_candidate c PrStale prior ''open_stale'' (pr_head_sha state)))
                | Inr False \<Rightarrow> Inr None)
             else Inr None)"

definition derive_issue_event ::
  "artifact_candidate \<Rightarrow> artifact_projection option \<Rightarrow> issue_lifecycle_state \<Rightarrow> maint_event option" where
  "derive_issue_event c projection state =
     (let prior = Option.bind projection prior_state_string
      in if is_is_closed state then Some (event_for_candidate c IssueClosed prior ''closed'' None)
         else if projection = None \<and> is_is_open state then
           Some (event_for_candidate c IssueOpen None ''open'' None)
         else None)"

section \<open>The scan\<close>

record deferred_artifact =
  da_url :: string
  da_reason :: string

record reconcile_outcome =
  ro_new_events :: "maint_event list"
  ro_deferred :: "deferred_artifact list"
  ro_queried :: nat

definition reconcile_outcome_default :: reconcile_outcome where
  "reconcile_outcome_default = \<lparr>ro_new_events = [], ro_deferred = [], ro_queried = 0\<rparr>"

datatype 'g reconcile_error = BadUrl url_error | QueryFailed string 'g | BadTimestamp ts_error

definition defer_tail :: "reconcile_outcome \<Rightarrow> artifact_candidate list \<Rightarrow> string \<Rightarrow> reconcile_outcome" where
  "defer_tail outcome candidates reason =
     outcome\<lparr>ro_deferred := ro_deferred outcome
       @ map (\<lambda>c. \<lparr>da_url = ac_url c, da_reason = reason\<rparr>) candidates\<rparr>"

text \<open>What one read says: stop below the rate-limit floor, or an event or none.\<close>

datatype 'e read_verdict = BelowFloor | Derived "'e + maint_event option"

definition read_artifact ::
  "'g gh_client \<Rightarrow> maintain_settings \<Rightarrow> system_time \<Rightarrow> (string, artifact_projection) btree_map \<Rightarrow> nat
     \<Rightarrow> artifact_candidate \<Rightarrow> 'g reconcile_error read_verdict" where
  "read_artifact gh settings now projections n c =
     (let projection = bt_get projections (ac_url c);
          floor_pct = ms_secondary_rate_limit_floor_pct settings
      in case ac_kind c of
           Pr \<Rightarrow> (case query_pr_state gh n (ac_owner c) (ac_repo c) (ac_number c) of
                    Inl e \<Rightarrow> Derived (Inl (QueryFailed (ac_url c) e))
                  | Inr read \<Rightarrow>
                      if below_floor_pct (gr_rate_limit read) floor_pct then BelowFloor
                      else Derived (with_context BadTimestamp
                             (derive_pr_event c projection (gr_state read) now settings)))
         | Issue \<Rightarrow> (case query_issue_state gh n (ac_owner c) (ac_repo c) (ac_number c) of
                    Inl e \<Rightarrow> Derived (Inl (QueryFailed (ac_url c) e))
                  | Inr read \<Rightarrow>
                      if below_floor_pct (gr_rate_limit read) floor_pct then BelowFloor
                      else Derived (Inr (derive_issue_event c projection (gr_state read)))))"

fun reconcile_loop ::
  "'g gh_client \<Rightarrow> maintain_settings \<Rightarrow> system_time \<Rightarrow> (string, artifact_projection) btree_map \<Rightarrow> nat
     \<Rightarrow> artifact_candidate list \<Rightarrow> reconcile_outcome \<Rightarrow> 'g reconcile_error + reconcile_outcome" where
  "reconcile_loop gh settings now projections limit [] outcome = Inr outcome"
| "reconcile_loop gh settings now projections limit (c # cs) outcome =
     (if is_terminal_artifact projections c then
        reconcile_loop gh settings now projections limit cs outcome
      else if limit \<le> ro_queried outcome then
        reconcile_loop gh settings now projections limit cs
          (outcome\<lparr>ro_deferred := ro_deferred outcome @ [\<lparr>da_url = ac_url c, da_reason = ''limit''\<rparr>]\<rparr>)
      else
        (let n = ro_queried outcome; outcome1 = outcome\<lparr>ro_queried := n + 1\<rparr>
         in case read_artifact gh settings now projections n c of
              BelowFloor \<Rightarrow> Inr (defer_tail outcome1 (c # cs) ''rate-limit-floor'')
            | Derived (Inl e) \<Rightarrow> Inl e
            | Derived (Inr None) \<Rightarrow> reconcile_loop gh settings now projections limit cs outcome1
            | Derived (Inr (Some event)) \<Rightarrow>
                reconcile_loop gh settings now projections limit cs
                  (outcome1\<lparr>ro_new_events := ro_new_events outcome1
                     @ [event\<lparr>me_observed_at := maintain_format_system_time now\<rparr>]\<rparr>)))"

definition reconcile ::
  "'g gh_client \<Rightarrow> maintain_settings \<Rightarrow> system_time \<Rightarrow> session_record list \<Rightarrow> 'e maint_ledger_report \<Rightarrow> nat
     \<Rightarrow> 'g reconcile_error + reconcile_outcome" where
  "reconcile gh settings now sessions maintain limit =
     (let projections = project_events (ml_events maintain)
      in case candidates_from_sessions sessions of
           Inl e \<Rightarrow> Inl (BadUrl e)
         | Inr candidates \<Rightarrow>
             reconcile_loop gh settings now projections limit candidates reconcile_outcome_default)"

section \<open>The projection of an extended ledger\<close>

lemma project_events_invar: "bt_invar (project_events events)"
proof -
  have "bt_invar m \<Longrightarrow> bt_invar (fold (\<lambda>e out. case event_url e of None \<Rightarrow> out
             | Some url \<Rightarrow> bt_alter url (\<lambda>v. note_event e (case v of None \<Rightarrow> artifact_projection_default | Some p \<Rightarrow> p)) out)
       events m)" for m
    by (induction events arbitrary: m) (auto simp: bt_invar_alter split: option.split)
  then show ?thesis by (simp add: project_events_def)
qed

lemma project_events_append:
  "bt_get (project_events (events @ [e])) url =
     (if event_url e = Some url
      then Some (note_event e (case bt_get (project_events events) url of
             None \<Rightarrow> artifact_projection_default | Some p \<Rightarrow> p))
      else bt_get (project_events events) url)"
  using bt_get_alter[OF project_events_invar[of events]]
  by (auto simp: project_events_def split: option.splits)

lemma event_for_candidate_url [simp]: "event_url (event_for_candidate c kind prior st sha) = Some (ac_url c)"
  by (cases "ac_kind c") (simp_all add: event_url_def event_for_candidate_def)

lemma event_url_observed [simp]: "event_url (e\<lparr>me_observed_at := t\<rparr>) = event_url e"
  by (simp add: event_url_def split: option.split)

lemma note_event_observed [simp]: "note_event (e\<lparr>me_observed_at := t\<rparr>) p = note_event e p"
  by (cases "me_kind e"; cases "me_head_sha e") (simp_all add: note_event_def Let_def)

lemma note_event_fields [simp]:
  "ap_terminal (note_event e p) = is_terminal (me_kind e)"
  "ap_stale_emitted (note_event e p) = (me_kind e = PrStale \<or> me_kind e \<noteq> PrForcePushed \<and> ap_stale_emitted p)"
  "ap_head_ref_deleted_emitted (note_event e p) =
     (me_kind e = PrBranchDeleted \<or> me_kind e \<noteq> PrForcePushed \<and> ap_head_ref_deleted_emitted p)"
  "ap_head_sha (note_event e p) = (case me_head_sha e of Some h \<Rightarrow> Some h
     | None \<Rightarrow> if me_kind e = PrForcePushed then None else ap_head_sha p)"
  by (cases "me_kind e"; cases "me_head_sha e"; simp add: note_event_def Let_def is_terminal_def)+

lemma event_for_candidate_fields [simp]:
  "me_kind (event_for_candidate c k pr ns sha) = k"
  "me_head_sha (event_for_candidate c k pr ns sha) = sha"
  "me_new_state (event_for_candidate c k pr ns sha) = ns"
  "me_session_id (event_for_candidate c k pr ns sha) = sr_id (ac_session c)"
  "me_pr_url (event_for_candidate c k pr ns sha) = (if ac_kind c = Pr then Some (ac_url c) else None)"
  "me_issue_url (event_for_candidate c k pr ns sha) = (if ac_kind c = Issue then Some (ac_url c) else None)"
  by (simp_all add: event_for_candidate_def)

lemma derive_pr_event_url:
  "derive_pr_event c po st now settings = Inr (Some e) \<Longrightarrow> event_url e = Some (ac_url c)"
  by (auto simp: derive_pr_event_def Let_def split: if_splits option.splits sum.splits bool.splits)

lemma derive_issue_event_url:
  "derive_issue_event c po st = Some e \<Longrightarrow> event_url e = Some (ac_url c)"
  by (auto simp: derive_issue_event_def Let_def split: if_splits)

section \<open>Settling\<close>

text \<open>One maintain round for one PR whose GitHub state does not change, on the ledger's events.\<close>

definition pr_round ::
  "artifact_candidate \<Rightarrow> pr_state \<Rightarrow> system_time \<Rightarrow> maintain_settings \<Rightarrow> maint_event list \<Rightarrow> maint_event list" where
  "pr_round c st now settings events =
     (if is_terminal_artifact (project_events events) c then events
      else case derive_pr_event c (bt_get (project_events events) (ac_url c)) st now settings of
             Inr (Some e) \<Rightarrow> events @ [e\<lparr>me_observed_at := maintain_format_system_time now\<rparr>]
           | _ \<Rightarrow> events)"

definition quiescent ::
  "artifact_candidate \<Rightarrow> pr_state \<Rightarrow> system_time \<Rightarrow> maintain_settings \<Rightarrow> artifact_projection option \<Rightarrow> bool" where
  "quiescent c st now settings po \<longleftrightarrow>
     (case po of Some p \<Rightarrow> ap_terminal p | None \<Rightarrow> False)
   \<or> (\<nexists>e. derive_pr_event c po st now settings = Inr (Some e))"

definition head_moved :: "pr_state \<Rightarrow> artifact_projection \<Rightarrow> bool" where
  "head_moved st p \<longleftrightarrow> (case (pr_head_sha st, ap_head_sha p) of (Some h, Some h') \<Rightarrow> h' \<noteq> h | _ \<Rightarrow> False)"

text \<open>How many more events a state of the projection can cause.\<close>

definition pending :: "pr_state \<Rightarrow> artifact_projection option \<Rightarrow> nat" where
  "pending st po =
     (case po of None \<Rightarrow> 3
      | Some p \<Rightarrow>
          if ap_terminal p then 0
          else if pr_is_merged st \<or> pr_is_closed_unmerged st then 1
          else if head_moved st p then 3
          else (if pr_head_ref_deleted st \<and> \<not> ap_head_ref_deleted_emitted p then 1 else 0)
             + (if ap_stale_emitted p then 0 else 1))"

lemma pending_le: "pending st po \<le> 3"
  by (auto simp: pending_def split: option.splits)

lemma derive_pr_event_known:
  "derive_pr_event c (Some p) st now settings =
     (if pr_is_merged st then Inr (Some (event_for_candidate c PrMerged (prior_state_string p) ''merged'' (pr_head_sha st)))
      else if pr_is_closed_unmerged st then
        Inr (Some (event_for_candidate c PrClosedUnmerged (prior_state_string p) ''closed_unmerged'' (pr_head_sha st)))
      else if head_moved st p then
        Inr (Some (event_for_candidate c PrForcePushed (prior_state_string p) ''open'' (pr_head_sha st)))
      else if pr_head_ref_deleted st \<and> \<not> ap_head_ref_deleted_emitted p then
        Inr (Some (event_for_candidate c PrBranchDeleted (prior_state_string p) ''open_branch_deleted'' (pr_head_sha st)))
      else if \<not> ap_stale_emitted p then
        (case is_stale (pr_updated_at st) now (ms_stale_after_days settings) of
           Inl e \<Rightarrow> Inl e
         | Inr b \<Rightarrow> Inr (if b then Some (event_for_candidate c PrStale (prior_state_string p) ''open_stale'' (pr_head_sha st)) else None))
      else Inr None)"
  by (simp add: derive_pr_event_def Let_def head_moved_def split: sum.split bool.split)

text \<open>The four ways an artifact with a projection gives an event, and the projection after it.\<close>

lemma derive_pr_event_Some:
  assumes "derive_pr_event c (Some p) st now settings = Inr (Some e)"
  obtains
    (Ended) "pr_is_merged st \<or> pr_is_closed_unmerged st" "ap_terminal (note_event e p)"
  | (ForcePushed) "\<not> pr_is_merged st" "\<not> pr_is_closed_unmerged st" "head_moved st p"
      "\<not> head_moved st (note_event e p)"
  | (BranchDeleted) "\<not> pr_is_merged st" "\<not> pr_is_closed_unmerged st" "\<not> head_moved st p"
      "\<not> head_moved st (note_event e p)" "pr_head_ref_deleted st" "\<not> ap_head_ref_deleted_emitted p"
      "ap_head_ref_deleted_emitted (note_event e p)" "ap_stale_emitted (note_event e p) = ap_stale_emitted p"
  | (Stale) "\<not> pr_is_merged st" "\<not> pr_is_closed_unmerged st" "\<not> head_moved st p"
      "\<not> head_moved st (note_event e p)" "\<not> (pr_head_ref_deleted st \<and> \<not> ap_head_ref_deleted_emitted p)"
      "\<not> ap_stale_emitted p" "ap_stale_emitted (note_event e p)"
      "ap_head_ref_deleted_emitted (note_event e p) = ap_head_ref_deleted_emitted p"
proof -
  let ?prior = "prior_state_string p"
  note D = derive_pr_event_known[of c p st now settings]
  have moved: "\<not> head_moved st (note_event (event_for_candidate c k pr ns (pr_head_sha st)) p)"
    if "k = PrForcePushed \<or> \<not> head_moved st p" for k pr ns
    using that
    by (cases k; cases "pr_head_sha st")
      (auto simp: head_moved_def split: option.splits)
  consider (a) "pr_is_merged st \<or> pr_is_closed_unmerged st"
    | (b) "\<not> pr_is_merged st" "\<not> pr_is_closed_unmerged st" "head_moved st p"
    | (c) "\<not> pr_is_merged st" "\<not> pr_is_closed_unmerged st" "\<not> head_moved st p"
        "pr_head_ref_deleted st \<and> \<not> ap_head_ref_deleted_emitted p"
    | (d) "\<not> pr_is_merged st" "\<not> pr_is_closed_unmerged st" "\<not> head_moved st p"
        "\<not> (pr_head_ref_deleted st \<and> \<not> ap_head_ref_deleted_emitted p)"
    by blast
  then show thesis
  proof cases
    case a
    then have "ap_terminal (note_event e p)"
      using assms unfolding D
      by (auto simp: is_terminal_def split: if_splits)
    with a show ?thesis by (rule Ended)
  next
    case b
    then have "e = event_for_candidate c PrForcePushed ?prior ''open'' (pr_head_sha st)"
      using assms unfolding D by simp
    with moved b show ?thesis by (intro ForcePushed) auto
  next
    case c
    then have e: "e = event_for_candidate c PrBranchDeleted ?prior ''open_branch_deleted'' (pr_head_sha st)"
      using assms unfolding D by simp
    show ?thesis
      by (rule BranchDeleted) (use c moved[of PrBranchDeleted] in \<open>auto simp: e\<close>)
  next
    case d
    then have e: "e = event_for_candidate c PrStale ?prior ''open_stale'' (pr_head_sha st)" "\<not> ap_stale_emitted p"
      using assms unfolding D by (auto split: if_splits sum.splits)
    show ?thesis
      by (rule Stale) (use d e(2) moved[of PrStale] in \<open>auto simp: e(1)\<close>)
  qed
qed

lemma pending_zero: "pending st po = 0 \<Longrightarrow> quiescent c st now settings po"
  by (auto simp: pending_def quiescent_def elim: derive_pr_event_Some split: option.splits if_splits)

lemma pending_decreases:
  assumes e: "derive_pr_event c po st now settings = Inr (Some e)"
    and nt: "\<not> (case po of Some p \<Rightarrow> ap_terminal p | None \<Rightarrow> False)"
  shows "pending st (Some (note_event e (case po of None \<Rightarrow> artifact_projection_default | Some p \<Rightarrow> p))) < pending st po"
proof (cases po)
  case None
  with e show ?thesis
    by (auto simp: derive_pr_event_def pending_def head_moved_def
        artifact_projection_default_def is_terminal_def split: if_splits option.splits)
next
  case (Some p)
  have nt': "\<not> ap_terminal p" using nt Some by simp
  from e[unfolded Some] show ?thesis
  proof (cases rule: derive_pr_event_Some)
    case Ended
    then show ?thesis using nt' by (auto simp: Some pending_def)
  next
    case ForcePushed
    then show ?thesis using nt' by (auto simp: Some pending_def split: option.splits)
  next
    case BranchDeleted
    then show ?thesis using nt' by (auto simp: Some pending_def split: option.splits)
  next
    case Stale
    then show ?thesis using nt' by (auto simp: Some pending_def split: option.splits)
  qed
qed

lemma pr_round_projection:
  assumes "pr_round c st now settings events \<noteq> events"
  shows "pending st (bt_get (project_events (pr_round c st now settings events)) (ac_url c))
       < pending st (bt_get (project_events events) (ac_url c))"
proof -
  let ?po = "bt_get (project_events events) (ac_url c)"
  obtain e where nt: "\<not> is_terminal_artifact (project_events events) c"
    and e: "derive_pr_event c ?po st now settings = Inr (Some e)"
    using assms by (auto simp: pr_round_def split: if_splits sum.splits option.splits)
  have "pr_round c st now settings events = events @ [e\<lparr>me_observed_at := maintain_format_system_time now\<rparr>]"
    using nt e by (simp add: pr_round_def)
  then show ?thesis
    using pending_decreases[OF e] nt derive_pr_event_url[OF e]
    by (simp add: project_events_append is_terminal_artifact_def)
qed

lemma pr_round_settles:
  "pending st (bt_get (project_events events) (ac_url c)) \<le> n
   \<Longrightarrow> pr_round c st now settings ((pr_round c st now settings ^^ n) events) = (pr_round c st now settings ^^ n) events"
proof (induction n arbitrary: events)
  case 0
  then have "quiescent c st now settings (bt_get (project_events events) (ac_url c))"
    using pending_zero by simp
  then show ?case
    by (auto simp: quiescent_def pr_round_def is_terminal_artifact_def split: sum.splits option.splits)
next
  case (Suc n)
  let ?r = "pr_round c st now settings"
  show ?case
  proof (cases "?r events = events")
    case True
    then have stay: "(?r ^^ k) events = events" for k by (induction k) simp_all
    show ?thesis unfolding stay by (rule True)
  next
    case False
    then have "pending st (bt_get (project_events (?r events)) (ac_url c)) \<le> n"
      using pr_round_projection[OF False] Suc.prems by linarith
    from Suc.IH[OF this] show ?thesis by (simp only: funpow_Suc_right comp_apply)
  qed
qed


section \<open>Artifact URLs\<close>

lemma trim_end_char_noop: "s = [] \<or> last s \<noteq> c \<Longrightarrow> trim_end_char c s = s"
  by (cases s rule: rev_cases) (auto simp: trim_end_char_def)

lemma trim_end_char_slash: "s = [] \<or> last s \<noteq> c \<Longrightarrow> trim_end_char c (s @ [c]) = s"
  by (cases s rule: rev_cases) (auto simp: trim_end_char_def)

lemma parse_artifact_url:
  assumes "CHR ''/'' \<notin> set owner" "CHR ''/'' \<notin> set repo" "CHR ''/'' \<notin> set seg" "n < 2 ^ 64" "slash \<in> {[], ''/''}"
  defines "url \<equiv> ''https://github.com/'' @ owner @ ''/'' @ repo @ ''/'' @ seg @ ''/'' @ show_nat n @ slash"
  shows "parse_github_artifact_url url other = (if seg \<noteq> other then Inl (WrongSegment other url) else Inr (owner, repo, n))"
proof -
  let ?rest = "owner @ ''/'' @ repo @ ''/'' @ seg @ ''/'' @ show_nat n"
  have digits: "CHR ''/'' \<notin> set (show_nat n)"
    using list_all_digit_notin(6)[OF list_all_show_nat] .
  have split: "split_char (CHR ''/'') ?rest = [owner, repo, seg, show_nat n]"
    using assms(1-3) digits by (simp add: split_char_append)
  have "last ?rest = last (show_nat n)" by simp
  moreover have "last (show_nat n) \<in> set (show_nat n)" by (rule last_in_set) simp
  ultimately have last: "last ?rest \<noteq> CHR ''/''" using digits by metis
  have strip: "strip_prefix url ''https://github.com/'' = Some (?rest @ slash)"
    unfolding url_def by (simp add: strip_prefix_def)
  have "trim_end_char (CHR ''/'') ?rest = ?rest" "trim_end_char (CHR ''/'') (?rest @ ''/'') = ?rest"
    using last by (intro trim_end_char_noop trim_end_char_slash disjI2; assumption)+
  then have trim: "trim_end_char (CHR ''/'') (?rest @ slash) = ?rest" using assms(5) by auto
  have num: "parse_unsigned 64 (show_nat n) = Some n"
    using parse_unsigned_digits[of "show_nat n" n 64] assms(4) by (simp add: parse_digits_def)
  show ?thesis
    unfolding parse_github_artifact_url_def strip option.case trim split list.case by (simp add: num)
qed

text \<open>A GitHub artifact URL built from an owner, a repository and a number parses back to exactly
  these, with or without a trailing slash, for the segment it was built with; it is refused for the
  other segment.\<close>

theorem artifact_url_roundtrip:
  assumes "CHR ''/'' \<notin> set owner" "CHR ''/'' \<notin> set repo" "CHR ''/'' \<notin> set seg" "n < 2 ^ 64"
  defines "url \<equiv> ''https://github.com/'' @ owner @ ''/'' @ repo @ ''/'' @ seg @ ''/'' @ show_nat n"
  shows "parse_github_artifact_url url seg = Inr (owner, repo, n)
    \<and> parse_github_artifact_url (url @ ''/'') seg = Inr (owner, repo, n)
    \<and> (other \<noteq> seg \<longrightarrow> parse_github_artifact_url url other = Inl (WrongSegment other url))"
  unfolding url_def append_assoc
  using parse_artifact_url[OF assms(1-4), of "[]"] parse_artifact_url[OF assms(1-4), of "''/''"] by simp

theorem artifact_url_roundtrip_witness:
  "parse_github_artifact_url (''https://github.com/'' @ ''o'' @ ''/'' @ ''r'' @ ''/'' @ ''pull'' @ ''/'' @ show_nat 7) ''pull''
     = Inr (''o'', ''r'', 7)"
  using artifact_url_roundtrip[of "''o''" "''r''" "''pull''" 7] by simp

section \<open>What a scan emits\<close>

lemma not_blank_ascii:
  assumes "(33::nat) \<le> of_char a" "of_char a \<le> (126::nat)"
  shows "\<not> is_blank (a # s)"
  using assms
  by (cases s; cases "tl s") (auto simp: ascii_ws_def ws2_def ws3_def)

lemma format_not_blank: "\<not> is_blank (maintain_format_system_time t)"
proof -
  obtain y m d where "maintain_civil_from_days (unix_secs t div 86400) = (y, m, d)"
    by (metis prod_cases3)
  then obtain c rest where "maintain_format_system_time t = c # rest" "is_ascii_digit c \<or> c = CHR ''-''"
  proof -
    assume ymd: "maintain_civil_from_days (unix_secs t div 86400) = (y, m, d)"
    have "\<exists>c r. show_int_pad 4 y = c # r \<and> (is_ascii_digit c \<or> c = CHR ''-'')"
    proof (cases "y < 0")
      case False
      let ?s = "pad_left 4 (show_nat (nat y))"
      have "list_all is_ascii_digit ?s" "?s \<noteq> []" by simp_all
      then show ?thesis using False by (cases ?s) (auto simp: show_int_pad_def)
    qed (simp add: show_int_pad_def)
    then obtain c r where cr: "show_int_pad 4 y = c # r" "is_ascii_digit c \<or> c = CHR ''-''" by blast
    then have "\<exists>rest. maintain_format_system_time t = c # rest"
      by (simp add: maintain_format_system_time_def Let_def ymd iso_text_def)
    with cr(2) that show thesis by blast
  qed
  then show ?thesis
    using not_blank_ascii[of c rest] by (auto simp: is_ascii_digit_def)
qed

lemma head_moved_Some: "head_moved st p \<Longrightarrow> \<exists>h. pr_head_sha st = Some h"
  by (auto simp: head_moved_def split: option.splits)

definition pr_event_text :: "maint_event_kind \<Rightarrow> string" where
  "pr_event_text k = (case k of PrMerged \<Rightarrow> ''merged'' | PrClosedUnmerged \<Rightarrow> ''closed_unmerged''
     | PrBranchDeleted \<Rightarrow> ''open_branch_deleted'' | PrStale \<Rightarrow> ''open_stale'' | _ \<Rightarrow> ''open'')"

lemma pr_event_text_not_blank: "\<not> is_blank (pr_event_text k)"
  by (cases k; simp only: pr_event_text_def maint_event_kind.case; rule not_blank_ascii; simp)

definition pr_event_shape :: "artifact_candidate \<Rightarrow> pr_state \<Rightarrow> maint_event \<Rightarrow> bool" where
  "pr_event_shape c st e \<longleftrightarrow>
     (\<exists>k pr. e = event_for_candidate c k pr (pr_event_text k) (pr_head_sha st) \<and> is_pr k
        \<and> (k = PrForcePushed \<longrightarrow> pr_head_sha st \<noteq> None))"

lemma pr_event_shapeI:
  assumes "e = event_for_candidate c k pr ns (pr_head_sha st)" "ns = pr_event_text k" "is_pr k"
    "k = PrForcePushed \<Longrightarrow> pr_head_sha st \<noteq> None"
  shows "pr_event_shape c st e"
  using assms unfolding pr_event_shape_def by blast

lemma derive_pr_event_shape:
  assumes "derive_pr_event c po st now settings = Inr (Some e)"
  shows "pr_event_shape c st e"
proof (cases po)
  case None
  from assms show ?thesis
    unfolding derive_pr_event_def Let_def None
    by (auto split: if_splits intro!: pr_event_shapeI simp: pr_event_text_def is_pr_def)
next
  case (Some p)
  from assms show ?thesis
    unfolding Some derive_pr_event_known
    by (auto split: if_splits sum.splits intro!: pr_event_shapeI simp: pr_event_text_def is_pr_def dest: head_moved_Some)
qed

lemma derive_pr_event_valid:
  assumes "derive_pr_event c po st now settings = Inr (Some e)" "ac_kind c = Pr"
    and "\<not> is_blank (sr_id (ac_session c))" "\<And>h. pr_head_sha st = Some h \<Longrightarrow> \<not> is_blank h" "\<not> is_blank t"
  shows "validate_maint_event (e\<lparr>me_observed_at := t\<rparr>) = Ok_unit"
proof -
  obtain k pr where e: "e = event_for_candidate c k pr (pr_event_text k) (pr_head_sha st)" "is_pr k"
    and head: "k = PrForcePushed \<Longrightarrow> pr_head_sha st \<noteq> None"
    using derive_pr_event_shape[OF assms(1)] unfolding pr_event_shape_def by blast
  then show ?thesis
    using assms(2-5) head pr_event_text_not_blank[of k] unfolding validate_maint_event_ok e
    by (cases "pr_head_sha st") (auto simp: is_issue_not_pr)
qed

lemma derive_issue_event_valid:
  assumes "derive_issue_event c po st = Some e" "ac_kind c = Issue"
    and "\<not> is_blank (sr_id (ac_session c))" "\<not> is_blank t"
  shows "validate_maint_event (e\<lparr>me_observed_at := t\<rparr>) = Ok_unit"
proof -
  have "\<not> is_blank ''closed''" "\<not> is_blank ''open''" by (rule not_blank_ascii; simp)+
  with assms show ?thesis
    unfolding validate_maint_event_ok
    by (auto simp: derive_issue_event_def is_pr_def is_issue_def split: if_splits simp del: is_blank.simps)
qed

lemma read_artifact_event:
  assumes "read_artifact gh settings now ps n c = Derived (Inr (Some e))"
  shows "event_url e = Some (ac_url c)"
  using assms
  by (auto simp: read_artifact_def Let_def split: artifact_kind.splits sum.splits if_splits
      dest: derive_pr_event_url derive_issue_event_url)

text \<open>What a client reports of a PR's head commit is never blank.\<close>

definition reports_head_shas :: "'g gh_client \<Rightarrow> bool" where
  "reports_head_shas gh \<longleftrightarrow>
     (\<forall>n owner repo number read h. query_pr_state gh n owner repo number = Inr read
        \<longrightarrow> pr_head_sha (gr_state read) = Some h \<longrightarrow> \<not> is_blank h)"

lemma read_artifact_valid:
  assumes "read_artifact gh settings now ps n c = Derived (Inr (Some e))" "reports_head_shas gh"
    and "\<not> is_blank (sr_id (ac_session c))" "\<not> is_blank t"
  shows "validate_maint_event (e\<lparr>me_observed_at := t\<rparr>) = Ok_unit"
proof (cases "ac_kind c")
  case Pr
  then obtain read where read: "query_pr_state gh n (ac_owner c) (ac_repo c) (ac_number c) = Inr read"
    "derive_pr_event c (bt_get ps (ac_url c)) (gr_state read) now settings = Inr (Some e)"
    using assms(1) by (auto simp: read_artifact_def Let_def split: sum.splits if_splits)
  from derive_pr_event_valid[OF read(2) Pr assms(3) _ assms(4)] read(1) assms(2) show ?thesis
    unfolding reports_head_shas_def by blast
next
  case Issue
  then obtain st where "derive_issue_event c (bt_get ps (ac_url c)) st = Some e"
    using assms(1) by (auto simp: read_artifact_def Let_def split: sum.splits if_splits)
  from derive_issue_event_valid[OF this Issue assms(3,4)] show ?thesis .
qed

lemma reconcile_loop_spec:
  assumes "reconcile_loop gh settings now ps limit cs out = Inr out'" "ro_queried out \<le> limit"
  shows "ro_queried out \<le> ro_queried out' \<and> ro_queried out' \<le> limit
    \<and> (\<exists>es ds. ro_new_events out' = ro_new_events out @ es \<and> ro_deferred out' = ro_deferred out @ ds
         \<and> length es \<le> ro_queried out' - ro_queried out
         \<and> length (filter (\<lambda>c. \<not> is_terminal_artifact ps c) cs) \<le> ro_queried out' - ro_queried out + length ds
         \<and> (\<forall>e \<in> set es. \<exists>c \<in> set cs. \<exists>n e0. \<not> is_terminal_artifact ps c \<and> event_url e = Some (ac_url c)
              \<and> read_artifact gh settings now ps n c = Derived (Inr (Some e0))
              \<and> e = e0\<lparr>me_observed_at := maintain_format_system_time now\<rparr>))"
  using assms
proof (induction cs arbitrary: out)
  case Nil
  then show ?case by simp
next
  case (Cons c cs)
  let ?loop = "reconcile_loop gh settings now ps limit cs"
  let ?fmt = "maintain_format_system_time now"
  let ?out1 = "out\<lparr>ro_queried := ro_queried out + 1\<rparr>"
  consider (terminal) "is_terminal_artifact ps c" "?loop out = Inr out'"
    | (over) "\<not> is_terminal_artifact ps c" "limit \<le> ro_queried out"
        "?loop (out\<lparr>ro_deferred := ro_deferred out @ [\<lparr>da_url = ac_url c, da_reason = ''limit''\<rparr>]\<rparr>) = Inr out'"
    | (floor) "\<not> is_terminal_artifact ps c" "ro_queried out < limit" "out' = defer_tail ?out1 (c # cs) ''rate-limit-floor''"
    | (none) "\<not> is_terminal_artifact ps c" "ro_queried out < limit" "?loop ?out1 = Inr out'"
    | (event) e where "\<not> is_terminal_artifact ps c" "ro_queried out < limit"
        "read_artifact gh settings now ps (ro_queried out) c = Derived (Inr (Some e))"
        "?loop (?out1\<lparr>ro_new_events := ro_new_events out @ [e\<lparr>me_observed_at := ?fmt\<rparr>]\<rparr>) = Inr out'"
  proof (cases "is_terminal_artifact ps c \<or> limit \<le> ro_queried out")
    case True
    then show ?thesis using Cons.prems(1) terminal over by (cases "is_terminal_artifact ps c") simp_all
  next
    case False
    then have nt: "\<not> is_terminal_artifact ps c" "ro_queried out < limit" by simp_all
    show ?thesis
    proof (cases "read_artifact gh settings now ps (ro_queried out) c")
      case BelowFloor
      then show ?thesis using Cons.prems(1) nt by (intro floor) simp_all
    next
      case (Derived r)
      show ?thesis
      proof (cases r)
        case (Inl e)
        then show ?thesis using Cons.prems(1) nt Derived by simp
      next
        case (Inr ev)
        then show ?thesis using Cons.prems(1) nt Derived none event by (cases ev) simp_all
      qed
    qed
  qed
  then show ?case
  proof cases
    case terminal
    from Cons.IH[OF terminal(2) Cons.prems(2)] terminal(1) show ?thesis by auto
  next
    case over
    from Cons.IH[OF over(3)] Cons.prems(2) over(1) show ?thesis by fastforce
  next
    case floor
    have "length (filter P xs) \<le> length xs" for P :: "artifact_candidate \<Rightarrow> bool" and xs by simp
    with floor show ?thesis by (auto simp: defer_tail_def le_SucI)
  next
    case none
    from Cons.IH[OF none(3)] none(1,2) show ?thesis by (auto simp: Suc_diff_le le_SucI)
  next
    case event
    from Cons.IH[OF event(4)] obtain es ds where IH:
      "ro_queried out + 1 \<le> ro_queried out'" "ro_queried out' \<le> limit"
      "ro_new_events out' = ro_new_events out @ e\<lparr>me_observed_at := ?fmt\<rparr> # es" "ro_deferred out' = ro_deferred out @ ds"
      "length es \<le> ro_queried out' - (ro_queried out + 1)"
      "length (filter (\<lambda>c. \<not> is_terminal_artifact ps c) cs) \<le> ro_queried out' - (ro_queried out + 1) + length ds"
      "\<forall>e \<in> set es. \<exists>c \<in> set cs. \<exists>n e0. \<not> is_terminal_artifact ps c \<and> event_url e = Some (ac_url c)
              \<and> read_artifact gh settings now ps n c = Derived (Inr (Some e0)) \<and> e = e0\<lparr>me_observed_at := ?fmt\<rparr>"
      using event(2) by auto
    have "event_url (e\<lparr>me_observed_at := ?fmt\<rparr>) = Some (ac_url c)"
      using read_artifact_event[OF event(3)] by simp
    with event(1,3) have hd: "\<exists>c' \<in> set (c # cs). \<exists>n e0. \<not> is_terminal_artifact ps c'
        \<and> event_url (e\<lparr>me_observed_at := ?fmt\<rparr>) = Some (ac_url c')
        \<and> read_artifact gh settings now ps n c' = Derived (Inr (Some e0))
        \<and> e\<lparr>me_observed_at := ?fmt\<rparr> = e0\<lparr>me_observed_at := ?fmt\<rparr>" by auto
    show ?thesis
    proof (intro conjI exI[of _ "e\<lparr>me_observed_at := ?fmt\<rparr> # es"] exI[of _ ds])
      show "\<forall>e' \<in> set (e\<lparr>me_observed_at := ?fmt\<rparr> # es). \<exists>c' \<in> set (c # cs). \<exists>n e0. \<not> is_terminal_artifact ps c'
        \<and> event_url e' = Some (ac_url c') \<and> read_artifact gh settings now ps n c' = Derived (Inr (Some e0))
        \<and> e' = e0\<lparr>me_observed_at := ?fmt\<rparr>"
        unfolding list.set(2) ball_simps(7) using hd IH(7) by auto
    qed (use IH event(1) in auto)
  qed
qed

lemma candidate_session: "candidate kind seg s t url = Inr c \<Longrightarrow> ac_session c = s"
  by (auto simp: candidate_def split: sum.splits)

lemma candidates_of_session:
  assumes "candidates_from_sessions sessions = Inr cs" "c \<in> set cs"
  shows "ac_session c \<in> set sessions"
proof -
  have "Inr c \<in> set (concat (map (\<lambda>s. concat (map (target_candidates s) (sr_targets s))) sessions))"
    using assms by (simp add: candidates_from_sessions_def collect_results_Inr)
  then obtain s t where st: "s \<in> set sessions" "Inr c \<in> set (target_candidates s t)" by auto
  then show ?thesis
    by (auto simp: target_candidates_def split: option.splits dest!: candidate_session[OF sym])
qed


text \<open>C17: every event a scan derives passes the validator of the ledger writer, so that appending it
  cannot fail on its content, provided the archived session ids and the head commits GitHub reports
  are not blank.\<close>

theorem reconcile_events_valid:
  assumes "reconcile gh settings now sessions maintain limit = Inr out" "reports_head_shas gh"
    and "\<forall>s \<in> set sessions. \<not> is_blank (sr_id s)"
  shows "\<forall>e \<in> set (ro_new_events out). validate_maint_event e = Ok_unit
     \<and> me_observed_at e = maintain_format_system_time now"
proof -
  obtain candidates where cs: "candidates_from_sessions sessions = Inr candidates"
    and loop: "reconcile_loop gh settings now (project_events (ml_events maintain)) limit candidates reconcile_outcome_default = Inr out"
    using assms(1) by (auto simp: reconcile_def Let_def split: sum.splits)
  show ?thesis
  proof
    fix e assume "e \<in> set (ro_new_events out)"
    with reconcile_loop_spec[OF loop] obtain c n e0 where c: "c \<in> set candidates"
      "read_artifact gh settings now (project_events (ml_events maintain)) n c = Derived (Inr (Some e0))"
      "e = e0\<lparr>me_observed_at := maintain_format_system_time now\<rparr>"
      by (fastforce simp: reconcile_outcome_default_def)
    have "\<not> is_blank (sr_id (ac_session c))"
      using candidates_of_session[OF cs c(1)] assms(3) by blast
    from read_artifact_valid[OF c(2) assms(2) this format_not_blank] c(3)
    show "validate_maint_event e = Ok_unit \<and> me_observed_at e = maintain_format_system_time now"
      by simp
  qed
qed

definition sample_pr_row :: target_record where
  "sample_pr_row = \<lparr>tr_id = ''fix'', tr_family_id = ''fam'', tr_bucket = ''block_commit'', tr_delivery_mode = NormalPr,
     tr_status = Accepted, tr_status_stage = None, tr_reason_code = None, tr_head_sha = None,
     tr_pr_url = Some ''https://github.com/o/r/pull/7'', tr_issue_url = None, tr_bench = None\<rparr>"

definition sample_pr_session :: session_record where
  "sample_pr_session =
     \<lparr>sr_kind = SessionCompleted, sr_id = ''s1'', sr_artifact_branch = ''b'', sr_artifact_sha = ''a'', sr_artifact_url = None,
      sr_started_at = ''2026-01-01'', sr_finished_at = ''2026-01-01'', sr_status = Succeeded, sr_failure_phase = None,
      sr_failure_reason = None, sr_sbagent_version = ''v'', sr_sbagent_git_sha = None,
      sr_range = \<lparr>rg_start_at = None, rg_count = None, rg_warmup = None, rg_filter = None, rg_network = ''mainnet''\<rparr>,
      sr_baseline_run_ids = [], sr_phase_durations_secs = [], sr_targets = [sample_pr_row],
      sr_source_url = None, sr_source_branch = None, sr_source_sha = None, sr_source_fetched_at = None\<rparr>"

definition sample_gh :: "unit gh_client" where
  "sample_gh = \<lparr>query_pr_state = (\<lambda>_ _ _ _. Inr \<lparr>gr_state = \<lparr>pr_is_open = True, pr_is_merged = False,
       pr_is_closed_unmerged = False, pr_is_draft = False, pr_head_sha = Some ''abc'', pr_head_ref_deleted = False,
       pr_base_ref = ''develop'', pr_updated_at = ''2026-01-01T00:00:00Z''\<rparr>,
       gr_rate_limit = \<lparr>rl_remaining = 9, rl_limit = 10, rl_resets_at = 0\<rparr>\<rparr>),
     query_issue_state = (\<lambda>_ _ _ _. Inl ())\<rparr>"

definition sample_settings :: maintain_settings where
  "sample_settings = \<lparr>ms_stale_after_days = 14, ms_secondary_rate_limit_floor_pct = 10\<rparr>"

definition no_events :: "unit maint_ledger_report" where
  "no_events = maint_report_default"

definition sample_candidate :: artifact_candidate where
  "sample_candidate = \<lparr>ac_kind = Pr, ac_session = sample_pr_session, ac_target = sample_pr_row,
     ac_url = ''https://github.com/o/r/pull/7'', ac_owner = ''o'', ac_repo = ''r'', ac_number = 7\<rparr>"

lemma show_nat_7: "show_nat 7 = ''7''"
  by code_simp

lemma sample_candidates: "candidates_from_sessions [sample_pr_session] = Inr [sample_candidate]"
proof -
  have "parse_github_artifact_url ''https://github.com/o/r/pull/7'' ''pull'' = Inr (''o'', ''r'', 7)"
    using parse_artifact_url[of "''o''" "''r''" "''pull''" 7 "[]" "''pull''"] by (simp add: show_nat_7)
  moreover have "sr_targets sample_pr_session = [sample_pr_row]" by (simp add: sample_pr_session_def)
  moreover have "tr_pr_url sample_pr_row = Some ''https://github.com/o/r/pull/7''" "tr_issue_url sample_pr_row = None"
    by (simp_all add: sample_pr_row_def)
  ultimately show ?thesis
    by (simp add: candidates_from_sessions_def target_candidates_def candidate_def sample_candidate_def)
qed

lemma sample_derive: "derive_pr_event sample_candidate None
    \<lparr>pr_is_open = True, pr_is_merged = False, pr_is_closed_unmerged = False, pr_is_draft = False,
     pr_head_sha = sha, pr_head_ref_deleted = False, pr_base_ref = base, pr_updated_at = upd\<rparr> now settings
   = Inr (Some (event_for_candidate sample_candidate PrOpen None ''open'' sha))"
  by (simp add: derive_pr_event_def)

lemma sample_read:
  "\<exists>e. read_artifact sample_gh sample_settings 0 bt_empty 0 sample_candidate = Derived (Inr (Some e))"
proof -
  have "ac_kind sample_candidate = Pr" by (simp add: sample_candidate_def)
  moreover have "\<not> below_floor_pct \<lparr>rl_remaining = 9, rl_limit = 10, rl_resets_at = 0\<rparr> 10"
    by (simp add: below_floor_pct_def)
  ultimately show ?thesis
    by (simp add: read_artifact_def sample_gh_def sample_settings_def sample_derive Let_def)
qed

lemma sample_gh_ok: "reports_head_shas sample_gh" "\<not> is_blank (sr_id sample_pr_session)"
proof -
  have "\<not> is_blank ''abc''" "\<not> is_blank ''s1''" by (rule not_blank_ascii; simp)+
  then show "reports_head_shas sample_gh" "\<not> is_blank (sr_id sample_pr_session)"
    by (auto simp: reports_head_shas_def sample_gh_def sample_pr_session_def simp del: is_blank.simps)
qed

lemma sample_reconcile:
  "\<exists>e. reconcile sample_gh sample_settings 0 [sample_pr_session] no_events 5
       = Inr \<lparr>ro_new_events = [e], ro_deferred = [], ro_queried = 1\<rparr>
     \<and> validate_maint_event e = Ok_unit"
proof -
  obtain e where e: "read_artifact sample_gh sample_settings 0 bt_empty 0 sample_candidate = Derived (Inr (Some e))"
    using sample_read by blast
  have "\<not> is_blank (sr_id (ac_session sample_candidate))"
    using sample_gh_ok(2) by (simp add: sample_candidate_def)
  from read_artifact_valid[OF e sample_gh_ok(1) this format_not_blank]
  have "validate_maint_event (e\<lparr>me_observed_at := maintain_format_system_time 0\<rparr>) = Ok_unit" .
  moreover have "project_events (ml_events no_events) = bt_empty"
    by (simp add: no_events_def project_events_def)
  ultimately show ?thesis
    using e by (simp add: reconcile_def sample_candidates is_terminal_artifact_def reconcile_outcome_default_def)
qed


theorem reconcile_events_valid_witness:
  "\<exists>e out. reconcile sample_gh sample_settings 0 [sample_pr_session] no_events 5 = Inr out
     \<and> ro_new_events out = [e] \<and> validate_maint_event e = Ok_unit"
proof -
  obtain e where out: "reconcile sample_gh sample_settings 0 [sample_pr_session] no_events 5
     = Inr \<lparr>ro_new_events = [e], ro_deferred = [], ro_queried = 1\<rparr>"
    using sample_reconcile by blast
  have "\<forall>s \<in> set [sample_pr_session]. \<not> is_blank (sr_id s)" using sample_gh_ok(2) by simp
  from reconcile_events_valid[OF out sample_gh_ok(1) this] out show ?thesis by simp
qed

end
