(* ===== verification/Maintain_Command.thy ===== *)
theory Maintain_Command
  imports Maintain
begin

text \<open>
  The \<open>sbagent maintain\<close> command (\<open>cli/maintain.rs\<close>): both ledgers are read, the scan runs, and its
  events are appended to \<open>maintain.jsonl\<close> and committed.
\<close>

section \<open>The command\<close>

text \<open>\<open>&s[..10]\<close> of the start time, or all of it when shorter; \<open>None\<close> is the slice panic.\<close>

definition started_at_date :: "session_record \<Rightarrow> string option" where
  "started_at_date r =
     (let s = sr_started_at r in if 10 \<le> length s then byte_slice s 0 10 else Some s)"

datatype ('io, 'g, 's) maintain_error =
    ReadingLedger 'io
  | DatePanic
  | Url url_error
  | Token 'io
  | Reconciling "'g reconcile_error"
  | AppendFailed "('io, 's) append_error"
  | CommitFailed 'io

text \<open>The append loop stops at the first failure; the events before it stay in the file.\<close>

fun append_events ::
  "(maint_event \<Rightarrow> 's + string) \<Rightarrow> (nat \<Rightarrow> 'io append_io) \<Rightarrow> nat \<Rightarrow> maint_event list \<Rightarrow> string option
     \<Rightarrow> (('io, 's) append_error + unit) \<times> string option" where
  "append_events to_json io i [] file = (Inr (), file)"
| "append_events to_json io i (e # es) file =
     (case append_event to_json (io i) e file of
        (Inl err, file') \<Rightarrow> (Inl err, file')
      | (Inr _, file') \<Rightarrow> append_events to_json io (Suc i) es file')"

text \<open>
  The command on the two ledgers: its result, what it has printed as outcome, and \<open>maintain.jsonl\<close>
  after it. The token file, the clock, the append outcomes and commit-and-push are arguments.
\<close>

definition maintain_run ::
  "(string \<Rightarrow> 'p + session_record) \<Rightarrow> (string \<Rightarrow> 'q + maint_event) \<Rightarrow> (maint_event \<Rightarrow> 's + string)
     \<Rightarrow> 'io read_outcome \<Rightarrow> string option \<Rightarrow> bool \<Rightarrow> nat \<Rightarrow> 'io + unit \<Rightarrow> 'g gh_client
     \<Rightarrow> maintain_settings \<Rightarrow> system_time \<Rightarrow> (nat \<Rightarrow> 'io append_io) \<Rightarrow> 'io option \<Rightarrow> string option
     \<Rightarrow> (('io, 'g, 's) maintain_error + reconcile_outcome) \<times> string option" where
  "maintain_run parse_session parse_event to_json sessions_file since dry_run limit token gh settings now io commit file =
     (case ledger_read_all parse_session sessions_file of
        Inl e \<Rightarrow> (Inl (ReadingLedger e), file)
      | Inr report \<Rightarrow>
     (case (case since of None \<Rightarrow> Some (lr_records report)
            | Some date \<Rightarrow>
                if list_ex (\<lambda>r. started_at_date r = None) (lr_records report) then None
                else Some (filter (\<lambda>r. date \<le> the (started_at_date r)) (lr_records report))) of
        None \<Rightarrow> (Inl DatePanic, file)
      | Some records \<Rightarrow>
     (case maint_read_all parse_event (case file of None \<Rightarrow> NotFound | Some s \<Rightarrow> Content s) of
        Inl e \<Rightarrow> (Inl (ReadingLedger e), file)
      | Inr maintain \<Rightarrow>
     (case needs_github_queries records maintain of
        Inl e \<Rightarrow> (Inl (Url e), file)
      | Inr False \<Rightarrow> (Inr reconcile_outcome_default, file)
      | Inr True \<Rightarrow>
     (case token of Inl e \<Rightarrow> (Inl (Token e), file) | Inr _ \<Rightarrow>
     (case reconcile gh settings now records maintain limit of
        Inl e \<Rightarrow> (Inl (Reconciling e), file)
      | Inr outcome \<Rightarrow>
          if dry_run \<or> ro_new_events outcome = [] then (Inr outcome, file)
          else (case append_events to_json io 0 (ro_new_events outcome) file of
                  (Inl e, file') \<Rightarrow> (Inl (AppendFailed e), file')
                | (Inr _, file') \<Rightarrow>
                    (case commit of Some e \<Rightarrow> (Inl (CommitFailed e), file')
                     | None \<Rightarrow> (Inr outcome, file')))))))))"

section \<open>Properties\<close>

text \<open>
  What the command relies on of serde: an event is serialised as one non-blank line without control
  characters at its end, which parses back to a version-1 value of the same event.
\<close>

definition event_codec ::
  "(maint_event \<Rightarrow> 's + string) \<Rightarrow> (string \<Rightarrow> 'e + json) \<Rightarrow> (json \<Rightarrow> 'd + maint_event) \<Rightarrow> maint_event \<Rightarrow> bool" where
  "event_codec to_json from_str from_value e \<longleftrightarrow>
     (case to_json e of Inl _ \<Rightarrow> False
      | Inr j \<Rightarrow> CHR 0x0A \<notin> set j \<and> \<not> is_blank j \<and> last j \<noteq> CHR 0x0D
          \<and> (case from_str j of Inl _ \<Rightarrow> False
             | Inr v \<Rightarrow> schema_version_of v = 1 \<and> from_value v = Inr e))"

lemma append_event_ok_valid:
  "append_event to_json io e file = (Inr u, file') \<Longrightarrow> validate_maint_event e = Ok_unit"
  by (auto simp: append_event_def split: sum.splits)

lemma append_events_read:
  assumes "\<forall>e \<in> set es. event_codec to_json from_str from_value e" "\<And>i. well_behaved_io (io i)"
    and "append_events to_json io i es file = (Inr u, file')" "newline_terminated file"
    and "maint_read_all (maint_from_ledger_line from_str from_value) (file_outcome file) = Inr r"
  shows "newline_terminated file' \<and> (\<exists>r'. maint_read_all (maint_from_ledger_line from_str from_value) (file_outcome file') = Inr r'
     \<and> ml_events r' = ml_events r @ es \<and> ml_skipped r' = ml_skipped r)"
  using assms(1,3-5)
proof (induction es arbitrary: i "file" r)
  case Nil
  then show ?case by simp
next
  case (Cons e es)
  obtain file1 where one: "append_event to_json (io i) e file = (Inr (), file1)"
    and rest: "append_events to_json io (Suc i) es file1 = (Inr u, file')"
    using Cons.prems(2) by (auto split: prod.splits sum.splits)
  note valid = append_event_ok_valid[OF one]
  then obtain j v where "to_json e = Inr j" "CHR 0x0A \<notin> set j" "\<not> is_blank j" "last j \<noteq> CHR 0x0D"
    "from_str j = Inr v" "schema_version_of v = 1" "from_value v = Inr e"
    using Cons.prems(1) by (auto simp: event_codec_def split: sum.splits)
  from append_event_read[OF valid assms(2) Cons.prems(3) this Cons.prems(4) one]
  obtain r1 where "newline_terminated file1"
    "maint_read_all (maint_from_ledger_line from_str from_value) (file_outcome file1) = Inr r1"
    "ml_events r1 = ml_events r @ [e]" "ml_skipped r1 = ml_skipped r" by blast
  with Cons.IH[OF _ rest] Cons.prems(1) show ?case by auto
qed

lemma maintain_run_cases:
  assumes "maintain_run ps pe to_json sf since dry_run limit token gh settings now io commit file = (Inr out, file')"
  shows "file' = file \<and> (dry_run \<or> ro_new_events out = [])
     \<or> \<not> dry_run \<and> append_events to_json io 0 (ro_new_events out) file = (Inr (), file')"
  using assms
  by (auto simp: maintain_run_def reconcile_outcome_default_def
      split: sum.splits option.splits bool.splits if_splits prod.splits)

text \<open>C16: a maintain run that succeeds leaves the ledger with exactly the events it reported appended:
  reading the file back gives the events before followed by the reported ones (none in a dry run,
  which leaves the file as it was), no line newly skipped, and the file still ends with a newline.\<close>

theorem maintain_run_records_events:
  assumes "\<forall>e \<in> set (ro_new_events out). event_codec to_json from_str from_value e" "\<forall>i. well_behaved_io (io i)" "newline_terminated file"
    and run: "maintain_run ps pe to_json sf since dry_run limit token gh settings now io commit file = (Inr out, file')"
    and "maint_read_all (maint_from_ledger_line from_str from_value) (file_outcome file) = Inr r"
  shows "newline_terminated file' \<and> (dry_run \<longrightarrow> file' = file)
    \<and> (\<exists>r'. maint_read_all (maint_from_ledger_line from_str from_value) (file_outcome file') = Inr r'
         \<and> ml_events r' = ml_events r @ (if dry_run then [] else ro_new_events out) \<and> ml_skipped r' = ml_skipped r)"
  using maintain_run_cases[OF run]
proof (elim disjE conjE)
  assume "\<not> dry_run" "append_events to_json io 0 (ro_new_events out) file = (Inr (), file')"
  with append_events_read[OF assms(1) _ this(2) assms(3,5)] assms(2) show ?thesis by simp
qed (use assms(3,5) in auto)

definition quiet_io :: "unit append_io" where
  "quiet_io = \<lparr>ai_has_parent = True, ai_create_dir = None, ai_open = None, ai_write = None\<rparr>"

theorem maintain_run_records_events_witness:
  "\<exists>e file' r'. maintain_run (\<lambda>_. Inr sample_pr_session :: unit + session_record) (\<lambda>_. Inl () :: unit + maint_event)
       (\<lambda>_. Inr ''{}'' :: unit + string) (Content ''x'') None False 5 (Inr ()) sample_gh sample_settings 0
       (\<lambda>_. quiet_io) None None = (Inr \<lparr>ro_new_events = [e], ro_deferred = [], ro_queried = 1\<rparr>, file')
     \<and> maint_read_all (maint_from_ledger_line (\<lambda>_. Inr (JObj [(''schema_version'', JInt 1)]) :: unit + json)
           (\<lambda>_. Inr e :: unit + maint_event)) (file_outcome file') = Inr r'
     \<and> ml_events r' = [e]"
proof -
  obtain e where e: "reconcile sample_gh sample_settings 0 [sample_pr_session] no_events 5
     = Inr \<lparr>ro_new_events = [e], ro_deferred = [], ro_queried = 1\<rparr>" "validate_maint_event e = Ok_unit"
    using sample_reconcile by blast
  let ?to_json = "\<lambda>_. Inr ''{}'' :: unit + string"
  let ?from_str = "\<lambda>_. Inr (JObj [(''schema_version'', JInt 1)]) :: unit + json"
  let ?from_value = "\<lambda>_. Inr e :: unit + maint_event"
  let ?parse = "maint_from_ledger_line ?from_str ?from_value"
  have sessions: "ledger_read_all (\<lambda>_. Inr sample_pr_session :: unit + session_record) (Content ''x'' :: unit read_outcome)
     = Inr \<lparr>lr_records = [sample_pr_session], lr_skipped = []\<rparr>"
    by (simp add: ledger_read_all_def rust_lines_def ledger_report_default_def ascii_ws_def)
  have codec: "event_codec ?to_json ?from_str ?from_value e"
    by (simp add: event_codec_def) code_simp
  have io: "well_behaved_io quiet_io" "newline_terminated None"
    by (simp_all add: well_behaved_io_def newline_terminated_def quiet_io_def)
  have append: "append_event ?to_json quiet_io e None = (Inr (), Some (''{}'' @ [CHR 0x0A]))"
    using e(2) by (simp add: append_event_def quiet_io_def)
  have queries: "needs_github_queries [sample_pr_session] no_events = Inr True"
    by (simp add: needs_github_queries_def sample_candidates is_terminal_artifact_def no_events_def project_events_def)
  have run: "maintain_run (\<lambda>_. Inr sample_pr_session :: unit + session_record) (\<lambda>_. Inl () :: unit + maint_event)
       ?to_json (Content ''x'') None False 5 (Inr ()) sample_gh sample_settings 0
       (\<lambda>_. quiet_io) None None = (Inr \<lparr>ro_new_events = [e], ro_deferred = [], ro_queried = 1\<rparr>, Some (''{}'' @ [CHR 0x0A]))"
    using e(1) queries
    by (simp add: maintain_run_def sessions maint_read_all_def append no_events_def del: append.simps)
  have "maint_read_all ?parse (file_outcome None) = Inr maint_report_default"
    by (simp add: maint_read_all_def file_outcome_def)
  from maintain_run_records_events[OF _ _ io(2) run this] codec io(1) run
  show ?thesis by fastforce
qed

end
