(* ===== verification/Session_Id.thy ===== *)
theory Session_Id
  imports Timestamps
begin

text \<open>
  Session identifiers (\<open>types.rs\<close>): the checked constructor, the minted \<open>YYYYMMDD-HHMMSS\<close>
  stamp, and the agreement between the byte order of stamps and timestamps and the order of the
  times they denote, which the ledger projections rely on when they sort by text.
\<close>

datatype session_id_error =
    SessionIdEmpty
  | SessionIdLeadingDot
  | SessionIdBadChar

datatype session_id = SessionId (as_str: string)

definition session_id_try_from :: "string \<Rightarrow> session_id_error + session_id" where
  "session_id_try_from value =
     (if value = [] then Inl SessionIdEmpty
      else if starts_with value ''.'' then Inl SessionIdLeadingDot
      else if contains_char value (CHR ''/'') \<or> contains_char value (CHR 0x5C) \<or> contains_char value (CHR 0x00)
        then Inl SessionIdBadChar
      else Inr (SessionId value))"

text \<open>\<open>mint_now\<close> reads the clock; a clock before the epoch counts as zero. No check is made.\<close>

definition mint_now :: "system_time \<Rightarrow> session_id" where
  "mint_now now = SessionId (format_ymd_hms_utc (nat (max 0 now div nanos)))"

section \<open>Byte order of fixed-width fields\<close>

lemma append_less_iff:
  fixes s t :: "'a::linorder list"
  assumes "length s = length t"
  shows "s @ u < t @ v \<longleftrightarrow> s < t \<or> (s = t \<and> u < v)"
  using assms by (induction s t rule: list_induct2) auto

lemma digit_less_iff:
  "is_ascii_digit a \<Longrightarrow> is_ascii_digit b \<Longrightarrow> a < b \<longleftrightarrow> char_digit a < char_digit b"
  by (auto simp: is_ascii_digit_def char_digit_def less_char_def)

lemma digits_value_bound: "list_all is_ascii_digit s \<Longrightarrow> digits_value s < 10 ^ length s"
proof (induction s rule: rev_induct)
  case (snoc c s)
  then have "digits_value s < 10 ^ length s" "is_ascii_digit c"
    by simp_all
  then have "digits_value s < 10 ^ length s" "char_digit c < 10"
    by (auto simp: is_ascii_digit_def char_digit_def)
  then show ?case by (simp add: digits_value_append)
qed simp

lemma digits_value_Cons: "digits_value (c # s) = char_digit c * 10 ^ length s + digits_value s"
  using digits_value_append[of "[c]" s] by simp

lemma digits_less_iff:
  assumes "length s = length t" "list_all is_ascii_digit s" "list_all is_ascii_digit t"
  shows "s < t \<longleftrightarrow> digits_value s < digits_value t"
  using assms
proof (induction s t rule: list_induct2)
  case (Cons a s b t)
  define k where "k = (10::nat) ^ length t"
  have v: "digits_value s < k" "digits_value t < k"
    using Cons digits_value_bound[of s] digits_value_bound[of t] by (simp_all add: k_def)
  have lex: "a * k + x < b * k + y \<longleftrightarrow> a < b \<or> (a = b \<and> x < y)" if "x < k" "y < k" for a b x y :: nat
  proof -
    have "a * k + x < b * k + y" if "a < b"
    proof -
      have "(a + 1) * k \<le> b * k" using that by (intro mult_le_mono1) simp
      then show ?thesis using \<open>x < k\<close> by simp
    qed
    moreover have "b * k + y < a * k + x" if "b < a"
    proof -
      have "(b + 1) * k \<le> a * k" using that by (intro mult_le_mono1) simp
      then show ?thesis using \<open>y < k\<close> by simp
    qed
    ultimately show ?thesis by (metis add_less_cancel_left linorder_neqE_nat not_less_iff_gr_or_eq)
  qed
  have "char_digit a = char_digit b \<longleftrightarrow> a = b"
    using digit_less_iff[of a b] digit_less_iff[of b a] Cons.prems
    by (metis list.pred_inject(2) neq_iff)
  then show ?case
    using Cons digit_less_iff[of a b] lex[OF v, of "char_digit a" "char_digit b"]
    by (simp add: digits_value_Cons k_def)
qed simp

lemma field_value: "field w s n \<Longrightarrow> digits_value s = n \<and> length s = w"
  by (simp add: field_def parse_digits_def split: if_splits)

lemma field_less_iff:
  assumes "field w s a" "field w t b"
  shows "s < t \<longleftrightarrow> a < b"
  using digits_less_iff[OF _ field_digits[OF assms(1)] field_digits[OF assms(2)]]
    field_value[OF assms(1)] field_value[OF assms(2)] by simp

lemma show_pad_less_iff:
  assumes "0 \<le> x" "x < 10 ^ w" "0 \<le> y" "y < 10 ^ w" "0 < w"
  shows "show_int_pad w x < show_int_pad w y \<longleftrightarrow> x < y"
    and "show_int_pad w x = show_int_pad w y \<longleftrightarrow> x = y"
    and "length (show_int_pad w x) = length (show_int_pad w y)"
proof -
  note fx = field_show[OF assms(1,2,5)] and fy = field_show[OF assms(3,4,5)]
  show less: "show_int_pad w x < show_int_pad w y \<longleftrightarrow> x < y"
    using field_less_iff[OF fx fy] nat_less_eq_zless[OF assms(1)] by simp
  have "show_int_pad w y < show_int_pad w x \<longleftrightarrow> y < x"
    using field_less_iff[OF fy fx] nat_less_eq_zless[OF assms(3)] by simp
  with less show "show_int_pad w x = show_int_pad w y \<longleftrightarrow> x = y"
    by (metis linorder_neq_iff)
  show "length (show_int_pad w x) = length (show_int_pad w y)"
    using fx fy by (simp add: field_def)
qed

section \<open>Chronological order\<close>

lemma next_date_greater: "valid_date D \<Longrightarrow> D < next_date D"
  by (cases D) (auto simp: less_prod_def')

lemma civil_from_days_mono: "a < b \<Longrightarrow> civil_from_days a < civil_from_days b"
proof -
  assume "a < b"
  then obtain k where b: "b = a + 1 + int k"
    by (metis add.commute zless_iff_Suc_zadd add.left_commute of_nat_Suc)
  have "civil_from_days a < civil_from_days (a + 1 + int k)"
  proof (induction k)
    case 0
    show ?case using next_date_greater days_of_civil_of_days by (simp add: civil_from_days_Suc)
  next
    case (Suc k)
    have "civil_from_days (a + 1 + int (Suc k)) = next_date (civil_from_days (a + 1 + int k))"
      using civil_from_days_Suc[of "a + 1 + int k"] by (simp add: algebra_simps)
    with Suc next_date_greater days_of_civil_of_days show ?case by (metis less_trans)
  qed
  then show ?thesis by (simp add: b)
qed

lemma show4_less:
  assumes "1970 \<le> y" "y \<le> 9999" "1970 \<le> y'" "y' \<le> 9999"
  shows "show_int_pad 4 y @ u < show_int_pad 4 y' @ v \<longleftrightarrow> y < y' \<or> (y = y' \<and> u < v)"
  using assms show_pad_less_iff[of y 4 y'] append_less_iff[of "show_int_pad 4 y" "show_int_pad 4 y'"]
  by simp

lemma show2_less:
  assumes "0 \<le> x" "x < 100" "0 \<le> x'" "x' < 100"
  shows "show_int_pad 2 x @ u < show_int_pad 2 x' @ v \<longleftrightarrow> x < x' \<or> (x = x' \<and> u < v)"
  using assms show_pad_less_iff[of x 2 x'] append_less_iff[of "show_int_pad 2 x" "show_int_pad 2 x'"]
  by simp

lemma iso_text_less:
  assumes "1970 \<le> y" "y \<le> 9999" "1970 \<le> y'" "y' \<le> 9999"
    "1 \<le> m" "m \<le> 12" "1 \<le> m'" "m' \<le> 12" "1 \<le> d" "d \<le> 31" "1 \<le> d'" "d' \<le> 31"
    "0 \<le> hh" "hh < 24" "0 \<le> hh'" "hh' < 24" "0 \<le> mm" "mm < 60" "0 \<le> mm'" "mm' < 60"
    "0 \<le> ss" "ss < 60" "0 \<le> ss'" "ss' < 60"
  shows "iso_text y m d hh mm ss < iso_text y' m' d' hh' mm' ss'
    \<longleftrightarrow> (y, m, d, hh, mm, ss) < (y', m', d', hh', mm', ss')"
  using assms show2_less[of ss ss' "''Z''" "''Z''"]
  unfolding iso_text_def by (simp add: show4_less show2_less lex_less_iff del: less_prod_simp)

lemma stamp_less:
  assumes "1970 \<le> y" "y \<le> 9999" "1970 \<le> y'" "y' \<le> 9999"
    "1 \<le> m" "m \<le> 12" "1 \<le> m'" "m' \<le> 12" "1 \<le> d" "d \<le> 31" "1 \<le> d'" "d' \<le> 31"
    "0 \<le> hh" "hh < 24" "0 \<le> hh'" "hh' < 24" "0 \<le> mm" "mm < 60" "0 \<le> mm'" "mm' < 60"
    "0 \<le> ss" "ss < 60" "0 \<le> ss'" "ss' < 60"
  shows "show_int_pad 4 y @ show_int_pad 2 m @ show_int_pad 2 d @ ''-''
      @ show_int_pad 2 hh @ show_int_pad 2 mm @ show_int_pad 2 ss
    < show_int_pad 4 y' @ show_int_pad 2 m' @ show_int_pad 2 d' @ ''-''
      @ show_int_pad 2 hh' @ show_int_pad 2 mm' @ show_int_pad 2 ss'
    \<longleftrightarrow> (y, m, d, hh, mm, ss) < (y', m', d', hh', mm', ss')"
  using assms show_pad_less_iff(1)[of ss 2 ss']
  by (simp add: show4_less show2_less lex_less_iff del: less_prod_simp)

lemma triple_less:
  fixes a a' :: "'a::linorder" and b b' :: "'b::linorder" and c c' :: "'c::linorder" and r r' :: "'d::linorder"
  shows "(a, b, c, r) < (a', b', c', r')
    \<longleftrightarrow> (a, b, c) < (a', b', c') \<or> ((a, b, c) = (a', b', c') \<and> r < r')"
  by (cases "a = a'"; cases "b = b'"; cases "c = c'"; simp add: lex_less_iff del: less_prod_simp)

lemma hms_lex:
  fixes h h' m m' s s' :: int
  assumes "0 \<le> m" "m < 60" "0 \<le> s" "s < 60" "0 \<le> m'" "m' < 60" "0 \<le> s'" "s' < 60"
  shows "(h, m, s) < (h', m', s') \<longleftrightarrow> h * 3600 + (m * 60 + s) < h' * 3600 + (m' * 60 + s')"
  using assms by (simp, linarith)

lemma hms_less_iff:
  assumes "0 \<le> a" "a < (86400::int)" "0 \<le> b" "b < 86400"
  shows "(a div 3600, a mod 3600 div 60, a mod 60) < (b div 3600, b mod 3600 div 60, b mod 60) \<longleftrightarrow> a < b"
proof -
  have "x mod 3600 mod 60 = x mod 60" for x :: int by (simp add: mod_mod_cancel)
  then have d: "x = x div 3600 * 3600 + (x mod 3600 div 60 * 60 + x mod 60)" for x :: int
    by (metis div_mult_mod_eq)
  have r: "0 \<le> x mod 3600 div 60" "x mod 3600 div 60 < 60" "0 \<le> x mod 60" "x mod 60 < 60" for x :: int
    by (simp_all add: div_less_iff_less_mult)
  show ?thesis
    by (subst hms_lex) (simp_all only: r d[symmetric])
qed

lemma broken_down_less:
  fixes a b :: int
  assumes "civil_from_days (a div 86400) = (y, m, d)" "civil_from_days (b div 86400) = (y', m', d')"
    "hh = a mod 86400 div 3600" "mm = a mod 86400 mod 3600 div 60" "ss = a mod 86400 mod 60"
    "hh' = b mod 86400 div 3600" "mm' = b mod 86400 mod 3600 div 60" "ss' = b mod 86400 mod 60"
  shows "(y, m, d, hh, mm, ss) < (y', m', d', hh', mm', ss') \<longleftrightarrow> a < b"
proof -
  define q q' where "q = a div 86400" and "q' = b div 86400"
  define r r' where "r = a mod 86400" and "r' = b mod 86400"
  have "(hh, mm, ss) < (hh', mm', ss') \<longleftrightarrow> r < r'"
    unfolding assms(3-8) r_def[symmetric] r'_def[symmetric]
    by (rule hms_less_iff) (simp_all add: r_def r'_def)
  then have "(y, m, d, hh, mm, ss) < (y', m', d', hh', mm', ss')
      \<longleftrightarrow> civil_from_days q < civil_from_days q' \<or> (civil_from_days q = civil_from_days q' \<and> r < r')"
    unfolding triple_less q_def q'_def assms(1,2) by simp
  also have "\<dots> \<longleftrightarrow> q < q' \<or> (q = q' \<and> r < r')"
    by (cases q q' rule: linorder_cases) (auto dest: civil_from_days_mono)
  also have "\<dots> \<longleftrightarrow> q * 86400 + r < q' * 86400 + r'"
    using pos_mod_bound[of 86400 a] pos_mod_sign[of 86400 a]
      pos_mod_bound[of 86400 b] pos_mod_sign[of 86400 b]
    unfolding r_def r'_def by linarith
  finally show ?thesis by (simp add: q_def q'_def r_def r'_def)
qed

text \<open>Two timestamps that \<open>maintain\<close> prints for times before the year 10000 compare as byte
  strings exactly as the times compare in seconds, so sorting \<open>observed_at\<close> texts is
  chronological.\<close>

theorem timestamp_order:
  assumes "0 \<le> t" "t div nanos < year_10000" "0 \<le> t'" "t' div nanos < year_10000"
  shows "maintain_format_system_time t < maintain_format_system_time t' \<longleftrightarrow> t div nanos < t' div nanos"
proof -
  have n: "0 \<le> t div nanos" "0 \<le> t' div nanos" using assms by (simp_all add: nanos_def)
  obtain y m d hh mm ss where b:
    "civil_from_days (t div nanos div 86400) = (y, m, d)"
    "1970 \<le> y" "y \<le> 9999" "1 \<le> m" "m \<le> 12" "1 \<le> d" "d \<le> 31"
    "hh = t div nanos mod 86400 div 3600" "mm = t div nanos mod 86400 mod 3600 div 60"
    "ss = t div nanos mod 86400 mod 60"
    "0 \<le> hh" "hh < 24" "0 \<le> mm" "mm < 60" "0 \<le> ss" "ss < 60"
    "days_from_civil (y, m, d) = t div nanos div 86400"
    "days_from_civil (y, m, d) * 86400 + hh * 3600 + mm * 60 + ss = t div nanos"
    by (rule broken_down[OF n(1) assms(2)])
  obtain y' m' d' hh' mm' ss' where b':
    "civil_from_days (t' div nanos div 86400) = (y', m', d')"
    "1970 \<le> y'" "y' \<le> 9999" "1 \<le> m'" "m' \<le> 12" "1 \<le> d'" "d' \<le> 31"
    "hh' = t' div nanos mod 86400 div 3600" "mm' = t' div nanos mod 86400 mod 3600 div 60"
    "ss' = t' div nanos mod 86400 mod 60"
    "0 \<le> hh'" "hh' < 24" "0 \<le> mm'" "mm' < 60" "0 \<le> ss'" "ss' < 60"
    "days_from_civil (y', m', d') = t' div nanos div 86400"
    "days_from_civil (y', m', d') * 86400 + hh' * 3600 + mm' * 60 + ss' = t' div nanos"
    by (rule broken_down[OF n(2) assms(4)])
  show ?thesis
    unfolding format_text(1)[OF assms(1,2) b(1) b(3) b(2), folded b(8-10)]
      format_text(1)[OF assms(3,4) b'(1) b'(3) b'(2), folded b'(8-10)]
      iso_text_less[OF b(2,3) b'(2,3) b(4,5) b'(4,5) b(6,7) b'(6,7) b(11,12) b'(11,12)
        b(13,14) b'(13,14) b(15,16) b'(15,16)]
    by (rule broken_down_less[OF b(1) b'(1) b(8-10) b'(8-10)])
qed

theorem timestamp_order_witness:
  "maintain_format_system_time 0 < maintain_format_system_time (86400 * nanos)"
proof -
  have "0 \<le> (0::int)" "0 div nanos < year_10000" "0 \<le> 86400 * nanos" "86400 * nanos div nanos < year_10000"
    "0 div nanos < 86400 * nanos div nanos"
    by (simp_all add: nanos_def year_10000_def)
  then show ?thesis using timestamp_order[of 0 "86400 * nanos"] by blast
qed

section \<open>Minted identifiers\<close>

lemma show_int_pad_chars:
  assumes "c \<in> set (show_int_pad w x)"
  shows "is_ascii_digit c \<or> c = CHR ''-''"
proof -
  have "is_ascii_digit c" if "c \<in> set (pad_left k (show_nat n))" for k n
    using that pad_left_digits[OF list_all_show_nat, of k n] by (auto simp: list_all_iff)
  then show ?thesis using assms by (auto simp: show_int_pad_def split: if_splits)
qed

lemma show_int_pad_nonempty [simp]: "show_int_pad w x \<noteq> []"
  by (simp add: show_int_pad_def)

lemma stamp_chars:
  assumes "c \<in> set (format_ymd_hms_utc secs)"
  shows "is_ascii_digit c \<or> c = CHR ''-''"
  using assms show_int_pad_chars
  by (auto simp: format_ymd_hms_utc_def Let_def split: prod.splits)

lemma stamp_nonempty: "format_ymd_hms_utc secs \<noteq> []"
  unfolding format_ymd_hms_utc_def Let_def
  by (cases "types_civil_from_days (as_i64 (int (secs div 86400)))") simp

text \<open>Every identifier \<open>mint_now\<close> mints, at any clock reading, passes the checked constructor
  (it is non-empty, does not start with a dot and holds no separator or NUL), although
  \<open>mint_now\<close> bypasses the check.\<close>

theorem minted_id_valid: "session_id_try_from (as_str (mint_now now)) = Inr (mint_now now)"
proof -
  define s where "s = format_ymd_hms_utc (nat (max 0 now div nanos))"
  have ne: "s \<noteq> []" by (simp only: s_def stamp_nonempty not_False_eq_True)
  have notin: "c \<notin> set s" if "\<not> is_ascii_digit c" "c \<noteq> CHR ''-''" for c
    using stamp_chars that unfolding s_def by blast
  have "CHR ''.'' \<notin> set s" "CHR ''/'' \<notin> set s" "CHR 0x5C \<notin> set s" "CHR 0x00 \<notin> set s"
    by (rule notin; simp add: is_ascii_digit_def)+
  moreover have "\<not> prefix ''.'' s" using calculation(1) by (auto simp: prefix_def)
  ultimately show ?thesis
    using ne by (simp add: mint_now_def s_def[symmetric] session_id_try_from_def starts_with_def contains_char_def)
qed

lemma stamp_text:
  assumes "int secs < year_10000" "civil_from_days (int secs div 86400) = (y, m, d)" "1970 \<le> y" "y \<le> 9999"
  shows "format_ymd_hms_utc secs =
     show_int_pad 4 y @ show_int_pad 2 m @ show_int_pad 2 d @ ''-''
     @ show_int_pad 2 (int secs mod 86400 div 3600) @ show_int_pad 2 (int secs mod 86400 mod 3600 div 60)
     @ show_int_pad 2 (int secs mod 86400 mod 60)"
proof -
  have "as_i64 (int (secs div 86400)) = int secs div 86400"
    using assms(1) by (subst as_i64_id) (simp_all add: year_10000_def zdiv_int)
  then show ?thesis
    using copies_civil(1)[OF assms(2)] assms(3,4)
    by (simp add: format_ymd_hms_utc_def Let_def zdiv_int zmod_int)
qed

text \<open>Before the year 10000 a minted identifier has fifteen bytes, and two minted identifiers
  compare as byte strings exactly as the seconds at which they were minted.\<close>

theorem minted_id_order:
  assumes "0 \<le> t" "t div nanos < year_10000" "0 \<le> t'" "t' div nanos < year_10000"
  shows "length (as_str (mint_now t)) = 15
    \<and> (as_str (mint_now t) < as_str (mint_now t') \<longleftrightarrow> t div nanos < t' div nanos)"
proof -
  have n: "0 \<le> t div nanos" "0 \<le> t' div nanos" using assms by (simp_all add: nanos_def)
  obtain y m d hh mm ss where b:
    "civil_from_days (t div nanos div 86400) = (y, m, d)"
    "1970 \<le> y" "y \<le> 9999" "1 \<le> m" "m \<le> 12" "1 \<le> d" "d \<le> 31"
    "hh = t div nanos mod 86400 div 3600" "mm = t div nanos mod 86400 mod 3600 div 60"
    "ss = t div nanos mod 86400 mod 60"
    "0 \<le> hh" "hh < 24" "0 \<le> mm" "mm < 60" "0 \<le> ss" "ss < 60"
    "days_from_civil (y, m, d) = t div nanos div 86400"
    "days_from_civil (y, m, d) * 86400 + hh * 3600 + mm * 60 + ss = t div nanos"
    by (rule broken_down[OF n(1) assms(2)])
  obtain y' m' d' hh' mm' ss' where b':
    "civil_from_days (t' div nanos div 86400) = (y', m', d')"
    "1970 \<le> y'" "y' \<le> 9999" "1 \<le> m'" "m' \<le> 12" "1 \<le> d'" "d' \<le> 31"
    "hh' = t' div nanos mod 86400 div 3600" "mm' = t' div nanos mod 86400 mod 3600 div 60"
    "ss' = t' div nanos mod 86400 mod 60"
    "0 \<le> hh'" "hh' < 24" "0 \<le> mm'" "mm' < 60" "0 \<le> ss'" "ss' < 60"
    "days_from_civil (y', m', d') = t' div nanos div 86400"
    "days_from_civil (y', m', d') * 86400 + hh' * 3600 + mm' * 60 + ss' = t' div nanos"
    by (rule broken_down[OF n(2) assms(4)])
  have st: "as_str (mint_now t) = show_int_pad 4 y @ show_int_pad 2 m @ show_int_pad 2 d @ ''-''
      @ show_int_pad 2 hh @ show_int_pad 2 mm @ show_int_pad 2 ss"
    using stamp_text[of "nat (t div nanos)" y m d] assms(1,2) n(1) b(1-3)
    by (simp only: mint_now_def session_id.sel max_absorb2 int_nat_eq if_True b(8-10))
  have st': "as_str (mint_now t') = show_int_pad 4 y' @ show_int_pad 2 m' @ show_int_pad 2 d' @ ''-''
      @ show_int_pad 2 hh' @ show_int_pad 2 mm' @ show_int_pad 2 ss'"
    using stamp_text[of "nat (t' div nanos)" y' m' d'] assms(3,4) n(2) b'(1-3)
    by (simp only: mint_now_def session_id.sel max_absorb2 int_nat_eq if_True b'(8-10))
  have len: "length (as_str (mint_now t)) = 15"
    unfolding st using field_show[of y 4] field_show[of m 2] field_show[of d 2] field_show[of hh 2]
      field_show[of mm 2] field_show[of ss 2] b(2-7,11-16) by (simp add: field_def)
  have "as_str (mint_now t) < as_str (mint_now t') \<longleftrightarrow> (y, m, d, hh, mm, ss) < (y', m', d', hh', mm', ss')"
    unfolding st st'
    by (rule stamp_less[OF b(2,3) b'(2,3) b(4,5) b'(4,5) b(6,7) b'(6,7) b(11,12) b'(11,12)
        b(13,14) b'(13,14) b(15,16) b'(15,16)])
  also have "\<dots> \<longleftrightarrow> t div nanos < t' div nanos"
    using broken_down_less[OF b(1) b'(1) b(8-10) b'(8-10)] .
  finally show ?thesis using len by simp
qed

theorem minted_id_order_witness:
  "as_str (mint_now 0) < as_str (mint_now (86400 * nanos))"
proof -
  have "0 \<le> (0::int)" "0 div nanos < year_10000" "0 \<le> 86400 * nanos" "86400 * nanos div nanos < year_10000"
    "0 div nanos < 86400 * nanos div nanos"
    by (simp_all add: nanos_def year_10000_def)
  then show ?thesis using minted_id_order[of 0 "86400 * nanos"] by blast
qed

end
