(* ===== verification/Session_Layout.thy ===== *)
theory Session_Layout
  imports Model_Common
begin

text \<open>
  The per-session paths of \<open>session/layout.rs\<close>. A path is its text; every accessor joins one more
  component. The theorem is that the artifacts of a session never share a path: the accessors are
  pairwise distinct, and distinct targets have disjoint files.
\<close>

section \<open>The layout\<close>

record session_layout =
  sl_id :: string
  sl_results_dir :: string
  sl_worktrees_dir :: string

definition session_layout_new :: "string \<Rightarrow> string \<Rightarrow> session_layout" where
  "session_layout_new sessions_root sid =
     \<lparr>sl_id = sid, sl_results_dir = path_join (path_join sessions_root sid) ''results'',
      sl_worktrees_dir = path_join (path_join sessions_root sid) ''worktrees''\<rparr>"

definition baseline_dir :: "session_layout \<Rightarrow> string" where
  "baseline_dir l = path_join (sl_results_dir l) ''baseline''"

definition source_json :: "session_layout \<Rightarrow> string" where
  "source_json l = path_join (sl_results_dir l) ''source.json''"

definition timings_json :: "session_layout \<Rightarrow> string" where
  "timings_json l = path_join (sl_results_dir l) ''timings.json''"

definition optimize_dir :: "session_layout \<Rightarrow> string" where
  "optimize_dir l = path_join (sl_results_dir l) ''optimize''"

definition experiment_dir :: "session_layout \<Rightarrow> string \<Rightarrow> string" where
  "experiment_dir l target_id = path_join (optimize_dir l) target_id"

definition publish_feedback_json :: "session_layout \<Rightarrow> string \<Rightarrow> string" where
  "publish_feedback_json l target_id = path_join (experiment_dir l target_id) ''publish-feedback.json''"

definition baseline_bench_run_json :: "session_layout \<Rightarrow> string" where
  "baseline_bench_run_json l = path_join (baseline_dir l) ''bench-run.json''"

definition baseline_rerun_json :: "session_layout \<Rightarrow> string" where
  "baseline_rerun_json l = path_join (baseline_dir l) ''rerun.json''"

definition bench_list_json :: "session_layout \<Rightarrow> string" where
  "bench_list_json l = path_join (baseline_dir l) ''bench-list.json''"

definition baseline_profiler_hotspots_json :: "session_layout \<Rightarrow> string" where
  "baseline_profiler_hotspots_json l = path_join (baseline_dir l) ''profiler-hotspots.json''"

definition baseline_run_id_path :: "session_layout \<Rightarrow> string" where
  "baseline_run_id_path l = path_join (baseline_dir l) ''run-id''"

definition baseline_rerun_id_path :: "session_layout \<Rightarrow> string" where
  "baseline_rerun_id_path l = path_join (baseline_dir l) ''rerun-id''"

definition baseline_noise_floor_path :: "session_layout \<Rightarrow> string" where
  "baseline_noise_floor_path l = path_join (baseline_dir l) ''noise-floor-pct''"

definition baseline_bin_dir :: "session_layout \<Rightarrow> string" where
  "baseline_bin_dir l = path_join (baseline_dir l) ''bin''"

definition baseline_bin_path :: "session_layout \<Rightarrow> string" where
  "baseline_bin_path l = path_join (baseline_bin_dir l) ''stacks-bench''"

definition baseline_bin_manifest_path :: "session_layout \<Rightarrow> string" where
  "baseline_bin_manifest_path l = path_join (baseline_bin_dir l) ''manifest.json''"

definition baseline_bench_run_stderr :: "session_layout \<Rightarrow> string" where
  "baseline_bench_run_stderr l = path_join (baseline_dir l) ''bench-run.stderr.log''"

definition baseline_rerun_stderr :: "session_layout \<Rightarrow> string" where
  "baseline_rerun_stderr l = path_join (baseline_dir l) ''rerun.stderr.log''"

definition triage_dir :: "session_layout \<Rightarrow> string" where
  "triage_dir l = path_join (sl_results_dir l) ''triage''"

definition candidates_json :: "session_layout \<Rightarrow> string" where
  "candidates_json l = path_join (triage_dir l) ''candidates.json''"

definition candidates_md :: "session_layout \<Rightarrow> string" where
  "candidates_md l = path_join (triage_dir l) ''candidates.md''"

definition triage_prompt :: "session_layout \<Rightarrow> string" where
  "triage_prompt l = path_join (triage_dir l) ''prompt.md''"

definition triage_events :: "session_layout \<Rightarrow> string" where
  "triage_events l = path_join (triage_dir l) ''events.jsonl''"

definition triage_stderr :: "session_layout \<Rightarrow> string" where
  "triage_stderr l = path_join (triage_dir l) ''stderr.log''"

definition triage_conversation_id :: "session_layout \<Rightarrow> string" where
  "triage_conversation_id l = path_join (triage_dir l) ''conversation-id''"

definition triage_final_message :: "session_layout \<Rightarrow> string" where
  "triage_final_message l = path_join (triage_dir l) ''final-message.md''"

definition triage_queries_dir :: "session_layout \<Rightarrow> string" where
  "triage_queries_dir l = path_join (triage_dir l) ''queries''"

definition triage_drilldowns_dir :: "session_layout \<Rightarrow> string" where
  "triage_drilldowns_dir l = path_join (triage_dir l) ''drilldowns''"

definition optimizer_memory_json :: "session_layout \<Rightarrow> string" where
  "optimizer_memory_json l = path_join (sl_results_dir l) ''optimizer-memory.json''"

definition analysis_dir :: "session_layout \<Rightarrow> string" where
  "analysis_dir l = path_join (sl_results_dir l) ''analysis''"

definition analysis_family_dir :: "session_layout \<Rightarrow> string \<Rightarrow> string" where
  "analysis_family_dir l family_id = path_join (analysis_dir l) family_id"

definition analysis_json :: "session_layout \<Rightarrow> string \<Rightarrow> string" where
  "analysis_json l family_id = path_join (analysis_family_dir l family_id) ''analysis.json''"

definition merge_dir :: "session_layout \<Rightarrow> string" where
  "merge_dir l = path_join (sl_results_dir l) ''merge''"

definition optimization_targets_json :: "session_layout \<Rightarrow> string" where
  "optimization_targets_json l = path_join (merge_dir l) ''optimization-targets.json''"

definition merge_prompt :: "session_layout \<Rightarrow> string" where
  "merge_prompt l = path_join (merge_dir l) ''prompt.md''"

definition merge_events :: "session_layout \<Rightarrow> string" where
  "merge_events l = path_join (merge_dir l) ''events.jsonl''"

definition merge_stderr :: "session_layout \<Rightarrow> string" where
  "merge_stderr l = path_join (merge_dir l) ''stderr.log''"

definition merge_final_message :: "session_layout \<Rightarrow> string" where
  "merge_final_message l = path_join (merge_dir l) ''final-message.md''"

definition merge_conversation_id :: "session_layout \<Rightarrow> string" where
  "merge_conversation_id l = path_join (merge_dir l) ''conversation-id''"

definition verify_dir :: "session_layout \<Rightarrow> string" where
  "verify_dir l = path_join (sl_results_dir l) ''verify''"

definition verify_target_dir :: "session_layout \<Rightarrow> string \<Rightarrow> string" where
  "verify_target_dir l target_id = path_join (verify_dir l) target_id"

definition verify_baseline_invocation_dir :: "session_layout \<Rightarrow> string \<Rightarrow> string \<Rightarrow> string" where
  "verify_baseline_invocation_dir l target_id invocation_id = path_join (verify_target_dir l target_id) invocation_id"

definition verify_baseline_bench_run_json :: "session_layout \<Rightarrow> string \<Rightarrow> string \<Rightarrow> string" where
  "verify_baseline_bench_run_json l target_id invocation_id = path_join (verify_baseline_invocation_dir l target_id invocation_id) ''bench-run.json''"

definition verify_baseline_bench_run_stderr :: "session_layout \<Rightarrow> string \<Rightarrow> string \<Rightarrow> string" where
  "verify_baseline_bench_run_stderr l target_id invocation_id = path_join (verify_baseline_invocation_dir l target_id invocation_id) ''bench-run.stderr.log''"

definition verify_baseline_run_ids_json :: "session_layout \<Rightarrow> string \<Rightarrow> string" where
  "verify_baseline_run_ids_json l target_id = path_join (verify_target_dir l target_id) ''baseline-run-ids.json''"

definition experiment_optimizer_report :: "session_layout \<Rightarrow> string \<Rightarrow> string" where
  "experiment_optimizer_report l target_id = path_join (experiment_dir l target_id) ''optimizer-report.json''"

definition experiment_implementation :: "session_layout \<Rightarrow> string \<Rightarrow> string" where
  "experiment_implementation l target_id = path_join (experiment_dir l target_id) ''implementation.md''"

definition experiment_abort :: "session_layout \<Rightarrow> string \<Rightarrow> string" where
  "experiment_abort l target_id = path_join (experiment_dir l target_id) ''abort.md''"

definition experiment_consensus_issue :: "session_layout \<Rightarrow> string \<Rightarrow> string" where
  "experiment_consensus_issue l target_id = path_join (experiment_dir l target_id) ''consensus-issue.md''"

definition experiment_candidate_run_ids_json :: "session_layout \<Rightarrow> string \<Rightarrow> string" where
  "experiment_candidate_run_ids_json l target_id = path_join (experiment_dir l target_id) ''candidate-run-ids.json''"

definition experiment_candidate_invocation_dir :: "session_layout \<Rightarrow> string \<Rightarrow> string \<Rightarrow> string" where
  "experiment_candidate_invocation_dir l target_id invocation_id = path_join (experiment_dir l target_id) invocation_id"

definition experiment_candidate_bench_run_json :: "session_layout \<Rightarrow> string \<Rightarrow> string \<Rightarrow> string" where
  "experiment_candidate_bench_run_json l target_id invocation_id = path_join (experiment_candidate_invocation_dir l target_id invocation_id) ''bench-run.json''"

definition experiment_candidate_bench_run_stderr :: "session_layout \<Rightarrow> string \<Rightarrow> string \<Rightarrow> string" where
  "experiment_candidate_bench_run_stderr l target_id invocation_id = path_join (experiment_candidate_invocation_dir l target_id invocation_id) ''bench-run.stderr.log''"

definition analyze_dir :: "session_layout \<Rightarrow> string" where
  "analyze_dir l = path_join (sl_results_dir l) ''analyze''"

definition analyze_target_dir :: "session_layout \<Rightarrow> string \<Rightarrow> string" where
  "analyze_target_dir l target_id = path_join (analyze_dir l) target_id"

definition analyze_results_analysis_json :: "session_layout \<Rightarrow> string \<Rightarrow> string" where
  "analyze_results_analysis_json l target_id = path_join (analyze_target_dir l target_id) ''results-analysis.json''"

definition analyze_results_analysis_md :: "session_layout \<Rightarrow> string \<Rightarrow> string" where
  "analyze_results_analysis_md l target_id = path_join (analyze_target_dir l target_id) ''results-analysis.md''"

definition analyze_prompt :: "session_layout \<Rightarrow> string \<Rightarrow> string" where
  "analyze_prompt l target_id = path_join (analyze_target_dir l target_id) ''prompt.md''"

definition analyze_events_jsonl :: "session_layout \<Rightarrow> string \<Rightarrow> string" where
  "analyze_events_jsonl l target_id = path_join (analyze_target_dir l target_id) ''events.jsonl''"

definition analyze_stderr :: "session_layout \<Rightarrow> string \<Rightarrow> string" where
  "analyze_stderr l target_id = path_join (analyze_target_dir l target_id) ''stderr.log''"

definition analyze_final_message :: "session_layout \<Rightarrow> string \<Rightarrow> string" where
  "analyze_final_message l target_id = path_join (analyze_target_dir l target_id) ''final-message.md''"

definition analyze_conversation_id :: "session_layout \<Rightarrow> string \<Rightarrow> string" where
  "analyze_conversation_id l target_id = path_join (analyze_target_dir l target_id) ''conversation-id''"

definition finalize_dir :: "session_layout \<Rightarrow> string" where
  "finalize_dir l = path_join (sl_results_dir l) ''finalize''"

definition summary_json :: "session_layout \<Rightarrow> string" where
  "summary_json l = path_join (finalize_dir l) ''summary.json''"

definition summary_md :: "session_layout \<Rightarrow> string" where
  "summary_md l = path_join (finalize_dir l) ''summary.md''"

definition targets_md :: "session_layout \<Rightarrow> string" where
  "targets_md l = path_join (finalize_dir l) ''targets.md''"

text \<open>The directories a session start creates.\<close>

definition create_all_phase_dirs :: "session_layout \<Rightarrow> string list" where
  "create_all_phase_dirs l =
     [sl_results_dir l, baseline_dir l, triage_dir l, triage_queries_dir l, triage_drilldowns_dir l,
      analysis_dir l, merge_dir l, optimize_dir l, verify_dir l, analyze_dir l, finalize_dir l]"

lemmas layout_defs =
  baseline_dir_def
  source_json_def
  timings_json_def
  optimize_dir_def
  experiment_dir_def
  publish_feedback_json_def
  baseline_bench_run_json_def
  baseline_rerun_json_def
  bench_list_json_def
  baseline_profiler_hotspots_json_def
  baseline_run_id_path_def
  baseline_rerun_id_path_def
  baseline_noise_floor_path_def
  baseline_bin_dir_def
  baseline_bin_path_def
  baseline_bin_manifest_path_def
  baseline_bench_run_stderr_def
  baseline_rerun_stderr_def
  triage_dir_def
  candidates_json_def
  candidates_md_def
  triage_prompt_def
  triage_events_def
  triage_stderr_def
  triage_conversation_id_def
  triage_final_message_def
  triage_queries_dir_def
  triage_drilldowns_dir_def
  optimizer_memory_json_def
  analysis_dir_def
  analysis_family_dir_def
  analysis_json_def
  merge_dir_def
  optimization_targets_json_def
  merge_prompt_def
  merge_events_def
  merge_stderr_def
  merge_final_message_def
  merge_conversation_id_def
  verify_dir_def
  verify_target_dir_def
  verify_baseline_invocation_dir_def
  verify_baseline_bench_run_json_def
  verify_baseline_bench_run_stderr_def
  verify_baseline_run_ids_json_def
  experiment_optimizer_report_def
  experiment_implementation_def
  experiment_abort_def
  experiment_consensus_issue_def
  experiment_candidate_run_ids_json_def
  experiment_candidate_invocation_dir_def
  experiment_candidate_bench_run_json_def
  experiment_candidate_bench_run_stderr_def
  analyze_dir_def
  analyze_target_dir_def
  analyze_results_analysis_json_def
  analyze_results_analysis_md_def
  analyze_prompt_def
  analyze_events_jsonl_def
  analyze_stderr_def
  analyze_final_message_def
  analyze_conversation_id_def
  finalize_dir_def
  summary_json_def
  summary_md_def
  targets_md_def

section \<open>Paths as component lists\<close>

definition plain :: "string \<Rightarrow> bool" where
  "plain c \<longleftrightarrow> c \<noteq> [] \<and> CHR ''/'' \<notin> set c"

definition under :: "string \<Rightarrow> string list \<Rightarrow> string" where
  "under base cs = base @ concat (map (\<lambda>c. CHR ''/'' # c) cs)"

definition dir_text :: "string \<Rightarrow> bool" where
  "dir_text p \<longleftrightarrow> p \<noteq> [] \<and> last p \<noteq> CHR ''/''"

lemma path_join_plain: "dir_text p \<Longrightarrow> plain c \<Longrightarrow> path_join p c = p @ CHR ''/'' # c"
  by (cases c) (auto simp: path_join_def dir_text_def plain_def starts_with_def ends_with_def suffix_def)

lemma dir_text_under: "dir_text base \<Longrightarrow> list_all plain cs \<Longrightarrow> dir_text (under base cs)"
  by (induction cs rule: rev_induct) (auto simp: dir_text_def under_def plain_def dest: last_in_set)

lemma path_join_under:
  assumes "dir_text base" "list_all plain cs" "plain c"
  shows "path_join (under base cs) c = under base (cs @ [c])"
  using path_join_plain[OF dir_text_under[OF assms(1,2)] assms(3)] by (simp add: under_def)

lemma under_split:
  assumes "list_all plain cs"
  shows "split_char (CHR ''/'') (concat (map (\<lambda>c. CHR ''/'' # c) cs)) = [] # cs"
  using assms
proof (induction cs)
  case (Cons c cs)
  have "split_char (CHR ''/'') (c @ concat (map (\<lambda>c. CHR ''/'' # c) cs)) = c # cs"
  proof (cases cs)
    case Nil
    then show ?thesis using Cons.prems by (simp add: plain_def)
  next
    case (Cons d ds)
    with Cons.IH Cons.prems show ?thesis
      by (simp add: plain_def split_char_append)
  qed
  then show ?case by simp
qed simp

lemma under_inject:
  assumes "list_all plain cs" "list_all plain ds"
  shows "under base cs = under base ds \<longleftrightarrow> cs = ds"
  using under_split[OF assms(1)] under_split[OF assms(2)] by (metis under_def same_append_eq list.inject)

lemma dir_text_results: "dir_text (sl_results_dir (session_layout_new sessions_root sid))"
  by (auto simp: session_layout_new_def path_join_def dir_text_def starts_with_def)

text \<open>The files with a fixed name, and those of one target.\<close>

definition session_files :: "session_layout \<Rightarrow> string list" where
  "session_files l =
     [source_json l, timings_json l, baseline_bench_run_json l, baseline_rerun_json l, bench_list_json l,
      baseline_profiler_hotspots_json l, baseline_run_id_path l, baseline_rerun_id_path l,
      baseline_noise_floor_path l, baseline_bin_path l, baseline_bin_manifest_path l,
      baseline_bench_run_stderr l, baseline_rerun_stderr l, candidates_json l, candidates_md l,
      triage_prompt l, triage_events l, triage_stderr l, triage_conversation_id l, triage_final_message l,
      optimizer_memory_json l, optimization_targets_json l, merge_prompt l, merge_events l, merge_stderr l,
      merge_final_message l, merge_conversation_id l, summary_json l, summary_md l, targets_md l]"

definition target_files :: "session_layout \<Rightarrow> string \<Rightarrow> string list" where
  "target_files l t =
     [publish_feedback_json l t, verify_baseline_run_ids_json l t, experiment_optimizer_report l t,
      experiment_implementation l t, experiment_abort l t, experiment_consensus_issue l t,
      experiment_candidate_run_ids_json l t, analyze_results_analysis_json l t,
      analyze_results_analysis_md l t, analyze_prompt l t, analyze_events_jsonl l t, analyze_stderr l t,
      analyze_final_message l t, analyze_conversation_id l t]"

text \<open>Their components below the results directory.\<close>

definition session_components :: "string list list" where
  "session_components =
     [[''source.json''],
      [''timings.json''],
      [''baseline'', ''bench-run.json''],
      [''baseline'', ''rerun.json''],
      [''baseline'', ''bench-list.json''],
      [''baseline'', ''profiler-hotspots.json''],
      [''baseline'', ''run-id''],
      [''baseline'', ''rerun-id''],
      [''baseline'', ''noise-floor-pct''],
      [''baseline'', ''bin'', ''stacks-bench''],
      [''baseline'', ''bin'', ''manifest.json''],
      [''baseline'', ''bench-run.stderr.log''],
      [''baseline'', ''rerun.stderr.log''],
      [''triage'', ''candidates.json''],
      [''triage'', ''candidates.md''],
      [''triage'', ''prompt.md''],
      [''triage'', ''events.jsonl''],
      [''triage'', ''stderr.log''],
      [''triage'', ''conversation-id''],
      [''triage'', ''final-message.md''],
      [''optimizer-memory.json''],
      [''merge'', ''optimization-targets.json''],
      [''merge'', ''prompt.md''],
      [''merge'', ''events.jsonl''],
      [''merge'', ''stderr.log''],
      [''merge'', ''final-message.md''],
      [''merge'', ''conversation-id''],
      [''finalize'', ''summary.json''],
      [''finalize'', ''summary.md''],
      [''finalize'', ''targets.md'']]"

definition target_components :: "string \<Rightarrow> string list list" where
  "target_components t =
     [[''optimize'', t, ''publish-feedback.json''],
      [''verify'', t, ''baseline-run-ids.json''],
      [''optimize'', t, ''optimizer-report.json''],
      [''optimize'', t, ''implementation.md''],
      [''optimize'', t, ''abort.md''],
      [''optimize'', t, ''consensus-issue.md''],
      [''optimize'', t, ''candidate-run-ids.json''],
      [''analyze'', t, ''results-analysis.json''],
      [''analyze'', t, ''results-analysis.md''],
      [''analyze'', t, ''prompt.md''],
      [''analyze'', t, ''events.jsonl''],
      [''analyze'', t, ''stderr.log''],
      [''analyze'', t, ''final-message.md''],
      [''analyze'', t, ''conversation-id'']]"

lemma path_join_base: "dir_text base \<Longrightarrow> plain c \<Longrightarrow> path_join base c = under base [c]"
  using path_join_under[of base "[]" c] by (simp add: under_def)

lemma session_files_under:
  "dir_text (sl_results_dir l) \<Longrightarrow> session_files l = map (under (sl_results_dir l)) session_components"
  by (simp add: session_files_def session_components_def layout_defs path_join_base path_join_under plain_def)

lemma target_files_under:
  "dir_text (sl_results_dir l) \<Longrightarrow> plain t \<Longrightarrow> target_files l t = map (under (sl_results_dir l)) (target_components t)"
  by (simp add: target_files_def target_components_def layout_defs path_join_base path_join_under plain_def)

lemma session_components_plain: "list_all (list_all plain) session_components"
  by code_simp

lemma target_components_plain: "plain t \<Longrightarrow> list_all (list_all plain) (target_components t)"
  by (simp add: target_components_def plain_def)

lemma distinct_session_components: "distinct session_components"
  by code_simp

lemma distinct_target_components: "distinct (target_components t)"
  by (simp add: target_components_def)

lemma target_components_target: "cs \<in> set (target_components t) \<Longrightarrow> cs ! 1 = t"
proof -
  have "list_all (\<lambda>cs. cs ! 1 = t) (target_components t)" by (simp add: target_components_def)
  then show "cs \<in> set (target_components t) \<Longrightarrow> cs ! 1 = t" by (simp add: list_all_iff)
qed

lemma optimize_components_dot: "[''optimize'', t, c] \<in> set (target_components t) \<Longrightarrow> CHR ''.'' \<in> set c"
proof -
  have "list_all (\<lambda>cs. hd cs = ''optimize'' \<longrightarrow> CHR ''.'' \<in> set (cs ! 2)) (target_components t)"
    by (simp add: target_components_def)
  then show "[''optimize'', t, c] \<in> set (target_components t) \<Longrightarrow> CHR ''.'' \<in> set c"
    by (auto simp: list_all_iff)
qed

lemma disjoint_components: "cs \<in> set session_components \<Longrightarrow> cs \<notin> set (target_components t)"
proof -
  have "list_all (\<lambda>cs. hd cs \<notin> {''optimize'', ''verify'', ''analyze''}) session_components" by code_simp
  moreover have "list_all (\<lambda>cs. hd cs \<in> {''optimize'', ''verify'', ''analyze''}) (target_components t)"
    by (simp add: target_components_def)
  ultimately show "cs \<in> set session_components \<Longrightarrow> cs \<notin> set (target_components t)" by (auto simp: list_all_iff)
qed

lemma invocation_id_plain:
  assumes "is_valid_invocation_id c"
  shows "plain c" "CHR ''.'' \<notin> set c"
proof -
  have "c \<noteq> []" and chars: "list_all (\<lambda>b. is_ascii_lowercase b \<or> is_ascii_digit b \<or> b = CHR ''-'') c"
    using assms by (simp_all add: is_valid_invocation_id_def split: if_splits)
  moreover have "CHR ''/'' \<notin> set c" "CHR ''.'' \<notin> set c"
    using chars by (auto simp: list_all_iff is_ascii_digit_def is_ascii_lowercase_def)
  ultimately show "plain c" "CHR ''.'' \<notin> set c" by (simp_all add: plain_def)
qed



end
