(* ===== verification/Phase_Models.thy ===== *)
theory Phase_Models
  imports Target_Models
begin

text \<open>
  The artifact models of the phases after merge: the optimizer report
  (\<open>models/optimizer_report.rs\<close>), the coordinator's provenance sidecar
  (\<open>models/coordinator_provenance.rs\<close>), the results-analyzer verdict
  (\<open>models/results_analysis.rs\<close>), the triage output (\<open>models/candidates.rs\<close>), the summary
  (\<open>models/summary.rs\<close>) and the publish sidecar (\<open>models/publish_feedback.rs\<close>), each with its
  validator and the characterisation of what the validator accepts.
\<close>

section \<open>Optimizer report\<close>

definition is_non_blank :: "string \<Rightarrow> bool" where
  "is_non_blank s \<longleftrightarrow> \<not> is_blank s"

definition has_non_blank :: "string list \<Rightarrow> bool" where
  "has_non_blank xs \<longleftrightarrow> list_ex is_non_blank xs"

datatype failed_gate =
    Fmt | Clippy | Nextest | ReleaseBuild | NonTargetsMatch | NoImplementationFound
  | ParityUnprovable | TimeoutHit | EnvironmentalError

record parity_report =
  py_consensus_sensitive :: bool
  py_evidence :: "string list"
  py_tests :: "string list"
  py_unproven_risk :: "string option"

record test_summary =
  ts_passed :: nat
  ts_failed :: nat
  ts_duration_secs :: f64
  ts_log_path :: string

record implemented_report =
  im_session_id :: string
  im_target_id :: string
  im_delivery_mode :: delivery_mode
  im_implementation_summary :: string
  im_deviation_from_proposed_change :: "string option"
  im_dependency_changes :: "string option"
  im_test_summary :: test_summary
  im_clippy_clean :: "bool option"
  im_pr_title :: string
  im_parity :: parity_report
  im_hard_fork_followup :: "string option"

record aborted_report =
  ar_session_id :: string
  ar_target_id :: string
  ar_delivery_mode :: delivery_mode
  ar_reason :: string
  ar_failed_gate :: "failed_gate option"
  ar_failing_tests :: "string list option"

datatype optimizer_report =
    Implemented implemented_report
  | ReportAborted aborted_report

definition report_target_id :: "optimizer_report \<Rightarrow> string" where
  "report_target_id r = (case r of Implemented i \<Rightarrow> im_target_id i | ReportAborted a \<Rightarrow> ar_target_id a)"

definition report_delivery_mode :: "optimizer_report \<Rightarrow> delivery_mode" where
  "report_delivery_mode r =
     (case r of Implemented i \<Rightarrow> im_delivery_mode i | ReportAborted a \<Rightarrow> ar_delivery_mode a)"

definition report_session_id :: "optimizer_report \<Rightarrow> string" where
  "report_session_id r = (case r of Implemented i \<Rightarrow> im_session_id i | ReportAborted a \<Rightarrow> ar_session_id a)"

definition is_implemented :: "optimizer_report \<Rightarrow> bool" where
  "is_implemented r = (case r of Implemented _ \<Rightarrow> True | ReportAborted _ \<Rightarrow> False)"

datatype report_error =
    ParityEvidenceMissing string
  | ParityTestsMissing string
  | UnprovenRisk string
  | TestsFailed string nat
  | BlankImplementationSummary string
  | BlankPrTitle string
  | BlankLogPath string
  | BadDuration string f64
  | ClippyNotClean string
  | ClippyUnset string
  | IssueModeImplemented string
  | BlankReason string
  | FailingTestsMissing string

definition validate_implemented_report :: "implemented_report \<Rightarrow> report_error check" where
  "validate_implemented_report r =
     (let tid = im_target_id r; p = im_parity r; ts = im_test_summary r
      in checks [
        bail_if (py_consensus_sensitive p \<and> \<not> has_non_blank (py_evidence p)) (ParityEvidenceMissing tid),
        bail_if (py_consensus_sensitive p \<and> \<not> has_non_blank (py_tests p)) (ParityTestsMissing tid),
        bail_if (py_unproven_risk p \<noteq> None) (UnprovenRisk tid),
        bail_if (ts_failed ts \<noteq> 0) (TestsFailed tid (ts_failed ts)),
        bail_if (\<not> is_non_blank (im_implementation_summary r)) (BlankImplementationSummary tid),
        bail_if (\<not> is_non_blank (im_pr_title r)) (BlankPrTitle tid),
        bail_if (\<not> is_non_blank (ts_log_path ts)) (BlankLogPath tid),
        bail_if (\<not> f64_is_finite (ts_duration_secs ts) \<or> f64_less (ts_duration_secs ts) (Fin 0))
          (BadDuration tid (ts_duration_secs ts)),
        (case (im_delivery_mode r, im_clippy_clean r) of
           (NormalPr, Some True) \<Rightarrow> Ok_unit
         | (NormalPr, Some False) \<Rightarrow> Inl (ClippyNotClean tid)
         | (NormalPr, None) \<Rightarrow> Inl (ClippyUnset tid)
         | (ConsensusPocPr, _) \<Rightarrow> Ok_unit
         | (ConsensusIssue, _) \<Rightarrow> Inl (IssueModeImplemented tid))])"

definition validate_aborted_report :: "aborted_report \<Rightarrow> report_error check" where
  "validate_aborted_report r = checks [
     bail_if (\<not> is_non_blank (ar_reason r)) (BlankReason (ar_target_id r)),
     bail_if (ar_failed_gate r = Some Nextest
         \<and> \<not> (case ar_failing_tests r of Some ts \<Rightarrow> has_non_blank ts | None \<Rightarrow> False))
       (FailingTestsMissing (ar_target_id r))]"

definition validate_optimizer_report :: "optimizer_report \<Rightarrow> report_error check" where
  "validate_optimizer_report r =
     (case r of Implemented i \<Rightarrow> validate_implemented_report i | ReportAborted a \<Rightarrow> validate_aborted_report a)"

section \<open>Coordinator provenance\<close>

record coordinator_provenance =
  cp_session_id :: string
  cp_target_id :: string
  cp_delivery_mode :: delivery_mode
  cp_base_sha :: string
  cp_head_sha :: string
  cp_commit_message :: string

datatype provenance_error =
    BlankSession | BlankTarget
  | ShaLength string nat
  | ShaNotHex string
  | SameSha string
  | BlankCommitMessage
  | WrongSession string string
  | WrongTarget string string
  | WrongMode delivery_mode delivery_mode

definition provenance_validate_sha :: "string \<Rightarrow> string \<Rightarrow> provenance_error check" where
  "provenance_validate_sha field sha = checks [
     bail_if (length sha \<noteq> 40) (ShaLength field (length sha)),
     bail_if (\<not> list_all is_ascii_hexdigit sha) (ShaNotHex field)]"

definition validate_coordinator_provenance :: "coordinator_provenance \<Rightarrow> provenance_error check" where
  "validate_coordinator_provenance p = checks [
     bail_if (is_blank (cp_session_id p)) BlankSession,
     bail_if (is_blank (cp_target_id p)) BlankTarget,
     provenance_validate_sha ''base_sha'' (cp_base_sha p),
     provenance_validate_sha ''head_sha'' (cp_head_sha p),
     bail_if (cp_base_sha p = cp_head_sha p) (SameSha (cp_base_sha p)),
     bail_if (is_blank (cp_commit_message p)) BlankCommitMessage]"

definition provenance_validate_context ::
  "coordinator_provenance \<Rightarrow> string \<Rightarrow> string \<Rightarrow> delivery_mode \<Rightarrow> provenance_error check" where
  "provenance_validate_context p session_id target_id mode = checks [
     bail_if (cp_session_id p \<noteq> session_id) (WrongSession (cp_session_id p) session_id),
     bail_if (cp_target_id p \<noteq> target_id) (WrongTarget (cp_target_id p) target_id),
     bail_if (cp_delivery_mode p \<noteq> mode) (WrongMode (cp_delivery_mode p) mode)]"

section \<open>Results analysis\<close>

datatype verdict = VAccepted | VMixed | VRejected

datatype confidence = HighConfidence | MediumConfidence | LowConfidence

definition confidence_level :: "confidence \<Rightarrow> nat" where
  "confidence_level c = (case c of LowConfidence \<Rightarrow> 0 | MediumConfidence \<Rightarrow> 1 | HighConfidence \<Rightarrow> 2)"

record per_invocation_result =
  pi_invocation_id :: string
  pi_label :: string
  pi_baseline_run_id :: int
  pi_candidate_run_id :: int
  pi_measured_pct :: f64
  pi_matches_expected_signal :: bool
  pi_observations :: "string list"

record db_query_ref =
  dq_purpose :: string
  dq_query_digest :: string
  dq_rows_returned :: nat
  dq_output_path :: string

record results_analysis =
  ra_session_id :: string
  ra_target_id :: string
  ra_axis :: selection_lens
  ra_verdict :: verdict
  ra_confidence :: confidence
  ra_headline_rationale :: string
  ra_headline_improvement_pct :: "f64 option"
  ra_per_invocation :: "per_invocation_result list"
  ra_caveats :: "string list"
  ra_pr_body_summary :: "string option"
  ra_db_queries :: "db_query_ref list"

datatype per_invocation_error =
    ResultInvocationId string
  | ResultBlankLabel string
  | ResultBaselineRunId string int
  | ResultCandidateRunId string int
  | ResultMeasured string f64
  | ResultBlankObservation string nat

definition validate_per_invocation_result :: "per_invocation_result \<Rightarrow> per_invocation_error check" where
  "validate_per_invocation_result p = checks [
     bail_if (\<not> is_valid_invocation_id (pi_invocation_id p)) (ResultInvocationId (pi_invocation_id p)),
     bail_if (is_blank (pi_label p)) (ResultBlankLabel (pi_invocation_id p)),
     bail_if (pi_baseline_run_id p \<le> 0) (ResultBaselineRunId (pi_invocation_id p) (pi_baseline_run_id p)),
     bail_if (pi_candidate_run_id p \<le> 0) (ResultCandidateRunId (pi_invocation_id p) (pi_candidate_run_id p)),
     bail_if (\<not> f64_is_finite (pi_measured_pct p)) (ResultMeasured (pi_invocation_id p) (pi_measured_pct p)),
     for_each (\<lambda>i s. bail_if (is_blank s) (ResultBlankObservation (pi_invocation_id p) i)) 0 (pi_observations p)]"

datatype results_analysis_error =
    RaBlankSession | RaBlankTarget | RaBlankRationale
  | RaHeadlineNotFinite f64
  | RaNoInvocations
  | RaDuplicateInvocation nat string
  | RaBadInvocation nat per_invocation_error
  | RaHeadlineRequired | RaHeadlineForbidden
  | RaSummaryRequired verdict | RaSummaryForbidden | RaSummaryBlank
  | RaBlankCaveat nat

definition validate_results_analysis :: "results_analysis \<Rightarrow> results_analysis_error check" where
  "validate_results_analysis ra = checks [
     bail_if (is_blank (ra_session_id ra)) RaBlankSession,
     bail_if (is_blank (ra_target_id ra)) RaBlankTarget,
     bail_if (is_blank (ra_headline_rationale ra)) RaBlankRationale,
     (case ra_headline_improvement_pct ra of
        Some hp \<Rightarrow> bail_if (\<not> f64_is_finite hp) (RaHeadlineNotFinite hp) | None \<Rightarrow> Ok_unit),
     bail_if (ra_per_invocation ra = []) RaNoInvocations,
     for_each_seen pi_invocation_id
       (\<lambda>i seen p. checks [
          bail_if (pi_invocation_id p \<in> seen) (RaDuplicateInvocation i (pi_invocation_id p)),
          with_context (RaBadInvocation i) (validate_per_invocation_result p)])
       0 {} (ra_per_invocation ra),
     (case (ra_verdict ra, ra_headline_improvement_pct ra \<noteq> None) of
        (VAccepted, False) \<Rightarrow> Inl RaHeadlineRequired
      | (VRejected, True) \<Rightarrow> Inl RaHeadlineForbidden
      | _ \<Rightarrow> Ok_unit),
     (case (ra_verdict ra, ra_pr_body_summary ra \<noteq> None) of
        (VAccepted, False) \<Rightarrow> Inl (RaSummaryRequired VAccepted)
      | (VMixed, False) \<Rightarrow> Inl (RaSummaryRequired VMixed)
      | (VRejected, True) \<Rightarrow> Inl RaSummaryForbidden
      | _ \<Rightarrow> Ok_unit),
     (case ra_pr_body_summary ra of Some s \<Rightarrow> bail_if (is_blank s) RaSummaryBlank | None \<Rightarrow> Ok_unit),
     for_each (\<lambda>i c. bail_if (is_blank c) (RaBlankCaveat i)) 0 (ra_caveats ra)]"

section \<open>Candidates\<close>

record contract_function =
  cf_issuer :: string
  cf_contract :: string
  cf_function :: string

datatype representative_ids =
    ContractIds contract_function "string list"
  | TxIds "string list"
  | BlockIds "string list"

definition discriminator :: "representative_ids \<Rightarrow> string" where
  "discriminator r = (case r of TxIds _ \<Rightarrow> ''Tx'' | BlockIds _ \<Rightarrow> ''Block'' | ContractIds _ _ \<Rightarrow> ''Contract'')"

record global_materiality =
  gm_pct_blocks :: "f64 option"
  gm_self_wall_ms :: "f64 option"
  gm_notes :: "string option"

record triage_candidate =
  tc_id :: string
  tc_kind :: family_kind
  tc_selection_lens :: selection_lens
  tc_representative_ids :: representative_ids
  tc_rationale :: string
  tc_bucket :: "bucket option"
  tc_suspected_spans :: "string list option"
  tc_global_materiality :: "global_materiality option"

record rejected_family =
  rf_family_id :: string
  rf_lens :: selection_lens
  rf_reason :: string

record lens_coverage =
  lc_tx_latency :: nat
  lc_tenure_throughput :: nat
  lc_commit_time :: nat
  lc_weights_applied :: string
  lc_redistribution_notes :: "string option"

record candidates =
  ca_session_id :: string
  ca_baseline_run_id :: int
  ca_baseline_rerun_id :: int
  ca_noise_floor_pct :: f64
  ca_candidates :: "triage_candidate list"
  ca_rejected_families :: "rejected_family list"
  ca_lens_coverage :: lens_coverage

datatype candidates_error =
    EmptyCandidateId
  | KindMismatch string family_kind string
  | TallyMismatch "nat \<times> nat \<times> nat" "nat \<times> nat \<times> nat"

definition validate_kind_consistency :: "triage_candidate \<Rightarrow> candidates_error check" where
  "validate_kind_consistency c =
     (case (tc_kind c, tc_representative_ids c) of
        (TxFamily, TxIds _) \<Rightarrow> Ok_unit
      | (BlockFamily, BlockIds _) \<Rightarrow> Ok_unit
      | (ContractFamily, ContractIds _ _) \<Rightarrow> Ok_unit
      | (kind, ids) \<Rightarrow> Inl (KindMismatch (tc_id c) kind (discriminator ids)))"

definition tally_lenses :: "triage_candidate list \<Rightarrow> nat \<times> nat \<times> nat" where
  "tally_lenses cs =
     fold (\<lambda>c (latency, throughput, commit).
             case tc_selection_lens c of
               TxLatency \<Rightarrow> (latency + 1, throughput, commit)
             | TenureThroughput \<Rightarrow> (latency, throughput + 1, commit)
             | CommitTime \<Rightarrow> (latency, throughput, commit + 1)) cs (0, 0, 0)"

definition validate_candidates :: "candidates \<Rightarrow> candidates_error check" where
  "validate_candidates d =
     (let lc = ca_lens_coverage d;
          reported = (lc_tx_latency lc, lc_tenure_throughput lc, lc_commit_time lc);
          actual = tally_lenses (ca_candidates d)
      in checks [
        for_each (\<lambda>_ c. checks [bail_if (tc_id c = []) EmptyCandidateId, validate_kind_consistency c]) 0
          (ca_candidates d),
        bail_if (reported \<noteq> actual) (TallyMismatch reported actual)])"

section \<open>Summary\<close>

datatype experiment_status = ExpAccepted | ExpRejected | ExpAborted | PocLanded | RoutedToIssue

record experiment_row =
  ex_target_id :: string
  ex_delivery_mode :: delivery_mode
  ex_status :: experiment_status
  ex_run_ids :: "int list option"
  ex_baseline_run_ids :: "int list option"
  ex_improvement_pct :: "f64 option"
  ex_breakage_class :: "breakage_class option"
  ex_base_sha :: "string option"
  ex_head_sha :: "string option"
  ex_reason :: "string option"

record normal_pr_counts =
  np_accepted :: nat
  np_rejected :: nat
  np_aborted :: nat

record consensus_poc_pr_counts =
  cp_poc_landed :: nat
  cp_aborted :: nat

record consensus_issue_counts =
  ci_routed_to_issue :: nat
  ci_aborted :: nat

record outcome_counts =
  oc_normal_pr :: normal_pr_counts
  oc_consensus_poc_pr :: consensus_poc_pr_counts
  oc_consensus_issue :: consensus_issue_counts

record summary =
  su_session_id :: string
  su_baseline_run_id :: int
  su_baseline_rerun_id :: int
  su_noise_floor_pct :: f64
  su_experiments :: "experiment_row list"
  su_outcome_counts :: outcome_counts
  su_lens_dispositions :: "lens_disposition_entry list"
  su_next_targets_hint :: "string option"
  su_source_url :: "string option"
  su_source_branch :: "string option"
  su_source_sha :: "string option"
  su_source_fetched_at :: "string option"

datatype experiment_error = StatusInvalid string experiment_status delivery_mode

definition validate_experiment :: "experiment_row \<Rightarrow> experiment_error check" where
  "validate_experiment e =
     bail_if (\<not> (case ex_delivery_mode e of
                NormalPr \<Rightarrow> ex_status e \<in> {ExpAccepted, ExpRejected, ExpAborted}
              | ConsensusPocPr \<Rightarrow> ex_status e \<in> {PocLanded, ExpAborted}
              | ConsensusIssue \<Rightarrow> ex_status e \<in> {RoutedToIssue, ExpAborted}))
       (StatusInvalid (ex_target_id e) (ex_status e) (ex_delivery_mode e))"

section \<open>Publish feedback\<close>

record publish_feedback =
  pf_pr_url :: "string option"
  pf_issue_url :: "string option"
  pf_opened_at :: string

datatype feedback_error = BothUrls | NeitherUrl | EmptyOpenedAt

definition validate_publish_feedback :: "publish_feedback \<Rightarrow> feedback_error check" where
  "validate_publish_feedback f = checks [
     (case (pf_pr_url f, pf_issue_url f) of
        (Some _, Some _) \<Rightarrow> Inl BothUrls
      | (None, None) \<Rightarrow> Inl NeitherUrl
      | _ \<Rightarrow> Ok_unit),
     bail_if (is_blank (pf_opened_at f)) EmptyOpenedAt]"

text \<open>
  \<open>PublishFeedback::write\<close>: the temporary file is linked onto the path only when nothing is there.
  The outcome of the directory, temporary-file and serialisation steps is an argument.
\<close>

datatype 'io feedback_write_error =
    FeedbackInvalid feedback_error
  | FeedbackIo 'io
  | FeedbackExists

definition publish_feedback_write ::
  "'io option \<Rightarrow> publish_feedback \<Rightarrow> publish_feedback option \<Rightarrow> ('io feedback_write_error + unit) \<times> publish_feedback option" where
  "publish_feedback_write io f file =
     (case validate_publish_feedback f of
        Inl e \<Rightarrow> (Inl (FeedbackInvalid e), file)
      | Inr _ \<Rightarrow>
     (case io of Some e \<Rightarrow> (Inl (FeedbackIo e), file)
      | None \<Rightarrow>
     (case file of Some _ \<Rightarrow> (Inl FeedbackExists, file)
      | None \<Rightarrow> (Ok_unit, Some f))))"

section \<open>What the validators accept\<close>

lemma for_each_bail_Inr [result_simps]:
  "for_each (\<lambda>i x. bail_if (P x) (E i x)) i xs = Ok_unit \<longleftrightarrow> (\<forall>x \<in> set xs. \<not> P x)"
  by (induction xs arbitrary: i) (auto simp: bail_if_def)

lemma validate_implemented_report_ok [result_simps]:
  "validate_implemented_report r = Ok_unit \<longleftrightarrow>
     (py_consensus_sensitive (im_parity r) \<longrightarrow> has_non_blank (py_evidence (im_parity r)) \<and> has_non_blank (py_tests (im_parity r)))
   \<and> py_unproven_risk (im_parity r) = None \<and> ts_failed (im_test_summary r) = 0
   \<and> is_non_blank (im_implementation_summary r) \<and> is_non_blank (im_pr_title r) \<and> is_non_blank (ts_log_path (im_test_summary r))
   \<and> f64_is_finite (ts_duration_secs (im_test_summary r)) \<and> \<not> f64_less (ts_duration_secs (im_test_summary r)) (Fin 0)
   \<and> im_delivery_mode r \<noteq> ConsensusIssue \<and> (im_delivery_mode r = NormalPr \<longrightarrow> im_clippy_clean r = Some True)"
  by (auto simp: validate_implemented_report_def Let_def result_simps
      split: delivery_mode.split option.split bool.split)

lemma validate_aborted_report_ok [result_simps]:
  "validate_aborted_report r = Ok_unit \<longleftrightarrow> is_non_blank (ar_reason r)
   \<and> (ar_failed_gate r = Some Nextest \<longrightarrow> (\<exists>ts. ar_failing_tests r = Some ts \<and> has_non_blank ts))"
  by (auto simp: validate_aborted_report_def result_simps split: option.splits)

lemma validate_per_invocation_result_ok [result_simps]:
  "validate_per_invocation_result p = Ok_unit \<longleftrightarrow> is_valid_invocation_id (pi_invocation_id p) \<and> \<not> is_blank (pi_label p)
   \<and> 0 < pi_baseline_run_id p \<and> 0 < pi_candidate_run_id p \<and> f64_is_finite (pi_measured_pct p)
   \<and> (\<forall>s \<in> set (pi_observations p). \<not> is_blank s)"
  by (auto simp: validate_per_invocation_result_def checks_Inr bail_if_Inr for_each_bail_Inr simp del: is_blank.simps)

lemma validate_results_analysis_ok:
  "validate_results_analysis ra = Ok_unit \<longleftrightarrow>
     \<not> is_blank (ra_session_id ra) \<and> \<not> is_blank (ra_target_id ra) \<and> \<not> is_blank (ra_headline_rationale ra)
   \<and> (\<forall>hp. ra_headline_improvement_pct ra = Some hp \<longrightarrow> f64_is_finite hp)
   \<and> ra_per_invocation ra \<noteq> [] \<and> distinct (map pi_invocation_id (ra_per_invocation ra))
   \<and> (\<forall>p \<in> set (ra_per_invocation ra). validate_per_invocation_result p = Ok_unit)
   \<and> (ra_verdict ra = VAccepted \<longrightarrow> ra_headline_improvement_pct ra \<noteq> None)
   \<and> (ra_verdict ra = VRejected \<longrightarrow> ra_headline_improvement_pct ra = None)
   \<and> (ra_verdict ra = VRejected \<longleftrightarrow> ra_pr_body_summary ra = None)
   \<and> (\<forall>s. ra_pr_body_summary ra = Some s \<longrightarrow> \<not> is_blank s)
   \<and> (\<forall>c \<in> set (ra_caveats ra). \<not> is_blank c)"
proof -
  have rows: "for_each_seen pi_invocation_id
       (\<lambda>i seen p. checks [
          bail_if (pi_invocation_id p \<in> seen) (RaDuplicateInvocation i (pi_invocation_id p)),
          with_context (RaBadInvocation i) (validate_per_invocation_result p)]) 0 {} ps = Ok_unit
     \<longleftrightarrow> distinct (map pi_invocation_id ps) \<and> (\<forall>p \<in> set ps. validate_per_invocation_result p = Ok_unit)" for ps
    by (subst for_each_seen_Inr[where g = "\<lambda>_ p. validate_per_invocation_result p = Ok_unit"])
      (auto simp: checks_Inr bail_if_Inr with_context_Inr all_set_conv_all_nth)
  have cross: "(case (v, h) of (VAccepted, False) \<Rightarrow> Inl RaHeadlineRequired | (VRejected, True) \<Rightarrow> Inl RaHeadlineForbidden
      | _ \<Rightarrow> Ok_unit) = Ok_unit \<longleftrightarrow> (v = VAccepted \<longrightarrow> h) \<and> (v = VRejected \<longrightarrow> \<not> h)" for v h
    by (cases v; cases h) auto
  have body: "(case (v, s) of (VAccepted, False) \<Rightarrow> Inl (RaSummaryRequired VAccepted)
      | (VMixed, False) \<Rightarrow> Inl (RaSummaryRequired VMixed) | (VRejected, True) \<Rightarrow> Inl RaSummaryForbidden
      | _ \<Rightarrow> Ok_unit) = Ok_unit \<longleftrightarrow> (v = VRejected \<longleftrightarrow> \<not> s)" for v s
    by (cases v; cases s) auto
  show ?thesis
    unfolding validate_results_analysis_def checks_Inr list.set ball_simps rows cross body for_each_bail_Inr bail_if_Inr
    by (auto simp: bail_if_Inr simp del: is_blank.simps split: option.splits)
qed

lemma validate_experiment_ok:
  "validate_experiment e = Ok_unit \<longleftrightarrow>
     (case ex_delivery_mode e of
        NormalPr \<Rightarrow> ex_status e \<in> {ExpAccepted, ExpRejected, ExpAborted}
      | ConsensusPocPr \<Rightarrow> ex_status e \<in> {PocLanded, ExpAborted}
      | ConsensusIssue \<Rightarrow> ex_status e \<in> {RoutedToIssue, ExpAborted})"
  by (simp add: validate_experiment_def bail_if_Inr)

lemma tally_lenses_count:
  "tally_lenses cs =
     (length (filter (\<lambda>c. tc_selection_lens c = TxLatency) cs),
      length (filter (\<lambda>c. tc_selection_lens c = TenureThroughput) cs),
      length (filter (\<lambda>c. tc_selection_lens c = CommitTime) cs))"
proof -
  have "fold (\<lambda>c (latency, throughput, commit).
             case tc_selection_lens c of
               TxLatency \<Rightarrow> (latency + 1, throughput, commit)
             | TenureThroughput \<Rightarrow> (latency, throughput + 1, commit)
             | CommitTime \<Rightarrow> (latency, throughput, commit + 1)) cs (l, t, m)
     = (l + length (filter (\<lambda>c. tc_selection_lens c = TxLatency) cs),
        t + length (filter (\<lambda>c. tc_selection_lens c = TenureThroughput) cs),
        m + length (filter (\<lambda>c. tc_selection_lens c = CommitTime) cs))" for l t m
    by (induction cs arbitrary: l t m) (auto split: selection_lens.split)
  then show ?thesis by (simp add: tally_lenses_def)
qed

lemma validate_publish_feedback_ok:
  "validate_publish_feedback f = Ok_unit \<longleftrightarrow> (pf_pr_url f = None) \<noteq> (pf_issue_url f = None) \<and> \<not> is_blank (pf_opened_at f)"
  by (auto simp: validate_publish_feedback_def result_simps simp del: is_blank.simps split: option.split)

end
