(* ===== verification/Rust_Text.thy ===== *)
theory Rust_Text
  imports Rust_Strings
begin

text \<open>
  The operations of \<open>str\<close> that the later components use: trimming, ASCII case folding, replacement
  and splitting at whitespace, on UTF-8 text as in \<open>Rust_Strings\<close>.
\<close>

section \<open>Operations\<close>

fun trim_start :: "string \<Rightarrow> string" where
  "trim_start [] = []"
| "trim_start [a] = (if ascii_ws a then [] else [a])"
| "trim_start [a, b] =
     (if ascii_ws a then trim_start [b] else if ws2 (of_char a) (of_char b) then [] else [a, b])"
| "trim_start (a # b # c # s) =
     (if ascii_ws a then trim_start (b # c # s)
      else if ws2 (of_char a) (of_char b) then trim_start (c # s)
      else if ws3 (of_char a) (of_char b) (of_char c) then trim_start s
      else a # b # c # s)"

text \<open>The same on reversed text, where the bytes of a code point come last one first.\<close>

fun trim_start_rev :: "string \<Rightarrow> string" where
  "trim_start_rev [] = []"
| "trim_start_rev [a] = (if ascii_ws a then [] else [a])"
| "trim_start_rev [a, b] =
     (if ascii_ws a then trim_start_rev [b] else if ws2 (of_char b) (of_char a) then [] else [a, b])"
| "trim_start_rev (a # b # c # s) =
     (if ascii_ws a then trim_start_rev (b # c # s)
      else if ws2 (of_char b) (of_char a) then trim_start_rev (c # s)
      else if ws3 (of_char c) (of_char b) (of_char a) then trim_start_rev s
      else a # b # c # s)"

definition trim_end :: "string \<Rightarrow> string" where
  "trim_end s = rev (trim_start_rev (rev s))"

definition trim_ws :: "string \<Rightarrow> string" where
  "trim_ws s = trim_end (trim_start s)"

definition ascii_lower :: "char \<Rightarrow> char" where
  "ascii_lower c = (if 65 \<le> (of_char c :: nat) \<and> (of_char c :: nat) \<le> 90 then char_of (of_char c + 32 :: nat) else c)"

definition to_ascii_lowercase :: "string \<Rightarrow> string" where
  "to_ascii_lowercase = map ascii_lower"

definition replace_char :: "char \<Rightarrow> char \<Rightarrow> string \<Rightarrow> string" where
  "replace_char a b = map (\<lambda>c. if c = a then b else c)"

text \<open>\<open>str::split_whitespace\<close>: the maximal runs without whitespace. The accumulator is the current run.\<close>

fun split_whitespace_from :: "string \<Rightarrow> string \<Rightarrow> string list" where
  "split_whitespace_from acc [] = (if acc = [] then [] else [acc])"
| "split_whitespace_from acc [a] =
     (if ascii_ws a then split_whitespace_from acc [] else split_whitespace_from (acc @ [a]) [])"
| "split_whitespace_from acc [a, b] =
     (if ascii_ws a then (if acc = [] then [] else [acc]) @ split_whitespace_from [] [b]
      else if ws2 (of_char a) (of_char b) then split_whitespace_from acc []
      else split_whitespace_from (acc @ [a]) [b])"
| "split_whitespace_from acc (a # b # c # s) =
     (if ascii_ws a then (if acc = [] then [] else [acc]) @ split_whitespace_from [] (b # c # s)
      else if ws2 (of_char a) (of_char b) then (if acc = [] then [] else [acc]) @ split_whitespace_from [] (c # s)
      else if ws3 (of_char a) (of_char b) (of_char c) then (if acc = [] then [] else [acc]) @ split_whitespace_from [] s
      else split_whitespace_from (acc @ [a]) (b # c # s))"

definition split_whitespace :: "string \<Rightarrow> string list" where
  "split_whitespace = split_whitespace_from []"

text \<open>The three bytes of the em dash in the messages.\<close>

definition em_dash :: string where
  "em_dash = [CHR 0xE2, CHR 0x80, CHR 0x94]"

section \<open>Facts\<close>

text \<open>A byte that begins, or ends, no whitespace code point.\<close>

definition solid :: "char \<Rightarrow> bool" where
  "solid c \<longleftrightarrow> 33 \<le> (of_char c :: nat) \<and> (of_char c :: nat) \<le> 126"

lemma solid_not_ws: "solid c \<Longrightarrow> \<not> ascii_ws c"
  by (auto simp: solid_def ascii_ws_def)

lemma solid_not_ws2: "solid c \<Longrightarrow> \<not> ws2 (of_char c) b" "solid c \<Longrightarrow> \<not> ws2 b (of_char c)"
  by (auto simp: solid_def ws2_def)

lemma solid_not_ws3: "solid c \<Longrightarrow> \<not> ws3 (of_char c) a b" "solid c \<Longrightarrow> \<not> ws3 a b (of_char c)"
  by (auto simp: solid_def ws3_def)

lemma trim_start_solid: "solid a \<Longrightarrow> trim_start (a # s) = a # s"
  by (cases s; cases "tl s") (simp_all add: solid_not_ws solid_not_ws2 solid_not_ws3)

lemma trim_start_rev_solid: "solid a \<Longrightarrow> trim_start_rev (a # s) = a # s"
  by (cases s; cases "tl s") (simp_all add: solid_not_ws solid_not_ws2 solid_not_ws3)

lemma trim_start_ws: "ascii_ws a \<Longrightarrow> trim_start (a # s) = trim_start s"
  by (cases s; cases "tl s") simp_all

lemma trim_start_rev_ws: "ascii_ws a \<Longrightarrow> trim_start_rev (a # s) = trim_start_rev s"
  by (cases s; cases "tl s") simp_all

lemma trim_end_ws: "ascii_ws a \<Longrightarrow> trim_end (s @ [a]) = trim_end s"
  by (simp add: trim_end_def trim_start_rev_ws)

lemma trim_end_solid: "solid a \<Longrightarrow> trim_end (s @ [a]) = s @ [a]"
  by (simp add: trim_end_def trim_start_rev_solid)

lemma trim_ws_solid: "s \<noteq> [] \<Longrightarrow> solid (hd s) \<Longrightarrow> solid (last s) \<Longrightarrow> trim_ws s = s"
  by (metis trim_ws_def trim_start_solid trim_end_solid append_butlast_last_id list.collapse)

lemma is_blank_trim_start: "is_blank s \<longleftrightarrow> trim_start s = []"
  by (induction s rule: is_blank.induct) auto

lemma to_ascii_lowercase_append [simp]: "to_ascii_lowercase (a @ b) = to_ascii_lowercase a @ to_ascii_lowercase b"
  by (simp add: to_ascii_lowercase_def)

lemma ascii_lower_lower: "\<not> (65 \<le> (of_char c :: nat) \<and> (of_char c :: nat) \<le> 90) \<Longrightarrow> ascii_lower c = c"
  by (auto simp: ascii_lower_def)

lemma solid_lower: "solid c \<Longrightarrow> solid (ascii_lower c)"
  by (auto simp: solid_def ascii_lower_def)

lemma replace_char_append [simp]: "replace_char a b (s @ t) = replace_char a b s @ replace_char a b t"
  by (simp add: replace_char_def)

end
