(* ===== verification/Source_Config.thy ===== *)
theory Source_Config
  imports Rust_Text Model_Common
begin

text \<open>
  The source repository of a session: the \<open>[source]\<close> settings and their slug check
  (\<open>settings.rs\<close>), the cache id derived from the clone URL (\<open>source/cache_id.rs\<close>), and the
  provenance record \<open>source.json\<close> (\<open>models/source.rs\<close>). SHA-256 is a parameter: the bytes of the
  digest of a text. The theorems say which derived ids pass the slug check, and that the spellings
  of one remote share an id.
\<close>

section \<open>The source id\<close>

datatype source_id_error =
    IdEmpty
  | IdTooLong nat
  | IdBadFirst
  | IdBadLast
  | IdBadChar nat char

definition slug_byte :: "char \<Rightarrow> bool" where
  "slug_byte b \<longleftrightarrow> is_ascii_lowercase b \<or> is_ascii_digit b"

definition validate_source_id :: "string \<Rightarrow> source_id_error check" where
  "validate_source_id s =
     (if s = [] then Inl IdEmpty
      else if 64 < length s then Inl (IdTooLong (length s))
      else if \<not> is_ascii_lowercase (hd s) then Inl IdBadFirst
      else if 1 < length s then checks [
        bail_if (\<not> slug_byte (last s)) IdBadLast,
        for_each (\<lambda>i b. bail_if (\<not> (slug_byte b \<or> b = CHR ''-'')) (IdBadChar i b)) 1 (take (length s - 2) (drop 1 s))]
      else Ok_unit)"

record source_settings =
  so_url :: "string option"
  so_branch :: "string option"
  so_id :: "string option"

datatype source_settings_error = UrlRequired | BranchRequired | InvalidSourceId string source_id_error

definition require_url_and_branch :: "source_settings \<Rightarrow> source_settings_error + (string \<times> string)" where
  "require_url_and_branch s =
     (case so_url s of None \<Rightarrow> Inl UrlRequired
      | Some url \<Rightarrow> (case so_branch s of None \<Rightarrow> Inl BranchRequired | Some branch \<Rightarrow> Inr (url, branch)))"

text \<open>The custom deserialiser of \<open>source.id\<close>, on the optional string serde read.\<close>

definition deserialize_source_id :: "string option \<Rightarrow> source_settings_error + string option" where
  "deserialize_source_id raw =
     (case raw of None \<Rightarrow> Inr None
      | Some s \<Rightarrow> (case validate_source_id s of Inl e \<Rightarrow> Inl (InvalidSourceId s e) | Inr _ \<Rightarrow> Inr (Some s)))"

section \<open>The cache id\<close>

definition canonicalize_url_for_hashing :: "string \<Rightarrow> string" where
  "canonicalize_url_for_hashing url =
     (let lower = to_ascii_lowercase (trim_ws url);
          stripped0 = (case strip_prefix lower ''ssh://git@'' of Some r \<Rightarrow> r | None \<Rightarrow>
                      (case strip_prefix lower ''https://'' of Some r \<Rightarrow> r | None \<Rightarrow>
                      (case strip_prefix lower ''http://'' of Some r \<Rightarrow> r | None \<Rightarrow>
                      (case strip_prefix lower ''git@'' of Some r \<Rightarrow> r | None \<Rightarrow> lower))));
          stripped = replace_char (CHR '':'') (CHR ''/'') stripped0
      in case strip_suffix stripped ''.git'' of Some r \<Rightarrow> r | None \<Rightarrow> stripped)"

text \<open>
  The loop of \<open>sluggify\<close> with \<open>last_was_dash\<close>. It runs over bytes instead of characters: each byte
  of a multi-byte character becomes a dash, and runs of dashes collapse to one as the character would.
\<close>

fun sluggify_loop :: "bool \<Rightarrow> string \<Rightarrow> string" where
  "sluggify_loop last_was_dash [] = []"
| "sluggify_loop last_was_dash (c # s) =
     (if slug_byte c then c # sluggify_loop False s
      else if last_was_dash then sluggify_loop True s
      else CHR ''-'' # sluggify_loop True s)"

definition sluggify :: "string \<Rightarrow> string" where
  "sluggify s = trim_end_char (CHR ''-'') (sluggify_loop True s)"

definition truncate_slug :: "string \<Rightarrow> nat \<Rightarrow> string" where
  "truncate_slug slug max_chars =
     (if length slug \<le> max_chars then slug else trim_end_char (CHR ''-'') (take max_chars slug))"

definition hex_digit :: "nat \<Rightarrow> char" where
  "hex_digit n = ''0123456789abcdef'' ! n"

definition hex_byte :: "nat \<Rightarrow> string" where
  "hex_byte b = [hex_digit (b div 16), hex_digit (b mod 16)]"

definition url_hash_prefix :: "(string \<Rightarrow> nat list) \<Rightarrow> string \<Rightarrow> string" where
  "url_hash_prefix digest canonical_url = concat (map hex_byte (take 4 (digest canonical_url)))"

definition derive_cache_id :: "(string \<Rightarrow> nat list) \<Rightarrow> string \<Rightarrow> string" where
  "derive_cache_id digest source_url =
     (let canonical = canonicalize_url_for_hashing source_url;
          truncated_slug = truncate_slug (sluggify canonical) 55;
          hash = url_hash_prefix digest canonical
      in if truncated_slug = [] then ''repo-'' @ hash else truncated_slug @ ''-'' @ hash)"

definition resolve_cache_id :: "(string \<Rightarrow> nat list) \<Rightarrow> string option \<Rightarrow> string \<Rightarrow> source_id_error + string" where
  "resolve_cache_id digest pinned source_url =
     (case pinned of
        Some sid \<Rightarrow> (case validate_source_id sid of Inl e \<Rightarrow> Inl e | Inr _ \<Rightarrow> Inr sid)
      | None \<Rightarrow> Inr (derive_cache_id digest source_url))"

section \<open>The provenance record\<close>

record source_json =
  sj_url :: string
  sj_branch :: string
  sj_sha :: string
  sj_fetched_at :: string
  sj_cache_id :: string

datatype source_json_error =
    EmptyUrl | EmptyBranch | EmptyFetchedAt | BadSha string | BadCacheId string source_id_error

definition validate_source_json :: "source_json \<Rightarrow> source_json_error check" where
  "validate_source_json s = checks [
     bail_if (sj_url s = []) EmptyUrl,
     bail_if (sj_branch s = []) EmptyBranch,
     bail_if (sj_fetched_at s = []) EmptyFetchedAt,
     bail_if (length (sj_sha s) \<noteq> 40 \<or> \<not> list_all is_ascii_hexdigit (sj_sha s)) (BadSha (sj_sha s)),
     with_context (BadCacheId (sj_cache_id s)) (validate_source_id (sj_cache_id s))]"

text \<open>Written once: the temporary file is linked onto the path only when nothing is there.\<close>

datatype 'io source_write_error = SourceInvalid source_json_error | SourceIo 'io | SourceExists

definition source_json_write ::
  "'io option \<Rightarrow> source_json \<Rightarrow> source_json option \<Rightarrow> ('io source_write_error + unit) \<times> source_json option" where
  "source_json_write io s file =
     (case validate_source_json s of
        Inl e \<Rightarrow> (Inl (SourceInvalid e), file)
      | Inr _ \<Rightarrow> (case io of Some e \<Rightarrow> (Inl (SourceIo e), file)
      | None \<Rightarrow> (case file of Some _ \<Rightarrow> (Inl SourceExists, file) | None \<Rightarrow> (Ok_unit, Some s))))"

section \<open>The slug check as a pattern\<close>

lemma validate_source_id_ok:
  "validate_source_id s = Ok_unit \<longleftrightarrow>
     s \<noteq> [] \<and> length s \<le> 64 \<and> is_ascii_lowercase (hd s) \<and> slug_byte (last s)
     \<and> list_all (\<lambda>b. slug_byte b \<or> b = CHR ''-'') s"
proof (cases s)
  case (Cons a t)
  show ?thesis
  proof (cases t rule: rev_cases)
    case Nil
    with Cons show ?thesis by (auto simp: validate_source_id_def slug_byte_def)
  next
    case (snoc u z)
    have "for_each (\<lambda>i b. bail_if (\<not> (slug_byte b \<or> b = CHR ''-'')) (IdBadChar i b)) 1 u = Ok_unit
        \<longleftrightarrow> list_all (\<lambda>b. slug_byte b \<or> b = CHR ''-'') u"
      by (auto simp: for_each_Inr bail_if_Inr list_all_length)
    moreover have "take (length s - 2) (drop 1 s) = u" "last s = z" "hd s = a" "length s = length u + 2" "s \<noteq> []"
      "list_all (\<lambda>b. slug_byte b \<or> b = CHR ''-'') s \<longleftrightarrow>
        (slug_byte a \<or> a = CHR ''-'') \<and> list_all (\<lambda>b. slug_byte b \<or> b = CHR ''-'') u \<and> (slug_byte z \<or> z = CHR ''-'')"
      using Cons snoc by simp_all
    moreover have "is_ascii_lowercase a \<Longrightarrow> slug_byte a" by (simp add: slug_byte_def)
    ultimately show ?thesis
      unfolding validate_source_id_def checks_Inr list.set ball_simps bail_if_Inr
      by (cases "is_ascii_lowercase a"; cases "slug_byte z"; simp add: checks_Inr bail_if_Inr)
  qed
qed (simp add: validate_source_id_def)

lemma trim_end_char_prefix: "prefix (trim_end_char c s) s"
proof -
  have "s = trim_end_char c s @ rev (takeWhile (\<lambda>x. x = c) (rev s))"
    unfolding trim_end_char_def by (metis rev_append rev_rev_ident takeWhile_dropWhile_id)
  then show ?thesis by (metis prefixI)
qed

lemma last_trim_end_char: "trim_end_char c s \<noteq> [] \<Longrightarrow> last (trim_end_char c s) \<noteq> c"
  unfolding trim_end_char_def
  by (metis (mono_tags, lifting) hd_dropWhile last_rev rev_is_Nil_conv)

text \<open>The slug: alternating runs of slug bytes and single dashes, which never starts with a dash.\<close>

lemma sluggify_loop_chars: "list_all (\<lambda>b. slug_byte b \<or> b = CHR ''-'') (sluggify_loop d s)"
  by (induction d s rule: sluggify_loop.induct) auto

lemma sluggify_loop_hd: "sluggify_loop True s \<noteq> [] \<Longrightarrow> slug_byte (hd (sluggify_loop True s))"
  by (induction s) auto

definition slug :: "string \<Rightarrow> string" where
  "slug s = truncate_slug (sluggify s) 55"

lemma slug_prefix: "prefix (slug s) (sluggify_loop True s)"
  unfolding slug_def truncate_slug_def sluggify_def
  by (auto intro: trim_end_char_prefix prefix_order.trans[OF trim_end_char_prefix]
      prefix_order.trans[OF take_is_prefix] prefix_order.trans[OF prefix_order.trans[OF trim_end_char_prefix take_is_prefix]])

lemma slug_chars: "list_all (\<lambda>b. slug_byte b \<or> b = CHR ''-'') (slug s)"
  using sluggify_loop_chars[of True s] slug_prefix[of s] by (auto simp: list_all_iff dest: set_mono_prefix)

lemma slug_hd: "slug s \<noteq> [] \<Longrightarrow> slug_byte (hd (slug s))"
  using sluggify_loop_hd[of s] slug_prefix[of s] by (auto simp: prefix_def)

lemma slug_length: "length (slug s) \<le> 55"
  using prefix_length_le[OF trim_end_char_prefix, of "CHR ''-''" "take 55 (sluggify s)"]
  by (auto simp: slug_def truncate_slug_def)

lemma hex_digit_slug: "n < 16 \<Longrightarrow> slug_byte (hex_digit n)"
proof -
  have "list_all slug_byte ''0123456789abcdef''" by code_simp
  then show "n < 16 \<Longrightarrow> slug_byte (hex_digit n)" by (simp add: hex_digit_def list_all_length)
qed

definition sha256_like :: "(string \<Rightarrow> nat list) \<Rightarrow> bool" where
  "sha256_like digest \<longleftrightarrow> (\<forall>t. length (digest t) = 32 \<and> list_all (\<lambda>b. b < 256) (digest t))"

lemma url_hash_prefix_slug:
  assumes "sha256_like digest"
  shows "length (url_hash_prefix digest u) = 8" "list_all slug_byte (url_hash_prefix digest u)"
proof -
  let ?bs = "take 4 (digest u)"
  have bytes: "length ?bs = 4" "list_all (\<lambda>b. b < 256) ?bs"
    using assms by (auto simp: sha256_like_def list_all_iff dest: in_set_takeD)
  have "length (concat (map hex_byte bs)) = 2 * length bs" for bs
    by (induction bs) (auto simp: hex_byte_def)
  then show "length (url_hash_prefix digest u) = 8" using bytes(1) by (simp add: url_hash_prefix_def)
  have "list_all slug_byte (concat (map hex_byte bs))" if "list_all (\<lambda>b. b < 256) bs" for bs
    using that by (induction bs) (auto simp: hex_byte_def hex_digit_slug)
  then show "list_all slug_byte (url_hash_prefix digest u)" using bytes(2) by (simp add: url_hash_prefix_def)
qed

text \<open>C31: an id derived from a clone URL has at most 64 bytes, all lowercase letters, digits and dashes,
  and passes the slug check, that is, can be recorded in \<open>source.json\<close> at session start, exactly when
  the slug of the URL is empty or starts with a letter. A URL whose host starts with a digit therefore
  gets an id that the check refuses.\<close>

theorem derived_cache_id_valid_iff:
  assumes "sha256_like digest" "list_all is_ascii_hexdigit sha" "length sha = 40" "url \<noteq> []" "branch \<noteq> []" "fetched \<noteq> []"
  shows "length (derive_cache_id digest url) \<le> 64
    \<and> list_all (\<lambda>b. slug_byte b \<or> b = CHR ''-'') (derive_cache_id digest url)
    \<and> (validate_source_json \<lparr>sj_url = url, sj_branch = branch, sj_sha = sha, sj_fetched_at = fetched,
           sj_cache_id = derive_cache_id digest url\<rparr> = Ok_unit
       \<longleftrightarrow> slug (canonicalize_url_for_hashing url) = []
          \<or> is_ascii_lowercase (hd (slug (canonicalize_url_for_hashing url))))"
proof -
  let ?c = "canonicalize_url_for_hashing url" and ?P = "\<lambda>b. slug_byte b \<or> b = CHR ''-''"
  define h where "h = url_hash_prefix digest ?c"
  have h: "length h = 8" "list_all slug_byte h" "h \<noteq> []" "list_all ?P h"
    using url_hash_prefix_slug[OF assms(1), of ?c] by (auto simp: h_def list_all_iff)
  have idd: "derive_cache_id digest url = (if slug ?c = [] then ''repo-'' @ h else slug ?c @ ''-'' @ h)"
    by (simp add: derive_cache_id_def slug_def h_def Let_def)
  have repo: "list_all ?P ''repo-''" "is_ascii_lowercase (hd (''repo-'' @ h))" by code_simp (simp add: is_ascii_lowercase_def)
  have len: "length (derive_cache_id digest url) \<le> 64" using slug_length[of ?c] h(1) by (simp add: idd)
  have chars: "list_all ?P (derive_cache_id digest url)"
    using slug_chars[of ?c] h(4) repo(1) by (simp add: idd)
  have last: "slug_byte (last (derive_cache_id digest url))"
    using h(2,3) by (auto simp: idd list_all_iff)
  have hd: "is_ascii_lowercase (hd (derive_cache_id digest url)) \<longleftrightarrow> slug ?c = [] \<or> is_ascii_lowercase (hd (slug ?c))"
    using repo(2) by (simp add: idd)
  have "derive_cache_id digest url \<noteq> []" by (simp add: idd)
  with len chars last hd show ?thesis
    using assms(2-6) by (simp add: validate_source_json_def checks_Inr bail_if_Inr with_context_Inr validate_source_id_ok)
qed

definition zero_digest :: "string \<Rightarrow> nat list" where
  "zero_digest _ = replicate 32 0"

lemma zero_digest_ok: "sha256_like zero_digest"
  by (simp add: sha256_like_def zero_digest_def list_all_iff)

theorem derived_cache_id_valid_iff_witness:
  "validate_source_json \<lparr>sj_url = ''https://10.0.0.1/r.git'', sj_branch = ''main'', sj_sha = replicate 40 CHR ''a'',
     sj_fetched_at = ''2026-01-01T00:00:00Z'', sj_cache_id = derive_cache_id zero_digest ''https://10.0.0.1/r.git''\<rparr> \<noteq> Ok_unit"
proof -
  have "slug (canonicalize_url_for_hashing ''https://10.0.0.1/r.git'') = ''10-0-0-1-r''" by code_simp
  moreover have "\<not> is_ascii_lowercase CHR ''1''" by (simp add: is_ascii_lowercase_def)
  moreover have "list_all is_ascii_hexdigit (replicate 40 CHR ''a'')" by (simp add: list_all_iff is_ascii_hexdigit_def)
  ultimately show ?thesis
    using derived_cache_id_valid_iff[OF zero_digest_ok, of "replicate 40 CHR ''a''" "''https://10.0.0.1/r.git''"
        "''main''" "''2026-01-01T00:00:00Z''"] by simp
qed

section \<open>One remote, one id\<close>

lemma canonicalize_stripped:
  assumes "to_ascii_lowercase (trim_ws url) = p @ rest" "p \<in> {''ssh://git@'', ''https://'', ''http://'', ''git@''}"
  shows "canonicalize_url_for_hashing url =
    (case strip_suffix (replace_char (CHR '':'') (CHR ''/'') rest) ''.git'' of Some r \<Rightarrow> r
     | None \<Rightarrow> replace_char (CHR '':'') (CHR ''/'') rest)"
proof -
  have "(case strip_prefix (p @ rest) ''ssh://git@'' of Some r \<Rightarrow> r | None \<Rightarrow>
        (case strip_prefix (p @ rest) ''https://'' of Some r \<Rightarrow> r | None \<Rightarrow>
        (case strip_prefix (p @ rest) ''http://'' of Some r \<Rightarrow> r | None \<Rightarrow>
        (case strip_prefix (p @ rest) ''git@'' of Some r \<Rightarrow> r | None \<Rightarrow> p @ rest)))) = rest"
    using assms(2) by (elim insertE emptyE) (simp_all add: strip_prefix_def)
  then show ?thesis unfolding canonicalize_url_for_hashing_def Let_def assms(1) by (simp only:)
qed

definition remote_forms :: "string \<Rightarrow> string \<Rightarrow> string list" where
  "remote_forms host path =
     [''https://'' @ host @ ''/'' @ path, ''https://'' @ host @ ''/'' @ path @ ''.git'', ''http://'' @ host @ ''/'' @ path @ ''.git'',
      ''ssh://git@'' @ host @ ''/'' @ path @ ''.git'', ''git@'' @ host @ '':'' @ path @ ''.git'', ''git@'' @ host @ '':'' @ path]"

lemma suffix_replace_char:
  assumes "suffix p (replace_char a b s)" "b \<notin> set p"
  shows "suffix p s"
proof -
  let ?f = "\<lambda>c. if c = a then b else c"
  obtain zs where "map ?f s = zs @ p" using assms(1) by (auto simp: replace_char_def suffix_def)
  then obtain us vs where uv: "s = us @ vs" "map ?f vs = p" by (auto simp: map_eq_append_conv)
  have "?f c = c" if "c \<in> set vs" for c
  proof -
    have "?f c \<in> set p" using that uv(2) by auto
    then show ?thesis using assms(2) by (auto split: if_splits)
  qed
  then have "map ?f vs = vs" by (rule map_idI)
  then have "vs = p" using uv(2) by (rule trans[OF sym])
  then show ?thesis using uv(1) by (simp add: suffix_def)
qed

lemma ascii_literals:
  "to_ascii_lowercase ''https://'' = ''https://''" "to_ascii_lowercase ''http://'' = ''http://''"
  "to_ascii_lowercase ''ssh://git@'' = ''ssh://git@''" "to_ascii_lowercase ''git@'' = ''git@''"
  "to_ascii_lowercase ''.git'' = ''.git''" "to_ascii_lowercase ''/'' = ''/''" "to_ascii_lowercase '':'' = '':''"
  "replace_char (CHR '':'') (CHR ''/'') ''.git'' = ''.git''" "replace_char (CHR '':'') (CHR ''/'') ''/'' = ''/''"
  "replace_char (CHR '':'') (CHR ''/'') '':'' = ''/''"
  by code_simp+

lemma solid_literals: "solid CHR ''h''" "solid CHR ''s''" "solid CHR ''g''" "solid CHR ''t''"
  by code_simp+

lemma canonicalize_form:
  assumes form: "url = p @ host @ sep @ path @ ext" and p: "p \<in> {''ssh://git@'', ''https://'', ''http://'', ''git@''}"
    and sep: "sep \<in> {''/'', '':''}" and ext: "ext \<in> {[], ''.git''}"
    and path: "path \<noteq> []" "solid (last path)" "\<not> suffix ''.git'' (to_ascii_lowercase (host @ ''/'' @ path))"
  shows "canonicalize_url_for_hashing url = replace_char (CHR '':'') (CHR ''/'') (to_ascii_lowercase (host @ ''/'' @ path))"
proof -
  let ?low = "replace_char (CHR '':'') (CHR ''/'') (to_ascii_lowercase (host @ ''/'' @ path))"
  have "url \<noteq> []" "solid (hd url)" "solid (last url)"
    using form p ext path(1,2) solid_literals by auto
  then have trim: "trim_ws url = url" by (rule trim_ws_solid)
  have "to_ascii_lowercase p = p" "to_ascii_lowercase sep = sep"
    using p sep by (auto simp only: insert_iff empty_iff ascii_literals)
  moreover have ext': "to_ascii_lowercase ext = ext" "replace_char (CHR '':'') (CHR ''/'') ext = ext"
    using ext by (auto simp only: insert_iff empty_iff ascii_literals) (simp_all add: to_ascii_lowercase_def replace_char_def)
  ultimately have "to_ascii_lowercase url = p @ to_ascii_lowercase host @ sep @ to_ascii_lowercase path @ ext"
    unfolding form to_ascii_lowercase_append by (simp only:)
  with trim have lower: "to_ascii_lowercase (trim_ws url) = p @ to_ascii_lowercase host @ sep @ to_ascii_lowercase path @ ext"
    by (simp only:)
  have "replace_char (CHR '':'') (CHR ''/'') sep = ''/''"
    using sep by (auto simp only: insert_iff empty_iff ascii_literals)
  with ext'(2) have rest: "replace_char (CHR '':'') (CHR ''/'') (to_ascii_lowercase host @ sep @ to_ascii_lowercase path @ ext) = ?low @ ext"
    unfolding replace_char_append to_ascii_lowercase_append ascii_literals append_assoc by (simp only:)
  have "\<not> suffix ''.git'' ?low" using path(3) suffix_replace_char[of "''.git''" "CHR '':''" "CHR ''/''"] by auto
  then have "strip_suffix ?low ''.git'' = None" by (simp only: strip_suffix_def if_False)
  then show ?thesis
    using ext unfolding canonicalize_stripped[OF lower p] rest
    by (elim insertE emptyE) (simp_all only: append_Nil2 strip_suffix_append option.case)
qed

text \<open>C32: the spellings of one remote (https, http, ssh, scp-like; with or without \<open>.git\<close>)
  share one cache id, provided the path ends in a visible character and not in \<open>.git\<close> already.\<close>

theorem remote_spellings_share_cache_id:
  assumes "path \<noteq> []" "solid (last path)" "\<not> suffix ''.git'' (to_ascii_lowercase (host @ ''/'' @ path))"
    and "u \<in> set (remote_forms host path)" "v \<in> set (remote_forms host path)"
  shows "derive_cache_id digest u = derive_cache_id digest v"
proof -
  let ?low = "replace_char (CHR '':'') (CHR ''/'') (to_ascii_lowercase (host @ ''/'' @ path))"
  have "canonicalize_url_for_hashing u = ?low" if "u \<in> set (remote_forms host path)" for u
  proof -
    from that obtain p sep ext where "u = p @ host @ sep @ path @ ext" "sep \<in> {''/'', '':''}" "ext \<in> {[], ''.git''}"
      "p \<in> {''ssh://git@'', ''https://'', ''http://'', ''git@''}"
      unfolding remote_forms_def by (auto simp del: append.simps) (metis append_Nil2)+
    then show ?thesis by (intro canonicalize_form[OF _ _ _ _ assms(1-3)])
  qed
  then show ?thesis using assms(4,5) by (simp add: derive_cache_id_def)
qed

theorem remote_spellings_share_cache_id_witness:
  "derive_cache_id zero_digest (''https://'' @ ''github.com'' @ ''/'' @ ''o/r'')
     = derive_cache_id zero_digest (''git@'' @ ''github.com'' @ '':'' @ ''o/r'' @ ''.git'')"
proof -
  have "solid (last ''o/r'')" "\<not> suffix ''.git'' (to_ascii_lowercase (''github.com'' @ ''/'' @ ''o/r''))" by code_simp+
  then show ?thesis
    by (intro remote_spellings_share_cache_id[where host = "''github.com''" and path = "''o/r''"])
      (simp_all add: remote_forms_def)
qed

end
