(* ===== verification/Loader.thy ===== *)
theory Loader
  imports Session_Layout Phase_Models Source_Config Ledger_IO
begin

text \<open>
  Reading the session artifacts (\<open>session/loader.rs\<close>). The file system is a function from paths to
  what a read gives; the serde deserialisers are the fields of a record. A report or a verdict counts
  for a target only when it parses, validates and names the session and the target it is read for.
\<close>

section \<open>Files and deserialisers\<close>

type_synonym 'io files = "string \<Rightarrow> 'io read_outcome"

definition is_non_empty_file :: "'io files \<Rightarrow> string \<Rightarrow> bool" where
  "is_non_empty_file fs p \<longleftrightarrow> (case fs p of Content s \<Rightarrow> s \<noteq> [] | _ \<Rightarrow> False)"

record 'p codecs =
  parse_report :: "string \<Rightarrow> 'p + optimizer_report"
  parse_verdict :: "string \<Rightarrow> 'p + results_analysis"
  parse_run_ids :: "string \<Rightarrow> 'p + invocation_run_ids"
  parse_provenance :: "string \<Rightarrow> 'p + coordinator_provenance"
  parse_targets :: "string \<Rightarrow> 'p + optimization_targets"
  parse_analysis :: "string \<Rightarrow> 'p + analysis"
  parse_candidates :: "string \<Rightarrow> 'p + candidates"
  parse_summary :: "string \<Rightarrow> 'p + summary"
  parse_source :: "string \<Rightarrow> 'p + source_json"

datatype ('io, 'p) load_error =
    OpeningFailed string
  | ReadingFailed string 'io
  | ParsingFailed string 'p
  | TargetsInvalid optimization_targets_error
  | ReportInvalid report_error
  | ReportTarget string string
  | ReportSession string string
  | ReportMode delivery_mode delivery_mode
  | AnalysisFamily string string
  | AnalysisModel string analysis_error
  | RunIdsInvalid run_ids_error
  | SourceJsonInvalid source_json_error
  | BadRunId string string
  | BadRunIdLine string nat string

definition parse_json :: "('io files) \<Rightarrow> (string \<Rightarrow> 'p + 'a) \<Rightarrow> string \<Rightarrow> ('io, 'p) load_error + 'a" where
  "parse_json fs parse path =
     (case fs path of
        NotFound \<Rightarrow> Inl (OpeningFailed path)
      | IoFailed e \<Rightarrow> Inl (ReadingFailed path e)
      | Content s \<Rightarrow> with_context (ParsingFailed path) (parse s))"

section \<open>Typed artifacts\<close>

definition read_candidates :: "'io files \<Rightarrow> 'p codecs \<Rightarrow> session_layout \<Rightarrow> ('io, 'p) load_error + candidates" where
  "read_candidates fs cd l = parse_json fs (parse_candidates cd) (candidates_json l)"

definition read_summary :: "'io files \<Rightarrow> 'p codecs \<Rightarrow> session_layout \<Rightarrow> ('io, 'p) load_error + summary" where
  "read_summary fs cd l = parse_json fs (parse_summary cd) (summary_json l)"

definition read_optimization_targets ::
  "'io files \<Rightarrow> 'p codecs \<Rightarrow> session_layout \<Rightarrow> ('io, 'p) load_error + optimization_targets" where
  "read_optimization_targets fs cd l =
     (case parse_json fs (parse_targets cd) (optimization_targets_json l) of
        Inl e \<Rightarrow> Inl e
      | Inr doc \<Rightarrow> (case validate_optimization_targets doc of Inl e \<Rightarrow> Inl (TargetsInvalid e) | Inr _ \<Rightarrow> Inr doc))"

definition read_optimizer_report ::
  "'io files \<Rightarrow> 'p codecs \<Rightarrow> session_layout \<Rightarrow> string \<Rightarrow> ('io, 'p) load_error + optimizer_report option" where
  "read_optimizer_report fs cd l target_id =
     (let path = experiment_optimizer_report l target_id
      in case fs path of
           NotFound \<Rightarrow> Inr None
         | IoFailed e \<Rightarrow> Inl (ReadingFailed path e)
         | Content _ \<Rightarrow>
             (case parse_json fs (parse_report cd) path of Inl e \<Rightarrow> Inl e
              | Inr report \<Rightarrow>
                  (case validate_optimizer_report report of Inl e \<Rightarrow> Inl (ReportInvalid e)
                   | Inr _ \<Rightarrow> Inr (Some report))))"

definition read_optimizer_report_for_target ::
  "'io files \<Rightarrow> 'p codecs \<Rightarrow> session_layout \<Rightarrow> string \<Rightarrow> delivery_mode \<Rightarrow> ('io, 'p) load_error + optimizer_report option" where
  "read_optimizer_report_for_target fs cd l target_id expected_mode =
     (case read_optimizer_report fs cd l target_id of
        Inl e \<Rightarrow> Inl e
      | Inr None \<Rightarrow> Inr None
      | Inr (Some report) \<Rightarrow>
          if report_target_id report \<noteq> target_id then Inl (ReportTarget (report_target_id report) target_id)
          else if report_session_id report \<noteq> sl_id l then Inl (ReportSession (report_session_id report) (sl_id l))
          else if report_delivery_mode report \<noteq> expected_mode
          then Inl (ReportMode (report_delivery_mode report) expected_mode)
          else Inr (Some report))"

text \<open>A verdict that fails to parse, to validate or to match its context counts as absent.\<close>

definition read_results_analysis_for_target ::
  "'io files \<Rightarrow> 'p codecs \<Rightarrow> session_layout \<Rightarrow> string \<Rightarrow> ('io, 'p) load_error + results_analysis option" where
  "read_results_analysis_for_target fs cd l target_id =
     (let path = analyze_results_analysis_json l target_id
      in case fs path of
           NotFound \<Rightarrow> Inr None
         | IoFailed e \<Rightarrow> Inl (ReadingFailed path e)
         | Content raw \<Rightarrow>
             (case parse_verdict cd raw of Inl _ \<Rightarrow> Inr None
              | Inr ra \<Rightarrow>
                  (case validate_results_analysis ra of Inl _ \<Rightarrow> Inr None
                   | Inr _ \<Rightarrow> if ra_session_id ra \<noteq> sl_id l \<or> ra_target_id ra \<noteq> target_id then Inr None
                             else Inr (Some ra))))"

text \<open>The entries of the analysis directory in the order the system lists them: name and whether it is a directory.\<close>

fun read_analysis_entries ::
  "'io files \<Rightarrow> 'p codecs \<Rightarrow> session_layout \<Rightarrow> (string \<times> bool) list \<Rightarrow> (string, analysis) btree_map
     \<Rightarrow> ('io, 'p) load_error + (string, analysis) btree_map" where
  "read_analysis_entries fs cd l [] out = Inr out"
| "read_analysis_entries fs cd l ((family_id, is_dir) # entries) out =
     (let path = analysis_json l family_id
      in if \<not> is_dir then read_analysis_entries fs cd l entries out
         else if fs path = NotFound then read_analysis_entries fs cd l entries out
         else case parse_json fs (parse_analysis cd) path of Inl e \<Rightarrow> Inl e
         | Inr a \<Rightarrow>
             if analysis_family_id a \<noteq> family_id then Inl (AnalysisFamily (analysis_family_id a) family_id)
             else (case validate_analysis a of Inl e \<Rightarrow> Inl (AnalysisModel path e)
                   | Inr _ \<Rightarrow> read_analysis_entries fs cd l entries (bt_insert family_id a out)))"

definition read_all_analyses ::
  "'io files \<Rightarrow> 'p codecs \<Rightarrow> session_layout \<Rightarrow> (string \<times> bool) list option
     \<Rightarrow> ('io, 'p) load_error + (string, analysis) btree_map" where
  "read_all_analyses fs cd l listing =
     (case listing of None \<Rightarrow> Inr bt_empty
      | Some entries \<Rightarrow> read_analysis_entries fs cd l entries bt_empty)"

section \<open>Run ids\<close>

definition read_run_id_file :: "'io files \<Rightarrow> string \<Rightarrow> ('io, 'p) load_error + int" where
  "read_run_id_file fs path =
     (case fs path of
        NotFound \<Rightarrow> Inl (OpeningFailed path)
      | IoFailed e \<Rightarrow> Inl (ReadingFailed path e)
      | Content raw \<Rightarrow>
          (case parse_signed 64 (trim_ws raw) of Some n \<Rightarrow> Inr n | None \<Rightarrow> Inl (BadRunId path (trim_ws raw))))"

fun run_id_lines :: "string \<Rightarrow> nat \<Rightarrow> string list \<Rightarrow> ('io, 'p) load_error + int list" where
  "run_id_lines path i [] = Inr []"
| "run_id_lines path i (line # lines) =
     (let trimmed = trim_ws line
      in if trimmed = [] then run_id_lines path (Suc i) lines
         else case parse_signed 64 trimmed of None \<Rightarrow> Inl (BadRunIdLine path (i + 1) trimmed)
         | Some n \<Rightarrow> (case run_id_lines path (Suc i) lines of Inl e \<Rightarrow> Inl e | Inr ns \<Rightarrow> Inr (n # ns)))"

definition read_experiment_run_ids :: "'io files \<Rightarrow> string \<Rightarrow> ('io, 'p) load_error + int list" where
  "read_experiment_run_ids fs path =
     (case fs path of
        NotFound \<Rightarrow> Inr []
      | IoFailed e \<Rightarrow> Inl (ReadingFailed path e)
      | Content raw \<Rightarrow> run_id_lines path 0 (rust_lines raw))"

definition load_invocation_run_ids ::
  "'io files \<Rightarrow> 'p codecs \<Rightarrow> string \<Rightarrow> ('io, 'p) load_error + invocation_run_ids option" where
  "load_invocation_run_ids fs cd path =
     (case fs path of
        NotFound \<Rightarrow> Inr None
      | IoFailed e \<Rightarrow> Inl (ReadingFailed path e)
      | Content raw \<Rightarrow>
          (case parse_run_ids cd raw of Inl e \<Rightarrow> Inl (ParsingFailed path e)
           | Inr ids \<Rightarrow> (case validate_invocation_run_ids ids of Inl e \<Rightarrow> Inl (RunIdsInvalid e) | Inr _ \<Rightarrow> Inr (Some ids))))"

text \<open>\<open>SourceJson::read\<close>, and the guard of its callers that the file exists.\<close>

definition read_source_json ::
  "'io files \<Rightarrow> 'p codecs \<Rightarrow> string \<Rightarrow> ('io, 'p) load_error + source_json option" where
  "read_source_json fs cd path =
     (if fs path = NotFound then Inr None
      else case parse_json fs (parse_source cd) path of Inl e \<Rightarrow> Inl e
      | Inr s \<Rightarrow> (case validate_source_json s of Inl e \<Rightarrow> Inl (SourceJsonInvalid e) | Inr _ \<Rightarrow> Inr (Some s)))"

section \<open>What a successful read says\<close>

lemma read_report_for_target_Some:
  assumes "read_optimizer_report_for_target fs cd l t mode = Inr (Some r)"
  shows "validate_optimizer_report r = Ok_unit" "report_target_id r = t" "report_session_id r = sl_id l"
    "report_delivery_mode r = mode"
  using assms
  by (auto simp: read_optimizer_report_for_target_def read_optimizer_report_def Let_def
      split: sum.splits option.splits if_splits read_outcome.splits)

lemma read_verdict_Some:
  assumes "read_results_analysis_for_target fs cd l t = Inr (Some ra)"
  shows "validate_results_analysis ra = Ok_unit" "ra_session_id ra = sl_id l" "ra_target_id ra = t"
  using assms
  by (auto simp: read_results_analysis_for_target_def Let_def split: sum.splits if_splits read_outcome.splits)

lemma load_run_ids_Some:
  "load_invocation_run_ids fs cd p = Inr (Some ids) \<Longrightarrow> validate_invocation_run_ids ids = Ok_unit"
  by (auto simp: load_invocation_run_ids_def split: sum.splits read_outcome.splits)

lemma read_targets_valid:
  "read_optimization_targets fs cd l = Inr doc \<Longrightarrow> validate_optimization_targets doc = Ok_unit"
  by (auto simp: read_optimization_targets_def split: sum.splits)

section \<open>A sample session\<close>

text \<open>One session with one accepted target, for the witnesses of the phases that read artifacts.\<close>

definition sample_session :: session_layout where
  "sample_session = session_layout_new ''/data'' ''s1''"

definition sample_merge :: optimization_targets where
  "sample_merge = \<lparr>ot_session_id = ''s1'', ot_baseline_run_id = 1, ot_baseline_rerun_id = 2, ot_noise_floor_pct = Fin 1,
     ot_merge_method = Llm, ot_merge_model = ''m'', ot_targets = [carry_target ''fam'' 0 sample_target],
     ot_rejected_by_merge = [], ot_lens_dispositions = []\<rparr>"

definition sample_report :: implemented_report where
  "sample_report = \<lparr>im_session_id = ''s1'', im_target_id = ''fix'', im_delivery_mode = NormalPr,
     im_implementation_summary = ''done'', im_deviation_from_proposed_change = None, im_dependency_changes = None,
     im_test_summary = \<lparr>ts_passed = 3, ts_failed = 0, ts_duration_secs = Fin 1, ts_log_path = ''t.log''\<rparr>,
     im_clippy_clean = Some True, im_pr_title = ''perf'',
     im_parity = \<lparr>py_consensus_sensitive = False, py_evidence = [], py_tests = [], py_unproven_risk = None\<rparr>,
     im_hard_fork_followup = None\<rparr>"

definition sample_verdict :: results_analysis where
  "sample_verdict = \<lparr>ra_session_id = ''s1'', ra_target_id = ''fix'', ra_axis = TxLatency, ra_verdict = VAccepted,
     ra_confidence = HighConfidence, ra_headline_rationale = ''faster'', ra_headline_improvement_pct = Some (Fin 5),
     ra_per_invocation = [\<lparr>pi_invocation_id = ''warm-1'', pi_label = ''w'', pi_baseline_run_id = 7,
       pi_candidate_run_id = 7, pi_measured_pct = Fin 5, pi_matches_expected_signal = True, pi_observations = []\<rparr>],
     ra_caveats = [], ra_pr_body_summary = Some ''5% faster'', ra_db_queries = []\<rparr>"

definition sample_codecs :: "unit codecs" where
  "sample_codecs = \<lparr>parse_report = (\<lambda>_. Inr (Implemented sample_report)), parse_verdict = (\<lambda>_. Inr sample_verdict),
     parse_run_ids = (\<lambda>_. Inr [\<lparr>ir_invocation_id = ''warm-1'', ir_run_id = 7\<rparr>]), parse_provenance = (\<lambda>_. Inl ()),
     parse_targets = (\<lambda>_. Inr sample_merge), parse_analysis = (\<lambda>_. Inl ()), parse_candidates = (\<lambda>_. Inl ()),
     parse_summary = (\<lambda>_. Inl ()), parse_source = (\<lambda>_. Inl ())\<rparr>"

lemma sample_merge_doc_valid: "validate_optimization_targets sample_merge = Ok_unit"
  using sample_target_valid
  by (simp add: validate_optimization_targets_ok sample_merge_def validate_merged_target_ok validate_analyzer_target_ok
      carry_target_def mode_bench_eligible_def derive_normal)

end
