(* ===== verification/Finalize.thy ===== *)
theory Finalize
  imports Loader
begin

text \<open>
  Phase 4 (\<open>session/finalize.rs\<close>): every merged target becomes one experiment row, from the optimizer
  report, the run-id files and the results-analyzer verdict, and the rows become the summary. The
  rendering of an error chain into a reason is an argument; the two Markdown views are not modelled.
  The theorems say that the rows are legal and complete, and what an accepted row rests on.
\<close>

section \<open>Rows\<close>

definition experiment_of ::
  "merged_target \<Rightarrow> experiment_status \<Rightarrow> int list option \<Rightarrow> f64 option \<Rightarrow> string option \<Rightarrow> experiment_row" where
  "experiment_of t status rids improvement_pct reason =
     \<lparr>ex_target_id = mt_id t, ex_delivery_mode = mt_delivery_mode t, ex_status = status, ex_run_ids = rids,
      ex_baseline_run_ids = None, ex_improvement_pct = improvement_pct, ex_breakage_class = mt_breakage_class t,
      ex_base_sha = None, ex_head_sha = None, ex_reason = reason\<rparr>"

definition experiment_with_baseline ::
  "merged_target \<Rightarrow> experiment_status \<Rightarrow> int list option \<Rightarrow> int list option \<Rightarrow> f64 option \<Rightarrow> string option \<Rightarrow> experiment_row" where
  "experiment_with_baseline t status rids baseline_rids improvement_pct reason =
     \<lparr>ex_target_id = mt_id t, ex_delivery_mode = mt_delivery_mode t, ex_status = status, ex_run_ids = rids,
      ex_baseline_run_ids = baseline_rids, ex_improvement_pct = improvement_pct,
      ex_breakage_class = mt_breakage_class t, ex_base_sha = None, ex_head_sha = None, ex_reason = reason\<rparr>"

definition map_verdict_to_status :: "results_analysis \<Rightarrow> experiment_status \<times> string option" where
  "map_verdict_to_status ra =
     (case ra_verdict ra of
        VAccepted \<Rightarrow> (ExpAccepted, None)
      | VMixed \<Rightarrow>
          (let caveats = (if ra_caveats ra = [] then [ra_headline_rationale ra] else ra_caveats ra)
           in (ExpAccepted, Some (''mixed: '' @ join_strings ''; '' caveats)))
      | VRejected \<Rightarrow> (ExpRejected, Some (ra_headline_rationale ra)))"

section \<open>Cross checks\<close>

datatype finalize_check_error =
    NoReplay string
  | EmptyReplay
  | AxisDiffers selection_lens selection_lens
  | BaselineLength nat nat
  | CandidateLength nat nat
  | RowBaselineInvocation nat string string
  | RowCandidateInvocation nat string string
  | RowBaselineRun nat int int
  | RowCandidateRun nat int int
  | InvocationSetMismatch string "string set" "string set"

text \<open>The first invocation of an empty replay would be an index panic, here \<open>EmptyReplay\<close>.\<close>

definition cross_check_axis :: "results_analysis \<Rightarrow> merged_target \<Rightarrow> finalize_check_error check" where
  "cross_check_axis ra t =
     (case mt_verification_replay t of None \<Rightarrow> Inl (NoReplay (mt_id t))
      | Some vr \<Rightarrow>
          (case vr_invocations vr of [] \<Rightarrow> Inl EmptyReplay
           | iv # _ \<Rightarrow>
               (let expected = es_axis (bi_expected_signal iv)
                in bail_if (ra_axis ra \<noteq> expected) (AxisDiffers (ra_axis ra) expected))))"

definition cross_check_per_invocation ::
  "results_analysis \<Rightarrow> invocation_run_ids \<Rightarrow> invocation_run_ids \<Rightarrow> finalize_check_error check" where
  "cross_check_per_invocation ra baseline candidate = checks [
     bail_if (length (ra_per_invocation ra) \<noteq> length baseline)
       (BaselineLength (length (ra_per_invocation ra)) (length baseline)),
     bail_if (length (ra_per_invocation ra) \<noteq> length candidate)
       (CandidateLength (length (ra_per_invocation ra)) (length candidate)),
     for_each (\<lambda>i row. let b = baseline ! i; c = candidate ! i in checks [
         bail_if (pi_invocation_id row \<noteq> ir_invocation_id b) (RowBaselineInvocation i (pi_invocation_id row) (ir_invocation_id b)),
         bail_if (pi_invocation_id row \<noteq> ir_invocation_id c) (RowCandidateInvocation i (pi_invocation_id row) (ir_invocation_id c)),
         bail_if (pi_baseline_run_id row \<noteq> ir_run_id b) (RowBaselineRun i (pi_baseline_run_id row) (ir_run_id b)),
         bail_if (pi_candidate_run_id row \<noteq> ir_run_id c) (RowCandidateRun i (pi_candidate_run_id row) (ir_run_id c))])
       0 (ra_per_invocation ra)]"

definition expected_invocation_order :: "merged_target \<Rightarrow> finalize_check_error + string list" where
  "expected_invocation_order t =
     (case mt_verification_replay t of None \<Rightarrow> Inl (NoReplay (mt_id t))
      | Some vr \<Rightarrow> Inr (map bi_id (vr_invocations vr)))"

definition reorder_to_match ::
  "invocation_run_ids \<Rightarrow> string list \<Rightarrow> string \<Rightarrow> finalize_check_error + invocation_run_ids" where
  "reorder_to_match actual expected side =
     (let expected_set = set expected; actual_set = set (map ir_invocation_id actual)
      in if expected_set \<noteq> actual_set
         then Inl (InvocationSetMismatch side (expected_set - actual_set) (actual_set - expected_set))
         else Inr (map (\<lambda>inv_id. the (find (\<lambda>e. ir_invocation_id e = inv_id) actual)) expected))"

section \<open>Evaluating one target\<close>

datatype ('io, 'p) finalize_error =
    LoadingFailed "('io, 'p) load_error"
  | MissingBaseline string
  | CheckFailed finalize_check_error
  | ProvenanceFailed string "('io, 'p) load_error"
  | ProvenanceInvalid string provenance_error

definition reason_no_marker :: string where
  "reason_no_marker = ''consensus-issue.md marker missing '' @ em_dash @ '' Phase 2 (`session optimize run`) did not complete''"

definition reason_no_report :: string where
  "reason_no_report = ''no optimizer-report.json emitted '' @ em_dash @ '' Phase 2 agent crashed or never ran''"

definition reason_no_candidate_ids :: string where
  "reason_no_candidate_ids =
     ''no candidate-run-ids.json '' @ em_dash @ '' Phase 3 (`session bench run`) did not complete for this target''"

definition reason_no_verdict :: string where
  "reason_no_verdict =
     ''results-analyzer did not produce a verdict '' @ em_dash @ '' analyze/<target>/results-analysis.json absent or invalid''"

type_synonym verdict_map = "(string, results_analysis) btree_map"

text \<open>The part of \<open>evaluate_target\<close> for an implemented \<open>normal_pr\<close> target.\<close>

definition evaluate_normal_pr ::
  "'io files \<Rightarrow> 'p codecs \<Rightarrow> session_layout \<Rightarrow> (finalize_check_error \<Rightarrow> string) \<Rightarrow> verdict_map \<Rightarrow> merged_target
     \<Rightarrow> ('io, 'p) finalize_error + experiment_row" where
  "evaluate_normal_pr fs cd l render verdicts t =
     (case expected_invocation_order t of Inl e \<Rightarrow> Inl (CheckFailed e) | Inr expected_order \<Rightarrow>
      case load_invocation_run_ids fs cd (experiment_candidate_run_ids_json l (mt_id t)) of
        Inl e \<Rightarrow> Inl (LoadingFailed e)
      | Inr None \<Rightarrow> Inr (experiment_of t ExpAborted None None (Some reason_no_candidate_ids))
      | Inr (Some raw_candidate_ids) \<Rightarrow>
     (case reorder_to_match raw_candidate_ids expected_order ''candidate'' of
        Inl e \<Rightarrow> Inr (experiment_of t ExpAborted (Some (run_ids raw_candidate_ids)) None
                   (Some (''for target `'' @ mt_id t @ ''`: '' @ render e)))
      | Inr candidate_ids \<Rightarrow>
     (case load_invocation_run_ids fs cd (verify_baseline_run_ids_json l (mt_id t)) of
        Inl e \<Rightarrow> Inl (LoadingFailed e)
      | Inr None \<Rightarrow> Inl (MissingBaseline (mt_id t))
      | Inr (Some raw_baseline_ids) \<Rightarrow>
     (case reorder_to_match raw_baseline_ids expected_order ''baseline'' of
        Inl e \<Rightarrow> Inl (CheckFailed e)
      | Inr baseline_ids \<Rightarrow>
          (let aborted = (\<lambda>reason. experiment_with_baseline t ExpAborted (Some (run_ids candidate_ids))
                            (Some (run_ids baseline_ids)) None (Some reason))
           in case bt_get verdicts (mt_id t) of
                None \<Rightarrow> Inr (aborted reason_no_verdict)
              | Some ra \<Rightarrow>
                  (case cross_check_axis ra t of
                     Inl e \<Rightarrow> Inr (aborted (''results-analysis axis-check failed: '' @ render e))
                   | Inr _ \<Rightarrow>
                  (case cross_check_per_invocation ra baseline_ids candidate_ids of
                     Inl e \<Rightarrow> Inr (aborted (''results-analysis cross-check failed: '' @ render e))
                   | Inr _ \<Rightarrow>
                       (let (status, reason) = map_verdict_to_status ra
                        in Inr (experiment_with_baseline t status (Some (run_ids candidate_ids))
                             (Some (run_ids baseline_ids)) (ra_headline_improvement_pct ra) reason)))))))))"

definition evaluate_target ::
  "'io files \<Rightarrow> 'p codecs \<Rightarrow> session_layout \<Rightarrow> (finalize_check_error \<Rightarrow> string) \<Rightarrow> verdict_map \<Rightarrow> merged_target
     \<Rightarrow> ('io, 'p) finalize_error + experiment_row" where
  "evaluate_target fs cd l render verdicts t =
     (if mt_delivery_mode t = ConsensusIssue then
        (let status = (if is_non_empty_file fs (experiment_consensus_issue l (mt_id t)) then RoutedToIssue else ExpAborted);
             reason = (if status = ExpAborted then Some reason_no_marker else None)
         in Inr (experiment_of t status None None reason))
      else case read_optimizer_report_for_target fs cd l (mt_id t) (mt_delivery_mode t) of
        Inl e \<Rightarrow> Inl (LoadingFailed e)
      | Inr None \<Rightarrow> Inr (experiment_of t ExpAborted None None (Some reason_no_report))
      | Inr (Some (ReportAborted r)) \<Rightarrow> Inr (experiment_of t ExpAborted None None (Some (ar_reason r)))
      | Inr (Some (Implemented _)) \<Rightarrow>
          if mt_delivery_mode t = ConsensusPocPr then Inr (experiment_of t PocLanded None None None)
          else evaluate_normal_pr fs cd l render verdicts t)"

section \<open>The summary\<close>

definition load_coordinator_provenance ::
  "'io files \<Rightarrow> 'p codecs \<Rightarrow> session_layout \<Rightarrow> merged_target \<Rightarrow> ('io, 'p) finalize_error + coordinator_provenance option" where
  "load_coordinator_provenance fs cd l t =
     (let path = path_join (experiment_dir l (mt_id t)) ''coordinator-provenance.json''
      in case fs path of
           NotFound \<Rightarrow> Inr None
         | IoFailed e \<Rightarrow> Inl (ProvenanceFailed (mt_id t) (ReadingFailed path e))
         | Content raw \<Rightarrow>
             (case parse_provenance cd raw of Inl e \<Rightarrow> Inl (ProvenanceFailed (mt_id t) (ParsingFailed path e))
              | Inr p \<Rightarrow>
                  (case checks [validate_coordinator_provenance p,
                                provenance_validate_context p (sl_id l) (mt_id t) (mt_delivery_mode t)] of
                     Inl e \<Rightarrow> Inl (ProvenanceInvalid (mt_id t) e)
                   | Inr _ \<Rightarrow> Inr (Some p))))"

definition count_status :: "experiment_row list \<Rightarrow> experiment_status \<Rightarrow> nat" where
  "count_status experiments status = length (filter (\<lambda>e. ex_status e = status) experiments)"

definition bump_counts :: "experiment_row \<Rightarrow> outcome_counts \<Rightarrow> outcome_counts" where
  "bump_counts e c =
     (case (ex_delivery_mode e, ex_status e) of
        (NormalPr, ExpAccepted) \<Rightarrow> c\<lparr>oc_normal_pr := (oc_normal_pr c)\<lparr>np_accepted := np_accepted (oc_normal_pr c) + 1\<rparr>\<rparr>
      | (NormalPr, ExpRejected) \<Rightarrow> c\<lparr>oc_normal_pr := (oc_normal_pr c)\<lparr>np_rejected := np_rejected (oc_normal_pr c) + 1\<rparr>\<rparr>
      | (NormalPr, ExpAborted) \<Rightarrow> c\<lparr>oc_normal_pr := (oc_normal_pr c)\<lparr>np_aborted := np_aborted (oc_normal_pr c) + 1\<rparr>\<rparr>
      | (ConsensusPocPr, PocLanded) \<Rightarrow>
          c\<lparr>oc_consensus_poc_pr := (oc_consensus_poc_pr c)\<lparr>cp_poc_landed := cp_poc_landed (oc_consensus_poc_pr c) + 1\<rparr>\<rparr>
      | (ConsensusPocPr, ExpAborted) \<Rightarrow>
          c\<lparr>oc_consensus_poc_pr := (oc_consensus_poc_pr c)\<lparr>cp_aborted := cp_aborted (oc_consensus_poc_pr c) + 1\<rparr>\<rparr>
      | (ConsensusIssue, RoutedToIssue) \<Rightarrow>
          c\<lparr>oc_consensus_issue := (oc_consensus_issue c)\<lparr>ci_routed_to_issue := ci_routed_to_issue (oc_consensus_issue c) + 1\<rparr>\<rparr>
      | (ConsensusIssue, ExpAborted) \<Rightarrow>
          c\<lparr>oc_consensus_issue := (oc_consensus_issue c)\<lparr>ci_aborted := ci_aborted (oc_consensus_issue c) + 1\<rparr>\<rparr>
      | _ \<Rightarrow> c)"

definition no_outcomes :: outcome_counts where
  "no_outcomes = \<lparr>oc_normal_pr = \<lparr>np_accepted = 0, np_rejected = 0, np_aborted = 0\<rparr>,
     oc_consensus_poc_pr = \<lparr>cp_poc_landed = 0, cp_aborted = 0\<rparr>,
     oc_consensus_issue = \<lparr>ci_routed_to_issue = 0, ci_aborted = 0\<rparr>\<rparr>"

definition aggregate_counts :: "experiment_row list \<Rightarrow> outcome_counts" where
  "aggregate_counts experiments = fold bump_counts experiments no_outcomes"

definition compute_hint :: "experiment_row list \<Rightarrow> string" where
  "compute_hint experiments =
     (let n_total = length experiments;
          n_accepted = count_status experiments ExpAccepted;
          n_poc = count_status experiments PocLanded;
          n_issue = count_status experiments RoutedToIssue;
          n_aborted = count_status experiments ExpAborted;
          n_regressions = length (filter (\<lambda>e. ex_status e = ExpRejected
            \<and> (case ex_reason e of Some r \<Rightarrow> starts_with r ''regression'' | None \<Rightarrow> False)) experiments)
      in if n_total = 0 then ''zero targets reached benchmarking; check analysis/*/analysis.json''
         else if n_accepted = 0 \<and> n_poc = 0 \<and> n_issue = 0 then
           (if n_aborted = n_total
            then ''all experiments aborted before benchmarking; review optimize/*/abort.md and optimize/*/stderr.log''
            else if 0 < n_regressions
            then ''rejected: '' @ show_nat n_regressions
              @ '' regression(s); rest within noise. Try smaller-scope changes or tighter targets.''
            else ''all rejected within noise floor; try wider profiler view (--profiler-hot 100+) or different block range'')
         else show_nat n_accepted @ '' PR(s) + '' @ show_nat n_poc @ '' PoC PR(s) + '' @ show_nat n_issue @ '' issue(s) of ''
           @ show_nat n_total @ '' target(s); review and re-run rejected/aborted with refined analyses'')"

fun load_verdicts ::
  "'io files \<Rightarrow> 'p codecs \<Rightarrow> session_layout \<Rightarrow> merged_target list \<Rightarrow> verdict_map \<Rightarrow> ('io, 'p) finalize_error + verdict_map" where
  "load_verdicts fs cd l [] out = Inr out"
| "load_verdicts fs cd l (t # ts) out =
     (case read_results_analysis_for_target fs cd l (mt_id t) of
        Inl e \<Rightarrow> Inl (LoadingFailed e)
      | Inr None \<Rightarrow> load_verdicts fs cd l ts out
      | Inr (Some ra) \<Rightarrow> load_verdicts fs cd l ts (bt_insert (mt_id t) ra out))"

text \<open>One row with the commits of the provenance sidecar filled in, and the loop over the targets.\<close>

definition experiment_row_for ::
  "'io files \<Rightarrow> 'p codecs \<Rightarrow> session_layout \<Rightarrow> (finalize_check_error \<Rightarrow> string) \<Rightarrow> verdict_map \<Rightarrow> merged_target
     \<Rightarrow> ('io, 'p) finalize_error + experiment_row" where
  "experiment_row_for fs cd l render verdicts t =
     (case evaluate_target fs cd l render verdicts t of Inl e \<Rightarrow> Inl e
      | Inr row \<Rightarrow>
          (case load_coordinator_provenance fs cd l t of Inl e \<Rightarrow> Inl e
           | Inr None \<Rightarrow> Inr row
           | Inr (Some p) \<Rightarrow> Inr (row\<lparr>ex_base_sha := Some (cp_base_sha p), ex_head_sha := Some (cp_head_sha p)\<rparr>)))"

definition compute_summary ::
  "'io files \<Rightarrow> 'p codecs \<Rightarrow> session_layout \<Rightarrow> (finalize_check_error \<Rightarrow> string) \<Rightarrow> optimization_targets \<Rightarrow> verdict_map
     \<Rightarrow> ('io, 'p) finalize_error + summary" where
  "compute_summary fs cd l render targets verdicts =
     (case collect_results (map (experiment_row_for fs cd l render verdicts) (ot_targets targets)) of
        Inl e \<Rightarrow> Inl e
      | Inr experiments \<Rightarrow>
          (case read_source_json fs cd (source_json l) of Inl e \<Rightarrow> Inl (LoadingFailed e)
           | Inr src \<Rightarrow>
               Inr \<lparr>su_session_id = ot_session_id targets, su_baseline_run_id = ot_baseline_run_id targets,
                    su_baseline_rerun_id = ot_baseline_rerun_id targets, su_noise_floor_pct = ot_noise_floor_pct targets,
                    su_experiments = experiments, su_outcome_counts = aggregate_counts experiments,
                    su_lens_dispositions = ot_lens_dispositions targets,
                    su_next_targets_hint = Some (compute_hint experiments),
                    su_source_url = map_option sj_url src, su_source_branch = map_option sj_branch src,
                    su_source_sha = map_option sj_sha src, su_source_fetched_at = map_option sj_fetched_at src\<rparr>))"

definition finalize ::
  "'io files \<Rightarrow> 'p codecs \<Rightarrow> session_layout \<Rightarrow> (string \<times> bool) list option \<Rightarrow> (finalize_check_error \<Rightarrow> string)
     \<Rightarrow> ('io, 'p) finalize_error + summary" where
  "finalize fs cd l listing render =
     (case read_optimization_targets fs cd l of Inl e \<Rightarrow> Inl (LoadingFailed e) | Inr targets \<Rightarrow>
      case read_all_analyses fs cd l listing of Inl e \<Rightarrow> Inl (LoadingFailed e) | Inr _ \<Rightarrow>
      case load_verdicts fs cd l (ot_targets targets) bt_empty of Inl e \<Rightarrow> Inl e | Inr verdicts \<Rightarrow>
      compute_summary fs cd l render targets verdicts)"

section \<open>Legal and complete rows\<close>

lemma experiment_rows_legal:
  assumes "evaluate_target fs cd l render verdicts t = Inr e"
  shows "validate_experiment e = Ok_unit" "ex_target_id e = mt_id t" "ex_delivery_mode e = mt_delivery_mode t"
proof -
  have status: "fst (map_verdict_to_status ra) \<in> {ExpAccepted, ExpRejected}" for ra
    by (simp add: map_verdict_to_status_def Let_def split: verdict.split)
  have normal: "ex_status e \<in> {ExpAccepted, ExpRejected, ExpAborted} \<and> ex_target_id e = mt_id t
      \<and> ex_delivery_mode e = mt_delivery_mode t"
    if "evaluate_normal_pr fs cd l render verdicts t = Inr e" for e
    using that status
    by (auto simp: evaluate_normal_pr_def experiment_of_def experiment_with_baseline_def Let_def
        split: sum.splits option.splits prod.splits if_splits) (metis fst_conv insertE singletonD)+
  show "validate_experiment e = Ok_unit" "ex_target_id e = mt_id t" "ex_delivery_mode e = mt_delivery_mode t"
    using assms normal
    by (auto simp: evaluate_target_def validate_experiment_ok experiment_of_def Let_def
        split: sum.splits option.splits if_splits optimizer_report.splits delivery_mode.splits)
qed

lemma row_for_evaluates:
  assumes "experiment_row_for fs cd l render verdicts t = Inr e"
  obtains row where "evaluate_target fs cd l render verdicts t = Inr row"
    "ex_target_id e = ex_target_id row" "ex_delivery_mode e = ex_delivery_mode row" "ex_status e = ex_status row"
    "ex_run_ids e = ex_run_ids row" "ex_baseline_run_ids e = ex_baseline_run_ids row"
    "ex_improvement_pct e = ex_improvement_pct row"
  using assms that by (auto simp: experiment_row_for_def split: sum.splits option.splits)

lemma row_for_legal:
  assumes "experiment_row_for fs cd l render verdicts t = Inr e"
  shows "validate_experiment e = Ok_unit" "ex_target_id e = mt_id t" "ex_delivery_mode e = mt_delivery_mode t"
proof -
  obtain row where row: "evaluate_target fs cd l render verdicts t = Inr row"
    "ex_target_id e = ex_target_id row" "ex_delivery_mode e = ex_delivery_mode row" "ex_status e = ex_status row"
    using assms by (rule row_for_evaluates)
  from experiment_rows_legal[OF row(1)] row(2-)
  show "validate_experiment e = Ok_unit" "ex_target_id e = mt_id t" "ex_delivery_mode e = mt_delivery_mode t"
    by (simp_all add: validate_experiment_ok split: delivery_mode.splits)
qed

lemma finalize_Inr:
  assumes "finalize fs cd l listing render = Inr s"
  obtains targets verdicts where "read_optimization_targets fs cd l = Inr targets"
    "load_verdicts fs cd l (ot_targets targets) bt_empty = Inr verdicts"
    "map (experiment_row_for fs cd l render verdicts) (ot_targets targets) = map Inr (su_experiments s)"
    "su_outcome_counts s = aggregate_counts (su_experiments s)"
    "su_session_id s = ot_session_id targets"
  using assms that
  by (auto simp: finalize_def compute_summary_def collect_results_Inr split: sum.splits)

lemma map_Inr_nth:
  assumes "map f xs = map Inr ys"
  shows "length ys = length xs" "\<And>i. i < length xs \<Longrightarrow> f (xs ! i) = Inr (ys ! i)"
  using assms by (auto simp: list_eq_iff_nth_eq dest: map_eq_imp_length_eq)

definition rows_with :: "delivery_mode \<Rightarrow> experiment_status \<Rightarrow> experiment_row list \<Rightarrow> nat" where
  "rows_with m st rows = length (filter (\<lambda>e. ex_delivery_mode e = m \<and> ex_status e = st) rows)"

definition tally_of :: "experiment_row list \<Rightarrow> outcome_counts" where
  "tally_of rows =
     \<lparr>oc_normal_pr = \<lparr>np_accepted = rows_with NormalPr ExpAccepted rows, np_rejected = rows_with NormalPr ExpRejected rows,
        np_aborted = rows_with NormalPr ExpAborted rows\<rparr>,
      oc_consensus_poc_pr = \<lparr>cp_poc_landed = rows_with ConsensusPocPr PocLanded rows,
        cp_aborted = rows_with ConsensusPocPr ExpAborted rows\<rparr>,
      oc_consensus_issue = \<lparr>ci_routed_to_issue = rows_with ConsensusIssue RoutedToIssue rows,
        ci_aborted = rows_with ConsensusIssue ExpAborted rows\<rparr>\<rparr>"

definition outcome_total :: "outcome_counts \<Rightarrow> nat" where
  "outcome_total c =
     np_accepted (oc_normal_pr c) + np_rejected (oc_normal_pr c) + np_aborted (oc_normal_pr c)
   + cp_poc_landed (oc_consensus_poc_pr c) + cp_aborted (oc_consensus_poc_pr c)
   + ci_routed_to_issue (oc_consensus_issue c) + ci_aborted (oc_consensus_issue c)"

lemma tally_of_snoc: "tally_of (rows @ [e]) = bump_counts e (tally_of rows)"
  by (auto simp: tally_of_def rows_with_def bump_counts_def split: delivery_mode.splits experiment_status.splits)

lemma aggregate_counts_tally: "aggregate_counts rows = tally_of rows"
proof (induction rows rule: rev_induct)
  case Nil
  show ?case by (simp add: aggregate_counts_def tally_of_def no_outcomes_def rows_with_def)
next
  case (snoc e rows)
  then show ?case by (simp add: aggregate_counts_def tally_of_snoc)
qed

lemma outcome_total_legal:
  "\<forall>e \<in> set rows. validate_experiment e = Ok_unit \<Longrightarrow> outcome_total (tally_of rows) = length rows"
proof (induction rows)
  case (Cons e rows)
  have "outcome_total (tally_of (e # rows)) = Suc (outcome_total (tally_of rows))"
    using Cons.prems
    by (auto simp: validate_experiment_ok outcome_total_def tally_of_def rows_with_def split: delivery_mode.splits)
  with Cons show ?case by simp
qed (simp add: outcome_total_def tally_of_def rows_with_def)

section \<open>What an accepted row rests on\<close>

lemma load_verdicts_sound:
  assumes "load_verdicts fs cd l ts out = Inr verdicts" "bt_invar out"
    "\<And>k ra. bt_get out k = Some ra \<Longrightarrow> read_results_analysis_for_target fs cd l k = Inr (Some ra)"
    "bt_get verdicts k = Some ra"
  shows "read_results_analysis_for_target fs cd l k = Inr (Some ra)"
  using assms
proof (induction ts arbitrary: out)
  case (Cons t ts)
  show ?case
  proof (cases "read_results_analysis_for_target fs cd l (mt_id t)")
    case (Inr r)
    show ?thesis
    proof (cases r)
      case (Some ra')
      show ?thesis
        by (rule Cons.IH[of "bt_insert (mt_id t) ra' out"])
          (use Cons.prems Inr Some in \<open>auto simp: bt_invar_insert bt_get_insert split: if_splits\<close>)
    qed (use Cons Inr in auto)
  qed (use Cons.prems in auto)
qed simp

lemma reorder_to_match_Inr:
  assumes "reorder_to_match actual expected side = Inr ids"
  shows "map ir_invocation_id ids = expected" "set ids \<subseteq> set actual"
proof -
  have same: "set expected = set (map ir_invocation_id actual)"
    and ids: "ids = map (\<lambda>i. the (find (\<lambda>e. ir_invocation_id e = i) actual)) expected"
    using assms by (auto simp: reorder_to_match_def Let_def split: if_splits)
  have found: "\<exists>e. find (\<lambda>e. ir_invocation_id e = i) actual = Some e \<and> ir_invocation_id e = i \<and> e \<in> set actual"
    if "i \<in> set expected" for i
  proof -
    have "find (\<lambda>e. ir_invocation_id e = i) actual \<noteq> None" using that same by (auto simp: find_None_iff)
    then show ?thesis by (auto simp: find_Some_iff)
  qed
  have "ir_invocation_id (the (find (\<lambda>e. ir_invocation_id e = i) actual)) = i"
    "the (find (\<lambda>e. ir_invocation_id e = i) actual) \<in> set actual" if "i \<in> set expected" for i
    using found[OF that] by auto
  then show "map ir_invocation_id ids = expected" "set ids \<subseteq> set actual"
    by (auto simp: ids intro: map_idI)
qed

lemma cross_check_per_invocation_ok:
  "cross_check_per_invocation ra b c = Ok_unit \<longleftrightarrow>
     map ir_invocation_id b = map pi_invocation_id (ra_per_invocation ra)
   \<and> map ir_invocation_id c = map pi_invocation_id (ra_per_invocation ra)
   \<and> run_ids b = map pi_baseline_run_id (ra_per_invocation ra)
   \<and> run_ids c = map pi_candidate_run_id (ra_per_invocation ra)"
  by (auto simp: cross_check_per_invocation_def checks_Inr bail_if_Inr for_each_Inr Let_def run_ids_def
      list_eq_iff_nth_eq)

lemma cross_check_axis_ok:
  "cross_check_axis ra t = Ok_unit \<longleftrightarrow>
     (\<exists>vr iv ivs. mt_verification_replay t = Some vr \<and> vr_invocations vr = iv # ivs
        \<and> ra_axis ra = es_axis (bi_expected_signal iv))"
  by (auto simp: cross_check_axis_def bail_if_Inr Let_def split: option.splits list.splits)

text \<open>The evidence behind an accepted row: the optimizer's report, the verdict, and the replay they agree on.\<close>

definition accepted_evidence ::
  "'io files \<Rightarrow> 'p codecs \<Rightarrow> session_layout \<Rightarrow> merged_target \<Rightarrow> experiment_row
     \<Rightarrow> implemented_report \<Rightarrow> results_analysis \<Rightarrow> verification_replay \<Rightarrow> bool" where
  "accepted_evidence fs cd l t e r ra vr \<longleftrightarrow>
     read_optimizer_report_for_target fs cd l (mt_id t) NormalPr = Inr (Some (Implemented r))
   \<and> mt_verification_replay t = Some vr
   \<and> read_results_analysis_for_target fs cd l (mt_id t) = Inr (Some ra)
   \<and> ra_verdict ra \<noteq> VRejected
   \<and> ra_axis ra = es_axis (bi_expected_signal (hd (vr_invocations vr)))
   \<and> map pi_invocation_id (ra_per_invocation ra) = map bi_id (vr_invocations vr)
   \<and> ex_run_ids e = Some (map pi_candidate_run_id (ra_per_invocation ra))
   \<and> ex_baseline_run_ids e = Some (map pi_baseline_run_id (ra_per_invocation ra))
   \<and> ex_improvement_pct e = ra_headline_improvement_pct ra"

lemma map_verdict_accepted:
  "map_verdict_to_status ra = (ExpAccepted, reason) \<Longrightarrow> ra_verdict ra \<noteq> VRejected"
  by (auto simp: map_verdict_to_status_def)

lemma evaluate_normal_pr_accepted:
  assumes "evaluate_normal_pr fs cd l render verdicts t = Inr e" "ex_status e = ExpAccepted"
  obtains ra vr where "bt_get verdicts (mt_id t) = Some ra" "mt_verification_replay t = Some vr"
    "ra_verdict ra \<noteq> VRejected" "ra_axis ra = es_axis (bi_expected_signal (hd (vr_invocations vr)))"
    "map pi_invocation_id (ra_per_invocation ra) = map bi_id (vr_invocations vr)"
    "ex_run_ids e = Some (map pi_candidate_run_id (ra_per_invocation ra))"
    "ex_baseline_run_ids e = Some (map pi_baseline_run_id (ra_per_invocation ra))"
    "ex_improvement_pct e = ra_headline_improvement_pct ra"
proof -
  have "\<exists>ra vr b c raw_c reason. bt_get verdicts (mt_id t) = Some ra \<and> mt_verification_replay t = Some vr
      \<and> reorder_to_match raw_c (map bi_id (vr_invocations vr)) ''candidate'' = Inr c
      \<and> cross_check_axis ra t = Ok_unit \<and> cross_check_per_invocation ra b c = Ok_unit
      \<and> map_verdict_to_status ra = (ExpAccepted, reason)
      \<and> e = experiment_with_baseline t ExpAccepted (Some (run_ids c)) (Some (run_ids b)) (ra_headline_improvement_pct ra) reason"
    using assms
    unfolding evaluate_normal_pr_def expected_invocation_order_def Let_def
    by (auto simp: experiment_of_def experiment_with_baseline_def split: sum.splits option.splits prod.splits) metis
  then obtain ra vr b c raw_c reason where h: "bt_get verdicts (mt_id t) = Some ra" "mt_verification_replay t = Some vr"
      "reorder_to_match raw_c (map bi_id (vr_invocations vr)) ''candidate'' = Inr c"
      "cross_check_axis ra t = Ok_unit" "cross_check_per_invocation ra b c = Ok_unit"
      "map_verdict_to_status ra = (ExpAccepted, reason)"
      "e = experiment_with_baseline t ExpAccepted (Some (run_ids c)) (Some (run_ids b)) (ra_headline_improvement_pct ra) reason"
    by blast
  show ?thesis
    using that[OF h(1,2) map_verdict_accepted[OF h(6)]] h(2,4,5,7) reorder_to_match_Inr(1)[OF h(3)]
    by (auto simp: cross_check_axis_ok cross_check_per_invocation_ok experiment_with_baseline_def)
qed

lemma implemented_report_facts:
  assumes "validate_optimizer_report (Implemented r) = Ok_unit" "report_delivery_mode (Implemented r) = NormalPr"
    "report_session_id (Implemented r) = sid"
  shows "im_session_id r = sid" "im_clippy_clean r = Some True" "ts_failed (im_test_summary r) = 0"
    "py_unproven_risk (im_parity r) = None"
  using assms
  by (simp_all add: validate_optimizer_report_def validate_implemented_report_ok report_delivery_mode_def
      report_session_id_def del: is_blank.simps)

lemma replay_shares_axis:
  assumes "read_optimization_targets fs cd l = Inr targets" "t \<in> set (ot_targets targets)"
    "mt_verification_replay t = Some vr"
  shows "\<forall>iv \<in> set (vr_invocations vr). es_axis (bi_expected_signal iv) = es_axis (bi_expected_signal (hd (vr_invocations vr)))"
proof -
  have "validate_merged_target t = Ok_unit"
    using read_targets_valid[OF assms(1)] assms(2) by (simp add: validate_optimization_targets_ok)
  then have "vr_invocations vr \<noteq> [] \<and> (\<exists>axis. \<forall>iv \<in> set (vr_invocations vr). es_axis (bi_expected_signal iv) = axis)"
    using assms(3) by (auto simp: validate_merged_target_ok protocol_ok_def validate_verification_replay_ok)
  then show ?thesis by (metis hd_in_set)
qed

section \<open>Properties\<close>

text \<open>Every file of the session is there but the source record and the provenance sidecar.\<close>

definition sample_files :: "unit files" where
  "sample_files p =
     (if p = source_json sample_session \<or> p = path_join (experiment_dir sample_session ''fix'') ''coordinator-provenance.json''
      then NotFound else Content ''x'')"

lemma sample_row:
  "experiment_row_for sample_files sample_codecs sample_session (\<lambda>_. []) [(''fix'', sample_verdict)]
     (carry_target ''fam'' 0 sample_target)
   = Inr (experiment_with_baseline (carry_target ''fam'' 0 sample_target) ExpAccepted (Some [7]) (Some [7]) (Some (Fin 5)) None)"
  by code_simp

lemma sample_finalize:
  "\<exists>s. finalize sample_files sample_codecs sample_session None (\<lambda>_. []) = Inr s \<and> map ex_status (su_experiments s) = [ExpAccepted]"
proof -
  have "sample_files (optimization_targets_json sample_session) = Content ''x''" by code_simp
  then have targets: "read_optimization_targets sample_files sample_codecs sample_session = Inr sample_merge"
    by (simp add: read_optimization_targets_def parse_json_def sample_codecs_def sample_merge_doc_valid)
  have verdicts: "load_verdicts sample_files sample_codecs sample_session (ot_targets sample_merge) bt_empty
      = Inr [(''fix'', sample_verdict)]"
    by code_simp
  have "sample_files (source_json sample_session) = NotFound" by code_simp
  then show ?thesis
    using sample_row
    by (simp add: finalize_def targets verdicts read_all_analyses_def)
      (simp add: compute_summary_def read_source_json_def sample_merge_def experiment_with_baseline_def)
qed

text \<open>C13: a session that finalizes gives every merged target exactly one experiment row, in the order of
  the merge output and with its delivery mode; every row has a status its mode allows, each outcome
  counter is the number of rows of that mode and status, and the counters add up to the number of targets.\<close>

theorem finalize_accounts_for_targets:
  assumes "finalize fs cd l listing render = Inr s"
  shows "\<exists>targets. read_optimization_targets fs cd l = Inr targets
    \<and> map ex_target_id (su_experiments s) = map mt_id (ot_targets targets)
    \<and> map ex_delivery_mode (su_experiments s) = map mt_delivery_mode (ot_targets targets)
    \<and> (\<forall>e \<in> set (su_experiments s). validate_experiment e = Ok_unit)
    \<and> su_outcome_counts s = tally_of (su_experiments s)
    \<and> outcome_total (su_outcome_counts s) = length (ot_targets targets)"
proof -
  obtain targets verdicts where t: "read_optimization_targets fs cd l = Inr targets"
    and rows: "map (experiment_row_for fs cd l render verdicts) (ot_targets targets) = map Inr (su_experiments s)"
    and counts: "su_outcome_counts s = aggregate_counts (su_experiments s)"
    using assms by (rule finalize_Inr)
  note len = map_Inr_nth(1)[OF rows] and row = row_for_legal[OF map_Inr_nth(2)[OF rows]]
  have legal: "\<forall>e \<in> set (su_experiments s). validate_experiment e = Ok_unit"
    using row(1) len by (auto simp: in_set_conv_nth)
  have "map ex_target_id (su_experiments s) = map mt_id (ot_targets targets)"
    "map ex_delivery_mode (su_experiments s) = map mt_delivery_mode (ot_targets targets)"
    using row(2,3) len by (auto intro: nth_equalityI)
  with t legal len counts outcome_total_legal[OF legal] show ?thesis
    by (intro exI[of _ targets]) (simp add: aggregate_counts_tally)
qed

theorem finalize_accounts_for_targets_witness:
  "\<exists>s. finalize sample_files sample_codecs sample_session None (\<lambda>_. []) = Inr s \<and> outcome_total (su_outcome_counts s) = 1"
proof -
  obtain s where s: "finalize sample_files sample_codecs sample_session None (\<lambda>_. []) = Inr s"
    "map ex_status (su_experiments s) = [ExpAccepted]" using sample_finalize by (elim exE conjE)
  have "length (su_experiments s) = 1" using arg_cong[OF s(2), of length] by simp
  moreover have "outcome_total (su_outcome_counts s) = length (su_experiments s)"
    using finalize_accounts_for_targets[OF s(1)] map_eq_imp_length_eq by force
  ultimately show ?thesis using s(1) by auto
qed

text \<open>C5: a row is accepted only for a \<open>normal_pr\<close> target with an implemented report of this session
  that validates (clippy clean, no failing test, no unproven parity risk) and with a verdict of this
  session that is not a rejection, measures the axis every invocation of the replay expects and lists
  the replay's invocations in order; the run ids on the row are those the verdict was computed from.\<close>

theorem accepted_row_has_evidence:
  assumes "finalize fs cd l listing render = Inr s" "e \<in> set (su_experiments s)" "ex_status e = ExpAccepted"
  shows "\<exists>targets t r ra vr. read_optimization_targets fs cd l = Inr targets \<and> t \<in> set (ot_targets targets)
    \<and> ex_target_id e = mt_id t \<and> mt_delivery_mode t = NormalPr \<and> accepted_evidence fs cd l t e r ra vr
    \<and> im_session_id r = sl_id l \<and> im_clippy_clean r = Some True \<and> ts_failed (im_test_summary r) = 0
    \<and> py_unproven_risk (im_parity r) = None
    \<and> (\<forall>iv \<in> set (vr_invocations vr). es_axis (bi_expected_signal iv) = ra_axis ra)"
proof -
  obtain targets verdicts where tg: "read_optimization_targets fs cd l = Inr targets"
    and vd: "load_verdicts fs cd l (ot_targets targets) bt_empty = Inr verdicts"
    and rows: "map (experiment_row_for fs cd l render verdicts) (ot_targets targets) = map Inr (su_experiments s)"
    using assms(1) by (rule finalize_Inr)
  obtain t where t: "t \<in> set (ot_targets targets)" "experiment_row_for fs cd l render verdicts t = Inr e"
    using assms(2) rows by (metis (mono_tags, lifting) imageE image_eqI list.set_map)
  obtain row where row: "evaluate_target fs cd l render verdicts t = Inr row"
    and same: "ex_target_id e = ex_target_id row" "ex_delivery_mode e = ex_delivery_mode row" "ex_status e = ex_status row"
      "ex_run_ids e = ex_run_ids row" "ex_baseline_run_ids e = ex_baseline_run_ids row"
      "ex_improvement_pct e = ex_improvement_pct row"
    using t(2) by (rule row_for_evaluates)
  have acc: "ex_status row = ExpAccepted" using same assms(3) by simp
  with experiment_rows_legal[OF row] have mode: "mt_delivery_mode t = NormalPr"
    by (auto simp: validate_experiment_ok split: delivery_mode.splits)
  have "\<exists>r. read_optimizer_report_for_target fs cd l (mt_id t) NormalPr = Inr (Some (Implemented r))
      \<and> evaluate_normal_pr fs cd l render verdicts t = Inr row"
    using row acc mode
    by (auto simp: evaluate_target_def experiment_of_def split: sum.splits option.splits optimizer_report.splits)
  then obtain r where rep: "read_optimizer_report_for_target fs cd l (mt_id t) NormalPr = Inr (Some (Implemented r))"
    and np: "evaluate_normal_pr fs cd l render verdicts t = Inr row" by blast
  obtain ra vr where ev: "bt_get verdicts (mt_id t) = Some ra" "mt_verification_replay t = Some vr"
    "ra_verdict ra \<noteq> VRejected" "ra_axis ra = es_axis (bi_expected_signal (hd (vr_invocations vr)))"
    "map pi_invocation_id (ra_per_invocation ra) = map bi_id (vr_invocations vr)"
    "ex_run_ids row = Some (map pi_candidate_run_id (ra_per_invocation ra))"
    "ex_baseline_run_ids row = Some (map pi_baseline_run_id (ra_per_invocation ra))"
    "ex_improvement_pct row = ra_headline_improvement_pct ra"
    using np acc by (rule evaluate_normal_pr_accepted)
  have "accepted_evidence fs cd l t e r ra vr"
    using load_verdicts_sound[OF vd _ _ ev(1)] rep ev same by (simp add: accepted_evidence_def)
  moreover have "im_session_id r = sl_id l \<and> im_clippy_clean r = Some True \<and> ts_failed (im_test_summary r) = 0
      \<and> py_unproven_risk (im_parity r) = None"
    using implemented_report_facts[OF read_report_for_target_Some(1,4,3)[OF rep]] by simp
  moreover have "\<forall>iv \<in> set (vr_invocations vr). es_axis (bi_expected_signal iv) = ra_axis ra"
    using replay_shares_axis[OF tg t(1) ev(2)] ev(4) by simp
  ultimately show ?thesis using tg t(1) mode same(1) experiment_rows_legal(2)[OF row] by metis
qed

theorem accepted_row_has_evidence_witness:
  "\<exists>s e. finalize sample_files sample_codecs sample_session None (\<lambda>_. []) = Inr s \<and> e \<in> set (su_experiments s)
     \<and> ex_status e = ExpAccepted \<and> (\<exists>t r ra vr. accepted_evidence sample_files sample_codecs sample_session t e r ra vr)"
proof -
  obtain s where s: "finalize sample_files sample_codecs sample_session None (\<lambda>_. []) = Inr s"
    "map ex_status (su_experiments s) = [ExpAccepted]" using sample_finalize by (elim exE conjE)
  then obtain e where e: "e \<in> set (su_experiments s)" "ex_status e = ExpAccepted" by (auto simp: map_eq_Cons_conv)
  from accepted_row_has_evidence[OF s(1) e] s(1) e show ?thesis by blast
qed

end
