(* ===== verification/Autonomy.thy ===== *)
theory Autonomy
  imports History_Projection Timestamps
begin

text \<open>
  The autonomy gates of \<open>session/autonomy.rs\<close>: the operator pause file, the open-PR limit, the
  minimum session interval and the zero-accepted circuit breaker, which writes the pause file. The
  theorems say exactly when a session may start, and that a tripped breaker keeps later sessions
  from starting until the file is removed.
\<close>

section \<open>Settings and results\<close>

record autonomy_settings =
  au_max_open_agent_prs :: nat
  au_min_session_interval_hours :: nat
  au_zero_accepted_circuit_breaker :: nat
  au_dedup_failure_threshold :: nat

definition autonomy_settings_default :: autonomy_settings where
  "autonomy_settings_default =
     \<lparr>au_max_open_agent_prs = 10, au_min_session_interval_hours = 144,
      au_zero_accepted_circuit_breaker = 3, au_dedup_failure_threshold = 3\<rparr>"

record autonomy_block =
  ab_gate :: string
  ab_message :: string
  ab_remediation :: string

datatype breaker_action = ReportOnly | WritePause

definition pause_file :: "string \<Rightarrow> string" where
  "pause_file operator_repo_root = path_join (path_join operator_repo_root ''.sbagent'') ''pause''"

section \<open>The gates\<close>

definition check_pause_file :: "string \<Rightarrow> string option \<Rightarrow> autonomy_block list" where
  "check_pause_file operator pause =
     (case pause of None \<Rightarrow> []
      | Some _ \<Rightarrow>
          [\<lparr>ab_gate = ''pause-file'',
            ab_message = ''operator pause file exists at '' @ pause_file operator,
            ab_remediation = ''inspect '' @ pause_file operator
              @ '', then remove it to allow `sbagent session run` again; `sbagent maintain` remains allowed while paused''\<rparr>])"

definition open_pr_urls :: "history_projection \<Rightarrow> string set" where
  "open_pr_urls h =
     (let urls = set (List.map_filter tr_pr_url (concat (map sr_targets (hp_sessions h))))
      in Set.filter (\<lambda>url. \<not> (case latest_artifact_state h url of
                               None \<Rightarrow> False
                             | Some state \<Rightarrow> as_kind state \<in> {PrMerged, PrClosedUnmerged})) urls)"

definition check_open_pr_limit :: "autonomy_settings \<Rightarrow> history_projection \<Rightarrow> autonomy_block list" where
  "check_open_pr_limit settings h =
     (let n = card (open_pr_urls h)
      in if au_max_open_agent_prs settings \<le> n then
           [\<lparr>ab_gate = ''max-open-agent-prs'',
             ab_message = show_nat n @ '' open bot PR(s) meets/exceeds autonomy.max_open_agent_prs=''
               @ show_nat (au_max_open_agent_prs settings),
             ab_remediation = ''merge, close, or maintain-reconcile existing bot PRs before starting another session''\<rparr>]
         else [])"

text \<open>\<open>max_by_key\<close> keeps the last of the greatest elements.\<close>

fun max_by_key :: "('a \<Rightarrow> 'k::linorder) \<Rightarrow> 'a list \<Rightarrow> 'a option" where
  "max_by_key f [] = None"
| "max_by_key f (x # xs) = Some (fold (\<lambda>y acc. if f acc \<le> f y then y else acc) xs x)"

definition session_time :: "session_record \<Rightarrow> system_time option" where
  "session_time s =
     (case autonomy_parse_isoish_utc (sr_finished_at s) of
        Some ts \<Rightarrow> Some ts
      | None \<Rightarrow> autonomy_parse_isoish_utc (sr_started_at s))"

definition latest_session_time :: "session_record list \<Rightarrow> (string \<times> system_time) option" where
  "latest_session_time sessions =
     max_by_key snd (List.map_filter (\<lambda>s. map_option (Pair (sr_id s)) (session_time s)) sessions)"

definition check_session_interval ::
  "autonomy_settings \<Rightarrow> session_record list \<Rightarrow> system_time \<Rightarrow> autonomy_block list" where
  "check_session_interval settings sessions now =
     (if au_min_session_interval_hours settings = 0 then []
      else case latest_session_time sessions of None \<Rightarrow> []
      | Some (session_id, ts) \<Rightarrow>
          (let elapsed = (if ts \<le> now then now - ts else 0);
               min_gap = int (saturating_mul_u64 (au_min_session_interval_hours settings) 3600) * nanos
           in if elapsed < min_gap then
                [\<lparr>ab_gate = ''min-session-interval'',
                  ab_message = ''latest archived session `'' @ session_id @ ''` is ''
                    @ show_nat (nat (elapsed div nanos) div 3600)
                    @ ''h old; autonomy.min_session_interval_hours requires ''
                    @ show_nat (au_min_session_interval_hours settings) @ ''h'',
                  ab_remediation =
                    ''wait until the interval elapses or lower autonomy.min_session_interval_hours deliberately''\<rparr>]
              else []))"

definition session_has_accepted_target :: "session_record \<Rightarrow> bool" where
  "session_has_accepted_target s \<longleftrightarrow> list_ex (\<lambda>t. tr_status t = Accepted) (sr_targets s)"

text \<open>The sessions that count for the breaker, newest start first.\<close>

definition completed_newest_first :: "session_record list \<Rightarrow> session_record list" where
  "completed_newest_first sessions =
     sort_key (\<lambda>s. Reverse (sr_started_at s)) (filter (\<lambda>s. sr_status s \<noteq> SessionAborted) sessions)"

text \<open>What creating the directory, opening and writing the pause file do; a failed write leaves a prefix.\<close>

record 'io pause_io =
  pi_create_dir :: "'io option"
  pi_open :: "'io option"
  pi_write :: "(nat \<times> 'io) option"

datatype 'io gate_error =
    ReadingLedgers "'io projection_error"
  | CreatingPauseParent 'io
  | WritingPauseFile 'io

definition pause_body :: "system_time \<Rightarrow> nat \<Rightarrow> session_record list \<Rightarrow> string" where
  "pause_body now n window =
     ''sbagent paused at '' @ autonomy_format_system_time now @ [CHR 0x0A]
     @ ''reason: last '' @ show_nat n @ '' completed sessions had zero accepted targets'' @ [CHR 0x0A]
     @ ''sessions:'' @ [CHR 0x0A]
     @ join_strings [CHR 0x0A] (map (\<lambda>s. ''- '' @ sr_id s) window) @ [CHR 0x0A, CHR 0x0A]
     @ ''Remove this file after review to allow `sbagent session run`.'' @ [CHR 0x0A]"

definition breaker_block :: "nat \<Rightarrow> string \<Rightarrow> string \<Rightarrow> autonomy_block" where
  "breaker_block n what remediation =
     \<lparr>ab_gate = ''zero-accepted-circuit-breaker'',
      ab_message = ''last '' @ show_nat n @ '' completed session(s) had zero accepted targets; '' @ what,
      ab_remediation = remediation\<rparr>"

definition breaker_trips :: "nat \<Rightarrow> session_record list \<Rightarrow> bool" where
  "breaker_trips n sessions \<longleftrightarrow>
     n \<noteq> 0 \<and> n \<le> length (completed_newest_first sessions)
     \<and> \<not> list_ex session_has_accepted_target (take n (completed_newest_first sessions))"

definition check_zero_accepted_breaker ::
  "string \<Rightarrow> autonomy_settings \<Rightarrow> session_record list \<Rightarrow> system_time \<Rightarrow> breaker_action \<Rightarrow> 'io pause_io
     \<Rightarrow> string option \<Rightarrow> ('io gate_error + autonomy_block list) \<times> string option" where
  "check_zero_accepted_breaker operator settings sessions now action io pause =
     (let n = au_zero_accepted_circuit_breaker settings; path = pause_file operator
      in if \<not> breaker_trips n sessions then (Inr [], pause)
         else case pause of
           Some _ \<Rightarrow> (Inr [breaker_block n (''existing pause file preserved at '' @ path)
                        (''inspect '' @ path @ '' before removing it'')], pause)
         | None \<Rightarrow>
             if action = ReportOnly then
               (Inr [breaker_block n (''session run would write pause file '' @ path)
                  ''inspect recent sessions before starting another run, or disable autonomy.zero_accepted_circuit_breaker deliberately''],
                pause)
             else
               (case pi_create_dir io of Some e \<Rightarrow> (Inl (CreatingPauseParent e), pause)
                | None \<Rightarrow>
               (case pi_open io of Some e \<Rightarrow> (Inl (WritingPauseFile e), pause)
                | None \<Rightarrow>
                   (let body = pause_body now n (take n (completed_newest_first sessions))
                    in case pi_write io of
                         Some (k, e) \<Rightarrow> (Inl (WritingPauseFile e), Some (take k body))
                       | None \<Rightarrow> (Inr [breaker_block n (''wrote pause file '' @ path)
                             (''inspect '' @ path @ '', then remove it to resume sessions'')], Some body)))))"

definition check_operator_gates_inner ::
  "(string \<Rightarrow> 'e + session_record) \<Rightarrow> (string \<Rightarrow> 'f + maint_event) \<Rightarrow> 'io read_outcome \<Rightarrow> 'io read_outcome
     \<Rightarrow> string \<Rightarrow> autonomy_settings \<Rightarrow> system_time \<Rightarrow> breaker_action \<Rightarrow> 'io pause_io
     \<Rightarrow> string option \<Rightarrow> ('io gate_error + autonomy_block list) \<times> string option" where
  "check_operator_gates_inner ps pe sessions_file maintain_file operator settings now action io pause =
     (let blocks = check_pause_file operator pause
      in case read_operator_projection_v1 ps pe sessions_file maintain_file of
           Inl e \<Rightarrow> (Inl (ReadingLedgers e), pause)
         | Inr history \<Rightarrow>
             (let h = hr_projection history;
                  blocks1 = blocks @ check_open_pr_limit settings h @ check_session_interval settings (hp_sessions h) now
              in case check_zero_accepted_breaker operator settings (hp_sessions h) now action io pause of
                   (Inl e, pause') \<Rightarrow> (Inl e, pause')
                 | (Inr bs, pause') \<Rightarrow> (Inr (blocks1 @ bs), pause')))"

text \<open>The read-only check and the one that enforces the breaker.\<close>

definition check_operator_gates ::
  "(string \<Rightarrow> 'e + session_record) \<Rightarrow> (string \<Rightarrow> 'f + maint_event) \<Rightarrow> 'io read_outcome \<Rightarrow> 'io read_outcome
     \<Rightarrow> string \<Rightarrow> autonomy_settings \<Rightarrow> system_time \<Rightarrow> 'io pause_io
     \<Rightarrow> string option \<Rightarrow> ('io gate_error + autonomy_block list) \<times> string option" where
  "check_operator_gates ps pe sf mf operator settings now io pause =
     check_operator_gates_inner ps pe sf mf operator settings now ReportOnly io pause"

definition enforce_operator_gates ::
  "(string \<Rightarrow> 'e + session_record) \<Rightarrow> (string \<Rightarrow> 'f + maint_event) \<Rightarrow> 'io read_outcome \<Rightarrow> 'io read_outcome
     \<Rightarrow> string \<Rightarrow> autonomy_settings \<Rightarrow> system_time \<Rightarrow> 'io pause_io
     \<Rightarrow> string option \<Rightarrow> ('io gate_error + autonomy_block list) \<times> string option" where
  "enforce_operator_gates ps pe sf mf operator settings now io pause =
     check_operator_gates_inner ps pe sf mf operator settings now WritePause io pause"

section \<open>When a session may start\<close>

lemma fold_max_by:
  fixes f :: "'a \<Rightarrow> 'k::linorder"
  defines "step \<equiv> \<lambda>y acc. if f acc \<le> f y then y else acc"
  shows "fold step xs x \<in> set (x # xs) \<and> (\<forall>y \<in> set (x # xs). f y \<le> f (fold step xs x))"
proof (induction xs arbitrary: x)
  case (Cons a xs)
  from Cons[of "step a x"] show ?case
    by (auto simp: step_def split: if_splits intro: order.trans)
qed (simp add: step_def)

lemma max_by_key_None [simp]: "max_by_key f xs = None \<longleftrightarrow> xs = []"
  by (cases xs) auto

lemma max_by_key_Some:
  assumes "max_by_key f xs = Some x"
  shows "x \<in> set xs" "\<forall>y \<in> set xs. f y \<le> f x"
  using assms fold_max_by[where f = f] by (cases xs; fastforce)+

lemma in_map_filter: "y \<in> set (List.map_filter f xs) \<longleftrightarrow> (\<exists>x \<in> set xs. f x = Some y)"
  by (induction xs) (auto simp: List.map_filter_simps split: option.splits)

lemma latest_session_time_spec:
  "case latest_session_time sessions of
     None \<Rightarrow> \<forall>s \<in> set sessions. session_time s = None
   | Some (sid, ts) \<Rightarrow> (\<exists>s \<in> set sessions. sr_id s = sid \<and> session_time s = Some ts)
       \<and> (\<forall>s \<in> set sessions. \<forall>t. session_time s = Some t \<longrightarrow> t \<le> ts)"
proof (cases "latest_session_time sessions")
  case None
  then show ?thesis
    by (auto simp: latest_session_time_def List.map_filter_def filter_empty_conv)
next
  case (Some r)
  obtain sid ts where r: "r = (sid, ts)" by force
  note latest = max_by_key_Some[OF Some[unfolded latest_session_time_def]]
  have "\<exists>s \<in> set sessions. sr_id s = sid \<and> session_time s = Some ts"
    using latest(1) by (auto simp: in_map_filter r)
  moreover have "t \<le> ts" if "s \<in> set sessions" "session_time s = Some t" for s t
    using latest(2) that by (force simp: in_map_filter r)
  ultimately show ?thesis by (auto simp: Some r)
qed

definition interval_elapsed :: "autonomy_settings \<Rightarrow> session_record list \<Rightarrow> system_time \<Rightarrow> bool" where
  "interval_elapsed settings sessions now \<longleftrightarrow>
     list_all (\<lambda>s. case session_time s of None \<Rightarrow> True
       | Some ts \<Rightarrow> au_min_session_interval_hours settings = 0
           \<or> ts + int (min (au_min_session_interval_hours settings * 3600) u64_max) * nanos \<le> now) sessions"

lemma check_session_interval_Nil:
  "check_session_interval settings sessions now = [] \<longleftrightarrow> interval_elapsed settings sessions now"
proof (cases "au_min_session_interval_hours settings = 0 \<or> latest_session_time sessions = None")
  case True
  then show ?thesis
    using latest_session_time_spec[of sessions]
    by (auto simp: check_session_interval_def interval_elapsed_def list_all_iff split: option.splits)
next
  case False
  then obtain sid ts where ts: "latest_session_time sessions = Some (sid, ts)" by auto
  let ?gap = "int (min (au_min_session_interval_hours settings * 3600) u64_max) * nanos"
  have gap: "0 < ?gap" using False by (auto simp: nanos_def min_def u64_max_def)
  have sat: "int (saturating_mul_u64 (au_min_session_interval_hours settings) 3600) * nanos = ?gap"
    by (simp add: saturating_mul_u64_def)
  have "interval_elapsed settings sessions now \<longleftrightarrow> ts + ?gap \<le> now"
    using latest_session_time_spec[of sessions] False
    by (fastforce simp: ts interval_elapsed_def list_all_iff split: option.splits)
  moreover have "check_session_interval settings sessions now = [] \<longleftrightarrow> ts + ?gap \<le> now"
    using False gap by (auto simp: check_session_interval_def ts sat Let_def)
  ultimately show ?thesis by simp
qed

lemma check_pause_file_Nil [simp]: "check_pause_file operator pause = [] \<longleftrightarrow> pause = None"
  by (simp add: check_pause_file_def split: option.split)

lemma check_open_pr_limit_Nil [simp]:
  "check_open_pr_limit settings h = [] \<longleftrightarrow> card (open_pr_urls h) < au_max_open_agent_prs settings"
  by (auto simp: check_open_pr_limit_def Let_def)

text \<open>The four outcomes of the breaker.\<close>

lemma breaker_cases:
  obtains (quiet) "\<not> breaker_trips (au_zero_accepted_circuit_breaker settings) sessions"
      "check_zero_accepted_breaker operator settings sessions now action io pause = (Inr [], pause)"
  | (blocked) b where "breaker_trips (au_zero_accepted_circuit_breaker settings) sessions"
      "pause \<noteq> None \<or> action = ReportOnly"
      "check_zero_accepted_breaker operator settings sessions now action io pause = (Inr [b], pause)"
  | (wrote) b where "breaker_trips (au_zero_accepted_circuit_breaker settings) sessions" "pause = None" "action = WritePause"
      "check_zero_accepted_breaker operator settings sessions now action io pause
         = (Inr [b], Some (pause_body now (au_zero_accepted_circuit_breaker settings)
              (take (au_zero_accepted_circuit_breaker settings) (completed_newest_first sessions))))"
  | (failed) e pause' where "breaker_trips (au_zero_accepted_circuit_breaker settings) sessions" "pause = None" "action = WritePause"
      "check_zero_accepted_breaker operator settings sessions now action io pause = (Inl e, pause')"
proof (cases "breaker_trips (au_zero_accepted_circuit_breaker settings) sessions")
  case False
  then show thesis using quiet by (simp add: check_zero_accepted_breaker_def)
next
  case trips: True
  show thesis
  proof (cases "pause = None \<and> action = WritePause")
    case False
    then have "\<exists>b. check_zero_accepted_breaker operator settings sessions now action io pause = (Inr [b], pause)"
      using trips by (cases pause; cases action) (simp_all add: check_zero_accepted_breaker_def Let_def)
    then show thesis using blocked[OF trips] False by (cases action) auto
  next
    case True
    then have "\<exists>r. check_zero_accepted_breaker operator settings sessions now action io pause = r
        \<and> ((\<exists>e. fst r = Inl e) \<or> (\<exists>b. r = (Inr [b], Some (pause_body now (au_zero_accepted_circuit_breaker settings)
              (take (au_zero_accepted_circuit_breaker settings) (completed_newest_first sessions))))))"
      using trips by (cases "pi_create_dir io"; cases "pi_open io"; cases "pi_write io")
        (simp_all add: check_zero_accepted_breaker_def Let_def split: prod.split)
    then show thesis using wrote[OF trips] failed[OF trips] True by (metis prod.collapse)
  qed
qed

lemma breaker_clear:
  "fst (check_zero_accepted_breaker operator settings sessions now action io pause) = Inr []
     \<longleftrightarrow> \<not> breaker_trips (au_zero_accepted_circuit_breaker settings) sessions"
  by (rule breaker_cases[where settings = settings and sessions = sessions and operator = operator and now = now
        and action = action and io = io and pause = pause]) auto

lemma gates_inner_clear:
  assumes "read_operator_projection_v1 ps pe sf mf = Inr report"
  shows "fst (check_operator_gates_inner ps pe sf mf operator settings now action io pause) = Inr [] \<longleftrightarrow>
     pause = None \<and> card (open_pr_urls (hr_projection report)) < au_max_open_agent_prs settings
     \<and> interval_elapsed settings (hp_sessions (hr_projection report)) now
     \<and> \<not> breaker_trips (au_zero_accepted_circuit_breaker settings) (hp_sessions (hr_projection report))"
  using assms breaker_clear[of operator settings "hp_sessions (hr_projection report)" now action io pause]
  by (auto simp: check_operator_gates_inner_def check_session_interval_Nil Let_def split: sum.splits prod.splits)

lemma gates_inner_pause:
  assumes "check_operator_gates_inner ps pe sf mf operator settings now action io pause = (res, pause')"
    and "action = ReportOnly \<or> pause \<noteq> None"
  shows "pause' = pause"
proof (cases "read_operator_projection_v1 ps pe sf mf")
  case (Inr report)
  with assms show ?thesis
    by (rule_tac breaker_cases[where settings = settings and sessions = "hp_sessions (hr_projection report)"
          and operator = operator and now = now and action = action and io = io and pause = pause])
      (auto simp: check_operator_gates_inner_def Let_def)
qed (use assms in \<open>simp add: check_operator_gates_inner_def\<close>)

lemma open_pr_urls_iff:
  "url \<in> open_pr_urls h \<longleftrightarrow>
     (\<exists>s \<in> set (hp_sessions h). \<exists>t \<in> set (sr_targets s). tr_pr_url t = Some url)
     \<and> (\<forall>st. latest_artifact_state h url = Some st \<longrightarrow> as_kind st \<noteq> PrMerged \<and> as_kind st \<noteq> PrClosedUnmerged)"
  by (auto simp: open_pr_urls_def Let_def in_map_filter split: option.splits)

text \<open>C14: the gates clear a session start, in the read-only and in the enforcing form, exactly when no
  pause file exists, fewer archived PR URLs than the limit are still open (their latest recorded event
  is neither a merge nor a close), every archived session with a readable time ended at least the
  minimum interval ago, and the circuit breaker does not trip: it is disabled, or too few sessions
  completed, or one of the latest completed sessions had an accepted target.\<close>

theorem session_start_cleared_iff:
  fixes settings :: autonomy_settings and pause :: "string option" and now :: system_time
  assumes "read_operator_projection_v1 ps pe sf mf = Inr report"
  defines "h \<equiv> hr_projection report" and "n \<equiv> au_zero_accepted_circuit_breaker settings"
  defines "cleared \<equiv> pause = None
    \<and> card {url. (\<exists>s \<in> set (hp_sessions h). \<exists>t \<in> set (sr_targets s). tr_pr_url t = Some url)
        \<and> (\<forall>st. latest_artifact_state h url = Some st \<longrightarrow> as_kind st \<noteq> PrMerged \<and> as_kind st \<noteq> PrClosedUnmerged)}
        < au_max_open_agent_prs settings
    \<and> interval_elapsed settings (hp_sessions h) now
    \<and> (n = 0 \<or> length (filter (\<lambda>s. sr_status s \<noteq> SessionAborted) (hp_sessions h)) < n
       \<or> (\<exists>s \<in> set (take n (completed_newest_first (hp_sessions h))). \<exists>t \<in> set (sr_targets s). tr_status t = Accepted))"
  shows "(fst (check_operator_gates ps pe sf mf operator settings now io pause) = Inr [] \<longleftrightarrow> cleared)
    \<and> (fst (enforce_operator_gates ps pe sf mf operator settings now io pause) = Inr [] \<longleftrightarrow> cleared)
    \<and> snd (check_operator_gates ps pe sf mf operator settings now io pause) = pause"
proof -
  have set_eq: "{url. (\<exists>s \<in> set (hp_sessions h). \<exists>t \<in> set (sr_targets s). tr_pr_url t = Some url)
        \<and> (\<forall>st. latest_artifact_state h url = Some st \<longrightarrow> as_kind st \<noteq> PrMerged \<and> as_kind st \<noteq> PrClosedUnmerged)}
      = open_pr_urls h" by (rule set_eqI) (simp add: open_pr_urls_iff)
  have trips: "breaker_trips n (hp_sessions h) \<longleftrightarrow> \<not> (n = 0
      \<or> length (filter (\<lambda>s. sr_status s \<noteq> SessionAborted) (hp_sessions h)) < n
      \<or> (\<exists>s \<in> set (take n (completed_newest_first (hp_sessions h))). \<exists>t \<in> set (sr_targets s). tr_status t = Accepted))"
    by (auto simp: breaker_trips_def completed_newest_first_def session_has_accepted_target_def list_ex_iff)
  have "fst (check_operator_gates_inner ps pe sf mf operator settings now action io pause) = Inr [] \<longleftrightarrow> cleared" for action
    unfolding gates_inner_clear[OF assms(1)] cleared_def set_eq using trips by (auto simp: h_def n_def)
  moreover have "snd (check_operator_gates_inner ps pe sf mf operator settings now ReportOnly io pause) = pause"
    using gates_inner_pause prod.collapse by metis
  ultimately show ?thesis by (simp add: check_operator_gates_def enforce_operator_gates_def)
qed

definition idle_io :: "unit pause_io" where
  "idle_io = \<lparr>pi_create_dir = None, pi_open = None, pi_write = None\<rparr>"

definition no_sessions :: "string \<Rightarrow> unit + session_record" where
  "no_sessions _ = Inl ()"

definition no_maintenance :: "string \<Rightarrow> unit + maint_event" where
  "no_maintenance _ = Inl ()"

theorem session_start_cleared_iff_witness:
  "fst (enforce_operator_gates no_sessions no_maintenance NotFound NotFound ''/op'' autonomy_settings_default 0 idle_io None)
     = Inr []"
proof -
  have read: "read_operator_projection_v1 no_sessions no_maintenance (NotFound :: unit read_outcome) NotFound
     = Inr \<lparr>hr_projection = from_ledgers_v1 [] [], hr_skipped_sessions = [], hr_skipped_maintain = []\<rparr>"
    by (simp add: read_operator_projection_v1_def ledger_read_all_def maint_read_all_def)
  have "hp_sessions (from_ledgers_v1 [] []) = []" by (simp add: from_ledgers_v1_def Let_def)
  then show ?thesis
    using session_start_cleared_iff[OF read, where operator = "''/op''" and settings = autonomy_settings_default
        and now = 0 and io = idle_io and pause = None]
    by (simp add: interval_elapsed_def autonomy_settings_default_def)
qed

section \<open>The breaker latches\<close>

text \<open>
  A history of session starts: each attempt sees the ledgers, the settings, the time and the disk of
  its moment, and the pause file the attempts before it left. The result says which were cleared.
\<close>

record 'io start_attempt =
  sa_sessions_file :: "'io read_outcome"
  sa_maintain_file :: "'io read_outcome"
  sa_settings :: autonomy_settings
  sa_now :: system_time
  sa_io :: "'io pause_io"

definition start_attempt_step ::
  "(string \<Rightarrow> 'e + session_record) \<Rightarrow> (string \<Rightarrow> 'f + maint_event) \<Rightarrow> string \<Rightarrow> 'io start_attempt \<Rightarrow> string option
     \<Rightarrow> ('io gate_error + autonomy_block list) \<times> string option" where
  "start_attempt_step ps pe operator a pause =
     enforce_operator_gates ps pe (sa_sessions_file a) (sa_maintain_file a) operator (sa_settings a) (sa_now a) (sa_io a) pause"

fun start_attempts ::
  "(string \<Rightarrow> 'e + session_record) \<Rightarrow> (string \<Rightarrow> 'f + maint_event) \<Rightarrow> string \<Rightarrow> 'io start_attempt list \<Rightarrow> string option
     \<Rightarrow> bool list \<times> string option" where
  "start_attempts ps pe operator [] pause = ([], pause)"
| "start_attempts ps pe operator (a # as) pause =
     (let (res, pause') = start_attempt_step ps pe operator a pause;
          (cleared, final) = start_attempts ps pe operator as pause'
      in ((res = Inr []) # cleared, final))"

lemma paused_step:
  assumes "start_attempt_step ps pe operator a (Some body) = (res, pause')"
  shows "res \<noteq> Inr []" "pause' = Some body"
proof -
  note inner = assms[unfolded start_attempt_step_def enforce_operator_gates_def]
  show "pause' = Some body" using gates_inner_pause[OF inner] by simp
  show "res \<noteq> Inr []"
  proof (cases "read_operator_projection_v1 ps pe (sa_sessions_file a) (sa_maintain_file a)")
    case (Inr report)
    from gates_inner_clear[OF this, of operator "sa_settings a" "sa_now a" WritePause "sa_io a" "Some body"]
    show ?thesis by (simp add: inner)
  qed (use inner in \<open>auto simp: check_operator_gates_inner_def\<close>)
qed

lemma paused_attempts: "start_attempts ps pe operator as (Some body) = (replicate (length as) False, Some body)"
  by (induction as) (auto simp: Let_def dest: paused_step split: prod.split)

text \<open>C7: the circuit breaker latches. An attempt at which it trips and whose write of the pause file
  succeeds is refused and leaves a pause file, the one found or a new one that names the sessions of
  the window; after it every further attempt is refused, whatever the ledgers, the settings, the clock
  and the disk are by then, and the file is kept as it is.\<close>

theorem circuit_breaker_latches:
  assumes "read_operator_projection_v1 ps pe (sa_sessions_file a) (sa_maintain_file a) = Inr report"
    and "breaker_trips n (hp_sessions (hr_projection report))" "n = au_zero_accepted_circuit_breaker (sa_settings a)"
    and "start_attempt_step ps pe operator a pause = (Inr blocks, pause')"
  shows "blocks \<noteq> [] \<and> (\<exists>body. pause' = Some body
      \<and> (pause = None \<longrightarrow> body = pause_body (sa_now a) n (take n (completed_newest_first (hp_sessions (hr_projection report)))))
      \<and> (pause \<noteq> None \<longrightarrow> pause = Some body)
      \<and> start_attempts ps pe operator later (Some body) = (replicate (length later) False, Some body))"
proof -
  note inner = assms(4)[unfolded start_attempt_step_def enforce_operator_gates_def]
  have "blocks \<noteq> []"
    using gates_inner_clear[OF assms(1), of operator "sa_settings a" "sa_now a" WritePause "sa_io a" pause]
      assms(2,3) inner by auto
  moreover have "pause = None \<Longrightarrow>
      pause' = Some (pause_body (sa_now a) n (take n (completed_newest_first (hp_sessions (hr_projection report)))))"
    using inner assms(1-3)
    by (rule_tac breaker_cases[where settings = "sa_settings a" and sessions = "hp_sessions (hr_projection report)"
          and operator = operator and now = "sa_now a" and action = WritePause and io = "sa_io a" and pause = pause])
      (auto simp: check_operator_gates_inner_def Let_def)
  moreover have "pause \<noteq> None \<Longrightarrow> pause' = pause" using gates_inner_pause[OF inner] by simp
  ultimately show ?thesis using paused_attempts[of ps pe operator later]
    by (cases pause) auto
qed

definition barren_session :: session_record where
  "barren_session =
     \<lparr>sr_kind = SessionCompleted, sr_id = ''s1'', sr_artifact_branch = ''b'', sr_artifact_sha = ''a'', sr_artifact_url = None,
      sr_started_at = ''2026-01-01'', sr_finished_at = ''2026-01-01'', sr_status = Succeeded, sr_failure_phase = None,
      sr_failure_reason = None, sr_sbagent_version = ''v'', sr_sbagent_git_sha = None,
      sr_range = \<lparr>rg_start_at = None, rg_count = None, rg_warmup = None, rg_filter = None, rg_network = ''mainnet''\<rparr>,
      sr_baseline_run_ids = [], sr_phase_durations_secs = [], sr_targets = [],
      sr_source_url = None, sr_source_branch = None, sr_source_sha = None, sr_source_fetched_at = None\<rparr>"

definition barren_attempt :: "unit start_attempt" where
  "barren_attempt = \<lparr>sa_sessions_file = Content ''x'', sa_maintain_file = NotFound,
     sa_settings = autonomy_settings_default\<lparr>au_zero_accepted_circuit_breaker := 1\<rparr>, sa_now = 0, sa_io = idle_io\<rparr>"

lemma idle_step:
  assumes "read_operator_projection_v1 ps pe (sa_sessions_file a) (sa_maintain_file a) = Inr report"
    and "pi_create_dir (sa_io a) = None" "pi_open (sa_io a) = None" "pi_write (sa_io a) = None"
  shows "\<exists>blocks pause'. start_attempt_step ps pe operator a pause = (Inr blocks, pause')"
proof -
  have "\<exists>bs pause'. check_zero_accepted_breaker operator (sa_settings a) (hp_sessions (hr_projection report))
      (sa_now a) WritePause (sa_io a) pause = (Inr bs, pause')"
    using assms(2-4) by (cases pause) (simp_all add: check_zero_accepted_breaker_def Let_def)
  then show ?thesis
    using assms(1)
    by (auto simp: start_attempt_step_def enforce_operator_gates_def check_operator_gates_inner_def Let_def)
qed

theorem circuit_breaker_latches_witness:
  "\<exists>blocks body. start_attempt_step (\<lambda>_. Inr barren_session :: unit + session_record) no_maintenance ''/op'' barren_attempt None
      = (Inr blocks, Some body)
    \<and> start_attempts (\<lambda>_. Inr barren_session :: unit + session_record) no_maintenance ''/op'' [barren_attempt, barren_attempt] (Some body)
      = ([False, False], Some body)"
proof -
  let ?ps = "\<lambda>_. Inr barren_session :: unit + session_record"
  let ?report = "\<lparr>hr_projection = from_ledgers_v1 [barren_session] [], hr_skipped_sessions = [], hr_skipped_maintain = []\<rparr>"
  have read: "read_operator_projection_v1 ?ps no_maintenance (sa_sessions_file barren_attempt) (sa_maintain_file barren_attempt) = Inr ?report"
    by (simp add: read_operator_projection_v1_def ledger_read_all_def maint_read_all_def barren_attempt_def
        rust_lines_def ledger_report_default_def ascii_ws_def)
  have "hp_sessions (from_ledgers_v1 [barren_session] []) = [barren_session]" by (simp add: from_ledgers_v1_def Let_def)
  moreover have "sr_status barren_session = Succeeded" "sr_targets barren_session = []" by (simp_all add: barren_session_def)
  ultimately have trips: "breaker_trips 1 (hp_sessions (hr_projection ?report))"
    by (simp add: breaker_trips_def completed_newest_first_def session_has_accepted_target_def)
  have one: "1 = au_zero_accepted_circuit_breaker (sa_settings barren_attempt)" by (simp add: barren_attempt_def)
  obtain blocks pause' where step: "start_attempt_step ?ps no_maintenance ''/op'' barren_attempt None = (Inr blocks, pause')"
    using idle_step[OF read, of "''/op''" None] by (fastforce simp: barren_attempt_def idle_io_def)
  from circuit_breaker_latches[OF read trips one step, where later = "[barren_attempt, barren_attempt]"] step
  show ?thesis by (auto simp: numeral_2_eq_2)
qed

end
