(* ===== verification/Settings.thy ===== *)
theory Settings
  imports Maintain Autonomy Phase_Models Source_Config
begin

text \<open>
  The configuration of \<open>settings.rs\<close>: the sections, the effective values with their defaults, the
  resolution of the configuration file and of the bundle directories, and the load-time validation.
  TOML parsing is a parameter. The theorem ties the analyzer's invocation cap to the schema's.
\<close>

section \<open>Sections\<close>

record layout_settings =
  la_sessions_root :: "string option"
  la_operator_repo_root :: "string option"
  la_lock_dir :: "string option"
  la_agent_workspace_root :: "string option"
  la_prompt_overrides_dir :: "string option"
  la_schemas_dir :: "string option"
  la_queries_dir :: "string option"
  la_context_overrides_dir :: "string option"
  la_memory_dir :: "string option"

record stacks_bench_settings =
  sb_data_dir :: "string option"
  sb_source_dir :: "string option"
  sb_network :: "string option"
  sb_shadow_dir :: "string option"
  sb_start_at :: "nat option"
  sb_count :: "nat option"
  sb_warmup :: "nat option"
  sb_filter :: "string option"

record triage_settings =
  tg_candidate_soft_cap :: "nat option"
  tg_axis_weights :: "string option"
  tg_single_run_noise_floor_pct :: "f64 option"

record analyzer_settings =
  an_concurrency_cap :: "nat option"
  an_max_invocations_per_target :: "nat option"

record optimizer_settings =
  op_attempts :: "nat option"
  op_budget_minutes :: "nat option"

record results_analysis_settings =
  rs_confidence_floor :: "confidence option"

record codex_settings =
  cx_model :: "string option"
  cx_reasoning_effort :: "string option"
  cx_merge_reasoning_effort :: "string option"
  cx_dangerously_bypass_sandbox :: "bool option"
  cx_exec_timeout_sec :: "nat option"
  cx_extra_writable_roots :: "string list"

record publish_settings =
  pu_token_file :: "string option"
  pu_remote :: "string option"
  pu_base_repo :: "string option"
  pu_base_branch :: "string option"
  pu_draft_prs :: "bool option"
  pu_pr_labels :: "string list option"
  pu_branch_prefix :: "string option"
  pu_head_owner :: "string option"

record git_settings =
  gi_author_name :: "string option"
  gi_author_email :: "string option"
  gi_auth_username :: "string option"
  gi_auth_url_prefix :: "string option"

record settings =
  se_framework_root :: "string option"
  se_layout :: layout_settings
  se_stacks_bench :: stacks_bench_settings
  se_triage :: triage_settings
  se_analyzer :: analyzer_settings
  se_optimizer :: optimizer_settings
  se_results_analysis :: results_analysis_settings
  se_codex :: codex_settings
  se_publish :: publish_settings
  se_min_free_gib :: "nat option"
  se_maintain :: maintain_settings
  se_autonomy :: autonomy_settings
  se_source :: source_settings
  se_git :: git_settings

definition maintain_settings_default :: maintain_settings where
  "maintain_settings_default = \<lparr>ms_stale_after_days = 14, ms_secondary_rate_limit_floor_pct = 10\<rparr>"

definition settings_default :: settings where
  "settings_default =
     \<lparr>se_framework_root = None,
      se_layout = \<lparr>la_sessions_root = None, la_operator_repo_root = None, la_lock_dir = None,
        la_agent_workspace_root = None, la_prompt_overrides_dir = None, la_schemas_dir = None,
        la_queries_dir = None, la_context_overrides_dir = None, la_memory_dir = None\<rparr>,
      se_stacks_bench = \<lparr>sb_data_dir = None, sb_source_dir = None, sb_network = None, sb_shadow_dir = None,
        sb_start_at = None, sb_count = None, sb_warmup = None, sb_filter = None\<rparr>,
      se_triage = \<lparr>tg_candidate_soft_cap = None, tg_axis_weights = None, tg_single_run_noise_floor_pct = None\<rparr>,
      se_analyzer = \<lparr>an_concurrency_cap = None, an_max_invocations_per_target = None\<rparr>,
      se_optimizer = \<lparr>op_attempts = None, op_budget_minutes = None\<rparr>,
      se_results_analysis = \<lparr>rs_confidence_floor = None\<rparr>,
      se_codex = \<lparr>cx_model = None, cx_reasoning_effort = None, cx_merge_reasoning_effort = None,
        cx_dangerously_bypass_sandbox = None, cx_exec_timeout_sec = None, cx_extra_writable_roots = []\<rparr>,
      se_publish = \<lparr>pu_token_file = None, pu_remote = None, pu_base_repo = None, pu_base_branch = None,
        pu_draft_prs = None, pu_pr_labels = None, pu_branch_prefix = None, pu_head_owner = None\<rparr>,
      se_min_free_gib = None, se_maintain = maintain_settings_default, se_autonomy = autonomy_settings_default,
      se_source = \<lparr>so_url = None, so_branch = None, so_id = None\<rparr>,
      se_git = \<lparr>gi_author_name = None, gi_author_email = None, gi_auth_username = None, gi_auth_url_prefix = None\<rparr>\<rparr>"

section \<open>Effective values\<close>

definition unwrap_or :: "'a option \<Rightarrow> 'a \<Rightarrow> 'a" where
  "unwrap_or x d = (case x of Some v \<Rightarrow> v | None \<Rightarrow> d)"

definition effective_network :: "stacks_bench_settings \<Rightarrow> string" where
  "effective_network s = unwrap_or (sb_network s) ''mainnet''"

definition effective_axis_weights :: "triage_settings \<Rightarrow> string" where
  "effective_axis_weights s = unwrap_or (tg_axis_weights s) ''0.4,0.4,0.2''"

definition effective_single_run_noise_floor_pct :: "triage_settings \<Rightarrow> f64" where
  "effective_single_run_noise_floor_pct s = unwrap_or (tg_single_run_noise_floor_pct s) (Fin 1)"

definition effective_candidate_soft_cap :: "triage_settings \<Rightarrow> nat" where
  "effective_candidate_soft_cap s = unwrap_or (tg_candidate_soft_cap s) 20"

definition effective_concurrency_cap :: "analyzer_settings \<Rightarrow> nat" where
  "effective_concurrency_cap s = unwrap_or (an_concurrency_cap s) 4"

definition DEFAULT_MAX_INVOCATIONS_PER_TARGET :: nat where
  "DEFAULT_MAX_INVOCATIONS_PER_TARGET = 8"

definition effective_max_invocations_per_target :: "analyzer_settings \<Rightarrow> nat" where
  "effective_max_invocations_per_target s =
     (let configured = unwrap_or (an_max_invocations_per_target s) DEFAULT_MAX_INVOCATIONS_PER_TARGET
      in max 1 (min BENCH_INVOCATION_HARD_MAX configured))"

definition effective_attempts :: "optimizer_settings \<Rightarrow> nat" where
  "effective_attempts s = unwrap_or (op_attempts s) 5"

definition effective_budget_minutes :: "optimizer_settings \<Rightarrow> nat" where
  "effective_budget_minutes s = unwrap_or (op_budget_minutes s) 60"

definition effective_confidence_floor :: "results_analysis_settings \<Rightarrow> confidence" where
  "effective_confidence_floor s = unwrap_or (rs_confidence_floor s) MediumConfidence"

definition effective_model :: "codex_settings \<Rightarrow> string" where
  "effective_model s = unwrap_or (cx_model s) ''gpt-5.5''"

definition effective_merge_reasoning_effort :: "codex_settings \<Rightarrow> string option" where
  "effective_merge_reasoning_effort s =
     (case cx_merge_reasoning_effort s of Some v \<Rightarrow> Some v | None \<Rightarrow> cx_reasoning_effort s)"

definition effective_exec_timeout_sec :: "codex_settings \<Rightarrow> nat" where
  "effective_exec_timeout_sec s = unwrap_or (cx_exec_timeout_sec s) 3600"

text \<open>The timeout in seconds; \<open>None\<close> when the operator disabled it with 0.\<close>

definition effective_exec_timeout :: "codex_settings \<Rightarrow> nat option" where
  "effective_exec_timeout s = (case effective_exec_timeout_sec s of 0 \<Rightarrow> None | n \<Rightarrow> Some n)"

definition effective_author_name :: "git_settings \<Rightarrow> string" where
  "effective_author_name s = unwrap_or (gi_author_name s) ''stacks-bench-bot''"

definition effective_author_email :: "git_settings \<Rightarrow> string" where
  "effective_author_email s = unwrap_or (gi_author_email s) ''stacks-bench-bot@users.noreply.github.com''"

definition effective_auth_username :: "git_settings \<Rightarrow> string" where
  "effective_auth_username s = unwrap_or (gi_auth_username s) ''x-access-token''"

definition normalize_auth_url_prefix :: "string \<Rightarrow> string" where
  "normalize_auth_url_prefix raw = (if raw = [] \<or> ends_with raw ''/'' then raw else raw @ ''/'')"

datatype settings_error =
    AuthPrefixNotHttps string
  | TokenFileUnset
  | SourceDirUnset
  | PromptDirUnset
  | RelativeWritableRoot nat string
  | RelativeOperatorRoot string
  | ZeroInvocations
  | TooManyInvocationsCap nat

definition effective_auth_url_prefix :: "git_settings \<Rightarrow> settings_error + string" where
  "effective_auth_url_prefix s =
     (let prefix_text = (case gi_auth_url_prefix s of Some p \<Rightarrow> normalize_auth_url_prefix p | None \<Rightarrow> ''https://github.com/'')
      in if prefix_text \<noteq> [] \<and> \<not> starts_with prefix_text ''https://''
         then Inl (AuthPrefixNotHttps (unwrap_or (gi_auth_url_prefix s) []))
         else Inr prefix_text)"

definition token_file_required :: "publish_settings \<Rightarrow> settings_error + string" where
  "token_file_required s = (case pu_token_file s of Some p \<Rightarrow> Inr p | None \<Rightarrow> Inl TokenFileUnset)"

definition source_dir_required :: "stacks_bench_settings \<Rightarrow> settings_error + string" where
  "source_dir_required s = (case sb_source_dir s of Some p \<Rightarrow> Inr p | None \<Rightarrow> Inl SourceDirUnset)"

definition require_prompt_overrides_dir :: "settings \<Rightarrow> settings_error + string" where
  "require_prompt_overrides_dir s =
     (case la_prompt_overrides_dir (se_layout s) of Some p \<Rightarrow> Inr p | None \<Rightarrow> Inl PromptDirUnset)"

section \<open>Paths\<close>

text \<open>
  \<open>Path::parent\<close> on path text without \<open>.\<close> components: the text up to the last component, without
  the separators before it; \<open>None\<close> for the root and the empty path.
\<close>

definition path_parent :: "string \<Rightarrow> string option" where
  "path_parent p =
     (let t = trim_end_char (CHR ''/'') p
      in if t = [] then None
         else let dir = rev (dropWhile (\<lambda>c. c \<noteq> CHR ''/'') (rev t));
                  d = trim_end_char (CHR ''/'') dir
              in Some (if d = [] \<and> dir \<noteq> [] then ''/'' else d))"

definition default_bundle_sibling :: "string option \<Rightarrow> settings \<Rightarrow> string \<Rightarrow> string option" where
  "default_bundle_sibling explicit s leaf =
     (case explicit of Some p \<Rightarrow> Some p
      | None \<Rightarrow>
     (case la_prompt_overrides_dir (se_layout s) of None \<Rightarrow> None
      | Some prompts \<Rightarrow>
          (case path_parent prompts of
             Some parent \<Rightarrow> Some (if parent = [] then leaf else path_join parent leaf)
           | None \<Rightarrow> Some leaf)))"

definition default_schemas_dir :: "settings \<Rightarrow> string option" where
  "default_schemas_dir s = default_bundle_sibling (la_schemas_dir (se_layout s)) s ''schemas''"

definition default_queries_dir :: "settings \<Rightarrow> string option" where
  "default_queries_dir s = default_bundle_sibling (la_queries_dir (se_layout s)) s ''queries''"

definition default_context_dir :: "settings \<Rightarrow> string option" where
  "default_context_dir s = default_bundle_sibling (la_context_overrides_dir (se_layout s)) s ''context''"

definition default_memory_dir :: "settings \<Rightarrow> string option" where
  "default_memory_dir s = default_bundle_sibling (la_memory_dir (se_layout s)) s ''memory''"

text \<open>The environment is the two variables and the test for a regular file.\<close>

definition resolve_config_path ::
  "string option \<Rightarrow> string option \<Rightarrow> string option \<Rightarrow> (string \<Rightarrow> bool) \<Rightarrow> string option" where
  "resolve_config_path explicit xdg_config_home home is_file =
     (case explicit of Some p \<Rightarrow> Some p
      | None \<Rightarrow>
          (let try_file = (\<lambda>p k. if is_file p then Some p else k);
               from_home = (case home of None \<Rightarrow> None
                 | Some h \<Rightarrow> try_file (path_join (path_join (path_join h ''.config'') ''sbagent'') ''config.toml'') None)
           in case xdg_config_home of None \<Rightarrow> from_home
              | Some x \<Rightarrow> try_file (path_join (path_join x ''sbagent'') ''config.toml'') from_home))"

section \<open>Validation\<close>

definition is_absolute :: "string \<Rightarrow> bool" where
  "is_absolute p \<longleftrightarrow> starts_with p ''/''"

definition settings_validate :: "settings \<Rightarrow> settings_error check" where
  "settings_validate s = checks [
     for_each (\<lambda>i p. bail_if (\<not> is_absolute p) (RelativeWritableRoot i p)) 0 (cx_extra_writable_roots (se_codex s)),
     (case la_operator_repo_root (se_layout s) of
        Some p \<Rightarrow> bail_if (\<not> is_absolute p) (RelativeOperatorRoot p) | None \<Rightarrow> Ok_unit),
     (case an_max_invocations_per_target (se_analyzer s) of
        Some cap \<Rightarrow> checks [
          bail_if (cap = 0) ZeroInvocations,
          bail_if (BENCH_INVOCATION_HARD_MAX < cap) (TooManyInvocationsCap cap)]
      | None \<Rightarrow> Ok_unit)]"

datatype 'e settings_load_error = BuildingConfig 'e | ParsingConfig string 'e | ValidatingConfig string settings_error

text \<open>\<open>build\<close> reads the file, \<open>deserialize\<close> is serde on what it read.\<close>

definition settings_load ::
  "string option \<Rightarrow> (string option \<Rightarrow> 'e + 'c) \<Rightarrow> ('c \<Rightarrow> 'e + settings) \<Rightarrow> 'e settings_load_error + settings" where
  "settings_load resolved build deserialize =
     (case build resolved of Inl e \<Rightarrow> Inl (BuildingConfig e)
      | Inr cfg \<Rightarrow>
          (case resolved of None \<Rightarrow> Inr settings_default
           | Some p \<Rightarrow>
               (case deserialize cfg of Inl e \<Rightarrow> Inl (ParsingConfig p e)
                | Inr s \<Rightarrow> (case settings_validate s of Inl e \<Rightarrow> Inl (ValidatingConfig p e) | Inr _ \<Rightarrow> Inr s))))"

section \<open>Properties\<close>

lemma settings_validate_ok:
  "settings_validate s = Ok_unit \<longleftrightarrow> (\<forall>p \<in> set (cx_extra_writable_roots (se_codex s)). is_absolute p)
   \<and> (\<forall>p. la_operator_repo_root (se_layout s) = Some p \<longrightarrow> is_absolute p)
   \<and> (\<forall>cap. an_max_invocations_per_target (se_analyzer s) = Some cap \<longrightarrow> 1 \<le> cap \<and> cap \<le> BENCH_INVOCATION_HARD_MAX)"
  by (auto simp: settings_validate_def checks_Inr bail_if_Inr for_each_bail_Inr split: option.splits)



end
