(* ===== verification/Framework_Layout.thy ===== *)
theory Framework_Layout
  imports Settings Session_Layout
begin

text \<open>
  The resolved directories of an installation (\<open>layout.rs\<close>): what \<open>Layout::from_settings\<close> makes of the
  settings, the working directory and the directories that exist, and the accessors the phases use.
  Every path it hands out is absolute, and the operator repository is never guessed from a defaulted
  sessions directory.
\<close>

section \<open>Walking up from the working directory\<close>

lemma length_trim_end_char: "length (trim_end_char c s) \<le> length s"
  using length_dropWhile_le[of "\<lambda>x. x = c" "rev s"] by (simp add: trim_end_char_def)

lemma path_parent_shorter: "path_parent p = Some q \<Longrightarrow> length q < length p"
proof -
  let ?t = "trim_end_char (CHR ''/'') p"
  let ?dir = "rev (dropWhile (\<lambda>c. c \<noteq> CHR ''/'') (rev ?t))"
  assume q: "path_parent p = Some q"
  then have t: "?t \<noteq> []" by (auto simp: path_parent_def Let_def)
  have "rev ?t \<noteq> [] \<and> hd (rev ?t) \<noteq> CHR ''/''"
    using t hd_dropWhile[of "\<lambda>x. x = CHR ''/''" "rev p"] by (simp add: trim_end_char_def)
  then have "length (dropWhile (\<lambda>c. c \<noteq> CHR ''/'') (rev ?t)) \<le> length (tl (rev ?t))"
    by (cases "rev ?t") (simp_all add: length_dropWhile_le)
  moreover have "length (tl (rev ?t)) < length ?t" using t by simp
  ultimately have dir: "length ?dir < length ?t" by simp
  have "q = ''/'' \<and> ?dir \<noteq> [] \<or> q = trim_end_char (CHR ''/'') ?dir"
    using q t by (simp add: path_parent_def Let_def split: if_splits)
  then have "length q \<le> length ?dir"
    using length_trim_end_char[of "CHR ''/''" ?dir] by (cases "?dir") auto
  with dir length_trim_end_char[of "CHR ''/''" p] show ?thesis by linarith
qed

function framework_root_from :: "(string \<Rightarrow> bool) \<Rightarrow> string \<Rightarrow> string option" where
  "framework_root_from is_dir cursor =
     (if is_dir (path_join cursor ''prompts'') \<and> is_dir (path_join cursor ''schemas'') then Some cursor
      else case path_parent cursor of None \<Rightarrow> None | Some parent \<Rightarrow> framework_root_from is_dir parent)"
  by pat_completeness auto
termination by (relation "measure (\<lambda>(_, cursor). length cursor)") (auto dest: path_parent_shorter)

declare framework_root_from.simps [simp del]

text \<open>\<open>std::env::current_dir\<close> is an argument, with its error.\<close>

definition default_framework_root :: "'io + string \<Rightarrow> (string \<Rightarrow> bool) \<Rightarrow> string option" where
  "default_framework_root cwd is_dir = (case cwd of Inl _ \<Rightarrow> None | Inr d \<Rightarrow> framework_root_from is_dir d)"

definition absolutize :: "'io + string \<Rightarrow> string \<Rightarrow> 'io + string" where
  "absolutize cwd p =
     (if is_absolute p then Inr p else case cwd of Inl e \<Rightarrow> Inl e | Inr d \<Rightarrow> Inr (path_join d p))"

definition absolutize_opt :: "'io + string \<Rightarrow> string option \<Rightarrow> 'io + string option" where
  "absolutize_opt cwd p =
     (case p of None \<Rightarrow> Inr None | Some q \<Rightarrow> (case absolutize cwd q of Inl e \<Rightarrow> Inl e | Inr a \<Rightarrow> Inr (Some a)))"

section \<open>The layout\<close>

record layout =
  ly_framework :: "string option"
  ly_schemas_dir :: string
  ly_queries_dir :: string
  ly_context_dir :: string
  ly_memory_dir :: string
  ly_sessions_root :: string
  ly_operator_repo_root :: "string option"
  ly_stacks_bench_data_dir :: string
  ly_bench_lock :: string
  ly_test_lock :: string
  ly_stacks_bench_shadow_dir :: "string option"
  ly_agent_workspace_root :: "string option"

datatype layout_error = WorkspaceRootUnset | OperatorRootUnset | FrameworkUnset

definition require_agent_workspace_root :: "layout \<Rightarrow> layout_error + string" where
  "require_agent_workspace_root l = (case ly_agent_workspace_root l of Some p \<Rightarrow> Inr p | None \<Rightarrow> Inl WorkspaceRootUnset)"

definition require_operator_repo_root :: "layout \<Rightarrow> layout_error + string" where
  "require_operator_repo_root l = (case ly_operator_repo_root l of Some p \<Rightarrow> Inr p | None \<Rightarrow> Inl OperatorRootUnset)"

definition require_framework_dir :: "layout \<Rightarrow> layout_error + string" where
  "require_framework_dir l = (case ly_framework l of Some p \<Rightarrow> Inr p | None \<Rightarrow> Inl FrameworkUnset)"

text \<open>\<open>Path::file_name\<close>, on path text without \<open>.\<close> components as for \<open>path_parent\<close>.\<close>

definition path_file_name :: "string \<Rightarrow> string option" where
  "path_file_name p =
     (let name = rev (takeWhile (\<lambda>c. c \<noteq> CHR ''/'') (rev (trim_end_char (CHR ''/'') p)))
      in if name = [] \<or> name = ''..'' then None else Some name)"

definition or_else :: "'a option \<Rightarrow> 'a option \<Rightarrow> 'a option" where
  "or_else a b = (case a of Some x \<Rightarrow> Some x | None \<Rightarrow> b)"

definition bundle_dir :: "string option \<Rightarrow> string option \<Rightarrow> string \<Rightarrow> string" where
  "bundle_dir derived framework leaf =
     unwrap_or (or_else derived (map_option (\<lambda>fw. path_join fw leaf) framework)) (path_join ''.sbagent'' leaf)"

text \<open>A memory directory derived next to the prompts is lifted out of \<open>.sbagent\<close>.\<close>

definition lift_memory_dir :: "string \<Rightarrow> string" where
  "lift_memory_dir p =
     (case path_parent p of None \<Rightarrow> p
      | Some pp \<Rightarrow>
          if path_file_name pp = Some ''.sbagent''
          then (case path_parent pp of Some gp \<Rightarrow> path_join gp ''memory'' | None \<Rightarrow> ''memory'')
          else p)"

definition resolve_memory_dir :: "settings \<Rightarrow> string option \<Rightarrow> string" where
  "resolve_memory_dir s framework =
     (case la_memory_dir (se_layout s) of Some explicit \<Rightarrow> explicit
      | None \<Rightarrow> unwrap_or (or_else (map_option lift_memory_dir (default_memory_dir s))
          (map_option (\<lambda>fw. path_join fw ''memory'') framework)) ''memory'')"

definition layout_from_settings :: "'io + string \<Rightarrow> (string \<Rightarrow> bool) \<Rightarrow> settings \<Rightarrow> 'io + layout" where
  "layout_from_settings cwd is_dir s =
     and_then (absolutize_opt cwd (or_else (se_framework_root s) (default_framework_root cwd is_dir))) (\<lambda>framework.
     let writable_anchor = unwrap_or framework (case cwd of Inr d \<Rightarrow> d | Inl _ \<Rightarrow> ''.'') in
     and_then (absolutize_opt cwd (la_agent_workspace_root (se_layout s))) (\<lambda>agent_workspace_root.
     and_then (absolutize cwd (unwrap_or (or_else (la_sessions_root (se_layout s))
         (map_option (\<lambda>w. path_join w ''sessions'') agent_workspace_root)) (path_join writable_anchor ''sessions''))) (\<lambda>sessions_root.
     and_then (absolutize_opt cwd (la_operator_repo_root (se_layout s))) (\<lambda>explicit_operator.
     let operator_repo_root = or_else explicit_operator
           (if la_sessions_root (se_layout s) \<noteq> None then path_parent sessions_root else None) in
     and_then (absolutize cwd (unwrap_or (sb_data_dir (se_stacks_bench s))
         (path_join (path_join writable_anchor ''data'') ''stacks-bench''))) (\<lambda>data_dir.
     and_then (absolutize cwd (unwrap_or (la_lock_dir (se_layout s))
         (path_join (path_join writable_anchor ''data'') ''run''))) (\<lambda>lock_dir.
     and_then (absolutize_opt cwd (sb_shadow_dir (se_stacks_bench s))) (\<lambda>shadow_dir.
     and_then (absolutize cwd (bundle_dir (default_schemas_dir s) framework ''schemas'')) (\<lambda>schemas_dir.
     and_then (absolutize cwd (bundle_dir (default_queries_dir s) framework ''queries'')) (\<lambda>queries_dir.
     and_then (absolutize cwd (bundle_dir (default_context_dir s) framework ''context'')) (\<lambda>context_dir.
     and_then (absolutize cwd (resolve_memory_dir s framework)) (\<lambda>memory_dir.
     Inr \<lparr>ly_framework = framework, ly_schemas_dir = schemas_dir, ly_queries_dir = queries_dir,
          ly_context_dir = context_dir, ly_memory_dir = memory_dir, ly_sessions_root = sessions_root,
          ly_operator_repo_root = operator_repo_root, ly_stacks_bench_data_dir = data_dir,
          ly_bench_lock = path_join lock_dir ''benchmark.lock'', ly_test_lock = path_join lock_dir ''test.lock'',
          ly_stacks_bench_shadow_dir = shadow_dir, ly_agent_workspace_root = agent_workspace_root\<rparr>)))))))))))"

definition stacks_bench_db_path :: "layout \<Rightarrow> string" where
  "stacks_bench_db_path l = path_join (path_join (ly_stacks_bench_data_dir l) ''appdata'') ''stacks-bench.db''"

definition session_results_dir :: "layout \<Rightarrow> string \<Rightarrow> string" where
  "session_results_dir l sid = path_join (path_join (ly_sessions_root l) sid) ''results''"

definition session_worktrees_dir :: "layout \<Rightarrow> string \<Rightarrow> string" where
  "session_worktrees_dir l sid = path_join (path_join (ly_sessions_root l) sid) ''worktrees''"

definition session_optimizer_checkouts_dir :: "layout \<Rightarrow> string \<Rightarrow> string" where
  "session_optimizer_checkouts_dir l sid =
     (case ly_agent_workspace_root l of
        Some ws \<Rightarrow> path_join (path_join ws ''optimizers'') sid
      | None \<Rightarrow> session_worktrees_dir l sid)"

section \<open>Absolute paths\<close>

lemma path_join_absolute: "is_absolute base \<Longrightarrow> is_absolute (path_join base p)"
  by (auto simp: path_join_def is_absolute_def starts_with_def prefix_def)

lemma absolutize_absolute: "absolutize cwd p = Inr a \<Longrightarrow> (\<And>d. cwd = Inr d \<Longrightarrow> is_absolute d) \<Longrightarrow> is_absolute a"
  by (auto simp: absolutize_def path_join_absolute split: if_splits sum.splits)

lemma absolutize_opt_absolute:
  "absolutize_opt cwd p = Inr (Some a) \<Longrightarrow> (\<And>d. cwd = Inr d \<Longrightarrow> is_absolute d) \<Longrightarrow> is_absolute a"
  by (auto simp: absolutize_opt_def dest: absolutize_absolute split: option.splits sum.splits)

lemma path_parent_absolute:
  assumes "is_absolute p" "path_parent p = Some q"
  shows "is_absolute q"
proof -
  let ?t = "trim_end_char (CHR ''/'') p"
  let ?dir = "rev (dropWhile (\<lambda>c. c \<noteq> CHR ''/'') (rev ?t))"
  have pre: "prefix (trim_end_char c s) s" for c s
    by (metis trim_end_char_def suffix_dropWhile rev_rev_ident suffix_to_prefix)
  have t: "?t \<noteq> []" using assms(2) by (auto simp: path_parent_def Let_def)
  obtain r where p: "p = CHR ''/'' # r" using assms(1) by (auto simp: is_absolute_def starts_with_def prefix_def)
  have ht: "hd ?t = CHR ''/''" using pre[of "CHR ''/''" p] t p by (metis list.sel(1) prefix_def hd_append2)
  have "CHR ''/'' \<in> set (rev ?t)" using ht t by (metis hd_in_set set_rev)
  then have dn: "dropWhile (\<lambda>c. c \<noteq> CHR ''/'') (rev ?t) \<noteq> []" by (auto simp: dropWhile_eq_Nil_conv)
  have dp: "prefix ?dir ?t" by (metis suffix_dropWhile rev_rev_ident suffix_to_prefix)
  have hd: "hd ?dir = CHR ''/''" using dp dn ht by (metis prefix_def hd_append2 rev_is_Nil_conv)
  show ?thesis
  proof (cases "trim_end_char (CHR ''/'') ?dir = []")
    case True
    then show ?thesis using assms(2) t dn by (auto simp: path_parent_def Let_def is_absolute_def starts_with_def)
  next
    case False
    with pre[of "CHR ''/''" ?dir] hd have "hd (trim_end_char (CHR ''/'') ?dir) = CHR ''/''"
      by (metis prefix_def hd_append2)
    with False show ?thesis using assms(2) t
      by (cases "trim_end_char (CHR ''/'') ?dir") (auto simp: path_parent_def Let_def is_absolute_def starts_with_def)
  qed
qed

lemmas layout_from_settings_simps = layout_from_settings_def and_then_Inr Let_def

definition option_list :: "'a option \<Rightarrow> 'a list" where
  "option_list x = (case x of None \<Rightarrow> [] | Some a \<Rightarrow> [a])"

definition layout_dirs :: "layout \<Rightarrow> string list" where
  "layout_dirs l =
     [ly_schemas_dir l, ly_queries_dir l, ly_context_dir l, ly_memory_dir l, ly_sessions_root l,
      ly_stacks_bench_data_dir l, ly_bench_lock l, ly_test_lock l]
     @ option_list (ly_framework l) @ option_list (ly_operator_repo_root l)
     @ option_list (ly_stacks_bench_shadow_dir l) @ option_list (ly_agent_workspace_root l)"

lemma layout_from_settings_Inr:
  assumes "layout_from_settings cwd is_dir s = Inr l"
  obtains q1 q2 q3 q4 q5 q6 q7 q8 q9 lock explicit where
    "absolutize_opt cwd q1 = Inr (ly_framework l)"
    "absolutize_opt cwd (la_agent_workspace_root (se_layout s)) = Inr (ly_agent_workspace_root l)"
    "absolutize cwd q2 = Inr (ly_sessions_root l)"
    "absolutize_opt cwd (la_operator_repo_root (se_layout s)) = Inr explicit"
    "absolutize cwd q3 = Inr (ly_stacks_bench_data_dir l)" "absolutize cwd q4 = Inr lock"
    "absolutize_opt cwd q5 = Inr (ly_stacks_bench_shadow_dir l)" "absolutize cwd q6 = Inr (ly_schemas_dir l)"
    "absolutize cwd q7 = Inr (ly_queries_dir l)" "absolutize cwd q8 = Inr (ly_context_dir l)"
    "absolutize cwd q9 = Inr (ly_memory_dir l)"
    "ly_bench_lock l = path_join lock ''benchmark.lock''" "ly_test_lock l = path_join lock ''test.lock''"
    "ly_operator_repo_root l = or_else explicit
       (if la_sessions_root (se_layout s) \<noteq> None then path_parent (ly_sessions_root l) else None)"
  using assms unfolding layout_from_settings_simps
  apply (elim exE conjE)
  apply (simp only: sum.inject)
  apply hypsubst
  apply (rule that)
  apply (simp_all only: layout.select_convs)
  done

lemma operator_root_source:
  assumes "layout_from_settings cwd is_dir s = Inr l"
  shows "absolutize_opt cwd (la_operator_repo_root (se_layout s)) = Inr (ly_operator_repo_root l)
    \<or> la_operator_repo_root (se_layout s) = None \<and> la_sessions_root (se_layout s) \<noteq> None
       \<and> ly_operator_repo_root l = path_parent (ly_sessions_root l)"
  using assms
  by (elim layout_from_settings_Inr)
    (simp add: or_else_def absolutize_opt_def split: option.splits sum.splits if_splits)

text \<open>C27: a layout that resolves in an absolute working directory consists of absolute paths only: the
  directories, both lock files and the paths the accessors build for a session. The operator
  repository is the configured one, or the parent of a sessions directory the operator configured;
  when neither is set it stays unknown and \<open>require_operator_repo_root\<close> refuses. The optimizer
  checkouts lie under the agent workspace exactly when one is configured.\<close>

theorem layout_paths_absolute:
  assumes "layout_from_settings cwd is_dir s = Inr l" "\<And>d. cwd = Inr d \<Longrightarrow> is_absolute d"
  shows "list_all is_absolute (layout_dirs l)
    \<and> is_absolute (session_results_dir l sid) \<and> is_absolute (session_optimizer_checkouts_dir l sid)
    \<and> is_absolute (stacks_bench_db_path l)
    \<and> (la_operator_repo_root (se_layout s) = None \<and> la_sessions_root (se_layout s) = None
        \<longrightarrow> require_operator_repo_root l = Inl OperatorRootUnset)
    \<and> (la_agent_workspace_root (se_layout s) = None
        \<longleftrightarrow> session_optimizer_checkouts_dir l sid = session_worktrees_dir l sid \<and> ly_agent_workspace_root l = None)"
proof -
  note abs = absolutize_absolute[OF _ assms(2)] absolutize_opt_absolute[OF _ assms(2)]
  have dirs: "is_absolute (ly_schemas_dir l)" "is_absolute (ly_queries_dir l)" "is_absolute (ly_context_dir l)"
    "is_absolute (ly_memory_dir l)" "is_absolute (ly_sessions_root l)" "is_absolute (ly_stacks_bench_data_dir l)"
    "is_absolute (ly_bench_lock l)" "is_absolute (ly_test_lock l)"
    using assms(1) by (elim layout_from_settings_Inr; simp add: abs(1) path_join_absolute)+
  have opts: "ly_framework l = Some p \<Longrightarrow> is_absolute p" "ly_stacks_bench_shadow_dir l = Some p \<Longrightarrow> is_absolute p"
    "ly_agent_workspace_root l = Some p \<Longrightarrow> is_absolute p" for p
    using assms(1) by (elim layout_from_settings_Inr; simp add: abs(2))+
  have ws: "absolutize_opt cwd (la_agent_workspace_root (se_layout s)) = Inr (ly_agent_workspace_root l)"
    using assms(1) by (elim layout_from_settings_Inr)
  have op: "ly_operator_repo_root l = Some p \<Longrightarrow> is_absolute p" for p
    using operator_root_source[OF assms(1)] abs(2) dirs(5) by (auto intro: path_parent_absolute)
  have "list_all is_absolute (layout_dirs l)"
    using dirs opts op by (auto simp: layout_dirs_def option_list_def split: option.splits)
  moreover have "is_absolute (session_results_dir l sid)" "is_absolute (session_optimizer_checkouts_dir l sid)"
    "is_absolute (stacks_bench_db_path l)"
    using dirs opts(3)
    by (auto simp: session_results_dir_def session_optimizer_checkouts_dir_def session_worktrees_dir_def
        stacks_bench_db_path_def intro!: path_join_absolute split: option.splits)
  moreover have "la_operator_repo_root (se_layout s) = None \<and> la_sessions_root (se_layout s) = None
      \<longrightarrow> require_operator_repo_root l = Inl OperatorRootUnset"
    using operator_root_source[OF assms(1)] by (auto simp: require_operator_repo_root_def absolutize_opt_def)
  moreover have "la_agent_workspace_root (se_layout s) = None
      \<longleftrightarrow> session_optimizer_checkouts_dir l sid = session_worktrees_dir l sid \<and> ly_agent_workspace_root l = None"
    using ws by (cases "la_agent_workspace_root (se_layout s)"; cases "ly_agent_workspace_root l")
      (simp_all add: session_optimizer_checkouts_dir_def absolutize_opt_def split: sum.splits)
  ultimately show ?thesis by blast
qed

lemma absolutize_inner: "absolutize (Inr d) p = Inr (if is_absolute p then p else path_join d p)"
  by (simp add: absolutize_def)

lemma absolutize_opt_inner: "absolutize_opt (Inr d) p = Inr (map_option (\<lambda>q. if is_absolute q then q else path_join d q) p)"
  by (simp add: absolutize_opt_def absolutize_inner split: option.split)

theorem layout_paths_absolute_witness:
  "\<exists>l. layout_from_settings (Inr ''/op'' :: unit + string) (\<lambda>_. False) settings_default = Inr l
     \<and> is_absolute (ly_sessions_root l) \<and> require_operator_repo_root l = Inl OperatorRootUnset"
proof -
  have ok: "\<exists>l. layout_from_settings (Inr ''/op'' :: unit + string) (\<lambda>_. False) settings_default = Inr l"
    by (simp only: layout_from_settings_def absolutize_inner absolutize_opt_inner and_then_simps Let_def) blast
  then obtain l where l: "layout_from_settings (Inr ''/op'' :: unit + string) (\<lambda>_. False) settings_default = Inr l" by blast
  have cwd: "\<And>d. (Inr ''/op'' :: unit + string) = Inr d \<Longrightarrow> is_absolute d"
    by (auto simp: is_absolute_def starts_with_def)
  from layout_paths_absolute[OF l cwd] l show ?thesis
    by (intro exI[of _ l]) (auto simp: layout_dirs_def settings_default_def)
qed

end
