(* ===== verification/Publish_Generate.thy ===== *)
theory Publish_Generate
  imports Loader Framework_Layout
begin

text \<open>
  Phase 5, first half (\<open>session/publish.rs\<close>, \<open>generate\<close>): which targets are written up as a pull
  request or an issue, the prompt and sandbox the writing agent gets, and the checks on what it
  leaves behind. The file system is a state that writes, removals and the agent change; rendering,
  serialisation and the agent are arguments.
\<close>

section \<open>Deciding what to publish\<close>

datatype publish_decision = ShipPr | ShipIssue | Skip string

definition debug_status :: "experiment_status \<Rightarrow> string" where
  "debug_status s =
     (case s of ExpAccepted \<Rightarrow> ''Accepted'' | ExpRejected \<Rightarrow> ''Rejected'' | ExpAborted \<Rightarrow> ''Aborted''
      | PocLanded \<Rightarrow> ''PocLanded'' | RoutedToIssue \<Rightarrow> ''RoutedToIssue'')"

definition debug_confidence :: "confidence \<Rightarrow> string" where
  "debug_confidence c = (case c of HighConfidence \<Rightarrow> ''High'' | MediumConfidence \<Rightarrow> ''Medium'' | LowConfidence \<Rightarrow> ''Low'')"

definition verdict_decision :: "results_analysis \<Rightarrow> confidence \<Rightarrow> publish_decision" where
  "verdict_decision ra confidence_floor =
     (if ra_verdict ra = VRejected
      then Skip (''results-analysis.json verdict=rejected ('' @ trim_ws (ra_headline_rationale ra)
        @ ''); PR-writer would not have a `pr_body_summary` to publish'')
      else if confidence_level (ra_confidence ra) < confidence_level confidence_floor
      then Skip (''results-analysis.json confidence='' @ debug_confidence (ra_confidence ra)
        @ '' below results_analysis.confidence_floor='' @ debug_confidence confidence_floor
        @ ''; hold for operator review'')
      else ShipPr)"

definition decide_publish ::
  "'io files \<Rightarrow> 'p codecs \<Rightarrow> (('io, 'p) load_error \<Rightarrow> string) \<Rightarrow> merged_target \<Rightarrow> session_layout \<Rightarrow> summary option
     \<Rightarrow> confidence \<Rightarrow> publish_decision" where
  "decide_publish fs cd render_err t l summary confidence_floor =
     (case mt_delivery_mode t of
        NormalPr \<Rightarrow>
          (case summary of None \<Rightarrow> Skip ''no-summary-file''
           | Some s \<Rightarrow>
          (case find (\<lambda>e. ex_target_id e = mt_id t) (su_experiments s) of
             None \<Rightarrow> Skip ''bench-status=missing''
           | Some row \<Rightarrow>
               if ex_status row \<noteq> ExpAccepted then Skip (''bench-status='' @ debug_status (ex_status row))
               else case read_results_analysis_for_target fs cd l (mt_id t) of
                 Inr (Some ra) \<Rightarrow> verdict_decision ra confidence_floor
               | Inr None \<Rightarrow> Skip (''results-analysis.json absent / wrong-context '' @ em_dash
                   @ '' Phase 3.5 verdict required for normal_pr publish'')
               | Inl e \<Rightarrow> Skip (''results-analysis.json read failed: '' @ render_err e)))
      | ConsensusPocPr \<Rightarrow>
          (case read_optimizer_report_for_target fs cd l (mt_id t) (mt_delivery_mode t) of
             Inr (Some (Implemented _)) \<Rightarrow> ShipPr
           | Inr _ \<Rightarrow> Skip ''no-implementation''
           | Inl e \<Rightarrow> Skip (''optimizer-report error: '' @ render_err e))
      | ConsensusIssue \<Rightarrow>
          if is_non_empty_file fs (path_join (experiment_dir l (mt_id t)) ''consensus-issue.md'') then ShipIssue
          else Skip ''no-consensus-issue-marker'')"

section \<open>Required sections\<close>

text \<open>Words joined by single blanks, as the heading comparison normalises them.\<close>

definition normalize_heading :: "string \<Rightarrow> string" where
  "normalize_heading s = join_strings '' '' (split_whitespace (to_ascii_lowercase s))"

definition heading_of_line :: "string \<Rightarrow> string option" where
  "heading_of_line line =
     (let l = trim_end line
      in if starts_with l ''## '' then Some (normalize_heading (trim_ws (drop 3 l))) else None)"

definition has_section :: "string \<Rightarrow> string \<Rightarrow> bool" where
  "has_section body section \<longleftrightarrow> list_ex (\<lambda>line. heading_of_line line = Some (normalize_heading section)) (rust_lines body)"

datatype ('io, 'p) publish_error =
    PublishLoad "('io, 'p) load_error"
  | PublishIo 'io
  | PublishSettings settings_error
  | NotImplemented string
  | NoIssueMarker string
  | MissingTitle string
  | MissingBody string
  | UnreadableBody string
  | MissingSections "string list"

definition check_sections :: "'io files \<Rightarrow> string \<Rightarrow> string list \<Rightarrow> ('io, 'p) publish_error check" where
  "check_sections fs path sections =
     (case fs path of
        Content body \<Rightarrow>
          (let missing = filter (\<lambda>s. \<not> has_section body s) sections
           in bail_if (missing \<noteq> []) (MissingSections missing))
      | NotFound \<Rightarrow> Inl (UnreadableBody path)
      | IoFailed e \<Rightarrow> Inl (PublishIo e))"

definition pr_sections :: "delivery_mode \<Rightarrow> string list" where
  "pr_sections mode =
     [''Summary'', ''What changed'', ''Benchmark result'', ''Validation'']
     @ (if mode = ConsensusPocPr then [''Consensus / HIP coordination''] else [])"

definition issue_sections :: "string list" where
  "issue_sections =
     [''Summary'', ''Breakage class'', ''Proposed change'', ''Expected impact'', ''HIP / coordination concerns'',
      ''Why an issue, not a PR'', ''Reference: target id'']"

definition validate_pr_body_sections :: "'io files \<Rightarrow> string \<Rightarrow> delivery_mode \<Rightarrow> ('io, 'p) publish_error check" where
  "validate_pr_body_sections fs path mode = check_sections fs path (pr_sections mode)"

definition validate_issue_body_sections :: "'io files \<Rightarrow> string \<Rightarrow> ('io, 'p) publish_error check" where
  "validate_issue_body_sections fs path = check_sections fs path issue_sections"

section \<open>The writers\<close>

definition PUBLISH_ARTIFACT_FILE_NAMES :: "string list" where
  "PUBLISH_ARTIFACT_FILE_NAMES =
     [''pr-title.txt'', ''pr-body.md'', ''pr-writer-prompt.md'', ''pr-writer-events.jsonl'', ''pr-writer-stderr.log'',
      ''pr-writer-final-message.md'', ''issue-title.txt'', ''issue-body.md'', ''issue-writer-prompt.md'',
      ''issue-writer-events.jsonl'', ''issue-writer-stderr.log'', ''issue-writer-final-message.md'']"

record pr_writer_prompt =
  pw_opt_session_id :: string
  pw_target_id :: string
  pw_output_dir :: string
  pw_worktree_dir :: string
  pw_target_json :: string
  pw_experiment_json :: string
  pw_results_analysis_json :: string
  pw_delivery_mode :: string

record issue_writer_prompt =
  iw_opt_session_id :: string
  iw_target_id :: string
  iw_output_dir :: string
  iw_target_json :: string

record invoke_inputs =
  in_rendered_prompt :: string
  in_cwd :: string
  in_add_dirs :: "string list"
  in_events_jsonl :: string
  in_stderr_log :: string
  in_last_message :: string
  in_timeout :: "nat option"
  in_model :: string
  in_reasoning_effort :: "string option"
  in_skip_git_repo_check :: bool
  in_dangerously_bypass_sandbox :: bool
  in_enable_web_search :: bool
  in_extra_env :: "(string \<times> string) list"

text \<open>
  What the writers call and the sources do not define here: serialisation, template rendering, file
  writes and removals, and the agent. An operation on files returns its outcome and the files after it.
\<close>

record 'io publish_env =
  pe_target_json :: "merged_target \<Rightarrow> 'io + string"
  pe_experiment_json :: "experiment_row \<Rightarrow> 'io + string"
  pe_verdict_json :: "results_analysis \<Rightarrow> 'io + string"
  pe_render_pr :: "pr_writer_prompt \<Rightarrow> string \<Rightarrow> 'io + string"
  pe_render_issue :: "issue_writer_prompt \<Rightarrow> string \<Rightarrow> 'io + string"
  pe_write :: "string \<Rightarrow> string \<Rightarrow> 'io files \<Rightarrow> ('io + unit) \<times> 'io files"
  pe_remove :: "string \<Rightarrow> 'io files \<Rightarrow> 'io files"
  pe_invoke :: "invoke_inputs \<Rightarrow> 'io files \<Rightarrow> ('io + unit) \<times> 'io files"

definition clear_publish_artifacts :: "'io publish_env \<Rightarrow> string \<Rightarrow> 'io files \<Rightarrow> 'io files" where
  "clear_publish_artifacts env exp_dir fs =
     fold (\<lambda>name. pe_remove env (path_join exp_dir name)) PUBLISH_ARTIFACT_FILE_NAMES fs"

definition delivery_mode_str :: "delivery_mode \<Rightarrow> string" where
  "delivery_mode_str m =
     (case m of NormalPr \<Rightarrow> ''normal_pr'' | ConsensusPocPr \<Rightarrow> ''consensus_poc_pr'' | ConsensusIssue \<Rightarrow> ''consensus_issue'')"

definition writer_invocation ::
  "settings \<Rightarrow> string \<Rightarrow> string \<Rightarrow> string \<Rightarrow> string list \<Rightarrow> invoke_inputs" where
  "writer_invocation s exp_dir name rendered add_dirs =
     \<lparr>in_rendered_prompt = rendered, in_cwd = exp_dir,
      in_add_dirs = add_dirs @ cx_extra_writable_roots (se_codex s),
      in_events_jsonl = path_join exp_dir (name @ ''-events.jsonl''),
      in_stderr_log = path_join exp_dir (name @ ''-stderr.log''),
      in_last_message = path_join exp_dir (name @ ''-final-message.md''),
      in_timeout = effective_exec_timeout (se_codex s), in_model = effective_model (se_codex s),
      in_reasoning_effort = cx_reasoning_effort (se_codex s), in_skip_git_repo_check = True,
      in_dangerously_bypass_sandbox = unwrap_or (cx_dangerously_bypass_sandbox (se_codex s)) False,
      in_enable_web_search = False, in_extra_env = []\<rparr>"

text \<open>
  The steps both writers share once the prompt context is known: clear the artifacts, render, store
  the prompt, run the agent. The rendering gets the directory of the prompt overrides.
\<close>

definition clear_render_invoke ::
  "'io publish_env \<Rightarrow> settings \<Rightarrow> string \<Rightarrow> string \<Rightarrow> string list \<Rightarrow> (string \<Rightarrow> 'io + string) \<Rightarrow> 'io files
     \<Rightarrow> (('io, 'p) publish_error + unit) \<times> 'io files" where
  "clear_render_invoke env s exp_dir name add_dirs render fs =
     (let fs1 = clear_publish_artifacts env exp_dir fs
      in case and_then (with_context PublishSettings (require_prompt_overrides_dir s))
                (\<lambda>dir. with_context PublishIo (render dir)) of
           Inl e \<Rightarrow> (Inl e, fs1)
         | Inr rendered \<Rightarrow>
             (case pe_write env (path_join exp_dir (name @ ''-prompt.md'')) rendered fs1 of
                (Inl e, fs2) \<Rightarrow> (Inl (PublishIo e), fs2)
              | (Inr _, fs2) \<Rightarrow>
                  (case pe_invoke env (writer_invocation s exp_dir name rendered add_dirs) fs2 of
                     (Inl e, fs3) \<Rightarrow> (Inl (PublishIo e), fs3)
                   | (Inr _, fs3) \<Rightarrow> (Ok_unit, fs3))))"

definition optional_json :: "('a \<Rightarrow> 'io + string) \<Rightarrow> 'a option \<Rightarrow> ('io, 'p) publish_error + string" where
  "optional_json ser x = (case x of None \<Rightarrow> Inr ''{}'' | Some a \<Rightarrow> with_context PublishIo (ser a))"

definition pr_writer_context ::
  "'io publish_env \<Rightarrow> 'p codecs \<Rightarrow> session_layout \<Rightarrow> string \<Rightarrow> merged_target \<Rightarrow> 'io files
     \<Rightarrow> ('io, 'p) publish_error + pr_writer_prompt" where
  "pr_writer_context env cd l worktree_dir t fs =
     and_then (with_context PublishIo (pe_target_json env t)) (\<lambda>target_json.
     let summary = (case read_summary fs cd l of Inr s \<Rightarrow> Some s | Inl _ \<Rightarrow> None) in
     and_then (optional_json (pe_experiment_json env)
         (Option.bind summary (\<lambda>s. find (\<lambda>e. ex_target_id e = mt_id t) (su_experiments s)))) (\<lambda>experiment_json.
     and_then (with_context PublishLoad (read_results_analysis_for_target fs cd l (mt_id t))) (\<lambda>ra.
     and_then (optional_json (pe_verdict_json env) ra) (\<lambda>results_analysis_json.
     Inr \<lparr>pw_opt_session_id = sl_id l, pw_target_id = mt_id t, pw_output_dir = experiment_dir l (mt_id t),
          pw_worktree_dir = worktree_dir, pw_target_json = target_json, pw_experiment_json = experiment_json,
          pw_results_analysis_json = results_analysis_json,
          pw_delivery_mode = delivery_mode_str (mt_delivery_mode t)\<rparr>))))"

definition check_written ::
  "'io files \<Rightarrow> string \<Rightarrow> string \<Rightarrow> string \<Rightarrow> ('io, 'p) publish_error check \<Rightarrow> ('io, 'p) publish_error check" where
  "check_written fs title_path body_path target_id sections = checks [
     bail_if (\<not> is_non_empty_file fs title_path) (MissingTitle target_id),
     bail_if (\<not> is_non_empty_file fs body_path) (MissingBody target_id),
     sections]"

definition run_pr_writer ::
  "'io publish_env \<Rightarrow> 'p codecs \<Rightarrow> session_layout \<Rightarrow> layout \<Rightarrow> settings \<Rightarrow> merged_target \<Rightarrow> 'io files
     \<Rightarrow> (('io, 'p) publish_error + unit) \<times> 'io files" where
  "run_pr_writer env cd l framework s t fs =
     (let exp_dir = experiment_dir l (mt_id t);
          worktree_dir = path_join (session_optimizer_checkouts_dir framework (sl_id l)) (mt_id t)
      in case read_optimizer_report_for_target fs cd l (mt_id t) (mt_delivery_mode t) of
           Inl e \<Rightarrow> (Inl (PublishLoad e), fs)
         | Inr (Some (Implemented _)) \<Rightarrow>
             (case pr_writer_context env cd l worktree_dir t fs of
                Inl e \<Rightarrow> (Inl e, fs)
              | Inr prompt \<Rightarrow>
                  (case clear_render_invoke env s exp_dir ''pr-writer'' [worktree_dir] (pe_render_pr env prompt) fs of
                     (Inl e, fs') \<Rightarrow> (Inl e, fs')
                   | (Inr _, fs') \<Rightarrow>
                       (check_written fs' (path_join exp_dir ''pr-title.txt'') (path_join exp_dir ''pr-body.md'') (mt_id t)
                          (validate_pr_body_sections fs' (path_join exp_dir ''pr-body.md'') (mt_delivery_mode t)), fs')))
         | _ \<Rightarrow> (Inl (NotImplemented (mt_id t)), fs))"

definition run_issue_writer ::
  "'io publish_env \<Rightarrow> session_layout \<Rightarrow> settings \<Rightarrow> merged_target \<Rightarrow> 'io files
     \<Rightarrow> (('io, 'p) publish_error + unit) \<times> 'io files" where
  "run_issue_writer env l s t fs =
     (let exp_dir = experiment_dir l (mt_id t)
      in if \<not> is_non_empty_file fs (path_join exp_dir ''consensus-issue.md'') then (Inl (NoIssueMarker (mt_id t)), fs)
         else case pe_target_json env t of Inl e \<Rightarrow> (Inl (PublishIo e), fs)
         | Inr target_json \<Rightarrow>
             (case clear_render_invoke env s exp_dir ''issue-writer'' []
                 (pe_render_issue env \<lparr>iw_opt_session_id = sl_id l, iw_target_id = mt_id t,
                    iw_output_dir = exp_dir, iw_target_json = target_json\<rparr>) fs of
                (Inl e, fs') \<Rightarrow> (Inl e, fs')
              | (Inr _, fs') \<Rightarrow>
                  (check_written fs' (path_join exp_dir ''issue-title.txt'') (path_join exp_dir ''issue-body.md'') (mt_id t)
                     (validate_issue_body_sections fs' (path_join exp_dir ''issue-body.md'')), fs')))"

section \<open>The loop over the targets\<close>

record generate_outputs =
  go_pr_count :: nat
  go_issue_count :: nat
  go_skip_count :: nat

definition no_generate_outputs :: generate_outputs where
  "no_generate_outputs = \<lparr>go_pr_count = 0, go_issue_count = 0, go_skip_count = 0\<rparr>"

fun generate_loop ::
  "'io publish_env \<Rightarrow> 'p codecs \<Rightarrow> (('io, 'p) load_error \<Rightarrow> string) \<Rightarrow> session_layout \<Rightarrow> layout \<Rightarrow> settings \<Rightarrow> summary option
     \<Rightarrow> merged_target list \<Rightarrow> generate_outputs \<Rightarrow> 'io files \<Rightarrow> (('io, 'p) publish_error + generate_outputs) \<times> 'io files" where
  "generate_loop env cd render_err l framework s summary [] out fs = (Inr out, fs)"
| "generate_loop env cd render_err l framework s summary (t # ts) out fs =
     (case decide_publish fs cd render_err t l summary (effective_confidence_floor (se_results_analysis s)) of
        ShipPr \<Rightarrow>
          (case run_pr_writer env cd l framework s t fs of
             (Inl e, fs') \<Rightarrow> (Inl e, fs')
           | (Inr _, fs') \<Rightarrow>
               generate_loop env cd render_err l framework s summary ts (out\<lparr>go_pr_count := go_pr_count out + 1\<rparr>) fs')
      | ShipIssue \<Rightarrow>
          (case run_issue_writer env l s t fs of
             (Inl e, fs') \<Rightarrow> (Inl e, fs')
           | (Inr _, fs') \<Rightarrow>
               generate_loop env cd render_err l framework s summary ts (out\<lparr>go_issue_count := go_issue_count out + 1\<rparr>) fs')
      | Skip _ \<Rightarrow>
          generate_loop env cd render_err l framework s summary ts (out\<lparr>go_skip_count := go_skip_count out + 1\<rparr>)
            (clear_publish_artifacts env (experiment_dir l (mt_id t)) fs))"

definition generate ::
  "'io publish_env \<Rightarrow> 'p codecs \<Rightarrow> (('io, 'p) load_error \<Rightarrow> string) \<Rightarrow> session_layout \<Rightarrow> layout \<Rightarrow> settings \<Rightarrow> 'io files
     \<Rightarrow> (('io, 'p) publish_error + generate_outputs) \<times> 'io files" where
  "generate env cd render_err l framework s fs =
     (case read_optimization_targets fs cd l of
        Inl e \<Rightarrow> (Inl (PublishLoad e), fs)
      | Inr targets \<Rightarrow>
          if ot_targets targets = [] then (Inr no_generate_outputs, fs)
          else generate_loop env cd render_err l framework s
                 (case read_summary fs cd l of Inr su \<Rightarrow> Some su | Inl _ \<Rightarrow> None) (ot_targets targets) no_generate_outputs fs)"

section \<open>Properties\<close>

lemma verdict_decision_ship:
  "verdict_decision ra confidence_floor = ShipPr \<longleftrightarrow> ra_verdict ra \<noteq> VRejected \<and> confidence_level confidence_floor \<le> confidence_level (ra_confidence ra)"
  by (auto simp: verdict_decision_def)

lemma verdict_decision_no_issue: "verdict_decision ra confidence_floor \<noteq> ShipIssue"
  by (simp add: verdict_decision_def)

text \<open>C10: a target is written up as a pull request exactly when it is a \<open>normal_pr\<close> target whose summary
  row is accepted and whose verdict, read again from disk, is valid for this session, not a rejection
  and at least as confident as the configured floor, or a proof-of-concept target with an implemented
  report of this session; it is written up as an issue exactly when it is a consensus issue with its
  marker. Everything else is skipped.\<close>

theorem publish_decision_gates:
  "(decide_publish fs cd render_err t l summary confidence_floor = ShipPr \<longleftrightarrow>
      mt_delivery_mode t = NormalPr
        \<and> (\<exists>s row ra. summary = Some s \<and> find (\<lambda>e. ex_target_id e = mt_id t) (su_experiments s) = Some row
             \<and> ex_status row = ExpAccepted \<and> read_results_analysis_for_target fs cd l (mt_id t) = Inr (Some ra)
             \<and> ra_verdict ra \<noteq> VRejected \<and> confidence_level confidence_floor \<le> confidence_level (ra_confidence ra))
    \<or> mt_delivery_mode t = ConsensusPocPr
        \<and> (\<exists>r. read_optimizer_report_for_target fs cd l (mt_id t) ConsensusPocPr = Inr (Some (Implemented r))))
  \<and> (decide_publish fs cd render_err t l summary confidence_floor = ShipIssue \<longleftrightarrow>
      mt_delivery_mode t = ConsensusIssue
        \<and> is_non_empty_file fs (path_join (experiment_dir l (mt_id t)) ''consensus-issue.md''))"
proof (cases "mt_delivery_mode t")
  case NormalPr
  then show ?thesis
    by (auto simp: decide_publish_def verdict_decision_ship verdict_decision_no_issue split: option.split sum.split)
next
  case ConsensusPocPr
  then show ?thesis
    by (auto simp: decide_publish_def split: option.split sum.split optimizer_report.split)
next
  case ConsensusIssue
  then show ?thesis by (simp add: decide_publish_def)
qed

lemma generate_loop_counts:
  assumes "generate_loop env cd render_err l framework s summary ts out fs = (Inr out', fs')"
  shows "go_pr_count out' + go_issue_count out' + go_skip_count out'
    = go_pr_count out + go_issue_count out + go_skip_count out + length ts"
  using assms
proof (induction ts arbitrary: out fs)
  case (Cons t ts)
  show ?case
    using Cons.prems
    by (auto split: publish_decision.splits prod.splits sum.splits dest!: Cons.IH)
qed simp

lemma generate_counts:
  assumes "generate env cd render_err l framework s fs = (Inr out, fs')" "read_optimization_targets fs cd l = Inr targets"
  shows "go_pr_count out + go_issue_count out + go_skip_count out = length (ot_targets targets)"
  using assms
  by (auto simp: generate_def no_generate_outputs_def split: if_splits dest!: generate_loop_counts)

lemma is_non_empty_fileD: "is_non_empty_file fs p \<Longrightarrow> \<exists>body. fs p = Content body \<and> body \<noteq> []"
  by (auto simp: is_non_empty_file_def split: read_outcome.splits)

lemma check_written_ok:
  "check_written fs tp bp tid (check_sections fs bp sections) = Ok_unit \<longleftrightarrow>
     is_non_empty_file fs tp \<and> (\<exists>body. fs bp = Content body \<and> body \<noteq> [] \<and> list_all (has_section body) sections)"
  by (auto simp: check_written_def check_sections_def checks_Inr bail_if_Inr is_non_empty_file_def Let_def
      filter_empty_conv list_all_iff split: read_outcome.splits)

lemma clear_removes:
  assumes "\<And>p fs. pe_remove env p fs = fs(p := NotFound)" "name \<in> set PUBLISH_ARTIFACT_FILE_NAMES"
  shows "clear_publish_artifacts env exp_dir fs (path_join exp_dir name) = NotFound"
proof -
  have "fold (\<lambda>n. pe_remove env (path_join exp_dir n)) names fs p
      = (if p \<in> (\<lambda>n. path_join exp_dir n) ` set names then NotFound else fs p)" for names p
    by (induction names arbitrary: fs) (auto simp: assms(1))
  then show ?thesis using assms(2) by (simp add: clear_publish_artifacts_def)
qed

lemma clear_render_invoke_ok:
  assumes "clear_render_invoke env s exp_dir name add_dirs render fs = (Ok_unit, fs')"
  obtains rendered fs2 where
    "pe_write env (path_join exp_dir (name @ ''-prompt.md'')) rendered (clear_publish_artifacts env exp_dir fs) = (Ok_unit, fs2)"
    "pe_invoke env (writer_invocation s exp_dir name rendered add_dirs) fs2 = (Ok_unit, fs')"
  using assms that by (auto simp: clear_render_invoke_def Let_def split: sum.splits prod.splits)

lemma run_pr_writer_ok:
  fixes env :: "'io publish_env" and cd :: "'p codecs"
  assumes "run_pr_writer env cd l framework s t fs = (Ok_unit, fs')"
  obtains r prompt where
    "read_optimizer_report_for_target fs cd l (mt_id t) (mt_delivery_mode t) = Inr (Some (Implemented r))"
    "clear_render_invoke env s (experiment_dir l (mt_id t)) ''pr-writer''
       [path_join (session_optimizer_checkouts_dir framework (sl_id l)) (mt_id t)] (pe_render_pr env prompt) fs
     = (Ok_unit :: ('io, 'p) publish_error check, fs')"
    "check_written fs' (path_join (experiment_dir l (mt_id t)) ''pr-title.txt'') (path_join (experiment_dir l (mt_id t)) ''pr-body.md'')
       (mt_id t) (validate_pr_body_sections fs' (path_join (experiment_dir l (mt_id t)) ''pr-body.md'') (mt_delivery_mode t))
     = (Ok_unit :: ('io, 'p) publish_error check)"
  using assms that
  unfolding run_pr_writer_def Let_def
  by (auto split: sum.splits option.splits optimizer_report.splits prod.splits)

text \<open>C24: when removing and writing files work, a pull request that \<open>generate\<close> reports as written comes
  from this run of the agent on an implemented target: no title and no body were on disk when the
  agent started, it was started in the experiment directory with access to the target's checkout and
  the configured roots only, and afterwards the title is not empty and the body has every required
  section, the consensus section included for a proof of concept.\<close>

theorem pr_writer_output_checked:
  fixes env :: "'io publish_env" and cd :: "'p codecs"
  assumes "run_pr_writer env cd l framework s t fs = (Ok_unit, fs')"
    and "\<And>p fs. pe_remove env p fs = fs(p := NotFound)"
    and "\<And>p c fs q. q \<noteq> p \<Longrightarrow> snd (pe_write env p c fs) q = fs q"
  shows "\<exists>r inv fs2 body.
      read_optimizer_report_for_target fs cd l (mt_id t) (mt_delivery_mode t) = Inr (Some (Implemented r))
    \<and> fs2 (path_join (experiment_dir l (mt_id t)) ''pr-title.txt'') = NotFound
    \<and> fs2 (path_join (experiment_dir l (mt_id t)) ''pr-body.md'') = NotFound
    \<and> pe_invoke env inv fs2 = (Ok_unit, fs') \<and> in_cwd inv = experiment_dir l (mt_id t)
    \<and> in_add_dirs inv = path_join (session_optimizer_checkouts_dir framework (sl_id l)) (mt_id t)
        # cx_extra_writable_roots (se_codex s)
    \<and> is_non_empty_file fs' (path_join (experiment_dir l (mt_id t)) ''pr-title.txt'')
    \<and> fs' (path_join (experiment_dir l (mt_id t)) ''pr-body.md'') = Content body
    \<and> list_all (has_section body) (pr_sections (mt_delivery_mode t))"
proof -
  let ?dir = "experiment_dir l (mt_id t)"
  obtain r prompt where r: "read_optimizer_report_for_target fs cd l (mt_id t) (mt_delivery_mode t) = Inr (Some (Implemented r))"
    and run: "clear_render_invoke env s ?dir ''pr-writer''
       [path_join (session_optimizer_checkouts_dir framework (sl_id l)) (mt_id t)] (pe_render_pr env prompt) fs
       = (Ok_unit :: ('io, 'p) publish_error check, fs')"
    and checked: "check_written fs' (path_join ?dir ''pr-title.txt'') (path_join ?dir ''pr-body.md'')
       (mt_id t) (validate_pr_body_sections fs' (path_join ?dir ''pr-body.md'') (mt_delivery_mode t))
       = (Ok_unit :: ('io, 'p) publish_error check)"
    using assms(1) by (rule run_pr_writer_ok)
  obtain rendered fs2 where
    w: "pe_write env (path_join ?dir (''pr-writer'' @ ''-prompt.md'')) rendered (clear_publish_artifacts env ?dir fs) = (Ok_unit, fs2)"
    and inv: "pe_invoke env (writer_invocation s ?dir ''pr-writer'' rendered
       [path_join (session_optimizer_checkouts_dir framework (sl_id l)) (mt_id t)]) fs2 = (Ok_unit, fs')"
    using run by (rule clear_render_invoke_ok)
  have kept: "fs2 q = clear_publish_artifacts env ?dir fs q" if "q \<noteq> path_join ?dir (''pr-writer'' @ ''-prompt.md'')" for q
    using assms(3)[OF that, of rendered "clear_publish_artifacts env ?dir fs"] w by simp
  have other: "path_join ?dir name \<noteq> path_join ?dir (''pr-writer'' @ ''-prompt.md'')"
    if "name \<in> {''pr-title.txt'', ''pr-body.md''}" for name
    using that by (auto simp: path_join_def starts_with_def)
  have "''pr-title.txt'' \<in> set PUBLISH_ARTIFACT_FILE_NAMES" "''pr-body.md'' \<in> set PUBLISH_ARTIFACT_FILE_NAMES"
    by (simp_all add: PUBLISH_ARTIFACT_FILE_NAMES_def)
  note gone = this[THEN clear_removes[OF assms(2)]]
  have "fs2 (path_join ?dir ''pr-title.txt'') = NotFound" "fs2 (path_join ?dir ''pr-body.md'') = NotFound"
    using kept[OF other] gone[of ?dir fs] by simp_all
  moreover obtain body where "is_non_empty_file fs' (path_join ?dir ''pr-title.txt'')"
    "fs' (path_join ?dir ''pr-body.md'') = Content body" "list_all (has_section body) (pr_sections (mt_delivery_mode t))"
    using checked unfolding validate_pr_body_sections_def check_written_ok by blast
  ultimately show ?thesis
    using r inv
    by (intro exI[of _ r] exI[of _ "writer_invocation s ?dir ''pr-writer'' rendered
         [path_join (session_optimizer_checkouts_dir framework (sl_id l)) (mt_id t)]"] exI[of _ fs2] exI[of _ body])
      (simp add: writer_invocation_def)
qed

definition sample_pr_body :: string where
  "sample_pr_body = ''## Summary'' @ [CHR 0x0A] @ ''##  what  changed '' @ [CHR 0x0A] @ ''text'' @ [CHR 0x0A]
     @ ''## Benchmark Result'' @ [CHR 0x0A] @ ''## Validation'' @ [CHR 0x0A]"

definition sample_env :: "unit publish_env" where
  "sample_env = \<lparr>pe_target_json = (\<lambda>_. Inr ''{}''), pe_experiment_json = (\<lambda>_. Inr ''{}''), pe_verdict_json = (\<lambda>_. Inr ''{}''),
     pe_render_pr = (\<lambda>_ _. Inr ''write''), pe_render_issue = (\<lambda>_ _. Inr ''write''),
     pe_write = (\<lambda>p c fs. (Ok_unit, fs(p := Content c))), pe_remove = (\<lambda>p fs. fs(p := NotFound)),
     pe_invoke = (\<lambda>inv fs. (Ok_unit, fs(path_join (in_cwd inv) ''pr-title.txt'' := Content ''faster'',
       path_join (in_cwd inv) ''pr-body.md'' := Content sample_pr_body)))\<rparr>"

definition sample_settings_with_prompts :: settings where
  "sample_settings_with_prompts =
     settings_default\<lparr>se_layout := (se_layout settings_default)\<lparr>la_prompt_overrides_dir := Some ''/op/prompts''\<rparr>\<rparr>"

definition sample_framework :: layout where
  "sample_framework = \<lparr>ly_framework = None, ly_schemas_dir = ''/op/schemas'', ly_queries_dir = ''/op/queries'',
     ly_context_dir = ''/op/context'', ly_memory_dir = ''/op/memory'', ly_sessions_root = ''/data'',
     ly_operator_repo_root = Some ''/op'', ly_stacks_bench_data_dir = ''/data/bench'', ly_bench_lock = ''/data/benchmark.lock'',
     ly_test_lock = ''/data/test.lock'', ly_stacks_bench_shadow_dir = None, ly_agent_workspace_root = Some ''/ws''\<rparr>"

theorem pr_writer_output_checked_witness:
  "\<exists>fs'. run_pr_writer sample_env sample_codecs sample_session sample_framework sample_settings_with_prompts
       (carry_target ''fam'' 0 sample_target) (\<lambda>_. Content ''x'') = (Ok_unit, fs')
     \<and> is_non_empty_file fs' (path_join (experiment_dir sample_session (mt_id (carry_target ''fam'' 0 sample_target))) ''pr-title.txt'')"
proof -
  let ?run = "run_pr_writer sample_env sample_codecs sample_session sample_framework sample_settings_with_prompts
       (carry_target ''fam'' 0 sample_target) (\<lambda>_. Content ''x'')"
  let ?dir = "experiment_dir sample_session (mt_id (carry_target ''fam'' 0 sample_target))"
  have mode: "mt_delivery_mode (carry_target ''fam'' 0 sample_target) = NormalPr" "mt_id (carry_target ''fam'' 0 sample_target) = ''fix''"
    by (simp_all add: carry_target_def sample_target_def derive_normal)
  have report: "read_optimizer_report_for_target (\<lambda>_. Content ''x'' :: unit read_outcome) sample_codecs sample_session ''fix'' NormalPr
      = Inr (Some (Implemented sample_report))" by code_simp
  have prompt: "\<exists>prompt. (pr_writer_context sample_env sample_codecs sample_session worktree (carry_target ''fam'' 0 sample_target)
      (\<lambda>_. Content ''x'') :: (unit, unit) publish_error + pr_writer_prompt) = Inr prompt" for worktree
  proof -
    have "\<exists>ra. read_results_analysis_for_target (\<lambda>_. Content ''x'' :: unit read_outcome) sample_codecs sample_session ''fix'' = Inr ra"
      by (simp add: read_results_analysis_for_target_def Let_def sample_codecs_def split: sum.split)
    then show ?thesis
      by (auto simp: pr_writer_context_def sample_env_def optional_json_def mode Let_def split: option.splits)
  qed
  have sections: "list_all (has_section sample_pr_body) (pr_sections NormalPr)" by code_simp
  have files: "path_join dir ''pr-title.txt'' \<noteq> path_join dir ''pr-body.md''" "sample_pr_body \<noteq> []" for dir
    by (simp_all add: path_join_def starts_with_def sample_pr_body_def)
  obtain prompt where ctx: "(pr_writer_context sample_env sample_codecs sample_session
      (path_join (session_optimizer_checkouts_dir sample_framework (sl_id sample_session)) ''fix'') (carry_target ''fam'' 0 sample_target)
      (\<lambda>_. Content ''x'') :: (unit, unit) publish_error + pr_writer_prompt) = Inr prompt" using prompt by blast
  have agent: "pe_render_pr sample_env p d = Inr ''write''" "pe_write sample_env q c fs = (Ok_unit, fs(q := Content c))"
    "pe_invoke sample_env inv fs = (Ok_unit, fs(path_join (in_cwd inv) ''pr-title.txt'' := Content ''faster'',
       path_join (in_cwd inv) ''pr-body.md'' := Content sample_pr_body))" for p d q c fs inv by (simp_all add: sample_env_def)
  have "fst ?run = Ok_unit"
    by (simp add: run_pr_writer_def mode report ctx clear_render_invoke_def agent require_prompt_overrides_dir_def
      sample_settings_with_prompts_def writer_invocation_def validate_pr_body_sections_def check_written_ok sections
      is_non_empty_file_def files Let_def)
  then have run: "?run = (Ok_unit, snd ?run)" by (metis prod.collapse)
  have "\<And>p fs. pe_remove sample_env p fs = fs(p := NotFound)"
    "\<And>p c fs q. q \<noteq> p \<Longrightarrow> snd (pe_write sample_env p c fs) q = fs q"
    by (simp_all add: sample_env_def)
  from pr_writer_output_checked[OF run this] run show ?thesis by blast
qed

end
