(* ===== verification/Bundles.thy ===== *)
theory Bundles
  imports Loader
begin

text \<open>
  The files embedded in the binary and their copies in the operator's directories: prompt templates
  (\<open>prompts.rs\<close>), JSON schemas (\<open>schemas.rs\<close>), SQL queries (\<open>queries.rs\<close>) and context documents with
  their sidecars (\<open>context.rs\<close>). All four seed missing files, rewrite all of them, and report drift; the
  contract they share is the locale \<open>file_bundle\<close>. The embedded texts are an argument, by file name.
\<close>

section \<open>Seeding, syncing and drift\<close>

record seed_report =
  sd_seeded :: "string list"
  sd_kept :: "string list"

datatype drift_entry = Missing string | Differs string

definition drift_file_name :: "drift_entry \<Rightarrow> string" where
  "drift_file_name d = (case d of Missing n \<Rightarrow> n | Differs n \<Rightarrow> n)"

text \<open>
  What may fail on disk: creating the directory, opening a file (for another reason than its
  existence), and writing, which then leaves some text behind.
\<close>

record 'io disk =
  dk_mkdir :: "string \<Rightarrow> 'io option"
  dk_open :: "string \<Rightarrow> 'io option"
  dk_write :: "string \<Rightarrow> (string \<times> 'io) option"

definition write_text :: "'io disk \<Rightarrow> string \<Rightarrow> string \<Rightarrow> 'io files \<Rightarrow> ('io + unit) \<times> 'io files" where
  "write_text d path text fs =
     (case dk_write d path of
        None \<Rightarrow> (Ok_unit, fs(path := Content text))
      | Some (left, e) \<Rightarrow> (Inl e, fs(path := Content left)))"

fun seed_loop ::
  "'io disk \<Rightarrow> string \<Rightarrow> (string \<times> string) list \<Rightarrow> seed_report \<Rightarrow> 'io files \<Rightarrow> ('io + seed_report) \<times> 'io files" where
  "seed_loop d dir [] report fs = (Inr report, fs)"
| "seed_loop d dir ((name, text) # es) report fs =
     (let path = path_join dir name
      in case dk_open d path of Some e \<Rightarrow> (Inl e, fs)
         | None \<Rightarrow>
             if fs path \<noteq> NotFound then seed_loop d dir es (report\<lparr>sd_kept := sd_kept report @ [name]\<rparr>) fs
             else (case write_text d path text fs of
                     (Inl e, fs') \<Rightarrow> (Inl e, fs')
                   | (Inr _, fs') \<Rightarrow> seed_loop d dir es (report\<lparr>sd_seeded := sd_seeded report @ [name]\<rparr>) fs'))"

definition seed_files :: "'io disk \<Rightarrow> (string \<times> string) list \<Rightarrow> string \<Rightarrow> 'io files \<Rightarrow> ('io + seed_report) \<times> 'io files" where
  "seed_files d es dir fs =
     (case dk_mkdir d dir of Some e \<Rightarrow> (Inl e, fs)
      | None \<Rightarrow> seed_loop d dir es \<lparr>sd_seeded = [], sd_kept = []\<rparr> fs)"

fun sync_loop ::
  "'io disk \<Rightarrow> string \<Rightarrow> (string \<times> string) list \<Rightarrow> string list \<Rightarrow> 'io files \<Rightarrow> ('io + string list) \<times> 'io files" where
  "sync_loop d dir [] written fs = (Inr written, fs)"
| "sync_loop d dir ((name, text) # es) written fs =
     (let path = path_join dir name
      in case dk_open d path of Some e \<Rightarrow> (Inl e, fs)
         | None \<Rightarrow>
             (case write_text d path text fs of
                (Inl e, fs') \<Rightarrow> (Inl e, fs')
              | (Inr _, fs') \<Rightarrow> sync_loop d dir es (written @ [name]) fs'))"

definition sync_files :: "'io disk \<Rightarrow> (string \<times> string) list \<Rightarrow> string \<Rightarrow> 'io files \<Rightarrow> ('io + string list) \<times> 'io files" where
  "sync_files d es dir fs = (case dk_mkdir d dir of Some e \<Rightarrow> (Inl e, fs) | None \<Rightarrow> sync_loop d dir es [] fs)"

fun drift_files :: "(string \<times> string) list \<Rightarrow> string \<Rightarrow> 'io files \<Rightarrow> 'io + drift_entry list" where
  "drift_files [] dir fs = Inr []"
| "drift_files ((name, text) # es) dir fs =
     (case fs (path_join dir name) of
        Content s \<Rightarrow> and_then (drift_files es dir fs) (\<lambda>ds. Inr (if s \<noteq> text then Differs name # ds else ds))
      | NotFound \<Rightarrow> and_then (drift_files es dir fs) (\<lambda>ds. Inr (Missing name # ds))
      | IoFailed e \<Rightarrow> Inl e)"

section \<open>The four bundles\<close>

definition bundle_entries :: "(string \<Rightarrow> string) \<Rightarrow> string list \<Rightarrow> (string \<times> string) list" where
  "bundle_entries texts names = map (\<lambda>n. (n, texts n)) names"

definition bundled_template_names :: "string list" where
  "bundled_template_names =
     [''triage.md'', ''analyzer.md'', ''merge-analyses.md'', ''optimizer.md'', ''results-analyzer.md'', ''pr-writer.md'',
      ''issue-writer.md'']"

definition bundled_schema_names :: "string list" where
  "bundled_schema_names =
     [''candidates.schema.json'', ''analysis.schema.json'', ''optimization-targets.schema.json'',
      ''optimizer-report.schema.json'', ''coordinator-provenance.schema.json'', ''summary.schema.json'',
      ''session-record.schema.json'', ''results-analysis.schema.json'', ''source.schema.json'', ''timings.schema.json'',
      ''publish-feedback.schema.json'', ''maintain-event.schema.json'', ''optimizer-memory.schema.json'']"

text \<open>The bundled documents: the Markdown name and the name of its sidecar.\<close>

definition bundled_docs :: "(string \<times> string) list" where
  "bundled_docs =
     [(''non-targets.md'', ''non-targets.toml''), (''bucket-anchors.md'', ''bucket-anchors.toml''),
      (''stacks-domain-context.md'', ''stacks-domain-context.toml'')]"

definition bundled_file_names :: "string list" where
  "bundled_file_names = concat (map (\<lambda>(md, toml). [md, toml]) bundled_docs)"

definition prompts_seed_to :: "(string \<Rightarrow> string) \<Rightarrow> 'io disk \<Rightarrow> string \<Rightarrow> 'io files \<Rightarrow> ('io + seed_report) \<times> 'io files" where
  "prompts_seed_to texts d = seed_files d (bundle_entries texts bundled_template_names)"

definition prompts_sync_force :: "(string \<Rightarrow> string) \<Rightarrow> 'io disk \<Rightarrow> string \<Rightarrow> 'io files \<Rightarrow> ('io + string list) \<times> 'io files" where
  "prompts_sync_force texts d = sync_files d (bundle_entries texts bundled_template_names)"

definition prompts_drift :: "(string \<Rightarrow> string) \<Rightarrow> string \<Rightarrow> 'io files \<Rightarrow> 'io + drift_entry list" where
  "prompts_drift texts = drift_files (bundle_entries texts bundled_template_names)"

definition schemas_seed_to :: "(string \<Rightarrow> string) \<Rightarrow> 'io disk \<Rightarrow> string \<Rightarrow> 'io files \<Rightarrow> ('io + seed_report) \<times> 'io files" where
  "schemas_seed_to texts d = seed_files d (bundle_entries texts bundled_schema_names)"

definition schemas_sync :: "(string \<Rightarrow> string) \<Rightarrow> 'io disk \<Rightarrow> string \<Rightarrow> 'io files \<Rightarrow> ('io + string list) \<times> 'io files" where
  "schemas_sync texts d = sync_files d (bundle_entries texts bundled_schema_names)"

definition schemas_drift :: "(string \<Rightarrow> string) \<Rightarrow> string \<Rightarrow> 'io files \<Rightarrow> 'io + drift_entry list" where
  "schemas_drift texts = drift_files (bundle_entries texts bundled_schema_names)"

definition queries_seed_to :: "(string \<Rightarrow> string) \<Rightarrow> 'io disk \<Rightarrow> string \<Rightarrow> 'io files \<Rightarrow> ('io + seed_report) \<times> 'io files" where
  "queries_seed_to texts d = seed_files d (bundle_entries texts bundled_query_names)"

definition queries_sync :: "(string \<Rightarrow> string) \<Rightarrow> 'io disk \<Rightarrow> string \<Rightarrow> 'io files \<Rightarrow> ('io + string list) \<times> 'io files" where
  "queries_sync texts d = sync_files d (bundle_entries texts bundled_query_names)"

definition queries_drift :: "(string \<Rightarrow> string) \<Rightarrow> string \<Rightarrow> 'io files \<Rightarrow> 'io + drift_entry list" where
  "queries_drift texts = drift_files (bundle_entries texts bundled_query_names)"

definition context_seed_to :: "(string \<Rightarrow> string) \<Rightarrow> 'io disk \<Rightarrow> string \<Rightarrow> 'io files \<Rightarrow> ('io + seed_report) \<times> 'io files" where
  "context_seed_to texts d = seed_files d (bundle_entries texts bundled_file_names)"

definition context_sync_force :: "(string \<Rightarrow> string) \<Rightarrow> 'io disk \<Rightarrow> string \<Rightarrow> 'io files \<Rightarrow> ('io + string list) \<times> 'io files" where
  "context_sync_force texts d = sync_files d (bundle_entries texts bundled_file_names)"

definition context_drift :: "(string \<Rightarrow> string) \<Rightarrow> string \<Rightarrow> 'io files \<Rightarrow> 'io + drift_entry list" where
  "context_drift texts = drift_files (bundle_entries texts bundled_file_names)"

section \<open>The contract of a bundle\<close>

definition bundle_paths :: "string \<Rightarrow> string list \<Rightarrow> string set" where
  "bundle_paths dir names = path_join dir ` set names"

definition readable :: "'io read_outcome \<Rightarrow> bool" where
  "readable r \<longleftrightarrow> (case r of IoFailed _ \<Rightarrow> False | _ \<Rightarrow> True)"

definition drift_of :: "(string \<Rightarrow> string) \<Rightarrow> string list \<Rightarrow> string \<Rightarrow> 'io files \<Rightarrow> drift_entry list" where
  "drift_of texts names dir fs =
     concat (map (\<lambda>n. case fs (path_join dir n) of
       NotFound \<Rightarrow> [Missing n] | Content s \<Rightarrow> (if s = texts n then [] else [Differs n]) | IoFailed _ \<Rightarrow> []) names)"

definition disk_works :: "'io disk \<Rightarrow> bool" where
  "disk_works d \<longleftrightarrow> (\<forall>p. dk_mkdir d p = None \<and> dk_open d p = None \<and> dk_write d p = None)"

locale file_bundle =
  fixes names :: "string list" and texts :: "string \<Rightarrow> string"
    and seed :: "'io disk \<Rightarrow> string \<Rightarrow> 'io files \<Rightarrow> ('io + seed_report) \<times> 'io files"
    and sync :: "'io disk \<Rightarrow> string \<Rightarrow> 'io files \<Rightarrow> ('io + string list) \<times> 'io files"
    and drift :: "string \<Rightarrow> 'io files \<Rightarrow> 'io + drift_entry list"
  assumes seed_keeps: "seed d dir fs = (Inr report, fs') \<Longrightarrow> p \<notin> bundle_paths dir names \<or> fs p \<noteq> NotFound
      \<Longrightarrow> fs' p = fs p"
    and seed_fills: "seed d dir fs = (Inr report, fs') \<Longrightarrow> n \<in> set names \<Longrightarrow> fs (path_join dir n) = NotFound
      \<Longrightarrow> fs' (path_join dir n) = Content (texts n)"
    and seed_reports: "seed d dir fs = (Inr report, fs')
      \<Longrightarrow> sd_seeded report = filter (\<lambda>n. fs (path_join dir n) = NotFound) names
        \<and> sd_kept report = filter (\<lambda>n. fs (path_join dir n) \<noteq> NotFound) names"
    and sync_writes: "sync d dir fs = (Inr written, fs') \<Longrightarrow> n \<in> set names \<Longrightarrow> fs' (path_join dir n) = Content (texts n)"
    and sync_only: "sync d dir fs = (Inr written, fs') \<Longrightarrow> p \<notin> bundle_paths dir names \<Longrightarrow> fs' p = fs p"
    and seed_succeeds: "disk_works d \<Longrightarrow> \<exists>report fs'. seed d dir fs = (Inr report, fs')"
    and sync_succeeds: "disk_works d \<Longrightarrow> \<exists>written fs'. sync d dir fs = (Inr written, fs')"
    and drift_tells: "drift dir fs = Inr ds
      \<longleftrightarrow> (\<forall>n \<in> set names. readable (fs (path_join dir n))) \<and> ds = drift_of texts names dir fs"
begin

lemma sync_clears_drift:
  assumes "sync d dir fs = (Inr written, fs')"
  shows "drift dir fs' = Inr []"
  using sync_writes[OF assms] by (auto simp: drift_tells readable_def drift_of_def)

lemma seed_then_no_missing:
  assumes "seed d dir fs = (Inr report, fs')" "drift dir fs' = Inr ds"
  shows "Missing n \<notin> set ds"
proof -
  have "fs' (path_join dir n) \<noteq> NotFound" if "n \<in> set names" for n
    using seed_fills[OF assms(1) that] seed_keeps[OF assms(1)] by (metis read_outcome.distinct(3))
  then show ?thesis using assms(2) by (auto simp: drift_tells drift_of_def split: read_outcome.splits if_splits)
qed

lemma seed_again:
  assumes "seed d dir fs = (Inr report, fs')" "seed d dir fs' = (Inr report', fs'')"
  shows "fs'' = fs'" "sd_seeded report' = []" "sd_kept report' = names"
proof -
  have present: "fs' (path_join dir n) \<noteq> NotFound" if "n \<in> set names" for n
    using seed_fills[OF assms(1) that] seed_keeps[OF assms(1)] by (metis read_outcome.distinct(3))
  show "fs'' = fs'"
    by (rule ext, rule seed_keeps[OF assms(2)]) (use present in \<open>auto simp: bundle_paths_def\<close>)
  show "sd_seeded report' = []" "sd_kept report' = names"
    using seed_reports[OF assms(2)] present by (auto simp: filter_empty_conv filter_id_conv)
qed

end

section \<open>The bundles keep the contract\<close>

lemma path_join_inject:
  "\<not> starts_with m ''/'' \<Longrightarrow> \<not> starts_with n ''/'' \<Longrightarrow> path_join dir m = path_join dir n \<longleftrightarrow> m = n"
  by (simp add: path_join_def)

definition plain_names :: "string list \<Rightarrow> bool" where
  "plain_names names \<longleftrightarrow> distinct names \<and> list_all (\<lambda>n. \<not> starts_with n ''/'') names"

lemma plain_names_Cons:
  "plain_names (n # ns) \<longleftrightarrow> \<not> starts_with n ''/'' \<and> n \<notin> set ns \<and> plain_names ns"
  by (auto simp: plain_names_def)

lemma plain_path_other:
  "plain_names (n # ns) \<Longrightarrow> m \<in> set ns \<Longrightarrow> path_join dir m \<noteq> path_join dir n"
  by (auto simp: plain_names_def list_all_iff path_join_inject)

lemma seed_loop_ok:
  assumes "seed_loop d dir (bundle_entries texts names) report fs = (Inr report', fs')" "plain_names names"
  shows "\<forall>p. p \<notin> bundle_paths dir names \<or> fs p \<noteq> NotFound \<longrightarrow> fs' p = fs p"
    "\<forall>n \<in> set names. fs (path_join dir n) = NotFound \<longrightarrow> fs' (path_join dir n) = Content (texts n)"
    "sd_seeded report' = sd_seeded report @ filter (\<lambda>n. fs (path_join dir n) = NotFound) names"
    "sd_kept report' = sd_kept report @ filter (\<lambda>n. fs (path_join dir n) \<noteq> NotFound) names"
  using assms
proof (induction names arbitrary: report fs)
  case (Cons n ns)
  {
    case 1
    then show ?case
      using Cons.IH(1) by (force simp: bundle_entries_def bundle_paths_def write_text_def Let_def plain_names_Cons
          split: option.splits if_splits prod.splits)
  next
    case 2
    then show ?case
      using Cons.IH(1,2) plain_path_other[OF 2(2)]
      by (auto simp: bundle_entries_def bundle_paths_def write_text_def Let_def plain_names_Cons
          split: option.splits if_splits prod.splits)
  next
    case 3
    then show ?case
      using Cons.IH(3) plain_path_other[OF 3(2)]
      by (auto simp: bundle_entries_def write_text_def Let_def plain_names_Cons
          split: option.splits if_splits prod.splits intro!: filter_cong)
  next
    case 4
    then show ?case
      using Cons.IH(4) plain_path_other[OF 4(2)]
      by (auto simp: bundle_entries_def write_text_def Let_def plain_names_Cons
          split: option.splits if_splits prod.splits intro!: filter_cong)
  }
qed (simp_all add: bundle_entries_def)

lemma sync_loop_ok:
  assumes "sync_loop d dir (bundle_entries texts names) written fs = (Inr written', fs')" "plain_names names"
  shows "\<forall>n \<in> set names. fs' (path_join dir n) = Content (texts n)"
    "\<forall>p. p \<notin> bundle_paths dir names \<longrightarrow> fs' p = fs p"
  using assms
proof (induction names arbitrary: written fs)
  case (Cons n ns)
  {
    case 1
    have "path_join dir n \<notin> bundle_paths dir ns" unfolding bundle_paths_def using plain_path_other[OF 1(2)] by (metis imageE)
    with 1 Cons.IH show ?case
      by (auto simp: bundle_entries_def write_text_def Let_def plain_names_Cons split: option.splits prod.splits)
  next
    case 2
    with Cons.IH(2) show ?case
      by (force simp: bundle_entries_def bundle_paths_def write_text_def Let_def plain_names_Cons
          split: option.splits prod.splits)
  }
qed (simp_all add: bundle_entries_def)

lemma drift_files_ok:
  "drift_files (bundle_entries texts names) dir fs = Inr ds
   \<longleftrightarrow> (\<forall>n \<in> set names. readable (fs (path_join dir n))) \<and> ds = drift_of texts names dir fs"
  by (induction names arbitrary: ds)
    (auto simp: bundle_entries_def drift_of_def readable_def and_then_Inr split: read_outcome.splits)

lemma seed_loop_succeeds: "disk_works d \<Longrightarrow> \<exists>report' fs'. seed_loop d dir es report fs = (Inr report', fs')"
  by (induction es arbitrary: report fs) (auto simp: disk_works_def write_text_def Let_def)

lemma sync_loop_succeeds: "disk_works d \<Longrightarrow> \<exists>written' fs'. sync_loop d dir es written fs = (Inr written', fs')"
  by (induction es arbitrary: written fs) (auto simp: disk_works_def write_text_def Let_def)

lemma bundle_contract:
  assumes "plain_names names"
  shows "file_bundle names texts (\<lambda>d. seed_files d (bundle_entries texts names))
     (\<lambda>d. sync_files d (bundle_entries texts names)) (drift_files (bundle_entries texts names))"
proof
  fix d :: "'a disk" and dir and fs fs' :: "'a files" and report p
  assume seeded: "seed_files d (bundle_entries texts names) dir fs = (Inr report, fs')"
  then have run: "seed_loop d dir (bundle_entries texts names) \<lparr>sd_seeded = [], sd_kept = []\<rparr> fs = (Inr report, fs')"
    by (auto simp: seed_files_def split: option.splits)
  note ok = seed_loop_ok[OF run assms]
  show "p \<notin> bundle_paths dir names \<or> fs p \<noteq> NotFound \<Longrightarrow> fs' p = fs p" using ok(1) by blast
  show "sd_seeded report = filter (\<lambda>n. fs (path_join dir n) = NotFound) names
      \<and> sd_kept report = filter (\<lambda>n. fs (path_join dir n) \<noteq> NotFound) names" using ok(3,4) by simp
  show "n \<in> set names \<Longrightarrow> fs (path_join dir n) = NotFound \<Longrightarrow> fs' (path_join dir n) = Content (texts n)" for n
    using ok(2) by blast
next
  fix d :: "'a disk" and dir and fs fs' :: "'a files" and written
  assume synced: "sync_files d (bundle_entries texts names) dir fs = (Inr written, fs')"
  then have run: "sync_loop d dir (bundle_entries texts names) [] fs = (Inr written, fs')"
    by (auto simp: sync_files_def split: option.splits)
  note ok = sync_loop_ok[OF run assms]
  show "n \<in> set names \<Longrightarrow> fs' (path_join dir n) = Content (texts n)" for n using ok(1) by blast
  show "p \<notin> bundle_paths dir names \<Longrightarrow> fs' p = fs p" for p using ok(2) by blast
next
  show "disk_works d \<Longrightarrow> \<exists>report fs'. seed_files d (bundle_entries texts names) dir fs = (Inr report, fs')"
    for d :: "'a disk" and dir fs
    using seed_loop_succeeds by (auto simp: seed_files_def disk_works_def)
  show "disk_works d \<Longrightarrow> \<exists>written fs'. sync_files d (bundle_entries texts names) dir fs = (Inr written, fs')"
    for d :: "'a disk" and dir fs
    using sync_loop_succeeds by (auto simp: sync_files_def disk_works_def)
qed (rule drift_files_ok)

interpretation prompt_templates: file_bundle bundled_template_names texts "prompts_seed_to texts" "prompts_sync_force texts"
  "prompts_drift texts" for texts
  unfolding prompts_seed_to_def prompts_sync_force_def prompts_drift_def by (rule bundle_contract) code_simp

interpretation json_schemas: file_bundle bundled_schema_names texts "schemas_seed_to texts" "schemas_sync texts"
  "schemas_drift texts" for texts
  unfolding schemas_seed_to_def schemas_sync_def schemas_drift_def by (rule bundle_contract) code_simp

interpretation sql_queries: file_bundle bundled_query_names texts "queries_seed_to texts" "queries_sync texts"
  "queries_drift texts" for texts
  unfolding queries_seed_to_def queries_sync_def queries_drift_def by (rule bundle_contract) code_simp

interpretation context_docs: file_bundle bundled_file_names texts "context_seed_to texts" "context_sync_force texts"
  "context_drift texts" for texts
  unfolding context_seed_to_def context_sync_force_def context_drift_def by (rule bundle_contract) code_simp

section \<open>Properties\<close>

definition bundle_ops ::
  "(string \<Rightarrow> string) \<Rightarrow> (string list \<times> ('io disk \<Rightarrow> string \<Rightarrow> 'io files \<Rightarrow> ('io + seed_report) \<times> 'io files)
     \<times> ('io disk \<Rightarrow> string \<Rightarrow> 'io files \<Rightarrow> ('io + string list) \<times> 'io files)
     \<times> (string \<Rightarrow> 'io files \<Rightarrow> 'io + drift_entry list)) list" where
  "bundle_ops texts =
     [(bundled_template_names, prompts_seed_to texts, prompts_sync_force texts, prompts_drift texts),
      (bundled_schema_names, schemas_seed_to texts, schemas_sync texts, schemas_drift texts),
      (bundled_query_names, queries_seed_to texts, queries_sync texts, queries_drift texts),
      (bundled_file_names, context_seed_to texts, context_sync_force texts, context_drift texts)]"

lemma bundle_ops_contract:
  "(names, seed, sync, drift) \<in> set (bundle_ops texts) \<Longrightarrow> file_bundle names texts seed sync drift"
  using prompt_templates.file_bundle_axioms json_schemas.file_bundle_axioms sql_queries.file_bundle_axioms
    context_docs.file_bundle_axioms
  by (auto simp: bundle_ops_def)

text \<open>C28: for the prompts, schemas, queries and context documents alike: on a working disk seeding and
  syncing succeed; seeding leaves every existing file as it is, adds each missing one, and a second
  seeding changes nothing; after a sync no drift is reported; and what drift reports is exactly the
  bundled files that are missing or differ from the embedded text.\<close>

theorem bundles_seed_sync_drift:
  assumes "(names, seed, sync, drift) \<in> set (bundle_ops texts)" "disk_works d"
  shows "\<exists>report fs1 written fs2. seed d dir fs = (Inr report, fs1) \<and> sync d dir fs = (Inr written, fs2)
    \<and> (\<forall>p. fs p \<noteq> NotFound \<longrightarrow> fs1 p = fs p)
    \<and> (\<forall>n \<in> set names. fs (path_join dir n) = NotFound \<longrightarrow> fs1 (path_join dir n) = Content (texts n))
    \<and> (\<exists>again. seed d dir fs1 = (Inr again, fs1) \<and> sd_seeded again = [] \<and> sd_kept again = names)
    \<and> drift dir fs2 = Inr []
    \<and> (\<forall>ds. drift dir fs = Inr ds
        \<longleftrightarrow> (\<forall>n \<in> set names. readable (fs (path_join dir n))) \<and> ds = drift_of texts names dir fs)"
proof -
  note b = bundle_ops_contract[OF assms(1)]
  obtain report fs1 where seeded: "seed d dir fs = (Inr report, fs1)"
    using file_bundle.seed_succeeds[OF b assms(2)] by blast
  obtain written fs2 where synced: "sync d dir fs = (Inr written, fs2)"
    using file_bundle.sync_succeeds[OF b assms(2)] by blast
  obtain again fs3 where second: "seed d dir fs1 = (Inr again, fs3)"
    using file_bundle.seed_succeeds[OF b assms(2)] by blast
  note same = file_bundle.seed_again[OF b seeded second]
  show ?thesis
    using seeded synced second same file_bundle.seed_keeps[OF b seeded] file_bundle.seed_fills[OF b seeded]
      file_bundle.sync_clears_drift[OF b synced] file_bundle.drift_tells[OF b]
    by auto
qed

theorem bundles_seed_sync_drift_witness:
  "\<exists>report fs1. prompts_seed_to (\<lambda>_. ''t'') \<lparr>dk_mkdir = (\<lambda>_. None :: unit option), dk_open = (\<lambda>_. None), dk_write = (\<lambda>_. None)\<rparr>
       ''/op'' (\<lambda>_. NotFound) = (Inr report, fs1) \<and> fs1 (path_join ''/op'' ''optimizer.md'') = Content ''t''"
proof -
  let ?d = "\<lparr>dk_mkdir = (\<lambda>_. None :: unit option), dk_open = (\<lambda>_. None), dk_write = (\<lambda>_. None)\<rparr>"
  have "(bundled_template_names, prompts_seed_to (\<lambda>_. ''t''), prompts_sync_force (\<lambda>_. ''t''), prompts_drift (\<lambda>_. ''t''))
      \<in> set (bundle_ops (\<lambda>_. ''t'') :: (_ \<times> (unit disk \<Rightarrow> _) \<times> _ \<times> _) list)" by (simp add: bundle_ops_def)
  moreover have "disk_works ?d" by (simp add: disk_works_def)
  moreover have "''optimizer.md'' \<in> set bundled_template_names" by (simp add: bundled_template_names_def)
  ultimately show ?thesis
    using bundles_seed_sync_drift[where d = ?d and dir = "''/op''" and fs = "\<lambda>_. NotFound"] by blast
qed

end
