(* ===== verification/Context_Docs.thy ===== *)
theory Context_Docs
  imports Bundles
begin

text \<open>
  Which context documents a phase may read (\<open>context.rs\<close>): the bundled sidecars, the operator's copies
  that override them, the paths a prompt gets and the check for missing required documents. The TOML
  parser and the embedded texts are arguments.
\<close>

section \<open>Manifests\<close>

datatype phase =
    TriagePhase | AnalyzerPhase | MergePhase | OptimizerPhase | ResultsAnalyzerPhase | PrWriterPhase | IssueWriterPhase

definition phase_str :: "phase \<Rightarrow> string" where
  "phase_str p =
     (case p of TriagePhase \<Rightarrow> ''triage'' | AnalyzerPhase \<Rightarrow> ''analyzer'' | MergePhase \<Rightarrow> ''merge''
      | OptimizerPhase \<Rightarrow> ''optimizer'' | ResultsAnalyzerPhase \<Rightarrow> ''results_analyzer''
      | PrWriterPhase \<Rightarrow> ''pr_writer'' | IssueWriterPhase \<Rightarrow> ''issue_writer'')"

record context_manifest =
  cm_id :: string
  cm_title :: string
  cm_description :: string
  cm_phases :: "phase list"
  cm_required :: bool

definition stem :: "string \<Rightarrow> string" where
  "stem filename =
     (if CHR ''.'' \<in> set filename then rev (tl (dropWhile (\<lambda>c. c \<noteq> CHR ''.'') (rev filename))) else filename)"

datatype 'p context_error =
    SidecarParse string 'p
  | SidecarId string string string
  | NotDeclared string
  | DuplicateDoc string
  | EmptyTitle string
  | EmptyDescription string
  | EmptyPhases string
  | EmptyBody string

type_synonym 'p toml_parser = "string \<Rightarrow> 'p + context_manifest"

fun manifests_loop ::
  "'p toml_parser \<Rightarrow> (string \<Rightarrow> string) \<Rightarrow> (string \<times> string) list \<Rightarrow> (string, context_manifest \<times> string) btree_map
     \<Rightarrow> 'p context_error + (string, context_manifest \<times> string) btree_map" where
  "manifests_loop parse texts [] out = Inr out"
| "manifests_loop parse texts ((md, toml) # docs) out =
     (case parse (texts toml) of Inl e \<Rightarrow> Inl (SidecarParse toml e)
      | Inr m \<Rightarrow>
          if cm_id m \<noteq> stem md then Inl (SidecarId toml (cm_id m) (stem md))
          else manifests_loop parse texts docs (bt_insert (cm_id m) (m, texts md) out))"

definition bundled_manifests ::
  "'p toml_parser \<Rightarrow> (string \<Rightarrow> string) \<Rightarrow> 'p context_error + (string, context_manifest \<times> string) btree_map" where
  "bundled_manifests parse texts = manifests_loop parse texts bundled_docs bt_empty"

definition ctx_path :: "(string, string) btree_map \<Rightarrow> string \<Rightarrow> 'p context_error + string" where
  "ctx_path paths doc_id = (case bt_get paths doc_id of Some p \<Rightarrow> Inr p | None \<Rightarrow> Inl (NotDeclared doc_id))"

section \<open>Effective sidecars\<close>

definition load_sidecar :: "'p toml_parser \<Rightarrow> 'io files \<Rightarrow> string \<Rightarrow> string \<Rightarrow> context_manifest option" where
  "load_sidecar parse fs dir doc_id =
     (case fs (path_join dir (doc_id @ ''.toml'')) of
        Content s \<Rightarrow> (case parse s of Inr m \<Rightarrow> Some m | Inl _ \<Rightarrow> None)
      | _ \<Rightarrow> None)"

definition effective_phases :: "'p toml_parser \<Rightarrow> 'io files \<Rightarrow> string \<Rightarrow> string \<Rightarrow> context_manifest \<Rightarrow> phase list" where
  "effective_phases parse fs dir doc_id bundled =
     (case load_sidecar parse fs dir doc_id of Some m \<Rightarrow> cm_phases m | None \<Rightarrow> cm_phases bundled)"

definition effective_required :: "'p toml_parser \<Rightarrow> 'io files \<Rightarrow> string \<Rightarrow> string \<Rightarrow> context_manifest \<Rightarrow> bool" where
  "effective_required parse fs dir doc_id bundled =
     (case load_sidecar parse fs dir doc_id of Some m \<Rightarrow> cm_required m | None \<Rightarrow> cm_required bundled)"

definition md_path :: "string \<Rightarrow> string \<Rightarrow> string option" where
  "md_path dir doc_id = map_option (\<lambda>(md, _). path_join dir md) (find (\<lambda>(md, _). stem md = doc_id) bundled_docs)"

definition paths_for_phase ::
  "'p toml_parser \<Rightarrow> (string \<Rightarrow> string) \<Rightarrow> 'io files \<Rightarrow> string \<Rightarrow> phase \<Rightarrow> 'p context_error + (string, string) btree_map" where
  "paths_for_phase parse texts fs dir ph =
     and_then (bundled_manifests parse texts) (\<lambda>bundled.
       Inr (fold (\<lambda>(doc_id, (m, _)) out.
              if ph \<in> set (effective_phases parse fs dir doc_id m)
              then (case md_path dir doc_id of Some p \<Rightarrow> bt_insert doc_id p out | None \<Rightarrow> out)
              else out) bundled bt_empty))"

definition required_missing_for_phase ::
  "'p toml_parser \<Rightarrow> (string \<Rightarrow> string) \<Rightarrow> 'io files \<Rightarrow> string \<Rightarrow> phase \<Rightarrow> 'p context_error + (string \<times> string) list" where
  "required_missing_for_phase parse texts fs dir ph =
     and_then (bundled_manifests parse texts) (\<lambda>bundled.
       Inr (concat (map (\<lambda>(doc_id, (m, _)).
              if ph \<notin> set (effective_phases parse fs dir doc_id m) \<or> \<not> effective_required parse fs dir doc_id m then []
              else (case md_path dir doc_id of
                      Some p \<Rightarrow> if is_non_empty_file fs p then [] else [(doc_id, p)]
                    | None \<Rightarrow> [])) bundled)))"

definition lint_doc :: "string \<Rightarrow> context_manifest \<Rightarrow> string \<Rightarrow> 'p context_error check" where
  "lint_doc doc_id m body = checks [
     bail_if (is_blank (cm_title m)) (EmptyTitle doc_id),
     bail_if (is_blank (cm_description m)) (EmptyDescription doc_id),
     bail_if (cm_phases m = []) (EmptyPhases doc_id),
     bail_if (is_blank body) (EmptyBody doc_id)]"

fun lint_loop :: "(string, context_manifest \<times> string) btree_map \<Rightarrow> string set \<Rightarrow> 'p context_error check" where
  "lint_loop [] seen = Ok_unit"
| "lint_loop ((doc_id, (m, body)) # docs) seen = checks [
     bail_if (doc_id \<in> seen) (DuplicateDoc doc_id),
     lint_doc doc_id m body,
     lint_loop docs (insert doc_id seen)]"

definition lint_bundle :: "'p toml_parser \<Rightarrow> (string \<Rightarrow> string) \<Rightarrow> 'p context_error check" where
  "lint_bundle parse texts = and_then (bundled_manifests parse texts) (\<lambda>manifests. lint_loop manifests {})"

section \<open>Facts\<close>

lemma manifests_loop_invar:
  "manifests_loop parse texts docs out = Inr out' \<Longrightarrow> bt_invar out \<Longrightarrow> bt_invar out'"
  by (induction docs arbitrary: out) (auto simp: bt_invar_insert split: sum.splits if_splits prod.splits)

text \<open>The manifests are keyed by id, so the check for duplicate ids never finds one.\<close>

lemma lint_loop_no_duplicate:
  "distinct (map fst docs) \<Longrightarrow> set (map fst docs) \<inter> seen = {} \<Longrightarrow> lint_loop docs seen \<noteq> Inl (DuplicateDoc x)"
  by (induction docs seen rule: lint_loop.induct)
    (auto simp: bail_if_def lint_doc_def checks.simps simp del: is_blank.simps split: sum.splits if_splits)

lemma lint_bundle_no_duplicate: "lint_bundle parse texts \<noteq> Inl (DuplicateDoc x)"
proof (cases "bundled_manifests parse texts")
  case (Inl e)
  have "manifests_loop parse texts docs out \<noteq> Inl (DuplicateDoc x)" for docs out
    by (induction docs arbitrary: out) (auto split: sum.splits if_splits)
  then have "e \<noteq> DuplicateDoc x" using Inl unfolding bundled_manifests_def by metis
  with Inl show ?thesis by (simp add: lint_bundle_def)
next
  case (Inr ms)
  then have "bt_invar ms" by (auto simp: bundled_manifests_def intro: manifests_loop_invar)
  then have "distinct (map fst ms)" by (auto simp: bt_invar_def strict_sorted_iff)
  with Inr show ?thesis by (simp add: lint_bundle_def lint_loop_no_duplicate)
qed

lemma fold_insert_get:
  assumes "bt_invar out" "distinct (map fst ms)"
  shows "bt_get (fold (\<lambda>(k, v) m. if keep k v then (case f k of Some p \<Rightarrow> bt_insert k p m | None \<Rightarrow> m) else m) ms out) k
    = (case map_of ms k of Some v \<Rightarrow> if keep k v \<and> f k \<noteq> None then f k else bt_get out k | None \<Rightarrow> bt_get out k)"
  using assms
proof (induction ms arbitrary: out)
  case (Cons kv ms)
  obtain k0 v0 where kv: "kv = (k0, v0)" by fastforce
  let ?out = "if keep k0 v0 then (case f k0 of Some p \<Rightarrow> bt_insert k0 p out | None \<Rightarrow> out) else out"
  have inv: "bt_invar ?out" using Cons.prems(1) by (auto simp: bt_invar_insert split: option.splits)
  have notin: "map_of ms k0 = None" using Cons.prems(2) kv by (simp add: map_of_eq_None_iff)
  have get: "bt_get ?out k = (if k = k0 \<and> keep k0 v0 \<and> f k0 \<noteq> None then f k0 else bt_get out k)"
    using Cons.prems(1) by (auto simp: bt_get_insert split: option.splits)
  show ?case
    using Cons.IH[OF inv] Cons.prems(2) kv get notin by (auto split: option.splits if_splits)
qed simp

lemma paths_for_phase_get:
  assumes "bundled_manifests parse texts = Inr ms" "paths_for_phase parse texts fs dir ph = Inr paths"
  shows "bt_get paths doc_id = (case bt_get ms doc_id of
      Some (m, _) \<Rightarrow> if ph \<in> set (effective_phases parse fs dir doc_id m) then md_path dir doc_id else None
    | None \<Rightarrow> None)"
proof -
  have inv: "bt_invar ms" using assms(1) by (auto simp: bundled_manifests_def intro: manifests_loop_invar)
  then have "distinct (map fst ms)" by (auto simp: bt_invar_def strict_sorted_iff)
  from fold_insert_get[OF bt_empty_simps(1) this, where keep = "\<lambda>k v. ph \<in> set (effective_phases parse fs dir k (fst v))"
      and f = "md_path dir" and k = doc_id]
  show ?thesis
    using assms by (auto simp: paths_for_phase_def bt_get_def bt_empty_def case_prod_unfold split: option.splits)
qed

lemma required_missing_none:
  assumes "bundled_manifests parse texts = Inr ms" "required_missing_for_phase parse texts fs dir ph = Inr []"
    "(doc_id, (m, body)) \<in> set ms" "ph \<in> set (effective_phases parse fs dir doc_id m)"
    "effective_required parse fs dir doc_id m" "md_path dir doc_id = Some p"
  shows "is_non_empty_file fs p"
  using assms by (fastforce simp: required_missing_for_phase_def split: if_splits option.splits)

text \<open>When no required document is reported missing for a phase, every bundled document whose effective
  sidecar requires it for the phase resolves to a path that holds a non-empty file.\<close>

theorem required_docs_available:
  assumes "bundled_manifests parse texts = Inr ms" "required_missing_for_phase parse texts fs dir ph = Inr []"
    "paths_for_phase parse texts fs dir ph = Inr paths" "(doc_id, (m, body)) \<in> set ms"
    "ph \<in> set (effective_phases parse fs dir doc_id m)" "effective_required parse fs dir doc_id m"
    "md_path dir doc_id = Some p"
  shows "(ctx_path paths doc_id :: 'p context_error + string) = Inr p \<and> is_non_empty_file fs p"
proof -
  have "bt_invar ms" using assms(1) by (auto simp: bundled_manifests_def intro: manifests_loop_invar)
  then have "bt_get ms doc_id = Some (m, body)"
    using assms(4) by (auto simp: bt_get_def bt_invar_def strict_sorted_iff intro: map_of_is_SomeI)
  then have "bt_get paths doc_id = Some p" using paths_for_phase_get[OF assms(1,3), of doc_id] assms(5,7) by simp
  then show ?thesis using required_missing_none[OF assms(1,2,4-7)] by (simp add: ctx_path_def)
qed

end
