(* ===== verification/Git_Client.thy ===== *)
theory Git_Client
  imports Settings
begin

text \<open>
  The git helpers of \<open>git.rs\<close> that carry logic of their own: the credential scope check and the
  configuration overlay that carries the token, the staged-change test of the commit helpers, and
  the push-with-retry loop. Running git itself is a parameter. Base64 is a parameter too.
\<close>

section \<open>Credentials\<close>

datatype auth_url_error = NotHttps string | OutsidePrefix string string

definition validate_auth_url :: "string \<Rightarrow> string \<Rightarrow> auth_url_error check" where
  "validate_auth_url url auth_url_prefix =
     (let ok = (if auth_url_prefix = [] then starts_with url ''https://'' else starts_with url auth_url_prefix)
      in if ok then Ok_unit
         else if auth_url_prefix = [] then Inl (NotHttps url)
         else Inl (OutsidePrefix auth_url_prefix url))"

definition auth_header_config_entries ::
  "(string \<Rightarrow> string) \<Rightarrow> string \<Rightarrow> string \<Rightarrow> string \<Rightarrow> string \<times> string" where
  "auth_header_config_entries base64 token auth_username auth_url_prefix =
     (let b64 = base64 (auth_username @ '':'' @ token);
          header = ''AUTHORIZATION: basic '' @ b64;
          key = (if auth_url_prefix = [] then ''http.extraheader'' else ''http.'' @ auth_url_prefix @ ''.extraheader'')
      in (key, header))"

definition build_auth_header_env ::
  "(string \<Rightarrow> string) \<Rightarrow> string \<Rightarrow> string \<Rightarrow> string \<Rightarrow> string \<Rightarrow> (string \<times> string) list" where
  "build_auth_header_env base64 dest_url token auth_username auth_url_prefix =
     (if \<not> starts_with dest_url ''https://'' then []
      else let (key, value) = auth_header_config_entries base64 token auth_username auth_url_prefix
           in [(''GIT_CONFIG_COUNT'', ''1''), (''GIT_CONFIG_KEY_0'', key), (''GIT_CONFIG_VALUE_0'', value)])"

fun set_first :: "string \<Rightarrow> string \<Rightarrow> (string \<times> string) list \<Rightarrow> (string \<times> string) list" where
  "set_first k v [] = []"
| "set_first k v ((k', v') # env) = (if k' = k then (k', v) # env else (k', v') # set_first k v env)"

definition config_count :: "(string \<times> string) list \<Rightarrow> nat" where
  "config_count env =
     (case map_of env ''GIT_CONFIG_COUNT'' of None \<Rightarrow> 0
      | Some v \<Rightarrow> (case parse_unsigned 64 v of Some n \<Rightarrow> n | None \<Rightarrow> 0))"

definition merge_git_config_entry ::
  "(string \<times> string) list \<Rightarrow> string \<Rightarrow> string \<Rightarrow> (string \<times> string) list" where
  "merge_git_config_entry base_env key value =
     (let prev_count = config_count base_env;
          new_count = prev_count + 1;
          env = (if map_of base_env ''GIT_CONFIG_COUNT'' \<noteq> None
                 then set_first ''GIT_CONFIG_COUNT'' (show_nat new_count) base_env
                 else base_env @ [(''GIT_CONFIG_COUNT'', show_nat new_count)])
      in env @ [(''GIT_CONFIG_KEY_'' @ show_nat prev_count, key), (''GIT_CONFIG_VALUE_'' @ show_nat prev_count, value)])"

text \<open>The command line and environment of \<open>push_with_pat\<close>; \<open>git\<close> runs git with them.\<close>

definition push_with_pat ::
  "(string \<Rightarrow> string) \<Rightarrow> (string list \<Rightarrow> (string \<times> string) list \<Rightarrow> 'g) \<Rightarrow> string \<Rightarrow> string \<Rightarrow> string \<Rightarrow> string
     \<Rightarrow> (string \<times> string) list \<Rightarrow> string \<Rightarrow> string \<Rightarrow> 'g" where
  "push_with_pat base64 git target_dir remote branch token base_env auth_username auth_url_prefix =
     (let (key, val) = auth_header_config_entries base64 token auth_username auth_url_prefix
      in git [''-C'', target_dir, ''push'', ''-u'', remote, branch] (merge_git_config_entry base_env key val))"

section \<open>Staging\<close>

text \<open>What \<open>run_git_output\<close> returns of a successful command: its output, trimmed.\<close>

definition run_git_output_ok :: "string \<Rightarrow> string" where
  "run_git_output_ok stdout = trim_ws stdout"

definition line_staged :: "string \<Rightarrow> bool" where
  "line_staged line \<longleftrightarrow> 2 \<le> length line \<and> line ! 0 \<noteq> CHR '' '' \<and> line ! 0 \<noteq> CHR ''?''"

definition any_staged :: "string \<Rightarrow> bool" where
  "any_staged porcelain \<longleftrightarrow> list_ex line_staged (rust_lines porcelain)"

datatype commit_outcome = Committed | NothingToCommit

text \<open>
  One git working tree as the commit helpers see it: \<open>git add\<close>, \<open>git status --porcelain\<close> and
  \<open>git commit\<close> as operations on a state, each with its failure.
\<close>

record ('s, 'e) git_tree =
  git_add :: "string list \<Rightarrow> 's \<Rightarrow> ('e + unit) \<times> 's"
  git_status :: "'s \<Rightarrow> 'e + string"
  git_commit :: "string \<Rightarrow> 's \<Rightarrow> ('e + unit) \<times> 's"
  path_exists :: "string \<Rightarrow> 's \<Rightarrow> bool"

definition commit_staged :: "('s, 'e) git_tree \<Rightarrow> string \<Rightarrow> 's \<Rightarrow> ('e + commit_outcome) \<times> 's" where
  "commit_staged g msg s =
     (case git_status g s of Inl e \<Rightarrow> (Inl e, s)
      | Inr stdout \<Rightarrow>
          if \<not> any_staged (run_git_output_ok stdout) then (Inr NothingToCommit, s)
          else (case git_commit g msg s of (Inl e, s') \<Rightarrow> (Inl e, s') | (Inr _, s') \<Rightarrow> (Inr Committed, s')))"

definition stage_and_commit ::
  "('s, 'e) git_tree \<Rightarrow> string list \<Rightarrow> string \<Rightarrow> 's \<Rightarrow> ('e + commit_outcome) \<times> 's" where
  "stage_and_commit g paths msg s =
     (let existing = filter (\<lambda>p. path_exists g p s) paths
      in if existing \<noteq> [] then
           (case git_add g (''add'' # ''--'' # existing) s of
              (Inl e, s') \<Rightarrow> (Inl e, s') | (Inr _, s') \<Rightarrow> commit_staged g msg s')
         else commit_staged g msg s)"

definition stage_force_and_commit ::
  "('s, 'e) git_tree \<Rightarrow> string list \<Rightarrow> string \<Rightarrow> 's \<Rightarrow> ('e + commit_outcome) \<times> 's" where
  "stage_force_and_commit g paths msg s =
     (if paths \<noteq> [] then
        (case git_add g (''add'' # ''-f'' # ''--'' # paths) s of
           (Inl e, s') \<Rightarrow> (Inl e, s') | (Inr _, s') \<Rightarrow> commit_staged g msg s')
      else commit_staged g msg s)"

section \<open>Push with retry\<close>

text \<open>
  The loop of \<open>push_or_retry\<close> on an abstract repository state; \<open>n\<close> counts the retries left, so the
  recursion ends. A failed push is followed by a rebase, whose failure ends the loop.
\<close>

datatype 'e push_error = PushFailed 'e | RebaseFailed nat 'e

fun push_or_retry_loop ::
  "('s \<Rightarrow> ('e + unit) \<times> 's) \<Rightarrow> ('s \<Rightarrow> ('e + unit) \<times> 's) \<Rightarrow> nat \<Rightarrow> nat \<Rightarrow> 's \<Rightarrow> ('e push_error + unit) \<times> 's" where
  "push_or_retry_loop push rebase attempt n s =
     (case push s of
        (Inr _, s') \<Rightarrow> (Inr (), s')
      | (Inl e, s') \<Rightarrow>
          (case n of 0 \<Rightarrow> (Inl (PushFailed e), s')
           | Suc m \<Rightarrow>
               (case rebase s' of
                  (Inl e', s'') \<Rightarrow> (Inl (RebaseFailed (attempt + 1) e'), s'')
                | (Inr _, s'') \<Rightarrow> push_or_retry_loop push rebase (attempt + 1) m s'')))"

declare push_or_retry_loop.simps [simp del]

definition push_or_retry ::
  "('s \<Rightarrow> ('e + unit) \<times> 's) \<Rightarrow> ('s \<Rightarrow> ('e + unit) \<times> 's) \<Rightarrow> nat \<Rightarrow> 's \<Rightarrow> ('e push_error + unit) \<times> 's" where
  "push_or_retry push rebase max_retries s = push_or_retry_loop push rebase 0 max_retries s"

section \<open>Where the token goes\<close>

definition url_host :: "string \<Rightarrow> string" where
  "url_host url = takeWhile (\<lambda>c. c \<noteq> CHR ''/'') (drop (length ''https://'') url)"

lemma effective_prefix_shape:
  assumes "effective_auth_url_prefix s = Inr p"
  shows "p = [] \<or> starts_with p ''https://'' \<and> (\<exists>q. p = q @ ''/'')"
proof (cases "p = []")
  case False
  have "\<exists>q. normalize_auth_url_prefix r = q @ ''/''" if "normalize_auth_url_prefix r \<noteq> []" for r
    using that by (auto simp: normalize_auth_url_prefix_def ends_with_def suffix_def split: if_splits)
  moreover have "''https://github.com/'' = ''https://github.com'' @ ''/''" by simp
  ultimately show ?thesis
    using assms False by (auto simp: effective_auth_url_prefix_def Let_def simp del: append.simps split: option.splits if_splits)
qed simp



section \<open>The configuration overlay\<close>

definition config_slot :: "(string \<times> string) list \<Rightarrow> nat \<Rightarrow> string option \<times> string option" where
  "config_slot env i = (map_of env (''GIT_CONFIG_KEY_'' @ show_nat i), map_of env (''GIT_CONFIG_VALUE_'' @ show_nat i))"

lemma show_nat_inject: "show_nat i = show_nat j \<longleftrightarrow> i = j"
  by (metis digits_value_show_nat)

lemma map_of_set_first:
  "map_of (set_first k v env) k' = (if k' = k \<and> k \<in> fst ` set env then Some v else map_of env k')"
  by (induction env) (auto simp: rev_image_eqI)

lemma set_first_keys: "map fst (set_first k v env) = map fst env"
  by (induction env) auto

lemma slot_names:
  "''GIT_CONFIG_KEY_'' @ show_nat i \<noteq> ''GIT_CONFIG_COUNT''" "''GIT_CONFIG_VALUE_'' @ show_nat i \<noteq> ''GIT_CONFIG_COUNT''"
  "''GIT_CONFIG_KEY_'' @ show_nat i \<noteq> ''GIT_CONFIG_VALUE_'' @ show_nat j"
  by simp_all

text \<open>Configuration overrides stack. Adding an entry to an environment whose slots are filled up to
  its count uses the next slot, raises the count by one, keeps every earlier slot and every variable
  with another name, and leaves each variable defined once, so a process started with it sees the
  caller's overrides and the credential header together.\<close>

theorem config_overlay_stacks:
  fixes env :: "(string \<times> string) list" and key "value" :: string
  assumes "distinct (map fst env)" "config_count env + 1 < 2 ^ 64"
    and "config_slot env (config_count env) = (None, None)"
  defines "env' \<equiv> merge_git_config_entry env key value"
  shows "distinct (map fst env') \<and> config_count env' = config_count env + 1
    \<and> config_slot env' (config_count env) = (Some key, Some value)
    \<and> (\<forall>i. i \<noteq> config_count env \<longrightarrow> config_slot env' i = config_slot env i)
    \<and> (\<forall>k v. map_of env k = Some v \<and> k \<noteq> ''GIT_CONFIG_COUNT'' \<longrightarrow> map_of env' k = Some v)"
proof -
  let ?n = "config_count env" and ?C = "''GIT_CONFIG_COUNT''"
  let ?K = "''GIT_CONFIG_KEY_'' @ show_nat ?n" and ?V = "''GIT_CONFIG_VALUE_'' @ show_nat ?n"
  define base where "base = (if map_of env ?C \<noteq> None then set_first ?C (show_nat (?n + 1)) env
      else env @ [(?C, show_nat (?n + 1))])"
  have env': "env' = base @ [(?K, key), (?V, value)]"
    unfolding env'_def merge_git_config_entry_def base_def Let_def by (simp only:)
  have base: "map_of base k = (if k = ?C then Some (show_nat (?n + 1)) else map_of env k)" for k
    by (auto simp: base_def map_of_set_first map_add_def weak_map_of_SomeI split: option.splits)
      (metis domI dom_map_of_conv_image_fst)
  have fresh: "map_of env ?K = None" "map_of env ?V = None" using assms(3) by (simp_all add: config_slot_def)
  have get: "map_of env' k = (if k = ?C then Some (show_nat (?n + 1)) else if k = ?K then Some key
      else if k = ?V then Some value else map_of env k)" for k
    using fresh slot_names[of ?n] slot_names(3)[of ?n ?n]
    by (simp add: env' map_add_def base del: append.simps split: option.split)
  have "parse_unsigned 64 (show_nat (?n + 1)) = Some (?n + 1)"
    using parse_unsigned_digits[of "show_nat (?n + 1)" "?n + 1" 64] assms(2) by (simp add: parse_digits_def)
  then have "config_count env' = ?n + 1" by (simp add: config_count_def get)
  moreover have "distinct (map fst env')"
  proof -
    have "map_of base ?K = None" "map_of base ?V = None"
      using fresh slot_names[of ?n] by (simp_all add: base del: append.simps)
    then have "?K \<notin> fst ` set base" "?V \<notin> fst ` set base" by (simp_all add: map_of_eq_None_iff del: append.simps)
    moreover have "distinct (map fst base)"
      using assms(1) by (auto simp: base_def set_first_keys map_of_eq_None_iff)
    ultimately show ?thesis using slot_names(3)[of ?n ?n] by (simp add: env' del: append.simps)
  qed
  ultimately show ?thesis
    using slot_names slot_names(3)[THEN not_sym] fresh
    by (auto simp: config_slot_def get show_nat_inject simp del: append.simps)
qed

theorem config_overlay_stacks_witness:
  "config_slot (merge_git_config_entry [(''GIT_CONFIG_COUNT'', ''1''), (''GIT_CONFIG_KEY_0'', ''user.name''),
       (''GIT_CONFIG_VALUE_0'', ''bot'')] ''http.extraheader'' ''h'') 0 = (Some ''user.name'', Some ''bot'')"
proof -
  let ?env = "[(''GIT_CONFIG_COUNT'', ''1''), (''GIT_CONFIG_KEY_0'', ''user.name''), (''GIT_CONFIG_VALUE_0'', ''bot'')]"
  have one: "show_nat 1 = ''1''" "show_nat 0 = ''0''" by (simp_all add: show_nat.simps digit_char_def char_of_def bit_0)
  have "parse_unsigned 64 (show_nat 1) = Some 1"
    using parse_unsigned_digits[of "show_nat 1" 1 64] by (simp add: parse_digits_def)
  then have "parse_unsigned 64 ''1'' = Some 1" unfolding one .
  then have count: "config_count ?env = 1" by (simp add: config_count_def)
  have "distinct (map fst ?env)" "config_slot ?env 1 = (None, None)" "config_slot ?env 0 = (Some ''user.name'', Some ''bot'')"
    by (simp_all add: config_slot_def one one[unfolded One_nat_def])
  with config_overlay_stacks[of ?env "''http.extraheader''" "''h''"] count show ?thesis by simp
qed

section \<open>Push with retry is bounded\<close>

datatype git_op = DoPush | DoRebase

definition logged :: "git_op \<Rightarrow> ('s \<Rightarrow> 'r \<times> 's) \<Rightarrow> 's \<times> git_op list \<Rightarrow> 'r \<times> 's \<times> git_op list" where
  "logged op f = (\<lambda>(s, trace). let (r, s') = f s in (r, s', trace @ [op]))"

lemma push_loop_log:
  "\<exists>k t. k \<le> n \<and> push_or_retry_loop (logged DoPush push) (logged DoRebase rebase) i n (s, trace)
       = (fst (push_or_retry_loop push rebase i n s), snd (push_or_retry_loop push rebase i n s),
          trace @ DoPush # concat (replicate k [DoRebase, DoPush]) @ t)
     \<and> (t = [] \<or> t = [DoRebase] \<and> k < n \<and> (\<exists>j e. fst (push_or_retry_loop push rebase i n s) = Inl (RebaseFailed j e)))
     \<and> ((\<exists>e. fst (push_or_retry_loop push rebase i n s) = Inl (PushFailed e)) \<longrightarrow> k = n)"
proof (induction n arbitrary: i s trace)
  case 0
  show ?case
    by (rule exI[of _ 0], rule exI[of _ "[]"])
      (auto simp: push_or_retry_loop.simps logged_def split: prod.splits sum.splits)
next
  case (Suc n)
  let ?loop = "push_or_retry_loop push rebase"
  obtain r s1 where p: "push s = (r, s1)" by force
  show ?case
  proof (cases r)
    case (Inr u)
    then show ?thesis using p
      by (intro exI[of _ 0] exI[of _ "[]"]) (simp add: push_or_retry_loop.simps logged_def)
  next
    case (Inl e)
    obtain r2 s2 where q: "rebase s1 = (r2, s2)" by force
    show ?thesis
    proof (cases r2)
      case (Inl e2)
      then show ?thesis using p q \<open>r = Inl e\<close>
        by (intro exI[of _ 0] exI[of _ "[DoRebase]"]) (simp add: push_or_retry_loop.simps logged_def)
    next
      case (Inr u)
      have step: "?loop i (Suc n) s = ?loop (i + 1) n s2"
        using p q Inr \<open>r = Inl e\<close> by (subst push_or_retry_loop.simps) simp
      have step': "push_or_retry_loop (logged DoPush push) (logged DoRebase rebase) i (Suc n) (s, trace)
          = push_or_retry_loop (logged DoPush push) (logged DoRebase rebase) (i + 1) n (s2, trace @ [DoPush, DoRebase])"
        using p q Inr \<open>r = Inl e\<close> by (subst push_or_retry_loop.simps) (simp add: logged_def)
      from Suc.IH[of "i + 1" s2 "trace @ [DoPush, DoRebase]"] obtain k t where kt: "k \<le> n"
        "push_or_retry_loop (logged DoPush push) (logged DoRebase rebase) (i + 1) n (s2, trace @ [DoPush, DoRebase])
           = (fst (?loop (i + 1) n s2), snd (?loop (i + 1) n s2),
              (trace @ [DoPush, DoRebase]) @ DoPush # concat (replicate k [DoRebase, DoPush]) @ t)"
        "t = [] \<or> t = [DoRebase] \<and> k < n \<and> (\<exists>j e. fst (?loop (i + 1) n s2) = Inl (RebaseFailed j e))"
        "(\<exists>e. fst (?loop (i + 1) n s2) = Inl (PushFailed e)) \<longrightarrow> k = n" by blast
      show ?thesis
        unfolding step step' kt(2)
        by (intro exI[of _ "Suc k"] exI[of _ t]) (use kt in auto)
    qed
  qed
qed


definition failing_push :: "unit \<Rightarrow> (unit + unit) \<times> unit" where
  "failing_push _ = (Inl (), ())"

definition working_rebase :: "unit \<Rightarrow> (unit + unit) \<times> unit" where
  "working_rebase _ = (Inr (), ())"


section \<open>The staged-change test\<close>

text \<open>The commit helpers take an unstaged modification for a staged one when it is the first line of
  the status: the output is trimmed before it is split into lines, so the leading blank of that line,
  which says that nothing is staged, is gone. The helper then runs \<open>git commit\<close> with nothing staged
  instead of reporting that there is nothing to commit.\<close>

theorem unstaged_change_taken_for_staged:
  assumes "git_status g s = Inr ('' M '' @ f @ [CHR 0x0A])" "f \<noteq> []" "list_all solid f"
  shows "\<not> list_ex line_staged (rust_lines ('' M '' @ f @ [CHR 0x0A]))
    \<and> stage_and_commit g [] msg s
       = (case git_commit g msg s of (Inl e, s') \<Rightarrow> (Inl e, s') | (Inr _, s') \<Rightarrow> (Inr Committed, s'))"
proof -
  have nl: "CHR 0x0A \<notin> set f" "CHR 0x0D \<notin> set f" using assms(3) by (auto simp: list_all_iff solid_def)
  then have nl': "CHR 0x0A \<notin> set ('' M '' @ f)" "CHR 0x0A \<notin> set (''M '' @ f)" by simp_all
  have cr: "strip_cr ('' M '' @ f) = '' M '' @ f"
  proof -
    have "last ('' M '' @ f) \<noteq> CHR 0x0D" using nl(2) assms(2) last_in_set[OF assms(2)] by (metis last_append)
    then have "\<not> suffix [CHR 0x0D] ('' M '' @ f)" by (metis suffix_def last_snoc)
    then show ?thesis by (simp add: strip_cr_def strip_suffix_def del: append.simps)
  qed
  have "rust_lines ('' M '' @ f @ [CHR 0x0A]) = ['' M '' @ f]"
    using rust_lines_append[of "[]" "'' M '' @ f"] nl'(1) cr by (simp add: rust_lines_def)
  moreover have "\<not> line_staged ('' M '' @ f)" by (simp add: line_staged_def)
  moreover have "run_git_output_ok ('' M '' @ f @ [CHR 0x0A]) = ''M '' @ f"
  proof -
    have f: "f = butlast f @ [last f]" "solid (last f)"
      using assms(2,3) last_in_set[OF assms(2)] by (simp_all add: list_all_iff)
    have "trim_start ('' M '' @ f @ [CHR 0x0A]) = ''M '' @ f @ [CHR 0x0A]"
      by (simp add: trim_start_ws trim_start_solid ascii_ws_def solid_def del: trim_start.simps)
    moreover have "trim_end ((''M '' @ f) @ [CHR 0x0A]) = trim_end (''M '' @ f)"
      by (rule trim_end_ws) (simp add: ascii_ws_def)
    moreover have "trim_end (''M '' @ f) = ''M '' @ f"
      using trim_end_solid[OF f(2), of "''M '' @ butlast f"] f(1) by (metis append_assoc)
    ultimately show ?thesis unfolding run_git_output_ok_def trim_ws_def by (simp only: append_assoc)
  qed
  moreover have "rust_lines (''M '' @ f) = [''M '' @ f]"
    using nl'(2) assms(2) by (simp add: rust_lines_def)
  moreover have "line_staged (''M '' @ f)" by (simp add: line_staged_def)
  ultimately show ?thesis
    using assms(1) by (simp add: stage_and_commit_def commit_staged_def any_staged_def)
qed

definition dirty_tree :: "(unit, string) git_tree" where
  "dirty_tree = \<lparr>git_add = (\<lambda>_ s. (Inr (), s)), git_status = (\<lambda>_. Inr ('' M '' @ ''notes.md'' @ [CHR 0x0A])),
     git_commit = (\<lambda>_ s. (Inl ''no changes added to commit'', s)), path_exists = (\<lambda>_ _. True)\<rparr>"

theorem unstaged_change_taken_for_staged_witness:
  "stage_and_commit dirty_tree [] ''msg'' () = (Inl ''no changes added to commit'', ())"
proof -
  have "git_status dirty_tree () = Inr ('' M '' @ ''notes.md'' @ [CHR 0x0A])" by (simp add: dirty_tree_def)
  moreover have "list_all solid ''notes.md''" by code_simp
  ultimately have "stage_and_commit dirty_tree [] ''msg'' ()
      = (case git_commit dirty_tree ''msg'' () of (Inl e, s') \<Rightarrow> (Inl e, s') | (Inr _, s') \<Rightarrow> (Inr Committed, s'))"
    using unstaged_change_taken_for_staged[of dirty_tree "()" "''notes.md''" "''msg''"] by blast
  then show ?thesis by (simp add: dirty_tree_def)
qed

end
