(* ===== verification/Publish_Push.thy ===== *)
theory Publish_Push
  imports Loader Framework_Layout Git_Client
begin

text \<open>
  Phase 5, second half (\<open>session/publish.rs\<close>, \<open>push\<close>): opening pull requests and issues on GitHub. The
  client is a record of operations on an opaque world state, as the trait \<open>GhClient\<close> is; its standard
  implementation is modelled over the octocrab calls and the git commands it makes. What GitHub
  promises is the locale \<open>octocrab_api\<close>; that no pull request is ever opened twice, whatever fails and
  however often the phase is repeated, follows from it.
\<close>

section \<open>Configuration and token\<close>

record publish_config =
  pc_remote :: string
  pc_base_repo :: string
  pc_base_branch :: string
  pc_draft_prs :: bool
  pc_pr_labels :: "string list"
  pc_branch_prefix :: string
  pc_token_file :: string
  pc_head_owner :: "string option"

text \<open>The argument is the value of \<open>HOME\<close>, if set.\<close>

definition default_publish_token_path :: "string option \<Rightarrow> string" where
  "default_publish_token_path home =
     (case home of
        Some h \<Rightarrow> if h = [] then ''.config/sbagent/gh_token''
                  else path_join (path_join (path_join h ''.config'') ''sbagent'') ''gh_token''
      | None \<Rightarrow> ''.config/sbagent/gh_token'')"

definition publish_config_from_settings :: "string option \<Rightarrow> settings \<Rightarrow> publish_config" where
  "publish_config_from_settings home s =
     (let p = se_publish s
      in \<lparr>pc_remote = unwrap_or (pu_remote p) ''origin'',
          pc_base_repo = unwrap_or (pu_base_repo p) ''cylewitruk/stacks-core'',
          pc_base_branch = unwrap_or (pu_base_branch p) ''feat/stacks-bench'',
          pc_draft_prs = unwrap_or (pu_draft_prs p) True,
          pc_pr_labels = unwrap_or (pu_pr_labels p) [],
          pc_branch_prefix = unwrap_or (pu_branch_prefix p) ''agentic'',
          pc_token_file = unwrap_or (pu_token_file p) (default_publish_token_path home),
          pc_head_owner = pu_head_owner p\<rparr>)"

datatype 'e push_failure =
    FileMissing string
  | PushIo 'e
  | EmptyToken string
  | TokenInsideFramework string string
  | MissingWorktree string
  | FeedbackFailed "'e feedback_write_error"

definition read_text :: "'e files \<Rightarrow> string \<Rightarrow> 'e push_failure + string" where
  "read_text fs p = (case fs p of Content s \<Rightarrow> Inr s | NotFound \<Rightarrow> Inl (FileMissing p) | IoFailed e \<Rightarrow> Inl (PushIo e))"

definition read_publish_token :: "'e files \<Rightarrow> string \<Rightarrow> 'e push_failure + string" where
  "read_publish_token fs path =
     and_then (read_text fs path) (\<lambda>raw.
       let trimmed = trim_ws raw in if trimmed = [] then Inl (EmptyToken path) else Inr trimmed)"

text \<open>\<open>canonicalize\<close> is \<open>std::fs::canonicalize\<close>; \<open>Path::starts_with\<close> compares whole components.\<close>

definition ensure_token_outside_framework ::
  "(string \<Rightarrow> string option) \<Rightarrow> string \<Rightarrow> string option \<Rightarrow> 'e push_failure check" where
  "ensure_token_outside_framework canonicalize token_path framework_root =
     (case framework_root of None \<Rightarrow> Ok_unit
      | Some fw \<Rightarrow>
          (let token_canon = unwrap_or (canonicalize token_path) token_path;
               frame_canon = unwrap_or (canonicalize fw) fw
           in bail_if (prefix (path_components frame_canon) (path_components token_canon)) (TokenInsideFramework token_path fw)))"

section \<open>The client\<close>

record create_pr_args =
  cpa_repo :: string
  cpa_base :: string
  cpa_head :: string
  cpa_draft :: bool
  cpa_labels :: "string list"
  cpa_title :: string
  cpa_body :: string

record git_push_auth =
  ga_token :: string
  ga_username :: string
  ga_url_prefix :: string

record ('s, 'e) publish_client =
  cl_switch_branch :: "string \<Rightarrow> string \<Rightarrow> 's \<Rightarrow> ('e + unit) \<times> 's"
  cl_add_modified :: "string \<Rightarrow> 's \<Rightarrow> ('e + unit) \<times> 's"
  cl_commit_if_staged :: "string \<Rightarrow> string \<Rightarrow> 's \<Rightarrow> ('e + unit) \<times> 's"
  cl_push_branch :: "string \<Rightarrow> string \<Rightarrow> string \<Rightarrow> git_push_auth \<Rightarrow> 's \<Rightarrow> ('e + unit) \<times> 's"
  cl_pr_exists :: "string \<Rightarrow> string \<Rightarrow> string \<Rightarrow> string \<Rightarrow> 's \<Rightarrow> ('e + bool) \<times> 's"
  cl_issue_exists :: "string \<Rightarrow> string \<Rightarrow> 's \<Rightarrow> ('e + bool) \<times> 's"
  cl_create_pr :: "create_pr_args \<Rightarrow> 's \<Rightarrow> ('e + string) \<times> 's"
  cl_create_issue :: "string \<Rightarrow> string list \<Rightarrow> string \<Rightarrow> string \<Rightarrow> 's \<Rightarrow> ('e + string) \<times> 's"

section \<open>The standard client\<close>

text \<open>
  The octocrab calls with the arguments the client passes (a listing gives the number of items on its
  page), and the git commands. None of them is defined in the sources.
\<close>

record ('s, 'e) octocrab =
  oc_list_prs :: "string \<Rightarrow> string \<Rightarrow> string \<Rightarrow> string \<Rightarrow> 's \<Rightarrow> ('e + nat) \<times> 's"
  oc_create_pr :: "string \<Rightarrow> string \<Rightarrow> string \<Rightarrow> string \<Rightarrow> string \<Rightarrow> string \<Rightarrow> bool \<Rightarrow> 's \<Rightarrow> ('e + nat \<times> string) \<times> 's"
  oc_add_labels :: "string \<Rightarrow> string \<Rightarrow> nat \<Rightarrow> string list \<Rightarrow> 's \<Rightarrow> ('e + unit) \<times> 's"
  oc_search_issues :: "string \<Rightarrow> 's \<Rightarrow> ('e + nat) \<times> 's"
  oc_create_issue :: "string \<Rightarrow> string \<Rightarrow> string \<Rightarrow> string \<Rightarrow> string list \<Rightarrow> 's \<Rightarrow> ('e + string) \<times> 's"
  oc_run_git :: "string \<Rightarrow> string list \<Rightarrow> 's \<Rightarrow> ('e + unit) \<times> 's"
  oc_has_staged_changes :: "string \<Rightarrow> 's \<Rightarrow> ('e + bool) \<times> 's"
  oc_get_remote_url :: "string \<Rightarrow> string \<Rightarrow> 's \<Rightarrow> ('e + string) \<times> 's"
  oc_git_with_env :: "string list \<Rightarrow> (string \<times> string) list \<Rightarrow> 's \<Rightarrow> ('e + unit) \<times> 's"
  oc_base64 :: "string \<Rightarrow> string"

datatype 'e std_error = ApiFailed 'e | BadSlug string | RefusedUrl auth_url_error

definition lift_api :: "('s \<Rightarrow> ('e + 'a) \<times> 's) \<Rightarrow> 's \<Rightarrow> ('e std_error + 'a) \<times> 's" where
  "lift_api m w = (case m w of (r, w') \<Rightarrow> (with_context ApiFailed r, w'))"

definition split_repo :: "string \<Rightarrow> 'e std_error + string \<times> string" where
  "split_repo repo_slug =
     (if CHR ''/'' \<in> set repo_slug
      then Inr (takeWhile (\<lambda>c. c \<noteq> CHR ''/'') repo_slug, tl (dropWhile (\<lambda>c. c \<noteq> CHR ''/'') repo_slug))
      else Inl (BadSlug repo_slug))"

definition with_repo :: "string \<Rightarrow> (string \<Rightarrow> string \<Rightarrow> 's \<Rightarrow> ('e std_error + 'a) \<times> 's) \<Rightarrow> 's \<Rightarrow> ('e std_error + 'a) \<times> 's" where
  "with_repo repo_slug f w = (case split_repo repo_slug of Inl e \<Rightarrow> (Inl e, w) | Inr (owner, repo) \<Rightarrow> f owner repo w)"

definition std_commit_if_staged :: "('s, 'e) octocrab \<Rightarrow> string \<Rightarrow> string \<Rightarrow> 's \<Rightarrow> ('e std_error + unit) \<times> 's" where
  "std_commit_if_staged api worktree message =
     then_do (lift_api (oc_has_staged_changes api worktree)) (\<lambda>staged.
       if staged then lift_api (oc_run_git api worktree [''commit'', ''-m'', message]) else give ())"

definition std_push_branch ::
  "('s, 'e) octocrab \<Rightarrow> string \<Rightarrow> string \<Rightarrow> string \<Rightarrow> git_push_auth \<Rightarrow> 's \<Rightarrow> ('e std_error + unit) \<times> 's" where
  "std_push_branch api worktree remote branch auth =
     then_do (lift_api (oc_get_remote_url api worktree remote)) (\<lambda>url.
       case validate_auth_url url (ga_url_prefix auth) of
         Inl e \<Rightarrow> fail_with (RefusedUrl e)
       | Inr _ \<Rightarrow> lift_api (push_with_pat (oc_base64 api) (oc_git_with_env api) worktree remote branch (ga_token auth) []
                     (ga_username auth) (ga_url_prefix auth)))"

definition std_pr_exists ::
  "('s, 'e) octocrab \<Rightarrow> string \<Rightarrow> string \<Rightarrow> string \<Rightarrow> string \<Rightarrow> 's \<Rightarrow> ('e std_error + bool) \<times> 's" where
  "std_pr_exists api repo head_owner branch base =
     with_repo repo (\<lambda>owner repo_name.
       then_do (lift_api (oc_list_prs api owner repo_name (head_owner @ '':'' @ branch) base)) (\<lambda>n. give (0 < n)))"

definition issue_query :: "string \<Rightarrow> string \<Rightarrow> string" where
  "issue_query repo trace_tag =
     ''repo:'' @ repo @ '' is:issue '' @ [CHR 0x22] @ trace_tag @ [CHR 0x22] @ '' in:body''"

definition std_issue_exists :: "('s, 'e) octocrab \<Rightarrow> string \<Rightarrow> string \<Rightarrow> 's \<Rightarrow> ('e std_error + bool) \<times> 's" where
  "std_issue_exists api repo trace_tag =
     then_do (lift_api (oc_search_issues api (issue_query repo trace_tag))) (\<lambda>n. give (0 < n))"

definition std_create_pr :: "('s, 'e) octocrab \<Rightarrow> create_pr_args \<Rightarrow> 's \<Rightarrow> ('e std_error + string) \<times> 's" where
  "std_create_pr api args =
     with_repo (cpa_repo args) (\<lambda>owner repo_name.
       then_do (lift_api (oc_create_pr api owner repo_name (cpa_title args) (cpa_head args) (cpa_base args)
           (cpa_body args) (cpa_draft args))) (\<lambda>(number, url).
         then_do (if cpa_labels args \<noteq> [] then lift_api (oc_add_labels api owner repo_name number (cpa_labels args)) else give ())
           (\<lambda>_. give url)))"

definition std_create_issue ::
  "('s, 'e) octocrab \<Rightarrow> string \<Rightarrow> string list \<Rightarrow> string \<Rightarrow> string \<Rightarrow> 's \<Rightarrow> ('e std_error + string) \<times> 's" where
  "std_create_issue api repo labels title body =
     with_repo repo (\<lambda>owner repo_name. lift_api (oc_create_issue api owner repo_name title body labels))"

definition std_client :: "('s, 'e) octocrab \<Rightarrow> ('s, 'e std_error) publish_client" where
  "std_client api =
     \<lparr>cl_switch_branch = (\<lambda>worktree branch. lift_api (oc_run_git api worktree [''switch'', ''-C'', branch])),
      cl_add_modified = (\<lambda>worktree. lift_api (oc_run_git api worktree [''add'', ''-u''])),
      cl_commit_if_staged = std_commit_if_staged api,
      cl_push_branch = std_push_branch api,
      cl_pr_exists = std_pr_exists api,
      cl_issue_exists = std_issue_exists api,
      cl_create_pr = std_create_pr api,
      cl_create_issue = std_create_issue api\<rparr>"

section \<open>Push\<close>

definition CONSENSUS_PR_LABELS :: "string list" where
  "CONSENSUS_PR_LABELS = [''consensus-change'', ''needs-HIP'', ''do-not-merge'']"

definition CONSENSUS_ISSUE_LABELS :: "string list" where
  "CONSENSUS_ISSUE_LABELS = [''consensus-change'', ''needs-HIP'']"

text \<open>The state \<open>push\<close> changes: the world behind the client and the feedback files by path.\<close>

record 's push_state =
  ps_world :: 's
  ps_feedback :: "string \<Rightarrow> publish_feedback option"

text \<open>The inputs of \<open>push\<close> with what it reads from the system: files, directories, the time, and
  whether storing a feedback file fails.\<close>

record ('s, 'e) push_inputs =
  pi_layout :: session_layout
  pi_framework :: layout
  pi_config :: publish_config
  pi_gh :: "('s, 'e) publish_client"
  pi_auth :: git_push_auth
  pi_files :: "'e files"
  pi_is_dir :: "string \<Rightarrow> bool"
  pi_now :: string
  pi_feedback_io :: "string \<Rightarrow> 'e option"

definition first_line :: "string \<Rightarrow> string" where
  "first_line raw = (case rust_lines raw of [] \<Rightarrow> [] | line # _ \<Rightarrow> line)"

definition pr_branch :: "('s, 'e) push_inputs \<Rightarrow> merged_target \<Rightarrow> string" where
  "pr_branch i t = pc_branch_prefix (pi_config i) @ ''/'' @ sl_id (pi_layout i) @ ''/'' @ mt_id t"

definition pr_create_args :: "('s, 'e) push_inputs \<Rightarrow> merged_target \<Rightarrow> string \<Rightarrow> string \<Rightarrow> string \<Rightarrow> create_pr_args" where
  "pr_create_args i t head_owner title body =
     \<lparr>cpa_repo = pc_base_repo (pi_config i), cpa_base = pc_base_branch (pi_config i),
      cpa_head = head_owner @ '':'' @ pr_branch i t,
      cpa_draft = (mt_delivery_mode t = ConsensusPocPr \<or> pc_draft_prs (pi_config i)),
      cpa_labels = pc_pr_labels (pi_config i) @ (if mt_delivery_mode t = ConsensusPocPr then CONSENSUS_PR_LABELS else []),
      cpa_title = title, cpa_body = body\<rparr>"

text \<open>The calls of \<open>push_pr\<close> to the client: nothing when the pull request exists, its URL when it was opened.\<close>

definition open_pr ::
  "('s, 'e) push_inputs \<Rightarrow> merged_target \<Rightarrow> string \<Rightarrow> string \<Rightarrow> string \<Rightarrow> string \<Rightarrow> 's \<Rightarrow> ('e + string option) \<times> 's" where
  "open_pr i t head_owner worktree title body =
     (let gh = pi_gh i; cfg = pi_config i; branch = pr_branch i t;
          commit_msg = (if title = [] then ''perf: optimize '' @ mt_id t else title)
      in then_do (cl_pr_exists gh (pc_base_repo cfg) head_owner branch (pc_base_branch cfg)) (\<lambda>found.
           if found then give None
           else then_do (cl_switch_branch gh worktree branch) (\<lambda>_.
                then_do (cl_add_modified gh worktree) (\<lambda>_.
                then_do (cl_commit_if_staged gh worktree commit_msg) (\<lambda>_.
                then_do (cl_push_branch gh worktree (pc_remote cfg) branch (pi_auth i)) (\<lambda>_.
                then_do (cl_create_pr gh (pr_create_args i t head_owner title body)) (\<lambda>url.
                give (Some url))))))))"

definition store_feedback ::
  "('s, 'e) push_inputs \<Rightarrow> merged_target \<Rightarrow> string option \<Rightarrow> string option \<Rightarrow> 's push_state \<Rightarrow> ('e push_failure + unit) \<times> 's push_state" where
  "store_feedback i t pr_url issue_url st =
     (let path = publish_feedback_json (pi_layout i) (mt_id t)
      in case publish_feedback_write (pi_feedback_io i path)
             \<lparr>pf_pr_url = pr_url, pf_issue_url = issue_url, pf_opened_at = pi_now i\<rparr> (ps_feedback st path) of
           (r, stored) \<Rightarrow> (with_context FeedbackFailed r, st\<lparr>ps_feedback := (ps_feedback st)(path := stored)\<rparr>))"

definition push_pr ::
  "('s, 'e) push_inputs \<Rightarrow> merged_target \<Rightarrow> string \<Rightarrow> string \<Rightarrow> 's push_state \<Rightarrow> ('e push_failure + unit) \<times> 's push_state" where
  "push_pr i t exp_dir head_owner st =
     (let worktree = path_join (session_optimizer_checkouts_dir (pi_framework i) (sl_id (pi_layout i))) (mt_id t)
      in if \<not> pi_is_dir i worktree then (Inl (MissingWorktree worktree), st)
         else case and_then (read_text (pi_files i) (path_join exp_dir ''pr-title.txt'')) (\<lambda>raw.
                   and_then (read_text (pi_files i) (path_join exp_dir ''pr-body.md'')) (\<lambda>body. Inr (first_line raw, body))) of
           Inl e \<Rightarrow> (Inl e, st)
         | Inr (title, body) \<Rightarrow>
             (case open_pr i t head_owner worktree title body (ps_world st) of
                (Inl e, w) \<Rightarrow> (Inl (PushIo e), st\<lparr>ps_world := w\<rparr>)
              | (Inr None, w) \<Rightarrow> (Ok_unit, st\<lparr>ps_world := w\<rparr>)
              | (Inr (Some url), w) \<Rightarrow> store_feedback i t (Some url) None (st\<lparr>ps_world := w\<rparr>)))"

definition trace_tag :: "('s, 'e) push_inputs \<Rightarrow> merged_target \<Rightarrow> string" where
  "trace_tag i t = ''agentic-'' @ sl_id (pi_layout i) @ ''-'' @ mt_id t"

definition open_issue ::
  "('s, 'e) push_inputs \<Rightarrow> merged_target \<Rightarrow> string \<Rightarrow> string \<Rightarrow> 's \<Rightarrow> ('e + string option) \<times> 's" where
  "open_issue i t title body =
     (let repo = pc_base_repo (pi_config i);
          nl = [CHR 0x0A];
          body_with_trace = body @ nl @ nl @ ''<!-- '' @ trace_tag i t @ '' -->'' @ nl
      in then_do (cl_issue_exists (pi_gh i) repo (trace_tag i t)) (\<lambda>found.
           if found then give None
           else then_do (cl_create_issue (pi_gh i) repo CONSENSUS_ISSUE_LABELS title body_with_trace) (\<lambda>url. give (Some url))))"

definition push_issue ::
  "('s, 'e) push_inputs \<Rightarrow> merged_target \<Rightarrow> string \<Rightarrow> 's push_state \<Rightarrow> ('e push_failure + unit) \<times> 's push_state" where
  "push_issue i t exp_dir st =
     (case and_then (read_text (pi_files i) (path_join exp_dir ''issue-title.txt'')) (\<lambda>raw.
           and_then (read_text (pi_files i) (path_join exp_dir ''issue-body.md'')) (\<lambda>body. Inr (first_line raw, body))) of
        Inl e \<Rightarrow> (Inl e, st)
      | Inr (title, body) \<Rightarrow>
          (case open_issue i t title body (ps_world st) of
             (Inl e, w) \<Rightarrow> (Inl (PushIo e), st\<lparr>ps_world := w\<rparr>)
           | (Inr None, w) \<Rightarrow> (Ok_unit, st\<lparr>ps_world := w\<rparr>)
           | (Inr (Some url), w) \<Rightarrow> store_feedback i t None (Some url) (st\<lparr>ps_world := w\<rparr>)))"

lemma trace_tag_extends: "mt_id u = mt_id t @ rest \<Longrightarrow> prefix (trace_tag i t) (trace_tag i u)"
  by (simp add: trace_tag_def)

record push_outputs =
  po_pr_count :: nat
  po_issue_count :: nat
  po_skip_count :: nat

definition push_target ::
  "('s, 'e) push_inputs \<Rightarrow> string \<Rightarrow> merged_target \<Rightarrow> push_outputs \<times> 's push_state \<Rightarrow> push_outputs \<times> 's push_state" where
  "push_target i head_owner t = (\<lambda>(out, st).
     let exp_dir = experiment_dir (pi_layout i) (mt_id t);
         present = (\<lambda>name. is_non_empty_file (pi_files i) (path_join exp_dir name));
         skip = out\<lparr>po_skip_count := po_skip_count out + 1\<rparr>
     in if mt_delivery_mode t = ConsensusIssue
        then if \<not> present ''issue-title.txt'' \<or> \<not> present ''issue-body.md'' then (skip, st)
             else (case push_issue i t exp_dir st of
                     (Inr _, st') \<Rightarrow> (out\<lparr>po_issue_count := po_issue_count out + 1\<rparr>, st')
                   | (Inl _, st') \<Rightarrow> (skip, st'))
        else if \<not> present ''pr-title.txt'' \<or> \<not> present ''pr-body.md'' then (skip, st)
             else (case push_pr i t exp_dir head_owner st of
                     (Inr _, st') \<Rightarrow> (out\<lparr>po_pr_count := po_pr_count out + 1\<rparr>, st')
                   | (Inl _, st') \<Rightarrow> (skip, st')))"

definition no_push_outputs :: push_outputs where
  "no_push_outputs = \<lparr>po_pr_count = 0, po_issue_count = 0, po_skip_count = 0\<rparr>"

datatype ('e, 'p) push_error = PushLoad "('e, 'p) load_error" | PushHeadOwnerUnset

definition push ::
  "('s, 'e) push_inputs \<Rightarrow> 'p codecs \<Rightarrow> 's push_state \<Rightarrow> (('e, 'p) push_error + push_outputs) \<times> 's push_state" where
  "push i cd st =
     (case read_optimization_targets (pi_files i) cd (pi_layout i) of
        Inl e \<Rightarrow> (Inl (PushLoad e), st)
      | Inr targets \<Rightarrow>
          if ot_targets targets = [] then (Inr no_push_outputs, st)
          else case pc_head_owner (pi_config i) of
                 None \<Rightarrow> (Inl PushHeadOwnerUnset, st)
               | Some head_owner \<Rightarrow>
                   (case fold (push_target i head_owner) (ot_targets targets) (no_push_outputs, st) of
                      (out, st') \<Rightarrow> (Inr out, st')))"

section \<open>What the client promises\<close>

lemmas world_simps = then_do_def give_def fail_with_def lift_api_def with_repo_def

text \<open>
  The pull requests known on the other side, by repository, head and base: a listing tells whether
  one is known, only a creation adds one, and a failed creation may have added it.
\<close>

locale pr_registry =
  fixes gh :: "('s, 'e) publish_client"
    and prs :: "'s \<Rightarrow> (string \<times> string \<times> string) list"
  assumes exists_reads: "cl_pr_exists gh repo owner branch base w = (r, w') \<Longrightarrow> prs w' = prs w"
    and exists_tells: "cl_pr_exists gh repo owner branch base w = (Inr found, w')
      \<Longrightarrow> found \<longleftrightarrow> (repo, owner @ '':'' @ branch, base) \<in> set (prs w)"
    and create_adds: "cl_create_pr gh args w = (v, w')
      \<Longrightarrow> prs w' = prs w @ [(cpa_repo args, cpa_head args, cpa_base args)] \<or> (\<exists>e. v = Inl e) \<and> prs w' = prs w"
    and switch_keeps: "cl_switch_branch gh wt branch w = (u, w') \<Longrightarrow> prs w' = prs w"
    and add_keeps: "cl_add_modified gh wt w = (u, w') \<Longrightarrow> prs w' = prs w"
    and commit_keeps: "cl_commit_if_staged gh wt msg w = (u, w') \<Longrightarrow> prs w' = prs w"
    and push_keeps: "cl_push_branch gh wt remote branch auth w = (u, w') \<Longrightarrow> prs w' = prs w"
    and issue_exists_keeps: "cl_issue_exists gh repo tag w = (r, w') \<Longrightarrow> prs w' = prs w"
    and issue_keeps: "cl_create_issue gh repo labels title body w = (v, w') \<Longrightarrow> prs w' = prs w"

definition pr_key :: "('s, 'e) push_inputs \<Rightarrow> string \<Rightarrow> merged_target \<Rightarrow> string \<times> string \<times> string" where
  "pr_key i head_owner t =
     (pc_base_repo (pi_config i), head_owner @ '':'' @ pr_branch i t, pc_base_branch (pi_config i))"

lemma pr_create_args_key:
  "(cpa_repo (pr_create_args i t ow ti b), cpa_head (pr_create_args i t ow ti b), cpa_base (pr_create_args i t ow ti b)) = pr_key i ow t"
  by (simp add: pr_create_args_def pr_key_def)

context pr_registry
begin

lemma open_pr_registry:
  assumes "open_pr i t head_owner wt title body w = (r, w')" "pi_gh i = gh"
  shows "(pr_key i head_owner t \<in> set (prs w) \<longrightarrow> prs w' = prs w \<and> (\<forall>x. r = Inr x \<longrightarrow> x = None))
    \<and> (prs w' = prs w \<or> pr_key i head_owner t \<notin> set (prs w) \<and> prs w' = prs w @ [pr_key i head_owner t])
    \<and> (\<forall>x. r = Inr x \<longrightarrow> pr_key i head_owner t \<in> set (prs w'))"
proof -
  obtain r0 w0 where ex: "cl_pr_exists gh (pc_base_repo (pi_config i)) head_owner (pr_branch i t) (pc_base_branch (pi_config i)) w = (r0, w0)"
    by fastforce
  note same = exists_reads[OF ex]
  show ?thesis
  proof (cases r0)
    case (Inl e)
    then show ?thesis using assms ex same by (auto simp: open_pr_def Let_def world_simps)
  next
    case (Inr found)
    have tells: "found \<longleftrightarrow> pr_key i head_owner t \<in> set (prs w)"
      using exists_tells[OF ex[unfolded Inr]] by (simp add: pr_key_def)
    show ?thesis
    proof (cases found)
      case True
      then show ?thesis using assms ex same Inr tells by (auto simp: open_pr_def Let_def world_simps)
    next
      case False
      have "prs w' = prs w0 \<and> (\<exists>e. r = Inl e)
        \<or> prs w' = prs w0 @ [pr_key i head_owner t]"
        using assms(1) ex False Inr unfolding open_pr_def Let_def assms(2) world_simps
        by (auto simp: pr_create_args_key dest!: switch_keeps add_keeps commit_keeps push_keeps create_adds
            split: prod.splits sum.splits)
      with same tells False show ?thesis by auto
    qed
  qed
qed

lemma open_issue_keeps:
  assumes "open_issue i t title body w = (r, w')" "pi_gh i = gh"
  shows "prs w' = prs w"
  using assms(1) unfolding open_issue_def Let_def assms(2) world_simps
  by (auto dest!: issue_exists_keeps issue_keeps split: prod.splits sum.splits if_splits)

end

lemma store_feedback_world: "store_feedback i t p q st = (r, st') \<Longrightarrow> ps_world st' = ps_world st"
  by (auto simp: store_feedback_def Let_def split: prod.splits)

text \<open>A target of the pull-request modes, and what a step may do to the registry on its behalf.\<close>

abbreviation pr_mode :: "merged_target \<Rightarrow> bool" where
  "pr_mode t \<equiv> mt_delivery_mode t \<noteq> ConsensusIssue"

definition may_open :: "('k list) \<Rightarrow> 'k \<Rightarrow> 'k list \<Rightarrow> bool" where
  "may_open before k after \<longleftrightarrow> after = before \<or> k \<notin> set before \<and> after = before @ [k]"

lemma may_open_refl [simp]: "may_open ks k ks"
  by (simp add: may_open_def)

lemma may_open_distinct: "may_open before k after \<Longrightarrow> distinct before \<Longrightarrow> distinct after"
  by (auto simp: may_open_def)

lemma may_open_mono: "may_open before k after \<Longrightarrow> set before \<subseteq> set after"
  by (auto simp: may_open_def)

lemma may_open_known: "may_open before k after \<Longrightarrow> k \<in> set before \<Longrightarrow> after = before"
  by (auto simp: may_open_def)

context pr_registry
begin

lemma push_pr_registry:
  assumes "push_pr i t exp_dir head_owner st = (r, st')" "pi_gh i = gh"
  shows "may_open (prs (ps_world st)) (pr_key i head_owner t) (prs (ps_world st'))"
    "r = Ok_unit \<Longrightarrow> pr_key i head_owner t \<in> set (prs (ps_world st'))"
    "pr_key i head_owner t \<in> set (prs (ps_world st)) \<Longrightarrow> ps_feedback st' = ps_feedback st"
proof -
  note fb = store_feedback_world
  note reg = open_pr_registry[OF _ assms(2)]
  show "may_open (prs (ps_world st)) (pr_key i head_owner t) (prs (ps_world st'))"
    using assms(1)
    by (auto simp: push_pr_def Let_def may_open_def dest!: reg fb split: if_splits sum.splits prod.splits option.splits)
  show "r = Ok_unit \<Longrightarrow> pr_key i head_owner t \<in> set (prs (ps_world st'))"
    using assms(1)
    by (auto simp: push_pr_def Let_def dest!: reg fb split: if_splits sum.splits prod.splits option.splits)
  show "pr_key i head_owner t \<in> set (prs (ps_world st)) \<Longrightarrow> ps_feedback st' = ps_feedback st"
    using assms(1)
    by (auto simp: push_pr_def Let_def dest!: reg split: if_splits sum.splits prod.splits option.splits)
qed

lemma push_issue_registry:
  assumes "push_issue i t exp_dir st = (r, st')" "pi_gh i = gh"
  shows "prs (ps_world st') = prs (ps_world st)"
proof -
  show ?thesis
    using assms(1)
    by (auto simp: push_issue_def dest!: open_issue_keeps[OF _ assms(2)] store_feedback_world
        split: sum.splits prod.splits option.splits)
qed

lemma push_target_registry:
  assumes "push_target i head_owner t (out, st) = (out', st')" "pi_gh i = gh"
  shows "may_open (prs (ps_world st)) (pr_key i head_owner t) (prs (ps_world st'))"
    "po_skip_count out \<le> po_skip_count out'"
    "po_skip_count out' = po_skip_count out \<Longrightarrow> pr_mode t \<Longrightarrow> pr_key i head_owner t \<in> set (prs (ps_world st'))"
    "\<not> pr_mode t \<Longrightarrow> prs (ps_world st') = prs (ps_world st)"
proof -
  let ?dir = "experiment_dir (pi_layout i) (mt_id t)"
  consider "st' = st" "po_skip_count out' = Suc (po_skip_count out)"
    | r where "push_pr i t ?dir head_owner st = (r, st')" "pr_mode t"
        "po_skip_count out' = (case r of Inl _ \<Rightarrow> Suc (po_skip_count out) | Inr _ \<Rightarrow> po_skip_count out)"
    | r where "push_issue i t ?dir st = (r, st')" "\<not> pr_mode t" "po_skip_count out \<le> po_skip_count out'"
    using assms(1) by (auto simp: push_target_def Let_def split: if_splits sum.splits prod.splits)
  then have "may_open (prs (ps_world st)) (pr_key i head_owner t) (prs (ps_world st'))
    \<and> po_skip_count out \<le> po_skip_count out'
    \<and> (po_skip_count out' = po_skip_count out \<longrightarrow> pr_mode t \<longrightarrow> pr_key i head_owner t \<in> set (prs (ps_world st')))
    \<and> (\<not> pr_mode t \<longrightarrow> prs (ps_world st') = prs (ps_world st))"
  proof cases
    case (2 r)
    note reg = push_pr_registry(1,2)[OF 2(1) assms(2)]
    show ?thesis using reg 2(2,3) by (cases r) auto
  next
    case (3 r)
    then show ?thesis using push_issue_registry[OF 3(1) assms(2)] by simp
  qed simp
  then show "may_open (prs (ps_world st)) (pr_key i head_owner t) (prs (ps_world st'))"
    "po_skip_count out \<le> po_skip_count out'"
    "po_skip_count out' = po_skip_count out \<Longrightarrow> pr_mode t \<Longrightarrow> pr_key i head_owner t \<in> set (prs (ps_world st'))"
    "\<not> pr_mode t \<Longrightarrow> prs (ps_world st') = prs (ps_world st)"
    by blast+
qed

lemma push_targets_registry:
  assumes "fold (push_target i head_owner) ts (out, st) = (out', st')" "pi_gh i = gh"
  shows "distinct (prs (ps_world st)) \<Longrightarrow> distinct (prs (ps_world st'))"
    "set (prs (ps_world st)) \<subseteq> set (prs (ps_world st'))"
    "po_skip_count out \<le> po_skip_count out'"
    "po_skip_count out' = po_skip_count out \<Longrightarrow> \<forall>t \<in> set ts. pr_mode t \<longrightarrow> pr_key i head_owner t \<in> set (prs (ps_world st'))"
    "\<forall>t \<in> set ts. pr_mode t \<longrightarrow> pr_key i head_owner t \<in> set (prs (ps_world st)) \<Longrightarrow> prs (ps_world st') = prs (ps_world st)"
proof -
  have "(distinct (prs (ps_world st)) \<longrightarrow> distinct (prs (ps_world st')))
    \<and> set (prs (ps_world st)) \<subseteq> set (prs (ps_world st')) \<and> po_skip_count out \<le> po_skip_count out'
    \<and> (po_skip_count out' = po_skip_count out \<longrightarrow> (\<forall>t \<in> set ts. pr_mode t \<longrightarrow> pr_key i head_owner t \<in> set (prs (ps_world st'))))
    \<and> ((\<forall>t \<in> set ts. pr_mode t \<longrightarrow> pr_key i head_owner t \<in> set (prs (ps_world st))) \<longrightarrow> prs (ps_world st') = prs (ps_world st))"
    using assms(1)
  proof (induction ts arbitrary: out st)
    case (Cons t ts)
    obtain out1 st1 where one: "push_target i head_owner t (out, st) = (out1, st1)" by fastforce
    note step = push_target_registry[OF one assms(2)]
    have rest: "fold (push_target i head_owner) ts (out1, st1) = (out', st')" using Cons.prems one by simp
    note IH = Cons.IH[OF rest]
    have keep: "prs (ps_world st1) = prs (ps_world st)" if "pr_mode t \<longrightarrow> pr_key i head_owner t \<in> set (prs (ps_world st))"
      by (cases "pr_mode t") (use that step(4) may_open_known[OF step(1)] in auto)
    have count: "po_skip_count out \<le> po_skip_count out'" using IH step(2) by linarith
    have known: "\<forall>u \<in> set (t # ts). pr_mode u \<longrightarrow> pr_key i head_owner u \<in> set (prs (ps_world st'))"
      if "po_skip_count out' = po_skip_count out"
    proof -
      have "po_skip_count out1 = po_skip_count out" "po_skip_count out' = po_skip_count out1"
        using IH step(2) that by linarith+
      then show ?thesis using IH step(3) by auto
    qed
    have noop: "prs (ps_world st') = prs (ps_world st)"
      if "\<forall>u \<in> set (t # ts). pr_mode u \<longrightarrow> pr_key i head_owner u \<in> set (prs (ps_world st))"
      using IH keep that by simp
    from IH count known noop may_open_distinct[OF step(1)] may_open_mono[OF step(1)] show ?case by blast
  qed simp
  then show "distinct (prs (ps_world st)) \<Longrightarrow> distinct (prs (ps_world st'))"
    "set (prs (ps_world st)) \<subseteq> set (prs (ps_world st'))" "po_skip_count out \<le> po_skip_count out'"
    "po_skip_count out' = po_skip_count out \<Longrightarrow> \<forall>t \<in> set ts. pr_mode t \<longrightarrow> pr_key i head_owner t \<in> set (prs (ps_world st'))"
    "\<forall>t \<in> set ts. pr_mode t \<longrightarrow> pr_key i head_owner t \<in> set (prs (ps_world st)) \<Longrightarrow> prs (ps_world st') = prs (ps_world st)"
    by blast+
qed

lemma push_distinct:
  assumes "push i cd st = (r, st')" "pi_gh i = gh" "distinct (prs (ps_world st))"
  shows "distinct (prs (ps_world st'))"
  using assms(1,3)
  by (auto simp: push_def dest!: push_targets_registry(1)[OF _ assms(2)] split: sum.splits if_splits option.splits prod.splits)

lemma push_retry:
  assumes "push i cd st = (Inr out, st1)" "po_skip_count out = 0" "push i cd st1 = (r, st2)" "pi_gh i = gh"
  shows "prs (ps_world st2) = prs (ps_world st1)"
proof (cases "read_optimization_targets (pi_files i) cd (pi_layout i)")
  case (Inr targets)
  show ?thesis
  proof (cases "pc_head_owner (pi_config i)")
    case (Some head_owner)
    show ?thesis
    proof (cases "ot_targets targets = []")
      case False
      have run1: "fold (push_target i head_owner) (ot_targets targets) (no_push_outputs, st) = (out, st1)"
        using assms(1) Inr Some False by (simp add: push_def split: prod.splits)
      obtain out2 where run2: "fold (push_target i head_owner) (ot_targets targets) (no_push_outputs, st1) = (out2, st2)"
        using assms(3) Inr Some False by (auto simp: push_def split: prod.splits)
      have "po_skip_count out = po_skip_count no_push_outputs" using assms(2) by (simp add: no_push_outputs_def)
      then show ?thesis using push_targets_registry(4)[OF run1 assms(4)] push_targets_registry(5)[OF run2 assms(4)] by blast
    qed (use assms Inr in \<open>simp add: push_def\<close>)
  qed (use assms Inr in \<open>auto simp: push_def split: if_splits\<close>)
qed (use assms in \<open>simp add: push_def\<close>)

end

section \<open>What GitHub promises\<close>

text \<open>
  The documented behaviour the standard client relies on: a listing over all states by head and base
  finds a pull request exactly when it was opened, opening one adds it (also when the answer is lost),
  and nothing else opens one.
\<close>

locale octocrab_api =
  fixes api :: "('s, 'e) octocrab"
    and prs :: "'s \<Rightarrow> (string \<times> string \<times> string) list"
  assumes list_reads: "oc_list_prs api owner repo head base w = (n, w') \<Longrightarrow> prs w' = prs w"
    and list_tells: "oc_list_prs api owner repo head base w = (Inr k, w')
      \<Longrightarrow> 0 < k \<longleftrightarrow> (owner @ ''/'' @ repo, head, base) \<in> set (prs w)"
    and create_opens: "oc_create_pr api owner repo title head base body draft w = (c, w')
      \<Longrightarrow> prs w' = prs w @ [(owner @ ''/'' @ repo, head, base)] \<or> (\<exists>e. c = Inl e) \<and> prs w' = prs w"
    and labels_keep: "oc_add_labels api owner repo number labels w = (u, w') \<Longrightarrow> prs w' = prs w"
    and search_keeps: "oc_search_issues api query w = (n, w') \<Longrightarrow> prs w' = prs w"
    and issue_opens: "oc_create_issue api owner repo title body labels w = (x, w') \<Longrightarrow> prs w' = prs w"
    and git_keeps: "oc_run_git api worktree args w = (u, w') \<Longrightarrow> prs w' = prs w"
    and staged_keeps: "oc_has_staged_changes api worktree w = (y, w') \<Longrightarrow> prs w' = prs w"
    and url_keeps: "oc_get_remote_url api worktree remote w = (x, w') \<Longrightarrow> prs w' = prs w"
    and git_env_keeps: "oc_git_with_env api args env w = (u, w') \<Longrightarrow> prs w' = prs w"

lemma split_repo_Inr: "split_repo repo_slug = Inr (owner, repo) \<Longrightarrow> repo_slug = owner @ ''/'' @ repo"
proof -
  assume split: "split_repo repo_slug = Inr (owner, repo)"
  then have "CHR ''/'' \<in> set repo_slug" by (auto simp: split_repo_def split: if_splits)
  then have ne: "dropWhile (\<lambda>c. c \<noteq> CHR ''/'') repo_slug \<noteq> []" by (auto simp: dropWhile_eq_Nil_conv)
  then have "hd (dropWhile (\<lambda>c. c \<noteq> CHR ''/'') repo_slug) = CHR ''/''" using hd_dropWhile[OF ne] by simp
  with ne have "dropWhile (\<lambda>c. c \<noteq> CHR ''/'') repo_slug = CHR ''/'' # tl (dropWhile (\<lambda>c. c \<noteq> CHR ''/'') repo_slug)"
    by (metis list.collapse)
  with split show ?thesis
    by (metis (no_types, lifting) append_Cons append_Nil old.prod.inject split_repo_def sum.inject(2) sum.simps(4)
        takeWhile_dropWhile_id)
qed

sublocale octocrab_api \<subseteq> std: pr_registry "std_client api" prs
proof
  show "cl_pr_exists (std_client api) repo owner branch base w = (r, w') \<Longrightarrow> prs w' = prs w" for repo owner branch base w r w'
    by (auto simp: std_client_def std_pr_exists_def world_simps split: sum.splits prod.splits dest!: list_reads)
  show "cl_pr_exists (std_client api) repo owner branch base w = (Inr found, w')
      \<Longrightarrow> found \<longleftrightarrow> (repo, owner @ '':'' @ branch, base) \<in> set (prs w)" for repo owner branch base w found w'
    by (auto simp: std_client_def std_pr_exists_def world_simps with_context_Inr
        split: sum.splits prod.splits dest!: list_tells split_repo_Inr)
  show "cl_create_pr (std_client api) args w = (v, w')
      \<Longrightarrow> prs w' = prs w @ [(cpa_repo args, cpa_head args, cpa_base args)] \<or> (\<exists>e. v = Inl e) \<and> prs w' = prs w" for args w v w'
    by (auto simp: std_client_def std_create_pr_def world_simps
        split: sum.splits prod.splits if_splits dest!: create_opens labels_keep split_repo_Inr)
  show "cl_push_branch (std_client api) wt remote branch auth w = (u, w') \<Longrightarrow> prs w' = prs w" for wt remote branch auth w u w'
    by (auto simp: std_client_def std_push_branch_def world_simps push_with_pat_def
        split: sum.splits prod.splits dest!: url_keeps git_env_keeps)
  show "cl_commit_if_staged (std_client api) wt msg w = (u, w') \<Longrightarrow> prs w' = prs w" for wt msg w u w'
    by (auto simp: std_client_def std_commit_if_staged_def world_simps
        split: sum.splits prod.splits if_splits dest!: staged_keeps git_keeps)
  show "cl_issue_exists (std_client api) repo tag w = (r, w') \<Longrightarrow> prs w' = prs w" for repo tag w r w'
    by (auto simp: std_client_def std_issue_exists_def world_simps split: sum.splits prod.splits dest!: search_keeps)
  show "cl_create_issue (std_client api) repo labels title body w = (v, w') \<Longrightarrow> prs w' = prs w" for repo labels title body w v w'
    by (auto simp: std_client_def std_create_issue_def world_simps split: sum.splits prod.splits dest!: issue_opens)
qed (auto simp: std_client_def world_simps split: prod.splits dest!: git_keeps)

section \<open>Repeated publishing\<close>

text \<open>
  The states that runs of \<open>push\<close> lead to, for any sessions, settings, artifacts and tokens, with an
  operator who edits or removes feedback files in between.
\<close>

inductive publishing :: "('s, 'e) publish_client \<Rightarrow> 's push_state \<Rightarrow> 's push_state \<Rightarrow> bool" for gh where
  start: "publishing gh st st"
| run: "publishing gh st0 st \<Longrightarrow> pi_gh i = gh \<Longrightarrow> push i (cd :: 'e codecs) st = (r, st') \<Longrightarrow> publishing gh st0 st'"
| operator: "publishing gh st0 st \<Longrightarrow> publishing gh st0 (st\<lparr>ps_feedback := fb\<rparr>)"

context octocrab_api
begin

lemma publishing_distinct:
  assumes "publishing (std_client api) st st'" "distinct (prs (ps_world st))"
  shows "distinct (prs (ps_world st'))"
  using assms
proof (induction rule: publishing.induct)
  case (run st0 st i cd r st')
  show ?case by (rule std.push_distinct[OF run.hyps(3,2) run.IH[OF run.prems]])
qed simp_all

lemma retry_opens_nothing:
  assumes "pi_gh i = std_client api" "push i cd st = (Inr out, st1)" "po_skip_count out = 0" "push i cd st1 = (r, st2)"
  shows "prs (ps_world st2) = prs (ps_world st1)"
  using std.push_retry[OF assms(2-4,1)] .

lemma known_pr_not_recorded:
  assumes "pi_gh i = std_client api" "pr_key i head_owner t \<in> set (prs (ps_world st))"
    "push_pr i t exp_dir head_owner st = (r, st')"
  shows "ps_feedback st' = ps_feedback st" "prs (ps_world st') = prs (ps_world st)"
  using std.push_pr_registry(3)[OF assms(3,1,2)] may_open_known[OF std.push_pr_registry(1)[OF assms(3,1)] assms(2)] .

end

text \<open>GitHub as a list of the opened pull requests; adding labels fails when the flag says so.\<close>

definition mem_api :: "bool \<Rightarrow> ((string \<times> string \<times> string) list, unit) octocrab" where
  "mem_api labels_fail =
     \<lparr>oc_list_prs = (\<lambda>owner repo head base w. (Inr (length (filter (\<lambda>k. k = (owner @ ''/'' @ repo, head, base)) w)), w)),
      oc_create_pr = (\<lambda>owner repo title head base body draft w.
        (Inr (length w, ''https://github.com/x/y/pull/1''), w @ [(owner @ ''/'' @ repo, head, base)])),
      oc_add_labels = (\<lambda>owner repo number labels w. (if labels_fail then Inl () else Ok_unit, w)),
      oc_search_issues = (\<lambda>query w. (Inr 0, w)),
      oc_create_issue = (\<lambda>owner repo title body labels w. (Inr ''https://github.com/x/y/issues/1'', w)),
      oc_run_git = (\<lambda>worktree args w. (Ok_unit, w)),
      oc_has_staged_changes = (\<lambda>worktree w. (Inr True, w)),
      oc_get_remote_url = (\<lambda>worktree remote w. (Inr ''https://github.com/me/repo'', w)),
      oc_git_with_env = (\<lambda>args env w. (Ok_unit, w)),
      oc_base64 = (\<lambda>s. s)\<rparr>"

interpretation mem: octocrab_api "mem_api labels_fail" "\<lambda>w. w" for labels_fail
  by unfold_locales (auto simp: mem_api_def filter_empty_conv)

definition sample_push :: "bool \<Rightarrow> ((string \<times> string \<times> string) list, unit std_error) push_inputs" where
  "sample_push labels_fail =
     \<lparr>pi_layout = sample_session,
      pi_framework = \<lparr>ly_framework = None, ly_schemas_dir = ''/op/schemas'', ly_queries_dir = ''/op/queries'',
        ly_context_dir = ''/op/context'', ly_memory_dir = ''/op/memory'', ly_sessions_root = ''/data'',
        ly_operator_repo_root = Some ''/op'', ly_stacks_bench_data_dir = ''/data/bench'',
        ly_bench_lock = ''/data/benchmark.lock'', ly_test_lock = ''/data/test.lock'',
        ly_stacks_bench_shadow_dir = None, ly_agent_workspace_root = Some ''/ws''\<rparr>,
      pi_config = \<lparr>pc_remote = ''origin'', pc_base_repo = ''x/y'', pc_base_branch = ''main'', pc_draft_prs = False,
        pc_pr_labels = [''perf''], pc_branch_prefix = ''agentic'', pc_token_file = ''/tok'', pc_head_owner = Some ''me''\<rparr>,
      pi_gh = std_client (mem_api labels_fail),
      pi_auth = \<lparr>ga_token = ''t'', ga_username = ''u'', ga_url_prefix = ''https://github.com/''\<rparr>,
      pi_files = (\<lambda>_. Content ''x''), pi_is_dir = (\<lambda>_. True), pi_now = ''2026-01-01T00:00:00Z'',
      pi_feedback_io = (\<lambda>_. None)\<rparr>"

definition sample_push_state :: "(string \<times> string \<times> string) list push_state" where
  "sample_push_state = \<lparr>ps_world = [], ps_feedback = (\<lambda>_. None)\<rparr>"

definition sample_push_codecs :: "unit std_error codecs" where
  "sample_push_codecs = \<lparr>parse_report = (\<lambda>_. Inr (Implemented sample_report)), parse_verdict = (\<lambda>_. Inr sample_verdict),
     parse_run_ids = (\<lambda>_. Inr []), parse_provenance = (\<lambda>_. Inl (BadSlug [])),
     parse_targets = (\<lambda>_. Inr sample_merge), parse_analysis = (\<lambda>_. Inl (BadSlug [])), parse_candidates = (\<lambda>_. Inl (BadSlug [])),
     parse_summary = (\<lambda>_. Inl (BadSlug [])), parse_source = (\<lambda>_. Inl (BadSlug []))\<rparr>"

text \<open>C9: if GitHub keeps its promises, no sequence of \<open>push\<close> runs ever opens the same pull request twice,
  for any sessions and settings, whichever calls fail in between (a creation whose answer is lost
  included), and whatever the operator does to the feedback files.\<close>

theorem push_never_duplicates:
  assumes "octocrab_api api prs" "publishing (std_client api) st st'" "distinct (prs (ps_world st))"
  shows "distinct (prs (ps_world st'))"
  using octocrab_api.publishing_distinct[OF assms] .

lemma sample_push_reads:
  "read_optimization_targets (\<lambda>_. Content ''x'') sample_push_codecs sample_session = Inr sample_merge"
  by (simp add: read_optimization_targets_def parse_json_def sample_push_codecs_def sample_merge_doc_valid)

lemma sample_push_run:
  "\<exists>out st. push (sample_push False) sample_push_codecs sample_push_state = (Inr out, st)
     \<and> po_pr_count out = 1 \<and> po_skip_count out = 0 \<and> length (ps_world st) = 1"
proof -
  have "case fold (push_target (sample_push False) ''me'') (ot_targets sample_merge) (no_push_outputs, sample_push_state) of
      (out, st) \<Rightarrow> po_pr_count out = 1 \<and> po_skip_count out = 0 \<and> length (ps_world st) = 1"
    by code_simp
  moreover have "pi_files (sample_push False) = (\<lambda>_. Content ''x'')" "pi_layout (sample_push False) = sample_session"
    "pc_head_owner (pi_config (sample_push False)) = Some ''me''" "ot_targets sample_merge \<noteq> []"
    by (simp_all add: sample_push_def sample_merge_def)
  ultimately show ?thesis
    by (simp add: push_def sample_push_reads split: prod.splits)
qed

theorem push_never_duplicates_witness:
  "\<exists>st. publishing (std_client (mem_api False)) sample_push_state st \<and> length (ps_world st) = 1 \<and> distinct (ps_world st)"
proof -
  obtain out st where run: "push (sample_push False) sample_push_codecs sample_push_state = (Inr out, st)"
    and len: "length (ps_world st) = 1" using sample_push_run by (elim exE conjE)
  have "pi_gh (sample_push False) = std_client (mem_api False)" by (simp add: sample_push_def)
  then have reach: "publishing (std_client (mem_api False)) sample_push_state st"
    by (rule publishing.run[OF publishing.start _ run])
  from push_never_duplicates[OF mem.octocrab_api_axioms reach] reach len show ?thesis
    by (auto simp: sample_push_state_def)
qed

text \<open>C25: a run of \<open>push\<close> that skipped nothing can be repeated: the second run opens no pull request.\<close>

theorem push_retry_opens_nothing:
  assumes "octocrab_api api prs" "pi_gh i = std_client api"
    "push i cd st = (Inr out, st1)" "po_skip_count out = 0" "push i cd st1 = (r, st2)"
  shows "prs (ps_world st2) = prs (ps_world st1)"
  using octocrab_api.retry_opens_nothing[OF assms] .

theorem push_retry_opens_nothing_witness:
  "\<exists>out st1 r st2. push (sample_push False) sample_push_codecs sample_push_state = (Inr out, st1) \<and> length (ps_world st1) = 1
     \<and> push (sample_push False) sample_push_codecs st1 = (r, st2) \<and> ps_world st2 = ps_world st1"
proof -
  obtain out st1 where run: "push (sample_push False) sample_push_codecs sample_push_state = (Inr out, st1)"
    and out: "po_skip_count out = 0" and len: "length (ps_world st1) = 1" using sample_push_run by (elim exE conjE)
  obtain r st2 where again: "push (sample_push False) sample_push_codecs st1 = (r, st2)" by fastforce
  have gh: "pi_gh (sample_push False) = std_client (mem_api False)" by (simp add: sample_push_def)
  from push_retry_opens_nothing[OF mem.octocrab_api_axioms gh run out again] run again len show ?thesis by blast
qed

text \<open>A client that refuses to open a pull request that is not a draft or lacks a safety label.\<close>

definition monitored :: "'e \<Rightarrow> ('s, 'e) publish_client \<Rightarrow> ('s, 'e) publish_client" where
  "monitored veto gh = gh\<lparr>cl_create_pr := (\<lambda>args w.
     if cpa_draft args \<and> {''consensus-change'', ''needs-HIP'', ''do-not-merge''} \<subseteq> set (cpa_labels args)
     then cl_create_pr gh args w else (Inl veto, w))\<rparr>"

text \<open>C11: no pull request for a consensus-breaking proof of concept leaves the coordinator as ready for
  review or unmarked: a monitor on the client that refuses to open one that is not a draft or lacks a
  safety label changes nothing about how such a target is pushed, whatever the settings say.
\<close>

theorem poc_prs_draft_and_labelled:
  assumes "mt_delivery_mode t = ConsensusPocPr"
  shows "push_pr (i\<lparr>pi_gh := monitored veto (pi_gh i)\<rparr>) t exp_dir head_owner st = push_pr i t exp_dir head_owner st"
proof -
  let ?i = "i\<lparr>pi_gh := monitored veto (pi_gh i)\<rparr>"
  have same: "pr_create_args ?i t head_owner title body = pr_create_args i t head_owner title body"
    "pr_branch ?i t = pr_branch i t" for title body
    by (simp_all add: pr_create_args_def pr_branch_def)
  have passes: "cl_create_pr (monitored veto (pi_gh i)) (pr_create_args i t head_owner title body)
      = cl_create_pr (pi_gh i) (pr_create_args i t head_owner title body)" for title body
    using assms by (auto simp: monitored_def pr_create_args_def CONSENSUS_PR_LABELS_def fun_eq_iff)
  have others: "cl_pr_exists (monitored veto gh) = cl_pr_exists gh" "cl_switch_branch (monitored veto gh) = cl_switch_branch gh"
    "cl_add_modified (monitored veto gh) = cl_add_modified gh" "cl_commit_if_staged (monitored veto gh) = cl_commit_if_staged gh"
    "cl_push_branch (monitored veto gh) = cl_push_branch gh" for gh
    by (simp_all add: monitored_def)
  have op: "open_pr ?i t head_owner wt title body = open_pr i t head_owner wt title body" for wt title body
    by (simp add: open_pr_def Let_def same passes others cong: if_cong)
  have fb: "store_feedback ?i t p q = store_feedback i t p q" for p q
    by (simp add: store_feedback_def Let_def fun_eq_iff)
  show ?thesis by (simp only: push_pr_def op fb) (simp add: Let_def cong: if_cong)
qed

definition sample_poc :: merged_target where
  "sample_poc = (carry_target ''fam'' 0 sample_target)\<lparr>mt_delivery_mode := ConsensusPocPr\<rparr>"

theorem poc_prs_draft_and_labelled_witness:
  "mt_delivery_mode sample_poc = ConsensusPocPr
   \<and> push_pr ((sample_push False)\<lparr>pi_gh := monitored (BadSlug []) (pi_gh (sample_push False))\<rparr>) sample_poc ''/e'' ''me'' sample_push_state
     = push_pr (sample_push False) sample_poc ''/e'' ''me'' sample_push_state"
proof -
  have "mt_delivery_mode sample_poc = ConsensusPocPr" by (simp add: sample_poc_def)
  with poc_prs_draft_and_labelled[OF this, where i = "sample_push False" and veto = "BadSlug []" and exp_dir = "''/e''"
      and head_owner = "''me''" and st = sample_push_state]
  show ?thesis by (rule conjI[rotated])
qed



end
