(* ===== verification/Preflight.thy ===== *)
theory Preflight
  imports Publish_Push Bundles
begin

text \<open>
  The checks before a session: \<open>session/preflight.rs\<close> (installed binary, prompt drift, free disk, source
  configuration, autonomy gates) and the publish wiring of \<open>cli/preflight.rs\<close>. The theorems say exactly
  when a session may start, and what wiring that passes guarantees to the push phase. Clocks, file
  times, the disk probe and GitHub are arguments.
\<close>

section \<open>Findings\<close>

datatype severity = Warn | Fail

definition severity_str :: "severity \<Rightarrow> string" where
  "severity_str s = (case s of Warn \<Rightarrow> ''WARN'' | Fail \<Rightarrow> ''FAIL'')"

record preflight_finding =
  pf_severity :: severity
  pf_check :: string
  pf_message :: string
  pf_remediation :: string

definition finding_str :: "preflight_finding \<Rightarrow> string" where
  "finding_str f =
     severity_str (pf_severity f) @ '' ['' @ pf_check f @ ''] '' @ pf_message f @ [CHR 0x0A]
     @ ''  remediation: '' @ pf_remediation f"

definition has_failures :: "preflight_finding list \<Rightarrow> bool" where
  "has_failures findings \<longleftrightarrow> list_ex (\<lambda>f. pf_severity f = Fail) findings"

text \<open>The lines written to stderr, and the number of blocking findings as the error.\<close>

definition report_findings :: "preflight_finding list \<Rightarrow> (nat + unit) \<times> string list" where
  "report_findings findings =
     (if findings = [] then (Ok_unit, [])
      else (bail_if (has_failures findings) (length (filter (\<lambda>f. pf_severity f = Fail) findings)),
            map (\<lambda>f. ''preflight '' @ finding_str f) findings))"

record cli_context =
  cc_settings :: settings
  cc_layout :: layout

section \<open>The checks\<close>

datatype 'io stat_outcome = StatOk "'io + system_time" | StatMissing | StatFailed 'io

datatype 'io preflight_error =
    ReadingMtime string 'io
  | Stat string 'io
  | Gates "'io gate_error"

text \<open>Paths are equal when their components are.\<close>

definition check_installed_binary_drift ::
  "(string \<Rightarrow> 'io stat_outcome) \<Rightarrow> string option \<Rightarrow> cli_context \<Rightarrow> 'io preflight_error + preflight_finding list" where
  "check_installed_binary_drift stat current_exe ctx =
     (case ly_framework (cc_layout ctx) of None \<Rightarrow> Inr []
      | Some framework \<Rightarrow>
          (let workspace_bin = path_join framework ''target/release/sbagent''
           in case stat workspace_bin of
                StatMissing \<Rightarrow> Inr []
              | StatFailed e \<Rightarrow> Inl (Stat workspace_bin e)
              | StatOk (Inl e) \<Rightarrow> Inl (ReadingMtime workspace_bin e)
              | StatOk (Inr workspace_mtime) \<Rightarrow>
                  (case current_exe of None \<Rightarrow> Inr []
                   | Some running_path \<Rightarrow>
                       if path_components running_path = path_components workspace_bin then Inr []
                       else case stat running_path of
                         StatOk (Inl e) \<Rightarrow> Inl (ReadingMtime running_path e)
                       | StatOk (Inr running_mtime) \<Rightarrow>
                           Inr (if running_mtime < workspace_mtime then
                             [\<lparr>pf_severity = Warn, pf_check = ''installed-binary-drift'',
                               pf_message = ''running sbagent at '' @ running_path
                                 @ '' is older than workspace build at '' @ workspace_bin,
                               pf_remediation = ''cp '' @ workspace_bin @ '' '' @ running_path
                                 @ '' (or `cargo install --path crates/stacks-bench-agent --force`)''\<rparr>]
                             else [])
                       | _ \<Rightarrow> Inr [])))"

definition drift_finding :: "string \<Rightarrow> drift_entry \<Rightarrow> preflight_finding" where
  "drift_finding dir d =
     (let file_name = drift_file_name d;
          severity = (if file_name = ''optimizer.md'' then Fail else Warn);
          kind = (case d of Missing _ \<Rightarrow> ''missing on disk'' | Differs _ \<Rightarrow> ''differs from bundled default'')
      in \<lparr>pf_severity = severity, pf_check = ''prompt-drift'',
          pf_message = ''prompt '' @ file_name @ '': '' @ kind @ '' ('' @ dir @ '')'',
          pf_remediation = (if severity = Fail
            then ''sbagent sync (load-bearing prompt '' @ em_dash
              @ '' orchestrator's typed-report gate depends on bundled contract)''
            else ''sbagent sync (or merge the bundled changes if your edits should be preserved)'')\<rparr>)"

definition check_critical_prompt_drift ::
  "(string \<Rightarrow> string) \<Rightarrow> ('io \<Rightarrow> string) \<Rightarrow> 'io files \<Rightarrow> cli_context \<Rightarrow> preflight_finding list" where
  "check_critical_prompt_drift texts show_io fs ctx =
     (case la_prompt_overrides_dir (se_layout (cc_settings ctx)) of None \<Rightarrow> []
      | Some dir \<Rightarrow>
          (case prompts_drift texts dir fs of
             Inl e \<Rightarrow>
               [\<lparr>pf_severity = Warn, pf_check = ''prompt-drift'',
                 pf_message = ''prompt drift probe failed: '' @ show_io e,
                 pf_remediation = ''investigate '' @ dir @ '' '' @ em_dash
                   @ '' agent may be running against stale templates''\<rparr>]
           | Inr drifts \<Rightarrow> map (drift_finding dir) drifts))"

definition GIB :: nat where
  "GIB = 1024 * 1024 * 1024"

definition DEFAULT_WARN_FLOOR_GIB :: nat where
  "DEFAULT_WARN_FLOOR_GIB = 10"

text \<open>The nearest ancestor that exists.\<close>

function probe_path :: "(string \<Rightarrow> bool) \<Rightarrow> string \<Rightarrow> string option" where
  "probe_path exists_on_disk p =
     (if exists_on_disk p then Some p
      else case path_parent p of None \<Rightarrow> None | Some parent \<Rightarrow> probe_path exists_on_disk parent)"
  by pat_completeness auto
termination by (relation "measure (\<lambda>(_, p). length p)") (auto dest: path_parent_shorter)

declare probe_path.simps [simp del]

definition disk_finding :: "string \<Rightarrow> nat \<Rightarrow> nat option \<Rightarrow> preflight_finding list" where
  "disk_finding workspace_root available configured_min_gib =
     (let available_gib = available div GIB
      in case configured_min_gib of
           Some min_gib \<Rightarrow>
             if available_gib < min_gib then
               [\<lparr>pf_severity = Fail, pf_check = ''free-disk'',
                 pf_message = ''free disk on '' @ workspace_root @ '' is '' @ show_nat available_gib
                   @ '' GiB; preflight.min_free_gib requires '' @ show_nat min_gib @ '' GiB'',
                 pf_remediation = ''free space (e.g. `sbagent workspace prune --older-than 7d --archived-only`) or lower `preflight.min_free_gib` in config.toml''\<rparr>]
             else []
         | None \<Rightarrow>
             if available_gib < DEFAULT_WARN_FLOOR_GIB then
               [\<lparr>pf_severity = Warn, pf_check = ''free-disk'',
                 pf_message = ''free disk on '' @ workspace_root @ '' is '' @ show_nat available_gib
                   @ '' GiB (no `preflight.min_free_gib` configured; warning below ''
                   @ show_nat DEFAULT_WARN_FLOOR_GIB @ '' GiB)'',
                 pf_remediation = ''set `preflight.min_free_gib` in config.toml once you know a session's peak per-target disk, or run `sbagent workspace prune --older-than 7d --archived-only` to reclaim space''\<rparr>]
             else [])"

definition check_free_disk ::
  "(string \<Rightarrow> bool) \<Rightarrow> (string \<Rightarrow> 'io + nat) \<Rightarrow> ('io \<Rightarrow> string) \<Rightarrow> cli_context \<Rightarrow> preflight_finding list" where
  "check_free_disk exists_on_disk available_bytes show_io ctx =
     (case la_agent_workspace_root (se_layout (cc_settings ctx)) of None \<Rightarrow> []
      | Some workspace_root \<Rightarrow>
          (case probe_path exists_on_disk workspace_root of None \<Rightarrow> []
           | Some p \<Rightarrow>
               (case available_bytes p of
                  Inl e \<Rightarrow>
                    [\<lparr>pf_severity = Warn, pf_check = ''free-disk'',
                      pf_message = ''free-disk probe failed: '' @ show_io e,
                      pf_remediation = ''ensure '' @ workspace_root
                        @ '' (or its first existing ancestor) is readable; preflight cannot confirm available disk space''\<rparr>]
                | Inr available \<Rightarrow> disk_finding workspace_root available (se_min_free_gib (cc_settings ctx)))))"

text \<open>\<open>b as char\<close>, printed in UTF-8.\<close>

definition latin1_utf8 :: "char \<Rightarrow> string" where
  "latin1_utf8 c =
     (let b = of_char c :: nat in if b < 128 then [c] else [char_of (192 + b div 64), char_of (128 + b mod 64)])"

definition source_id_error_str :: "source_id_error \<Rightarrow> string" where
  "source_id_error_str e =
     (case e of
        IdEmpty \<Rightarrow> ''must not be empty''
      | IdTooLong n \<Rightarrow> ''must be '' @ [CHR 0xE2, CHR 0x89, CHR 0xA4] @ ''64 chars (got '' @ show_nat n @ '')''
      | IdBadFirst \<Rightarrow> ''must start with a lowercase ASCII letter (a-z)''
      | IdBadLast \<Rightarrow> ''must end with a lowercase ASCII letter or digit (no trailing hyphen)''
      | IdBadChar i b \<Rightarrow> ''char '' @ show_nat i @ '' (`'' @ latin1_utf8 b
          @ ''`) not allowed; only `[a-z0-9-]` permitted between first and last positions'')"

definition source_fail :: "string \<Rightarrow> string \<Rightarrow> preflight_finding" where
  "source_fail message remediation =
     \<lparr>pf_severity = Fail, pf_check = ''source-config'', pf_message = message, pf_remediation = remediation\<rparr>"

definition check_source_config :: "cli_context \<Rightarrow> preflight_finding list" where
  "check_source_config ctx =
     (let source = se_source (cc_settings ctx)
      in (if so_url source = None then
            [source_fail ''`[source].url` is not set; required post-v3-cutover for the per-session source checkout''
               (''add a `[source]` stanza to config.toml with `url = \"...\"` and `branch = \"...\"` '' @ em_dash
                 @ '' see docs/setup.md for the migration recipe'')]
          else [])
       @ (if so_branch source = None then
            [source_fail ''`[source].branch` is not set; required post-v3-cutover''
               (''set `branch = \"...\"` under `[source]` in config.toml '' @ em_dash @ '' see docs/setup.md'')]
          else [])
       @ (case so_id source of None \<Rightarrow> []
          | Some sid \<Rightarrow>
              (case validate_source_id sid of
                 Inl reason \<Rightarrow>
                   [source_fail (''`[source].id` (`'' @ sid @ ''`) failed validation: '' @ source_id_error_str reason)
                      ''set `id` to a lowercase ASCII slug matching `^[a-z](?:[a-z0-9-]{0,62}[a-z0-9])?$`, or omit `id` to let sbagent derive one from `source.url`'']
               | Inr _ \<Rightarrow> []))
       @ (if la_agent_workspace_root (se_layout (cc_settings ctx)) = None then
            [source_fail ''`layout.agent_workspace_root` is not set; the v3 per-session source checkout + bare cache both live under it''
               ''set `agent_workspace_root` under `[layout]` in config.toml to a path OUTSIDE the operator repo (e.g. `/private/tmp/sbagent-workspaces`)'']
          else []))"

datatype autonomy_mode = ReportGates | EnforceGates

text \<open>What the checks read of the machine, the files and the operator's ledgers.\<close>

record ('io, 'e, 'f) preflight_env =
  en_stat :: "string \<Rightarrow> 'io stat_outcome"
  en_current_exe :: "string option"
  en_exists :: "string \<Rightarrow> bool"
  en_available_bytes :: "string \<Rightarrow> 'io + nat"
  en_show_io :: "'io \<Rightarrow> string"
  en_files :: "'io files"
  en_texts :: "string \<Rightarrow> string"
  en_parse_session :: "string \<Rightarrow> 'e + session_record"
  en_parse_event :: "string \<Rightarrow> 'f + maint_event"
  en_sessions_file :: "'io read_outcome"
  en_maintain_file :: "'io read_outcome"
  en_now :: system_time
  en_pause_io :: "'io pause_io"

definition block_finding :: "autonomy_block \<Rightarrow> preflight_finding" where
  "block_finding b =
     \<lparr>pf_severity = Fail, pf_check = ''autonomy'', pf_message = ab_gate b @ '': '' @ ab_message b,
      pf_remediation = ab_remediation b\<rparr>"

definition check_autonomy_gates ::
  "('io, 'e, 'f) preflight_env \<Rightarrow> cli_context \<Rightarrow> autonomy_mode \<Rightarrow> string option
     \<Rightarrow> ('io preflight_error + preflight_finding list) \<times> string option" where
  "check_autonomy_gates env ctx mode pause =
     (case ly_operator_repo_root (cc_layout ctx) of None \<Rightarrow> (Inr [], pause)
      | Some operator \<Rightarrow>
          (let gates = (case mode of ReportGates \<Rightarrow> check_operator_gates | EnforceGates \<Rightarrow> enforce_operator_gates);
               (res, pause') = gates (en_parse_session env) (en_parse_event env) (en_sessions_file env)
                 (en_maintain_file env) operator (se_autonomy (cc_settings ctx)) (en_now env) (en_pause_io env) pause
           in (case res of Inl e \<Rightarrow> Inl (Gates e) | Inr blocks \<Rightarrow> Inr (map block_finding blocks), pause')))"

definition collect_findings_inner ::
  "('io, 'e, 'f) preflight_env \<Rightarrow> cli_context \<Rightarrow> autonomy_mode \<Rightarrow> string option
     \<Rightarrow> ('io preflight_error + preflight_finding list) \<times> string option" where
  "collect_findings_inner env ctx mode pause =
     (case check_installed_binary_drift (en_stat env) (en_current_exe env) ctx of
        Inl e \<Rightarrow> (Inl e, pause)
      | Inr binary \<Rightarrow>
          (let findings = binary @ check_critical_prompt_drift (en_texts env) (en_show_io env) (en_files env) ctx
                 @ check_free_disk (en_exists env) (en_available_bytes env) (en_show_io env) ctx
                 @ check_source_config ctx
           in case check_autonomy_gates env ctx mode pause of
                (Inl e, pause') \<Rightarrow> (Inl e, pause')
              | (Inr blocks, pause') \<Rightarrow> (Inr (findings @ blocks), pause')))"

definition collect_findings ::
  "('io, 'e, 'f) preflight_env \<Rightarrow> cli_context \<Rightarrow> string option
     \<Rightarrow> ('io preflight_error + preflight_finding list) \<times> string option" where
  "collect_findings env ctx = collect_findings_inner env ctx ReportGates"

definition collect_findings_for_session_run ::
  "('io, 'e, 'f) preflight_env \<Rightarrow> cli_context \<Rightarrow> string option
     \<Rightarrow> ('io preflight_error + preflight_finding list) \<times> string option" where
  "collect_findings_for_session_run env ctx = collect_findings_inner env ctx EnforceGates"

section \<open>Publish wiring\<close>

definition github_owner_from_url :: "string \<Rightarrow> string option" where
  "github_owner_from_url url =
     (case (case strip_prefix (trim_ws url) ''https://github.com/'' of Some p \<Rightarrow> Some p
            | None \<Rightarrow> (case strip_prefix url ''http://github.com/'' of Some p \<Rightarrow> Some p
            | None \<Rightarrow> (case strip_prefix url ''ssh://git@github.com/'' of Some p \<Rightarrow> Some p
            | None \<Rightarrow> strip_prefix url ''git@github.com:'')))
      of None \<Rightarrow> None
       | Some path \<Rightarrow>
           (let owner = takeWhile (\<lambda>c. c \<noteq> CHR ''/'') path in if owner = [] then None else Some owner))"

datatype 'e wiring_finding =
    TokenLocation "'e push_failure"
  | TokenUnreadable string "'e push_failure"
  | ClientConstruction 'e
  | BadBaseRepo string
  | RepoUnreachable string string 'e
  | RemoteNotOrigin string
  | HeadOwnerUnset
  | OwnerMismatch string string

definition check_publish_remote_is_origin :: "string \<Rightarrow> 'e wiring_finding list" where
  "check_publish_remote_is_origin remote = (if remote = ''origin'' then [] else [RemoteNotOrigin remote])"

definition check_head_owner :: "string option \<Rightarrow> string option \<Rightarrow> 'e wiring_finding list" where
  "check_head_owner head_owner source_url =
     (case head_owner of None \<Rightarrow> [HeadOwnerUnset]
      | Some head \<Rightarrow>
          (case Option.bind source_url github_owner_from_url of
             Some url_owner \<Rightarrow>
               if to_ascii_lowercase url_owner = to_ascii_lowercase head then [] else [OwnerMismatch url_owner head]
           | None \<Rightarrow> []))"

text \<open>\<open>from_token\<close> builds the client and \<open>get_repo\<close> is the GET of the repository.\<close>

definition collect_publish_findings ::
  "string option \<Rightarrow> (string \<Rightarrow> string option) \<Rightarrow> 'e files \<Rightarrow> (string \<Rightarrow> 'e + 'c) \<Rightarrow> ('c \<Rightarrow> string \<Rightarrow> string \<Rightarrow> 'e + unit)
     \<Rightarrow> cli_context \<Rightarrow> 'e wiring_finding list" where
  "collect_publish_findings home canonicalize fs from_token get_repo ctx =
     (let cfg = publish_config_from_settings home (cc_settings ctx)
      in case ensure_token_outside_framework canonicalize (pc_token_file cfg) (ly_framework (cc_layout ctx)) of
           Inl e \<Rightarrow> [TokenLocation e]
         | Inr _ \<Rightarrow>
        (case read_publish_token fs (pc_token_file cfg) of
           Inl e \<Rightarrow> [TokenUnreadable (pc_token_file cfg) e]
         | Inr token \<Rightarrow>
        (case from_token token of
           Inl e \<Rightarrow> [ClientConstruction e]
         | Inr client \<Rightarrow>
        (case (split_repo (pc_base_repo cfg) :: 'e std_error + string \<times> string) of
           Inl _ \<Rightarrow> [BadBaseRepo (pc_base_repo cfg)]
         | Inr (owner, repo) \<Rightarrow>
             (case get_repo client owner repo of Inl e \<Rightarrow> [RepoUnreachable owner repo e] | Inr _ \<Rightarrow> [])
             @ check_publish_remote_is_origin (pc_remote cfg)
             @ check_head_owner (pc_head_owner cfg) (so_url (se_source (cc_settings ctx)))))))"

definition ensure_publish_wiring ::
  "string option \<Rightarrow> (string \<Rightarrow> string option) \<Rightarrow> 'e files \<Rightarrow> (string \<Rightarrow> 'e + 'c) \<Rightarrow> ('c \<Rightarrow> string \<Rightarrow> string \<Rightarrow> 'e + unit)
     \<Rightarrow> cli_context \<Rightarrow> nat check" where
  "ensure_publish_wiring home canonicalize fs from_token get_repo ctx =
     (let findings = collect_publish_findings home canonicalize fs from_token get_repo ctx
      in bail_if (findings \<noteq> []) (length findings))"

section \<open>When a session may start\<close>

lemma has_failures_append [simp]: "has_failures (xs @ ys) \<longleftrightarrow> has_failures xs \<or> has_failures ys"
  by (simp add: has_failures_def)

lemma has_failures_Nil [simp]: "\<not> has_failures []"
  by (simp add: has_failures_def)

lemma report_findings_ok [simp]: "fst (report_findings findings) = Ok_unit \<longleftrightarrow> \<not> has_failures findings"
  by (auto simp: report_findings_def bail_if_def)

lemma binary_drift_only_warns:
  "check_installed_binary_drift stat exe ctx = Inr fs \<Longrightarrow> \<not> has_failures fs"
  by (auto simp: check_installed_binary_drift_def has_failures_def Let_def
      split: option.splits stat_outcome.splits sum.splits if_splits)

lemma drift_finding_fails: "pf_severity (drift_finding dir d) = Fail \<longleftrightarrow> drift_file_name d = ''optimizer.md''"
  by (simp add: drift_finding_def Let_def)

lemma drift_of_optimizer:
  "list_ex (\<lambda>d. drift_file_name d = ''optimizer.md'') (drift_of texts bundled_template_names dir fs)
   \<longleftrightarrow> fs (path_join dir ''optimizer.md'') = NotFound
     \<or> (\<exists>s. fs (path_join dir ''optimizer.md'') = Content s \<and> s \<noteq> texts ''optimizer.md'')"
proof -
  have "list_ex (\<lambda>d. drift_file_name d = ''optimizer.md'') (drift_of texts names dir fs)
      \<longleftrightarrow> ''optimizer.md'' \<in> set names \<and> (fs (path_join dir ''optimizer.md'') = NotFound
        \<or> (\<exists>s. fs (path_join dir ''optimizer.md'') = Content s \<and> s \<noteq> texts ''optimizer.md''))" for names
  proof (induction names)
    case (Cons n ns)
    then show ?case
      by (cases "n = ''optimizer.md''"; cases "fs (path_join dir n)") (auto simp: drift_of_def drift_file_name_def)
  qed (simp add: drift_of_def)
  then show ?thesis by (simp add: bundled_template_names_def)
qed

definition prompts_readable :: "('io, 'e, 'f) preflight_env \<Rightarrow> string \<Rightarrow> bool" where
  "prompts_readable env dir \<longleftrightarrow> list_all (\<lambda>n. readable (en_files env (path_join dir n))) bundled_template_names"

definition optimizer_prompt_current :: "('io, 'e, 'f) preflight_env \<Rightarrow> cli_context \<Rightarrow> bool" where
  "optimizer_prompt_current env ctx \<longleftrightarrow>
     (case la_prompt_overrides_dir (se_layout (cc_settings ctx)) of None \<Rightarrow> True
      | Some dir \<Rightarrow> prompts_readable env dir
          \<longrightarrow> en_files env (path_join dir ''optimizer.md'') = Content (en_texts env ''optimizer.md''))"

lemma prompt_drift_fails:
  "has_failures (check_critical_prompt_drift (en_texts env) show_io (en_files env) ctx)
   \<longleftrightarrow> \<not> optimizer_prompt_current env ctx"
proof (cases "la_prompt_overrides_dir (se_layout (cc_settings ctx))")
  case (Some dir)
  show ?thesis
  proof (cases "prompts_drift (en_texts env) dir (en_files env)")
    case (Inl e)
    then have "\<not> prompts_readable env dir"
      using prompt_templates.drift_tells[of "en_texts env" dir "en_files env"]
      by (auto simp: prompts_readable_def list_all_iff)
    with Some Inl show ?thesis
      by (simp add: check_critical_prompt_drift_def optimizer_prompt_current_def has_failures_def)
  next
    case (Inr ds)
    then have ds: "ds = drift_of (en_texts env) bundled_template_names dir (en_files env)"
      and r: "\<forall>n \<in> set bundled_template_names. readable (en_files env (path_join dir n))"
      using prompt_templates.drift_tells by blast+
    then have "readable (en_files env (path_join dir ''optimizer.md''))" by (auto simp: bundled_template_names_def)
    with Some Inr r show ?thesis
      using drift_of_optimizer[of "en_texts env" dir "en_files env"]
      by (cases "en_files env (path_join dir ''optimizer.md'')")
        (simp_all add: check_critical_prompt_drift_def optimizer_prompt_current_def has_failures_def list_ex_iff
          drift_finding_fails prompts_readable_def list_all_iff ds readable_def)
  qed
qed (simp add: check_critical_prompt_drift_def optimizer_prompt_current_def)

definition enough_disk :: "('io, 'e, 'f) preflight_env \<Rightarrow> cli_context \<Rightarrow> bool" where
  "enough_disk env ctx \<longleftrightarrow>
     (case Option.bind (la_agent_workspace_root (se_layout (cc_settings ctx))) (probe_path (en_exists env)) of
        None \<Rightarrow> True
      | Some p \<Rightarrow>
          (case (en_available_bytes env p, se_min_free_gib (cc_settings ctx)) of
             (Inr available, Some gib) \<Rightarrow> gib * GIB \<le> available
           | _ \<Rightarrow> True))"

lemma free_disk_fails:
  "has_failures (check_free_disk (en_exists env) (en_available_bytes env) show_io ctx) \<longleftrightarrow> \<not> enough_disk env ctx"
proof -
  have "gib * GIB \<le> available \<longleftrightarrow> gib \<le> available div GIB" for gib available
    by (simp add: less_eq_div_iff_mult_less_eq GIB_def)
  then show ?thesis
    by (auto simp: check_free_disk_def enough_disk_def disk_finding_def has_failures_def Let_def
        split: option.splits sum.splits)
qed

lemma source_config_fails:
  "has_failures (check_source_config ctx) \<longleftrightarrow>
     so_url (se_source (cc_settings ctx)) = None \<or> so_branch (se_source (cc_settings ctx)) = None
     \<or> (\<exists>sid. so_id (se_source (cc_settings ctx)) = Some sid \<and> validate_source_id sid \<noteq> Ok_unit)
     \<or> la_agent_workspace_root (se_layout (cc_settings ctx)) = None"
  by (auto simp: check_source_config_def has_failures_def source_fail_def Let_def split: option.splits sum.splits)

definition gates_clear :: "('io, 'e, 'f) preflight_env \<Rightarrow> cli_context \<Rightarrow> string option \<Rightarrow> bool" where
  "gates_clear env ctx pause \<longleftrightarrow>
     (case ly_operator_repo_root (cc_layout ctx) of None \<Rightarrow> True
      | Some _ \<Rightarrow>
          (case read_operator_projection_v1 (en_parse_session env) (en_parse_event env)
                  (en_sessions_file env) (en_maintain_file env) of
             Inl _ \<Rightarrow> False
           | Inr report \<Rightarrow>
               (let au = se_autonomy (cc_settings ctx); h = hr_projection report
                in pause = None \<and> card (open_pr_urls h) < au_max_open_agent_prs au
                   \<and> interval_elapsed au (hp_sessions h) (en_now env)
                   \<and> \<not> breaker_trips (au_zero_accepted_circuit_breaker au) (hp_sessions h))))"

lemma block_findings_fail [simp]: "has_failures (map block_finding blocks) \<longleftrightarrow> blocks \<noteq> []"
  by (cases blocks) (simp_all add: has_failures_def block_finding_def)

lemma autonomy_gates_fail:
  assumes "check_autonomy_gates env ctx mode pause = (Inr findings, pause')"
  shows "has_failures findings \<longleftrightarrow> \<not> gates_clear env ctx pause"
proof (cases "ly_operator_repo_root (cc_layout ctx)")
  case None
  with assms show ?thesis by (simp add: check_autonomy_gates_def gates_clear_def)
next
  case (Some operator)
  define action where "action = (case mode of ReportGates \<Rightarrow> ReportOnly | EnforceGates \<Rightarrow> WritePause)"
  let ?gates = "check_operator_gates_inner (en_parse_session env) (en_parse_event env) (en_sessions_file env)
    (en_maintain_file env) operator (se_autonomy (cc_settings ctx)) (en_now env) action (en_pause_io env) pause"
  obtain blocks where run: "?gates = (Inr blocks, pause')" and findings: "findings = map block_finding blocks"
    using assms Some
    by (cases mode) (auto simp: check_autonomy_gates_def action_def check_operator_gates_def enforce_operator_gates_def
        split: prod.splits sum.splits)
  then obtain report where read: "read_operator_projection_v1 (en_parse_session env) (en_parse_event env)
      (en_sessions_file env) (en_maintain_file env) = Inr report"
    by (auto simp: check_operator_gates_inner_def Let_def split: sum.splits)
  show ?thesis
    using gates_inner_clear[OF read, of operator "se_autonomy (cc_settings ctx)" "en_now env" action "en_pause_io env" pause]
    by (auto simp: run findings gates_clear_def Some read Let_def)
qed

lemma collect_report_only:
  assumes "collect_findings_inner env ctx EnforceGates pause = (Inr findings, pause')"
  shows "\<exists>findings'. collect_findings_inner env ctx ReportGates pause = (Inr findings', pause)"
proof -
  have "\<exists>blocks. check_autonomy_gates env ctx ReportGates pause = (Inr blocks, pause)"
    if run: "check_autonomy_gates env ctx EnforceGates pause = (Inr blocks', pause')" for blocks'
  proof (cases "ly_operator_repo_root (cc_layout ctx)")
    case (Some operator)
    with run obtain report where "read_operator_projection_v1 (en_parse_session env) (en_parse_event env)
        (en_sessions_file env) (en_maintain_file env) = Inr report"
      by (auto simp: check_autonomy_gates_def enforce_operator_gates_def check_operator_gates_inner_def Let_def
          split: prod.splits sum.splits)
    with Some show ?thesis
      by (rule_tac breaker_cases[where settings = "se_autonomy (cc_settings ctx)" and sessions = "hp_sessions (hr_projection report)"
            and operator = operator and now = "en_now env" and action = ReportOnly and io = "en_pause_io env" and pause = pause])
        (simp_all add: check_autonomy_gates_def check_operator_gates_def check_operator_gates_inner_def Let_def)
  qed (simp add: check_autonomy_gates_def)
  with assms show ?thesis by (fastforce simp: collect_findings_inner_def Let_def split: sum.splits prod.splits)
qed

text \<open>C21: preflight passes exactly when the session may start. When the checks of \<open>session run\<close> ran, their
  report is not an error iff: the operator's copy of \<open>optimizer.md\<close> is the bundled one (unless there is no
  prompt directory or a prompt cannot be read); the source URL and branch and the workspace root are set
  and a configured source id is a valid slug; the nearest existing ancestor of the workspace root has the
  configured number of GiB free (unless nothing exists or the probe fails); and, when there is an operator
  repository, there is no pause file, fewer open pull requests than the limit, the interval has elapsed
  and the breaker does not trip. The report-only variant decides the same and never writes the pause file.\<close>

theorem preflight_passes_iff:
  assumes "collect_findings_for_session_run env ctx pause = (Inr findings, pause')"
  defines "may_start \<equiv> optimizer_prompt_current env ctx
    \<and> so_url (se_source (cc_settings ctx)) \<noteq> None \<and> so_branch (se_source (cc_settings ctx)) \<noteq> None
    \<and> (\<forall>sid. so_id (se_source (cc_settings ctx)) = Some sid \<longrightarrow> validate_source_id sid = Ok_unit)
    \<and> la_agent_workspace_root (se_layout (cc_settings ctx)) \<noteq> None
    \<and> enough_disk env ctx \<and> gates_clear env ctx pause"
  shows "(fst (report_findings findings) = Ok_unit \<longleftrightarrow> may_start)
    \<and> (\<exists>findings'. collect_findings env ctx pause = (Inr findings', pause)
         \<and> (fst (report_findings findings') = Ok_unit \<longleftrightarrow> may_start))"
proof -
  have decides: "fst (report_findings fs) = Ok_unit \<longleftrightarrow> may_start"
    if "collect_findings_inner env ctx mode pause = (Inr fs, p)" for mode fs p
    using that unfolding may_start_def report_findings_ok
    by (auto simp: collect_findings_inner_def binary_drift_only_warns prompt_drift_fails free_disk_fails
        source_config_fails autonomy_gates_fail Let_def split: sum.splits prod.splits)
  show ?thesis
    using assms(1) collect_report_only[of env ctx pause findings pause'] decides
    unfolding collect_findings_def collect_findings_for_session_run_def by blast
qed

definition sample_env :: "(unit, unit, unit) preflight_env" where
  "sample_env =
     \<lparr>en_stat = \<lambda>_. StatMissing, en_current_exe = None, en_exists = (\<lambda>p. p = ''/''), en_available_bytes = \<lambda>_. Inr (30 * GIB),
      en_show_io = \<lambda>_. ''io'', en_files = (\<lambda>_. Content ''text''), en_texts = (\<lambda>_. ''text''),
      en_parse_session = no_sessions, en_parse_event = no_maintenance, en_sessions_file = NotFound,
      en_maintain_file = NotFound, en_now = 0, en_pause_io = idle_io\<rparr>"

definition sample_context :: cli_context where
  "sample_context =
     \<lparr>cc_settings = settings_default
        \<lparr>se_layout := (se_layout settings_default)
           \<lparr>la_agent_workspace_root := Some ''/tmp/ws'', la_prompt_overrides_dir := Some ''/op/.sbagent/prompts''\<rparr>,
         se_min_free_gib := Some 20,
         se_source := \<lparr>so_url = Some ''https://github.com/a/b'', so_branch = Some ''main'', so_id = Some ''stacks-core''\<rparr>\<rparr>,
      cc_layout = \<lparr>ly_framework = Some ''/fw'', ly_schemas_dir = ''/s'', ly_queries_dir = ''/q'', ly_context_dir = ''/c'',
        ly_memory_dir = ''/m'', ly_sessions_root = ''/op/sessions'', ly_operator_repo_root = Some ''/op'',
        ly_stacks_bench_data_dir = ''/d'', ly_bench_lock = ''/l/b'', ly_test_lock = ''/l/t'',
        ly_stacks_bench_shadow_dir = None, ly_agent_workspace_root = Some ''/tmp/ws''\<rparr>\<rparr>"

lemma sample_gates:
  "check_operator_gates_inner no_sessions no_maintenance NotFound NotFound operator autonomy_settings_default 0 action idle_io None
     = (Inr [], None)"
proof -
  have read: "read_operator_projection_v1 no_sessions no_maintenance (NotFound :: unit read_outcome) NotFound
     = Inr \<lparr>hr_projection = from_ledgers_v1 [] [], hr_skipped_sessions = [], hr_skipped_maintain = []\<rparr>"
    by (simp add: read_operator_projection_v1_def ledger_read_all_def maint_read_all_def)
  have "hp_sessions (from_ledgers_v1 [] []) = []" by (simp add: from_ledgers_v1_def Let_def)
  then show ?thesis
    by (simp add: check_operator_gates_inner_def read check_pause_file_def check_open_pr_limit_def open_pr_urls_def
        check_session_interval_def latest_session_time_def check_zero_accepted_breaker_def breaker_trips_def
        completed_newest_first_def autonomy_settings_default_def Let_def List.map_filter_simps)
qed

theorem preflight_passes_iff_witness:
  "collect_findings_for_session_run sample_env sample_context None = (Inr [], None)
   \<and> optimizer_prompt_current sample_env sample_context \<and> enough_disk sample_env sample_context
   \<and> gates_clear sample_env sample_context None"
proof -
  have "check_installed_binary_drift (en_stat sample_env) (en_current_exe sample_env) sample_context = Inr []"
    by (simp add: check_installed_binary_drift_def sample_env_def sample_context_def)
  moreover have "check_critical_prompt_drift (\<lambda>_. ''text'') (\<lambda>_ :: unit. ''io'') (\<lambda>_. Content ''text'') sample_context = []"
    "check_source_config sample_context = []" by code_simp+
  moreover have "probe_path (\<lambda>p. p = ''/'') ''/tmp/ws'' = Some ''/''" by code_simp
  then have "check_free_disk (en_exists sample_env) (en_available_bytes sample_env) (en_show_io sample_env) sample_context = []"
    by (simp add: check_free_disk_def sample_env_def sample_context_def disk_finding_def GIB_def)
  moreover have "check_autonomy_gates sample_env sample_context EnforceGates None = (Inr [], None)"
    by (simp add: check_autonomy_gates_def sample_env_def sample_context_def settings_default_def sample_gates
        enforce_operator_gates_def)
  ultimately have run: "collect_findings_for_session_run sample_env sample_context None = (Inr [], None)"
    by (simp add: collect_findings_for_session_run_def collect_findings_inner_def) (simp add: sample_env_def)
  show ?thesis using preflight_passes_iff[OF run] by (simp add: run report_findings_def)
qed

text \<open>
  The probe walks the configured text, not the resolved layout: a relative workspace root that does not
  exist yet has no existing ancestor, so the configured minimum is not checked.
\<close>

lemma relative_root_skips_disk_check:
  assumes "la_agent_workspace_root (se_layout (cc_settings ctx)) = Some root_dir" "CHR ''/'' \<notin> set root_dir"
    "\<not> en_exists env root_dir" "\<not> en_exists env ''''"
  shows "check_free_disk (en_exists env) (en_available_bytes env) show_io ctx = []"
proof -
  have "dropWhile (\<lambda>c. c \<noteq> CHR ''/'') (rev (trim_end_char (CHR ''/'') root_dir)) = []"
    using assms(2) by (auto simp: dropWhile_eq_Nil_conv trim_end_char_def dest!: set_dropWhileD)
  then have parent: "path_parent root_dir = None \<or> path_parent root_dir = Some ''''"
    by (simp add: path_parent_def Let_def trim_end_char_def[of _ "[]"] del: dropWhile_eq_Nil_conv)
  have "probe_path (en_exists env) '''' = None"
    using assms(4) by (simp add: probe_path.simps path_parent_def trim_end_char_def)
  then have "probe_path (en_exists env) root_dir = None"
    using assms(3) parent probe_path.simps[of "en_exists env" root_dir] by (elim disjE) simp_all
  then show ?thesis using assms(1) by (simp add: check_free_disk_def)
qed

section \<open>What the publish wiring guarantees\<close>

lemma github_owner_trims_https_only:
  "github_owner_from_url '' https://github.com/a/b'' = Some ''a'' \<and> github_owner_from_url '' git@github.com:a/b'' = None"
  by code_simp

lemma publish_wiring_ok:
  fixes fs :: "'e files"
  assumes "ensure_publish_wiring home canonicalize fs from_token get_repo ctx = Ok_unit"
  defines "cfg \<equiv> publish_config_from_settings home (cc_settings ctx)"
  shows "\<exists>token client owner repo head_owner.
      ensure_token_outside_framework canonicalize (pc_token_file cfg) (ly_framework (cc_layout ctx)) = (Ok_unit :: 'e push_failure check)
    \<and> read_publish_token fs (pc_token_file cfg) = Inr token \<and> token \<noteq> [] \<and> from_token token = Inr client
    \<and> pc_base_repo cfg = owner @ ''/'' @ repo \<and> get_repo client owner repo = Ok_unit
    \<and> pc_remote cfg = ''origin'' \<and> pc_head_owner cfg = Some head_owner
    \<and> (\<forall>url o'. so_url (se_source (cc_settings ctx)) = Some url \<longrightarrow> github_owner_from_url url = Some o'
         \<longrightarrow> to_ascii_lowercase o' = to_ascii_lowercase head_owner)"
proof -
  have none: "collect_publish_findings home canonicalize fs from_token get_repo ctx = []"
    using assms(1) by (simp add: ensure_publish_wiring_def bail_if_def Let_def split: if_splits)
  note step = none[unfolded collect_publish_findings_def Let_def, folded cfg_def]
  have outside: "ensure_token_outside_framework canonicalize (pc_token_file cfg) (ly_framework (cc_layout ctx)) = (Ok_unit :: 'e push_failure check)"
    using step by (auto split: sum.splits)
  obtain token where token: "read_publish_token fs (pc_token_file cfg) = Inr token"
    using step by (auto simp: outside split: sum.splits)
  obtain client where client: "from_token token = Inr client"
    using step by (auto simp: outside token split: sum.splits)
  obtain owner repo where repo: "(split_repo (pc_base_repo cfg) :: 'e std_error + string \<times> string) = Inr (owner, repo)"
    using step by (auto simp: outside token client split: sum.splits)
  have rest: "get_repo client owner repo = Ok_unit" "pc_remote cfg = ''origin''"
    "(check_head_owner (pc_head_owner cfg) (so_url (se_source (cc_settings ctx))) :: 'e wiring_finding list) = []"
    using step
    by (auto simp: outside token client repo check_publish_remote_is_origin_def split: sum.splits if_splits)
  obtain head_owner where head: "pc_head_owner cfg = Some head_owner"
    using rest(3) by (auto simp: check_head_owner_def split: option.splits)
  have "token \<noteq> []" using token by (auto simp: read_publish_token_def and_then_Inr Let_def split: if_splits)
  moreover have "to_ascii_lowercase o' = to_ascii_lowercase head_owner"
    if "so_url (se_source (cc_settings ctx)) = Some url" "github_owner_from_url url = Some o'" for url o'
    using rest(3) that by (simp add: check_head_owner_def head split: if_splits)
  ultimately show ?thesis using outside token client rest(1,2) head split_repo_Inr[OF repo] by blast
qed

end
