(* ===== verification/Git_Commands.thy ===== *)
theory Git_Commands
  imports Git_Client
begin

text \<open>
  The wrappers of \<open>git.rs\<close> around the git process. Git itself is an argument: what a command line with
  extra environment does to the state of the repositories, and how it exits. Git's own diagnostics are
  kept in the errors; the rendering of messages is not modelled.
\<close>

section \<open>Running git\<close>

datatype 'io git_run = SpawnFailed 'io | Exited "int option" string string

type_synonym ('s, 'io) git_process = "string list \<Rightarrow> (string \<times> string) list \<Rightarrow> 's \<Rightarrow> 'io git_run \<times> 's"

datatype 'io git_error =
    GitSpawn 'io
  | GitExit "string list" "int option" string
  | NotASha string
  | RemoteWithoutUrl string

definition git_in :: "string \<Rightarrow> string list \<Rightarrow> string list" where
  "git_in dir args = ''-C'' # dir # args"

definition exit_check :: "string list \<Rightarrow> 'io git_run \<Rightarrow> 'io git_error check" where
  "exit_check args r =
     (case r of SpawnFailed e \<Rightarrow> Inl (GitSpawn e)
      | Exited code _ _ \<Rightarrow> bail_if (code \<noteq> Some 0) (GitExit args code []))"

definition run_git_envs ::
  "('s, 'io) git_process \<Rightarrow> string \<Rightarrow> string list \<Rightarrow> (string \<times> string) list \<Rightarrow> 's \<Rightarrow> ('io git_error + unit) \<times> 's" where
  "run_git_envs git dir args env s = (case git (git_in dir args) env s of (r, s') \<Rightarrow> (exit_check args r, s'))"

definition run_git :: "('s, 'io) git_process \<Rightarrow> string \<Rightarrow> string list \<Rightarrow> 's \<Rightarrow> ('io git_error + unit) \<times> 's" where
  "run_git git dir args = run_git_envs git dir args []"

definition run_git_check :: "('s, 'io) git_process \<Rightarrow> string \<Rightarrow> string list \<Rightarrow> 's \<Rightarrow> bool \<times> 's" where
  "run_git_check git dir args s =
     (case git (git_in dir args) [] s of (r, s') \<Rightarrow> (case r of Exited code _ _ \<Rightarrow> code = Some 0 | SpawnFailed _ \<Rightarrow> False, s'))"

definition run_git_output :: "('s, 'io) git_process \<Rightarrow> string \<Rightarrow> string list \<Rightarrow> 's \<Rightarrow> ('io git_error + string) \<times> 's" where
  "run_git_output git dir args s =
     (case git (git_in dir args) [] s of (r, s') \<Rightarrow>
        (case r of SpawnFailed e \<Rightarrow> Inl (GitSpawn e)
         | Exited code out err \<Rightarrow>
             if code \<noteq> Some 0 then Inl (GitExit args code (trim_ws err)) else Inr (run_git_output_ok out), s'))"

section \<open>Fetching and branches\<close>

definition pull_rebase ::
  "('s, 'io) git_process \<Rightarrow> string \<Rightarrow> string \<Rightarrow> string \<Rightarrow> 's \<Rightarrow> ('io git_error + unit) \<times> 's" where
  "pull_rebase git dir remote branch =
     then_do (run_git git dir [''fetch'', remote, branch]) (\<lambda>_. run_git git dir [''rebase'', remote @ ''/'' @ branch])"

definition pull_rebase_with_auth ::
  "(string \<Rightarrow> string) \<Rightarrow> ('s, 'io) git_process \<Rightarrow> string \<Rightarrow> string \<Rightarrow> string \<Rightarrow> string \<Rightarrow> (string \<times> string) list
     \<Rightarrow> string \<Rightarrow> string \<Rightarrow> 's \<Rightarrow> ('io git_error + unit) \<times> 's" where
  "pull_rebase_with_auth base64 git dir remote branch token base_env auth_username auth_url_prefix =
     (let (key, val) = auth_header_config_entries base64 token auth_username auth_url_prefix;
          env = merge_git_config_entry base_env key val
      in then_do (run_git_envs git dir [''fetch'', remote, branch] env)
           (\<lambda>_. run_git git dir [''rebase'', remote @ ''/'' @ branch]))"

definition branch_exists :: "('s, 'io) git_process \<Rightarrow> string \<Rightarrow> string \<Rightarrow> 's \<Rightarrow> bool \<times> 's" where
  "branch_exists git dir branch =
     run_git_check git dir [''show-ref'', ''--verify'', ''--quiet'', ''refs/heads/'' @ branch]"

definition checkout_or_create_branch ::
  "('s, 'io) git_process \<Rightarrow> string \<Rightarrow> string \<Rightarrow> string \<Rightarrow> 's \<Rightarrow> ('io git_error + unit) \<times> 's" where
  "checkout_or_create_branch git dir branch base_ref s =
     (case branch_exists git dir branch s of
        (found, s') \<Rightarrow>
          if found then run_git git dir [''checkout'', branch] s'
          else run_git git dir [''checkout'', ''-b'', branch, base_ref] s')"

definition current_branch :: "('s, 'io) git_process \<Rightarrow> string \<Rightarrow> 's \<Rightarrow> ('io git_error + string) \<times> 's" where
  "current_branch git dir = run_git_output git dir [''symbolic-ref'', ''--short'', ''HEAD'']"

definition is_full_sha :: "string \<Rightarrow> bool" where
  "is_full_sha sha \<longleftrightarrow> length sha = 40 \<and> list_all is_ascii_hexdigit sha"

definition rev_parse :: "string \<Rightarrow> ('s, 'io) git_process \<Rightarrow> string \<Rightarrow> 's \<Rightarrow> ('io git_error + string) \<times> 's" where
  "rev_parse revision git dir =
     then_do (run_git_output git dir [''rev-parse'', revision]) (\<lambda>sha.
       if is_full_sha sha then give sha else fail_with (NotASha sha))"

definition rev_parse_head :: "('s, 'io) git_process \<Rightarrow> string \<Rightarrow> 's \<Rightarrow> ('io git_error + string) \<times> 's" where
  "rev_parse_head = rev_parse ''HEAD''"

definition rev_parse_head_parent :: "('s, 'io) git_process \<Rightarrow> string \<Rightarrow> 's \<Rightarrow> ('io git_error + string) \<times> 's" where
  "rev_parse_head_parent = rev_parse ''HEAD^''"

definition rev_parse_head_optional :: "('s, 'io) git_process \<Rightarrow> string \<Rightarrow> 's \<Rightarrow> string option \<times> 's" where
  "rev_parse_head_optional git dir s =
     (case rev_parse_head git dir s of (r, s') \<Rightarrow> (case r of Inr sha \<Rightarrow> Some sha | Inl _ \<Rightarrow> None, s'))"

section \<open>Status, remotes, clones\<close>

definition status_porcelain :: "('s, 'io) git_process \<Rightarrow> string \<Rightarrow> 's \<Rightarrow> ('io git_error + string) \<times> 's" where
  "status_porcelain git dir = run_git_output git dir [''status'', ''--porcelain'']"

definition is_worktree_dirty :: "('s, 'io) git_process \<Rightarrow> string \<Rightarrow> 's \<Rightarrow> bool \<times> 's" where
  "is_worktree_dirty git dir s =
     (case status_porcelain git dir s of (r, s') \<Rightarrow> (case r of Inr out \<Rightarrow> trim_ws out \<noteq> [] | Inl _ \<Rightarrow> False, s'))"

definition list_remotes :: "('s, 'io) git_process \<Rightarrow> string \<Rightarrow> 's \<Rightarrow> ('io git_error + string list) \<times> 's" where
  "list_remotes git dir =
     then_do (run_git_output git dir [''remote'']) (\<lambda>raw.
       give (filter (\<lambda>l. l \<noteq> []) (map trim_ws (rust_lines raw))))"

definition get_remote_url :: "('s, 'io) git_process \<Rightarrow> string \<Rightarrow> string \<Rightarrow> 's \<Rightarrow> ('io git_error + string) \<times> 's" where
  "get_remote_url git dir name = run_git_output git dir [''remote'', ''get-url'', name]"

definition add_or_set_remote ::
  "('s, 'io) git_process \<Rightarrow> string \<Rightarrow> string \<Rightarrow> string \<Rightarrow> 's \<Rightarrow> ('io git_error + unit) \<times> 's" where
  "add_or_set_remote git dir name url =
     then_do (list_remotes git dir) (\<lambda>existing.
       run_git git dir [''remote'', if name \<in> set existing then ''set-url'' else ''add'', name, url])"

definition git_status_only :: "('s, 'io) git_process \<Rightarrow> string list \<Rightarrow> (string \<times> string) list \<Rightarrow> 's \<Rightarrow> ('io git_error + unit) \<times> 's" where
  "git_status_only git args env s = (case git args env s of (r, s') \<Rightarrow> (exit_check args r, s'))"

definition clone_with_reference ::
  "('s, 'io) git_process \<Rightarrow> string \<Rightarrow> string \<Rightarrow> string \<Rightarrow> 's \<Rightarrow> ('io git_error + unit) \<times> 's" where
  "clone_with_reference git base branch dest =
     git_status_only git [''clone'', ''--reference'', base, ''--branch'', branch, ''--local'', base, dest] []"

definition clone_bare_branch ::
  "('s, 'io) git_process \<Rightarrow> string \<Rightarrow> string \<Rightarrow> string \<Rightarrow> 's \<Rightarrow> ('io git_error + unit) \<times> 's" where
  "clone_bare_branch git source_url branch dest =
     git_status_only git [''clone'', ''--bare'', ''--branch'', branch, source_url, dest] []"

definition switch_create_branch :: "('s, 'io) git_process \<Rightarrow> string \<Rightarrow> string \<Rightarrow> 's \<Rightarrow> ('io git_error + unit) \<times> 's" where
  "switch_create_branch git dir branch = run_git git dir [''switch'', ''-c'', branch]"

definition worktree_remove_force_quiet :: "('s, 'io) git_process \<Rightarrow> string \<Rightarrow> string \<Rightarrow> 's \<Rightarrow> 's" where
  "worktree_remove_force_quiet git repo path s =
     snd (git (git_in repo [''worktree'', ''remove'', ''--force'', path]) [] s)"

definition worktree_prune_quiet :: "('s, 'io) git_process \<Rightarrow> string \<Rightarrow> 's \<Rightarrow> 's" where
  "worktree_prune_quiet git repo s = snd (git (git_in repo [''worktree'', ''prune'']) [] s)"

section \<open>Committing and pushing\<close>

definition add_all_with_env ::
  "('s, 'io) git_process \<Rightarrow> string \<Rightarrow> (string \<times> string) list \<Rightarrow> 's \<Rightarrow> ('io git_error + unit) \<times> 's" where
  "add_all_with_env git dir env = run_git_envs git dir [''add'', ''-A''] env"

definition commit_with_message_and_env ::
  "('s, 'io) git_process \<Rightarrow> string \<Rightarrow> string \<Rightarrow> (string \<times> string) list \<Rightarrow> 's \<Rightarrow> ('io git_error + unit) \<times> 's" where
  "commit_with_message_and_env git dir message env = run_git_envs git dir [''commit'', ''-m'', message] env"

definition has_staged_changes :: "('s, 'io) git_process \<Rightarrow> string \<Rightarrow> 's \<Rightarrow> ('io git_error + bool) \<times> 's" where
  "has_staged_changes git dir s =
     (let args = [''diff'', ''--cached'', ''--quiet'']
      in case git (git_in dir args) [] s of (r, s') \<Rightarrow>
           (case r of SpawnFailed e \<Rightarrow> Inl (GitSpawn e)
            | Exited code _ err \<Rightarrow>
                if code = Some 0 then Inr False
                else if code = Some 1 then Inr True
                else Inl (GitExit args code (trim_ws err)), s'))"

definition ls_remote_no_prompt :: "('s, 'io) git_process \<Rightarrow> string \<Rightarrow> string \<Rightarrow> 's \<Rightarrow> ('io git_error + unit) \<times> 's" where
  "ls_remote_no_prompt git dir remote =
     run_git_envs git dir [''ls-remote'', remote]
       [(''GIT_TERMINAL_PROMPT'', ''0''), (''GIT_SSH_COMMAND'', ''ssh -oBatchMode=yes'')]"

definition push_url_refspec ::
  "('s, 'io) git_process \<Rightarrow> string \<Rightarrow> string \<Rightarrow> string \<Rightarrow> (string \<times> string) list \<Rightarrow> 's \<Rightarrow> ('io git_error + unit) \<times> 's" where
  "push_url_refspec git bare_repo dest_url refspec env =
     git_status_only git [''-c'', ''safe.bareRepository=all'', ''-C'', bare_repo, ''push'', dest_url, refspec] env"

definition init_repo :: "('s, 'io) git_process \<Rightarrow> string \<Rightarrow> string \<Rightarrow> 's \<Rightarrow> ('io git_error + unit) \<times> 's" where
  "init_repo git dir initial_branch = run_git git dir [''init'', ''-q'', ''-b'', initial_branch]"

definition config_set_local :: "('s, 'io) git_process \<Rightarrow> string \<Rightarrow> string \<Rightarrow> string \<Rightarrow> 's \<Rightarrow> ('io git_error + unit) \<times> 's" where
  "config_set_local git dir key val = run_git git dir [''config'', key, val]"

section \<open>Facts\<close>

lemma exit_check_ok: "exit_check args r = Ok_unit \<longleftrightarrow> (\<exists>out err. r = Exited (Some 0) out err)"
  by (cases r) (auto simp: exit_check_def bail_if_def)

lemma rev_parse_sha:
  assumes "rev_parse revision git dir s = (Inr sha, s')"
  shows "is_full_sha sha"
  using assms by (auto simp: rev_parse_def then_do_Inr give_Inr split: if_splits)

lemma commit_ran:
  assumes "commit_with_message_and_env git dir msg env s = (Ok_unit, s')"
  shows "\<exists>out err. git [''-C'', dir, ''commit'', ''-m'', msg] env s = (Exited (Some 0) out err, s')"
  using assms
  by (auto simp: commit_with_message_and_env_def run_git_envs_def git_in_def exit_check_ok split: prod.splits)

end
