(* ===== verification/Rejections.thy ===== *)
theory Rejections
  imports Loader Settings
begin

text \<open>
  The ledger of analyzed rejections (\<open>analyzed_rejections.rs\<close>), what the analyzer phase records in it
  (\<open>session/analyzers.rs\<close>, \<open>maybe_append_rejection\<close>) and the commands that trim it and remove from it
  (\<open>cli/rejections/\<close>). The ledger is the text of its file, \<open>None\<close> when absent; every operation runs
  under the memory lock, so operations are atomic. The serde functions are arguments.
\<close>

section \<open>Records and fingerprints\<close>

datatype rejection_outcome = OutcomeRejected | OutcomeNotActionable

definition outcome_str :: "rejection_outcome \<Rightarrow> string" where
  "outcome_str x = (case x of OutcomeRejected \<Rightarrow> ''rejected'' | OutcomeNotActionable \<Rightarrow> ''not_actionable'')"

definition parse_outcome :: "string \<Rightarrow> rejection_outcome option" where
  "parse_outcome s =
     (if s = ''rejected'' then Some OutcomeRejected else if s = ''not_actionable'' then Some OutcomeNotActionable else None)"

record rejection_record =
  rj_ts :: string
  rj_session_id :: string
  rj_family_id :: string
  rj_lens :: string
  rj_outcome :: rejection_outcome
  rj_kind :: string
  rj_suspected_spans :: "string list"
  rj_contract_function :: "string option"
  rj_fingerprint :: string
  rj_stacks_core_sha :: "string option"
  rj_reason :: string
  rj_evidence_path :: "string option"

record fingerprint_inputs =
  fi_lens :: string
  fi_kind :: string
  fi_suspected_spans :: "string list"
  fi_contract_function :: "string option"

definition canonical_spans :: "string list \<Rightarrow> string list" where
  "canonical_spans spans = remdups_adj (sort (filter (\<lambda>s. s \<noteq> []) (map trim_ws spans)))"

definition canonical_contract :: "string option \<Rightarrow> string option" where
  "canonical_contract c = (case c of Some s \<Rightarrow> if trim_ws s = [] then None else Some s | None \<Rightarrow> None)"

definition compute_fingerprint :: "fingerprint_inputs \<Rightarrow> string" where
  "compute_fingerprint i =
     fi_lens i @ ''|'' @ fi_kind i @ ''|'' @ join_strings '','' (canonical_spans (fi_suspected_spans i)) @ ''|''
     @ unwrap_or (canonical_contract (fi_contract_function i)) ''*''"

definition canonical_contract_key :: "string \<Rightarrow> string \<Rightarrow> string option \<Rightarrow> string option" where
  "canonical_contract_key issuer contract f =
     (if issuer = [] \<and> contract = [] then None
      else Some (case f of
          Some g \<Rightarrow> if g \<noteq> [] then issuer @ ''.'' @ contract @ ''.'' @ g else issuer @ ''.'' @ contract
        | None \<Rightarrow> issuer @ ''.'' @ contract))"

definition fingerprint_specific_enough :: "string list \<Rightarrow> string option \<Rightarrow> bool" where
  "fingerprint_specific_enough spans contract \<longleftrightarrow>
     list_ex (\<lambda>s. trim_ws s \<noteq> []) spans \<or> canonical_contract contract \<noteq> None"

definition record_inputs :: "rejection_record \<Rightarrow> fingerprint_inputs" where
  "record_inputs r =
     \<lparr>fi_lens = rj_lens r, fi_kind = rj_kind r, fi_suspected_spans = rj_suspected_spans r,
      fi_contract_function = rj_contract_function r\<rparr>"

definition fingerprint_matches :: "rejection_record \<Rightarrow> bool" where
  "fingerprint_matches r \<longleftrightarrow> compute_fingerprint (record_inputs r) = rj_fingerprint r"

section \<open>The ledger file\<close>

definition ledger_path :: "string \<Rightarrow> string" where
  "ledger_path memory_dir = path_join memory_dir ''analyzed-rejections.jsonl''"

definition lock_path :: "string \<Rightarrow> string" where
  "lock_path memory_dir = path_join (path_join memory_dir ''.locks'') ''memory.lock''"

text \<open>The answers of the file system to one operation; a failed write stops after some bytes.\<close>

record 'io memory_io =
  mi_lock :: "'io option"
  mi_read :: "'io option"
  mi_create_dir :: "'io option"
  mi_open :: "'io option"
  mi_write :: "(nat \<times> 'io) option"
  mi_rename :: "'io option"

datatype ('io, 's) memory_error =
    Locking 'io
  | ReadingLedger 'io
  | CreatingMemoryDir 'io
  | OpeningLedger 'io
  | WritingLedger 'io
  | RenamingLedger 'io
  | SerializingRecord 's
  | MissingFilter
  | BothFilters
  | NotConfirmed nat

definition with_lock ::
  "'io memory_io \<Rightarrow> (string option \<Rightarrow> (('io, 's) memory_error + 'a) \<times> string option) \<Rightarrow> string option
     \<Rightarrow> (('io, 's) memory_error + 'a) \<times> string option" where
  "with_lock io f file = (case mi_lock io of Some e \<Rightarrow> (Inl (Locking e), file) | None \<Rightarrow> f file)"

definition parse_records :: "(string \<Rightarrow> 'p + rejection_record) \<Rightarrow> string \<Rightarrow> rejection_record list" where
  "parse_records from_json s =
     List.map_filter (\<lambda>line. if trim_ws line = [] then None
        else case from_json (trim_ws line) of Inr r \<Rightarrow> Some r | Inl _ \<Rightarrow> None) (rust_lines s)"

definition load_all_locked ::
  "(string \<Rightarrow> 'p + rejection_record) \<Rightarrow> 'io memory_io \<Rightarrow> string option \<Rightarrow> ('io, 's) memory_error + rejection_record list" where
  "load_all_locked from_json io file =
     (case file of None \<Rightarrow> Inr []
      | Some s \<Rightarrow> (case mi_read io of Some e \<Rightarrow> Inl (ReadingLedger e) | None \<Rightarrow> Inr (parse_records from_json s)))"

definition load_all ::
  "(string \<Rightarrow> 'p + rejection_record) \<Rightarrow> 'io memory_io \<Rightarrow> string option \<Rightarrow> ('io, 's) memory_error + rejection_record list" where
  "load_all from_json io file = fst (with_lock io (\<lambda>f. (load_all_locked from_json io f, f)) file)"

definition append_locked ::
  "(rejection_record \<Rightarrow> 's + string) \<Rightarrow> 'io memory_io \<Rightarrow> rejection_record \<Rightarrow> string option
     \<Rightarrow> (('io, 's) memory_error + unit) \<times> string option" where
  "append_locked to_json io r file =
     (case mi_create_dir io of Some e \<Rightarrow> (Inl (CreatingMemoryDir e), file)
      | None \<Rightarrow>
     (case mi_open io of Some e \<Rightarrow> (Inl (OpeningLedger e), file)
      | None \<Rightarrow>
          (let old = unwrap_or file []
           in case to_json r of Inl e \<Rightarrow> (Inl (SerializingRecord e), Some old)
              | Inr line \<Rightarrow>
                  (case mi_write io of
                     Some (n, e) \<Rightarrow> (Inl (WritingLedger e), Some (old @ take n (line @ [CHR 0x0A])))
                   | None \<Rightarrow> (Ok_unit, Some (old @ line @ [CHR 0x0A]))))))"

definition append_rejection ::
  "(rejection_record \<Rightarrow> 's + string) \<Rightarrow> 'io memory_io \<Rightarrow> rejection_record \<Rightarrow> string option
     \<Rightarrow> (('io, 's) memory_error + unit) \<times> string option" where
  "append_rejection to_json io r file =
     (if \<not> fingerprint_specific_enough (rj_suspected_spans r) (rj_contract_function r) then (Ok_unit, file)
      else with_lock io (append_locked to_json io r) file)"

text \<open>The new text is written to a temporary file first, which is then renamed onto the ledger.\<close>

fun serialize_records :: "(rejection_record \<Rightarrow> 's + string) \<Rightarrow> rejection_record list \<Rightarrow> 's + string" where
  "serialize_records to_json [] = Inr []"
| "serialize_records to_json (r # rs) =
     and_then (to_json r) (\<lambda>line. and_then (serialize_records to_json rs) (\<lambda>rest. Inr (line @ [CHR 0x0A] @ rest)))"

definition rewrite_locked ::
  "(rejection_record \<Rightarrow> 's + string) \<Rightarrow> 'io memory_io \<Rightarrow> rejection_record list \<Rightarrow> string option
     \<Rightarrow> (('io, 's) memory_error + unit) \<times> string option" where
  "rewrite_locked to_json io rs file =
     (case mi_create_dir io of Some e \<Rightarrow> (Inl (CreatingMemoryDir e), file)
      | None \<Rightarrow>
     (case mi_open io of Some e \<Rightarrow> (Inl (OpeningLedger e), file)
      | None \<Rightarrow>
     (case serialize_records to_json rs of Inl e \<Rightarrow> (Inl (SerializingRecord e), file)
      | Inr text \<Rightarrow>
          (case mi_write io of Some (_, e) \<Rightarrow> (Inl (WritingLedger e), file)
           | None \<Rightarrow> (case mi_rename io of Some e \<Rightarrow> (Inl (RenamingLedger e), file) | None \<Rightarrow> (Ok_unit, Some text))))))"

definition load_filter_and_rewrite ::
  "(string \<Rightarrow> 'p + rejection_record) \<Rightarrow> (rejection_record \<Rightarrow> 's + string) \<Rightarrow> 'io memory_io
     \<Rightarrow> (rejection_record list \<Rightarrow> rejection_record list) \<Rightarrow> string option \<Rightarrow> (('io, 's) memory_error + nat) \<times> string option" where
  "load_filter_and_rewrite from_json to_json io f =
     with_lock io (\<lambda>file.
       case load_all_locked from_json io file of Inl e \<Rightarrow> (Inl e, file)
       | Inr before \<Rightarrow>
           (let after = f before
            in case rewrite_locked to_json io after file of
                 (Inl e, file') \<Rightarrow> (Inl e, file')
               | (Inr _, file') \<Rightarrow> (Inr (length before - length after), file')))"

section \<open>Queries\<close>

definition probe ::
  "(string \<Rightarrow> 'p + rejection_record) \<Rightarrow> 'io memory_io \<Rightarrow> fingerprint_inputs \<Rightarrow> string option
     \<Rightarrow> ('io, 's) memory_error + rejection_record list" where
  "probe from_json io i file =
     (if \<not> fingerprint_specific_enough (fi_suspected_spans i) (fi_contract_function i) then Inr []
      else and_then (load_all from_json io file)
             (\<lambda>rs. Inr (filter (\<lambda>r. rj_fingerprint r = compute_fingerprint i) rs)))"

definition by_family_id ::
  "(string \<Rightarrow> 'p + rejection_record) \<Rightarrow> 'io memory_io \<Rightarrow> string \<Rightarrow> string option
     \<Rightarrow> ('io, 's) memory_error + rejection_record list" where
  "by_family_id from_json io family file =
     and_then (load_all from_json io file) (\<lambda>rs. Inr (filter (\<lambda>r. rj_family_id r = family) rs))"

definition by_fingerprint ::
  "(string \<Rightarrow> 'p + rejection_record) \<Rightarrow> 'io memory_io \<Rightarrow> string \<Rightarrow> string option
     \<Rightarrow> ('io, 's) memory_error + rejection_record list" where
  "by_fingerprint from_json io fp file =
     and_then (load_all from_json io file) (\<lambda>rs. Inr (filter (\<lambda>r. rj_fingerprint r = fp) rs))"

definition newest_first :: "rejection_record list \<Rightarrow> rejection_record list" where
  "newest_first = sort_key (\<lambda>r. Reverse (rj_ts r))"

definition grouped_by_family ::
  "(string \<Rightarrow> 'p + rejection_record) \<Rightarrow> 'io memory_io \<Rightarrow> string option
     \<Rightarrow> ('io, 's) memory_error + (string, rejection_record list) btree_map" where
  "grouped_by_family from_json io file =
     and_then (load_all from_json io file) (\<lambda>rs. Inr (bt_map_values newest_first (group_by rj_family_id id rs)))"

definition short_sha :: "string \<Rightarrow> string option" where
  "short_sha sha = byte_slice sha 0 (min (length sha) 10)"

section \<open>Timestamps\<close>

text \<open>\<open>u32\<close> arithmetic on the day of era; the saturating operations do not saturate there.\<close>

definition rejections_civil_from_days :: "int \<Rightarrow> date" where
  "rejections_civil_from_days z0 =
     (let z = z0 + 719468;
          era = (if z \<ge> 0 then z else z - 146096) sdiv 146097;
          doe = z - era * 146097;
          yoe = max 0 (max 0 (doe - doe sdiv 1460) + doe sdiv 36524 - doe sdiv 146096) sdiv 365;
          y = as_i32 (yoe + era * 400);
          doy = doe - (365 * yoe + yoe sdiv 4 - yoe sdiv 100);
          mp = (5 * doy + 2) sdiv 153;
          d = doy - (153 * mp + 2) sdiv 5 + 1;
          m = (if mp < 10 then mp + 3 else mp - 9)
      in (if m \<le> 2 then as_i32 (y + 1) else y, m, d))"

definition now_utc_iso8601 :: "system_time \<Rightarrow> string" where
  "now_utc_iso8601 now =
     (let secs = (if now < 0 then 0 else now) div nanos;
          days = secs div 86400; time_secs = secs mod 86400;
          (year, month, day) = rejections_civil_from_days days
      in iso_text year month day (time_secs div 3600) (time_secs mod 3600 div 60) (time_secs mod 3600 mod 60))"

section \<open>What the analyzer phase records\<close>

definition lens_name :: "selection_lens \<Rightarrow> string" where
  "lens_name l =
     (case l of TxLatency \<Rightarrow> ''tx_latency'' | TenureThroughput \<Rightarrow> ''tenure_throughput'' | CommitTime \<Rightarrow> ''commit_time'')"

definition kind_name :: "family_kind \<Rightarrow> string" where
  "kind_name k =
     (case k of TxFamily \<Rightarrow> ''tx_family'' | BlockFamily \<Rightarrow> ''block_family'' | ContractFamily \<Rightarrow> ''contract_family'')"

definition analysis_outcome :: "analysis \<Rightarrow> (rejection_outcome \<times> string) option" where
  "analysis_outcome a =
     (case a of
        RejectedA r \<Rightarrow> Some (OutcomeRejected, ra_reason r)
      | AcceptedA x \<Rightarrow>
          if di_status (aa_lens_disposition x) = NotActionable
          then Some (OutcomeNotActionable,
                 unwrap_or (di_reason (aa_lens_disposition x)) ''(analyzer did not provide a reason)'')
          else None)"

definition candidate_inputs :: "triage_candidate \<Rightarrow> fingerprint_inputs" where
  "candidate_inputs c =
     \<lparr>fi_lens = lens_name (tc_selection_lens c), fi_kind = kind_name (tc_kind c),
      fi_suspected_spans = unwrap_or (tc_suspected_spans c) [],
      fi_contract_function =
        (case tc_representative_ids c of
           ContractIds f _ \<Rightarrow> Some (cf_issuer f @ ''.'' @ cf_contract f @ ''.'' @ cf_function f)
         | _ \<Rightarrow> None)\<rparr>"

definition rejection_of ::
  "system_time \<Rightarrow> string \<Rightarrow> string \<Rightarrow> string option \<Rightarrow> string \<Rightarrow> triage_candidate \<Rightarrow> rejection_outcome \<Rightarrow> string \<Rightarrow> rejection_record" where
  "rejection_of now session_id family_id sha evidence_path c out reason =
     (let i = candidate_inputs c
      in \<lparr>rj_ts = now_utc_iso8601 now, rj_session_id = session_id, rj_family_id = family_id, rj_lens = fi_lens i,
          rj_outcome = out, rj_kind = fi_kind i, rj_suspected_spans = fi_suspected_spans i,
          rj_contract_function = fi_contract_function i, rj_fingerprint = compute_fingerprint i,
          rj_stacks_core_sha = sha, rj_reason = reason, rj_evidence_path = Some evidence_path\<rparr>)"

datatype ('io, 's, 'p) rejection_append_error = CandidateJson 'p | Memory "('io, 's) memory_error"

definition maybe_append_rejection ::
  "(string \<Rightarrow> 'p + triage_candidate) \<Rightarrow> (rejection_record \<Rightarrow> 's + string) \<Rightarrow> 'io memory_io \<Rightarrow> system_time
     \<Rightarrow> string \<Rightarrow> string \<Rightarrow> string \<Rightarrow> string option \<Rightarrow> analysis \<Rightarrow> string \<Rightarrow> string option
     \<Rightarrow> (('io, 's, 'p) rejection_append_error + unit) \<times> string option" where
  "maybe_append_rejection parse_candidate to_json io now session_id family_id family_json sha a analysis_path file =
     (case analysis_outcome a of None \<Rightarrow> (Ok_unit, file)
      | Some (out, reason) \<Rightarrow>
          (case parse_candidate family_json of Inl e \<Rightarrow> (Inl (CandidateJson e), file)
           | Inr c \<Rightarrow>
               (let i = candidate_inputs c
                in if \<not> fingerprint_specific_enough (fi_suspected_spans i) (fi_contract_function i) then (Ok_unit, file)
                   else (case append_rejection to_json io (rejection_of now session_id family_id sha analysis_path c out reason) file of
                           (r, file') \<Rightarrow> (with_context Memory r, file')))))"

section \<open>Trimming and removing\<close>

record trim_args =
  tr_before :: "string option"
  tr_before_sha :: "string option"
  tr_keep_last :: "nat option"
  tr_yes :: bool

definition keep_last_per_family :: "nat \<Rightarrow> rejection_record list \<Rightarrow> rejection_record list" where
  "keep_last_per_family n records =
     newest_first (concat (map (\<lambda>(_, group). take n (newest_first group)) (group_by rj_family_id id records)))"

definition apply_filters :: "trim_args \<Rightarrow> rejection_record list \<Rightarrow> rejection_record list" where
  "apply_filters args records =
     (let rs1 = (case tr_before args of None \<Rightarrow> records
                 | Some before \<Rightarrow> filter (\<lambda>r. before \<le> unwrap_or (byte_slice (rj_ts r) 0 10) []) records);
          rs2 = (case tr_before_sha args of None \<Rightarrow> rs1
                 | Some sha_prefix \<Rightarrow>
                     filter (\<lambda>r. case rj_stacks_core_sha r of Some s \<Rightarrow> \<not> starts_with s sha_prefix | None \<Rightarrow> False) rs1)
      in case tr_keep_last args of None \<Rightarrow> rs2 | Some n \<Rightarrow> keep_last_per_family n rs2)"

text \<open>
  The mutation reads the ledger again under the exclusive lock: \<open>file\<close> is what the preview sees and
  \<open>file'\<close> the ledger at the time of the rewrite. The result counts the records dropped and remaining;
  \<open>None\<close> is the unchanged ledger of an empty preview. The three loads have their own file system answers.
\<close>

definition confirmed_rewrite ::
  "(string \<Rightarrow> 'p + rejection_record) \<Rightarrow> (rejection_record \<Rightarrow> 's + string) \<Rightarrow> 'io memory_io \<Rightarrow> 'io memory_io \<Rightarrow> 'io memory_io \<Rightarrow> bool
     \<Rightarrow> (rejection_record list \<Rightarrow> rejection_record list) \<Rightarrow> string option \<Rightarrow> string option
     \<Rightarrow> (('io, 's) memory_error + (nat \<times> nat) option) \<times> string option" where
  "confirmed_rewrite from_json to_json io io' io'' yes f file file' =
     (case load_all from_json io file of Inl e \<Rightarrow> (Inl e, file')
      | Inr preview \<Rightarrow>
          (let n = length preview - length (f preview)
           in if n = 0 then (Inr None, file')
              else if \<not> yes then (Inl (NotConfirmed n), file')
              else (case load_filter_and_rewrite from_json to_json io' f file' of
                      (Inl e, file'') \<Rightarrow> (Inl e, file'')
                    | (Inr dropped, file'') \<Rightarrow>
                        (case load_all from_json io'' file'' of Inl e \<Rightarrow> (Inl e, file'')
                         | Inr rest \<Rightarrow> (Inr (Some (dropped, length rest)), file'')))))"

definition trim_run ::
  "(string \<Rightarrow> 'p + rejection_record) \<Rightarrow> (rejection_record \<Rightarrow> 's + string) \<Rightarrow> 'io memory_io \<Rightarrow> 'io memory_io \<Rightarrow> 'io memory_io
     \<Rightarrow> trim_args \<Rightarrow> string option \<Rightarrow> string option \<Rightarrow> (('io, 's) memory_error + (nat \<times> nat) option) \<times> string option" where
  "trim_run from_json to_json io io' io'' args file file' =
     (if tr_before args = None \<and> tr_before_sha args = None \<and> tr_keep_last args = None then (Inl MissingFilter, file')
      else confirmed_rewrite from_json to_json io io' io'' (tr_yes args) (apply_filters args) file file')"

definition remove_run ::
  "(string \<Rightarrow> 'p + rejection_record) \<Rightarrow> (rejection_record \<Rightarrow> 's + string) \<Rightarrow> 'io memory_io \<Rightarrow> 'io memory_io \<Rightarrow> 'io memory_io
     \<Rightarrow> string option \<Rightarrow> string option \<Rightarrow> bool \<Rightarrow> string option \<Rightarrow> string option
     \<Rightarrow> (('io, 's) memory_error + (nat \<times> nat) option) \<times> string option" where
  "remove_run from_json to_json io io' io'' family_id fingerprint yes file file' =
     (case (family_id, fingerprint) of
        (Some fid, None) \<Rightarrow>
          confirmed_rewrite from_json to_json io io' io'' yes (filter (\<lambda>r. rj_family_id r \<noteq> fid)) file file'
      | (None, Some fp) \<Rightarrow>
          confirmed_rewrite from_json to_json io io' io'' yes (filter (\<lambda>r. rj_fingerprint r \<noteq> fp)) file file'
      | (Some _, Some _) \<Rightarrow> (Inl BothFilters, file')
      | (None, None) \<Rightarrow> (Inl MissingFilter, file'))"

section \<open>The dates agree\<close>

lemma as_i32_plus_1: "as_i32 (as_i32 y + 1) = as_i32 (y + 1)"
  by (simp add: wrap_signed_def mod_simps)

lemma rejections_civil:
  assumes "civil_from_days z = (y, m, d)"
  shows "rejections_civil_from_days z = (as_i32 y, m, d)"
proof -
  define doe where "doe = (z + 719468) mod 146097"
  have d: "0 \<le> doe" "doe < 146097" by (simp_all add: doe_def)
  note n = doe_nonneg[OF d]
  have "0 \<le> doe - doe div 1460" using d by linarith
  then have yoe: "max 0 (max 0 (doe - doe sdiv 1460) + doe sdiv 36524 - doe sdiv 146096) sdiv 365 = yoe_of_doe doe"
    using d n(2) by (simp add: yoe_of_doe_def)
  have doy: "365 * yoe_of_doe doe + yoe_of_doe doe sdiv 4 - yoe_of_doe doe sdiv 100 = year_start (yoe_of_doe doe)"
    using n(1) by (simp add: year_start_def)
  have mp: "(5 * (doe - year_start (yoe_of_doe doe)) + 2) sdiv 153 = (5 * (doe - year_start (yoe_of_doe doe)) + 2) div 153"
    using n(3) by simp
  have ms: "(153 * ((5 * (doe - year_start (yoe_of_doe doe)) + 2) div 153) + 2) sdiv 5
      = month_start ((5 * (doe - year_start (yoe_of_doe doe)) + 2) div 153)"
    using n(4) by (simp add: month_start_def)
  show ?thesis
    using assms
    unfolding rejections_civil_from_days_def civil_from_days_def Let_def sdiv_era minus_era doe_def[symmetric]
      yoe doy mp ms by (auto simp: as_i32_plus_1 split: if_splits)
qed

section \<open>Fingerprints\<close>

lemma distinct_remdups_adj_sorted: "sorted xs \<Longrightarrow> distinct (remdups_adj xs)"
  by (induction xs rule: remdups_adj.induct) auto

lemma canonical_spans_set: "canonical_spans spans = sorted_list_of_set (trim_ws ` set spans - {[]})"
proof -
  let ?xs = "filter (\<lambda>s. s \<noteq> []) (map trim_ws spans)"
  have "set ?xs = trim_ws ` set spans - {[]}" by auto
  moreover have "remdups_adj (sort ?xs) = sorted_list_of_set (set ?xs)"
    by (rule sorted_distinct_set_unique) (auto simp: sorted_remdups_adj distinct_remdups_adj_sorted)
  ultimately show ?thesis by (simp add: canonical_spans_def)
qed

lemma same_family_fingerprint:
  assumes "fi_lens i = fi_lens k" "fi_kind i = fi_kind k"
    "trim_ws ` set (fi_suspected_spans i) - {[]} = trim_ws ` set (fi_suspected_spans k) - {[]}"
    "canonical_contract (fi_contract_function i) = canonical_contract (fi_contract_function k)"
  shows "compute_fingerprint i = compute_fingerprint k"
    "fingerprint_specific_enough (fi_suspected_spans i) (fi_contract_function i)
     \<longleftrightarrow> fingerprint_specific_enough (fi_suspected_spans k) (fi_contract_function k)"
proof -
  show "compute_fingerprint i = compute_fingerprint k" by (simp add: compute_fingerprint_def canonical_spans_set assms)
  have "list_ex (\<lambda>s. trim_ws s \<noteq> []) spans \<longleftrightarrow> trim_ws ` set spans - {[]} \<noteq> {}" for spans :: "string list"
    by (auto simp: list_ex_iff)
  then show "fingerprint_specific_enough (fi_suspected_spans i) (fi_contract_function i)
     \<longleftrightarrow> fingerprint_specific_enough (fi_suspected_spans k) (fi_contract_function k)"
    by (simp only: fingerprint_specific_enough_def assms)
qed

text \<open>The comma that joins the spans may also occur in one: different families can share a fingerprint.\<close>

lemma fingerprint_collision:
  "compute_fingerprint \<lparr>fi_lens = l, fi_kind = k, fi_suspected_spans = [''a'', ''b''], fi_contract_function = c\<rparr>
   = compute_fingerprint \<lparr>fi_lens = l, fi_kind = k, fi_suspected_spans = [''a,b''], fi_contract_function = c\<rparr>"
proof -
  have "join_strings '','' (canonical_spans [''a'', ''b'']) = join_strings '','' (canonical_spans [''a,b''])" by code_simp
  then show ?thesis by (simp add: compute_fingerprint_def)
qed

section \<open>Reading back what was written\<close>

text \<open>What compact serde output of a struct is: one line in braces that parses back.\<close>

definition one_line_json :: "(rejection_record \<Rightarrow> 's + string) \<Rightarrow> (string \<Rightarrow> 'p + rejection_record) \<Rightarrow> rejection_record \<Rightarrow> bool" where
  "one_line_json to_json from_json r \<longleftrightarrow>
     (case to_json r of Inl _ \<Rightarrow> False
      | Inr j \<Rightarrow> j \<noteq> [] \<and> hd j = CHR ''{'' \<and> last j = CHR ''}'' \<and> CHR 0x0A \<notin> set j
          \<and> (case from_json j of Inr r' \<Rightarrow> r' = r | Inl _ \<Rightarrow> False))"

lemma one_line_json_read:
  assumes "one_line_json to_json from_json r" "to_json r = Inr j" "s = [] \<or> last s = CHR 0x0A"
  shows "parse_records from_json (s @ j @ [CHR 0x0A]) = parse_records from_json s @ [r]"
proof -
  from assms(1,2) have j: "j \<noteq> []" "hd j = CHR ''{''" "last j = CHR ''}''" "CHR 0x0A \<notin> set j" "from_json j = Inr r"
    by (auto simp: one_line_json_def split: sum.splits)
  then have "strip_cr j = j" by (auto simp: strip_cr_def strip_suffix_def suffix_def)
  moreover have "trim_ws j = j" by (rule trim_ws_solid) (simp_all add: j solid_def ascii_ws_def)
  ultimately show ?thesis
    using j by (simp add: parse_records_def rust_lines_append[OF assms(3) j(4)] List.map_filter_def)
qed

lemma serialize_records_read:
  assumes "serialize_records to_json rs = Inr body" "\<forall>r \<in> set rs. one_line_json to_json from_json r"
    "s = [] \<or> last s = CHR 0x0A"
  shows "parse_records from_json (s @ body) = parse_records from_json s @ rs \<and> (s @ body = [] \<or> last (s @ body) = CHR 0x0A)"
  using assms
proof (induction rs arbitrary: s body)
  case (Cons r rs)
  then obtain j rest where j: "to_json r = Inr j" "serialize_records to_json rs = Inr rest" "body = j @ [CHR 0x0A] @ rest"
    by (auto simp: and_then_Inr)
  have "parse_records from_json (s @ j @ [CHR 0x0A]) = parse_records from_json s @ [r]"
    using Cons.prems(2,3) j(1) by (intro one_line_json_read[of to_json]) simp_all
  moreover have "parse_records from_json ((s @ j @ [CHR 0x0A]) @ rest) = parse_records from_json (s @ j @ [CHR 0x0A]) @ rs
      \<and> ((s @ j @ [CHR 0x0A]) @ rest = [] \<or> last ((s @ j @ [CHR 0x0A]) @ rest) = CHR 0x0A)"
    using Cons.prems(2) by (intro Cons.IH[OF j(2)]) auto
  ultimately show ?case by (simp add: j(3))
qed simp

lemma parse_records_Nil [simp]: "parse_records from_json [] = []"
  by (simp add: parse_records_def rust_lines_def List.map_filter_simps)

text \<open>
  A rewrite leaves exactly the filtered records: reading the ledger again gives them, and the lines
  that did not parse are gone without being counted.
\<close>

lemma rewrite_exact:
  fixes to_json :: "rejection_record \<Rightarrow> 's + string" and io :: "'io memory_io"
  assumes "load_filter_and_rewrite from_json to_json io f file = (Inr dropped, file')"
    "load_all_locked from_json io file = (Inr before :: ('io, 's) memory_error + _)"
    "\<forall>r \<in> set (f before). one_line_json to_json from_json r"
  shows "\<exists>body. file' = Some body \<and> parse_records from_json body = f before \<and> dropped = length before - length (f before)
    \<and> newline_terminated file'"
proof -
  obtain body where "serialize_records to_json (f before) = Inr body" "file' = Some body"
    "dropped = length before - length (f before)"
    using assms(1,2)
    by (auto simp: load_filter_and_rewrite_def with_lock_def rewrite_locked_def Let_def split: option.splits sum.splits)
  then show ?thesis
    using serialize_records_read[of to_json "f before" body from_json "[]"] assms(3)
    by (simp add: newline_terminated_def)
qed

lemma append_rejection_ok:
  assumes "append_rejection to_json io r file = (Ok_unit, file')" "newline_terminated file"
    "fingerprint_specific_enough (rj_suspected_spans r) (rj_contract_function r)" "one_line_json to_json from_json r"
  shows "\<exists>body. file' = Some body \<and> newline_terminated file'
    \<and> parse_records from_json body = parse_records from_json (unwrap_or file []) @ [r]"
proof -
  obtain j where "to_json r = Inr j" "file' = Some (unwrap_or file [] @ j @ [CHR 0x0A])"
    using assms(1,3)
    by (auto simp: append_rejection_def with_lock_def append_locked_def Let_def split: option.splits sum.splits)
  then show ?thesis
    using one_line_json_read[OF assms(4), of j "unwrap_or file []"] assms(2)
    by (cases "file") (auto simp: newline_terminated_def unwrap_or_def)
qed

definition same_family :: "fingerprint_inputs \<Rightarrow> fingerprint_inputs \<Rightarrow> bool" where
  "same_family i k \<longleftrightarrow> fi_lens i = fi_lens k \<and> fi_kind i = fi_kind k
     \<and> trim_ws ` set (fi_suspected_spans i) - {[]} = trim_ws ` set (fi_suspected_spans k) - {[]}
     \<and> canonical_contract (fi_contract_function i) = canonical_contract (fi_contract_function k)"

lemma load_all_quiet:
  "mi_lock io = None \<Longrightarrow> mi_read io = None \<Longrightarrow> load_all from_json io file = Inr (parse_records from_json (unwrap_or file []))"
  by (simp add: load_all_def with_lock_def load_all_locked_def unwrap_or_def split: option.split)

text \<open>C35: triage finds what the analyzer ruled out. When an analysis is a rejection or not actionable and
  its candidate has a span or a contract, the record that the analyzer phase appends is returned by every
  later probe for the same family: the same lens, kind and contract, and the same spans in any order, with
  any repetition and surrounding blanks. The probe returns it after the hits it gave before, with the
  analyzer's reason, and the ledger still ends with a newline.\<close>

theorem recorded_rejection_is_found:
  fixes io' :: "'io memory_io" and to_json :: "rejection_record \<Rightarrow> 's + string"
  assumes "maybe_append_rejection parse_candidate to_json io now session_id family_id family_json sha a path file = (Ok_unit, file')"
    and "analysis_outcome a = Some (out, reason)" "parse_candidate family_json = Inr c"
    and "fingerprint_specific_enough (fi_suspected_spans (candidate_inputs c)) (fi_contract_function (candidate_inputs c))"
    and "one_line_json to_json from_json (rejection_of now session_id family_id sha path c out reason)"
    and "newline_terminated file" "same_family i (candidate_inputs c)" "mi_lock io' = None" "mi_read io' = None"
  shows "\<exists>hits. (probe from_json io' i file :: ('io, 's) memory_error + _) = Inr hits
    \<and> (probe from_json io' i file' :: ('io, 's) memory_error + _)
        = Inr (hits @ [rejection_of now session_id family_id sha path c out reason])
    \<and> newline_terminated file'"
proof -
  define r where "r = rejection_of now session_id family_id sha path c out reason"
  have fields: "rj_suspected_spans r = fi_suspected_spans (candidate_inputs c)"
    "rj_contract_function r = fi_contract_function (candidate_inputs c)"
    "rj_fingerprint r = compute_fingerprint (candidate_inputs c)"
    by (simp_all add: r_def rejection_of_def Let_def)
  have "append_rejection to_json io r file = (Ok_unit, file')"
    using assms(1-4) by (auto simp: maybe_append_rejection_def r_def Let_def with_context_def split: prod.splits sum.splits)
  from append_rejection_ok[OF this assms(6), of from_json] obtain body where
    after: "file' = Some body" "newline_terminated file'"
      "parse_records from_json body = parse_records from_json (unwrap_or file []) @ [r]"
    using assms(4,5) by (auto simp: fields r_def[symmetric])
  have fam: "compute_fingerprint i = rj_fingerprint r" "fingerprint_specific_enough (fi_suspected_spans i) (fi_contract_function i)"
    using same_family_fingerprint[of i "candidate_inputs c"] assms(4,7) by (auto simp: fields same_family_def)
  have "load_all from_json io' file' = Inr (parse_records from_json (unwrap_or file []) @ [r])"
    using load_all_quiet[OF assms(8,9), of from_json "file'"] after by (simp add: unwrap_or_def)
  then show ?thesis
    using fam after(2) by (auto simp: probe_def load_all_quiet[OF assms(8,9)] r_def[symmetric])
qed

definition sample_candidate :: triage_candidate where
  "sample_candidate =
     \<lparr>tc_id = ''map-get'', tc_kind = TxFamily, tc_selection_lens = TxLatency, tc_representative_ids = TxIds [''0x1''],
      tc_rationale = ''hot'', tc_bucket = None, tc_suspected_spans = Some [''vm.lookup'', '' vm.eval''],
      tc_global_materiality = None\<rparr>"

definition sample_rejection :: rejection_record where
  "sample_rejection =
     rejection_of 0 ''20260101-000000'' ''map-get'' None ''/a/analysis.json'' sample_candidate OutcomeRejected ''inlined already''"

definition quiet_memory :: "unit memory_io" where
  "quiet_memory =
     \<lparr>mi_lock = None, mi_read = None, mi_create_dir = None, mi_open = None, mi_write = None, mi_rename = None\<rparr>"

theorem recorded_rejection_is_found_witness:
  "\<exists>file'. maybe_append_rejection (\<lambda>_. Inr sample_candidate :: unit + _) (\<lambda>_. Inr ''{}'' :: unit + _) quiet_memory 0
       ''20260101-000000'' ''map-get'' ''{}'' None (RejectedA \<lparr>ra_family_id = ''map-get'', ra_reason = ''inlined already''\<rparr>)
       ''/a/analysis.json'' None = (Ok_unit, file')
    \<and> (probe (\<lambda>_. Inr sample_rejection :: unit + _) quiet_memory
         \<lparr>fi_lens = ''tx_latency'', fi_kind = ''tx_family'', fi_suspected_spans = [''vm.eval'', ''vm.lookup'', ''vm.eval''],
          fi_contract_function = None\<rparr> file' :: (unit, unit) memory_error + _) = Inr [sample_rejection]"
proof -
  let ?a = "RejectedA \<lparr>ra_family_id = ''map-get'', ra_reason = ''inlined already''\<rparr>"
  let ?i = "\<lparr>fi_lens = ''tx_latency'', fi_kind = ''tx_family'', fi_suspected_spans = [''vm.eval'', ''vm.lookup'', ''vm.eval''],
    fi_contract_function = None\<rparr>"
  let ?run = "maybe_append_rejection (\<lambda>_. Inr sample_candidate :: unit + _) (\<lambda>_. Inr ''{}'' :: unit + _) quiet_memory 0
    ''20260101-000000'' ''map-get'' ''{}'' None ?a ''/a/analysis.json'' None"
  have spec: "fingerprint_specific_enough (fi_suspected_spans (candidate_inputs sample_candidate))
      (fi_contract_function (candidate_inputs sample_candidate))" by code_simp
  have fam: "same_family ?i (candidate_inputs sample_candidate)" by code_simp
  have out: "analysis_outcome ?a = Some (OutcomeRejected, ''inlined already'')" by (simp add: analysis_outcome_def)
  have run: "?run = (Ok_unit, Some (''{}'' @ [CHR 0x0A]))"
    using spec by (simp add: maybe_append_rejection_def out Let_def append_rejection_def rejection_of_def with_lock_def
        append_locked_def quiet_memory_def unwrap_or_def with_context_def)
  have json: "one_line_json (\<lambda>_. Inr ''{}'' :: unit + _) (\<lambda>_. Inr sample_rejection :: unit + _)
      (rejection_of 0 ''20260101-000000'' ''map-get'' None ''/a/analysis.json'' sample_candidate OutcomeRejected ''inlined already'')"
    by (simp add: one_line_json_def sample_rejection_def)
  have quiet: "mi_lock quiet_memory = None" "mi_read quiet_memory = None" by (simp_all add: quiet_memory_def)
  have "(probe (\<lambda>_. Inr sample_rejection :: unit + _) quiet_memory ?i None :: (unit, unit) memory_error + _) = Inr []"
    by (simp add: probe_def load_all_quiet quiet unwrap_or_def)
  then show ?thesis
    using recorded_rejection_is_found[OF run out refl spec json _ fam quiet]
    by (simp add: run newline_terminated_def sample_rejection_def[symmetric])
qed

section \<open>Trimming\<close>

text \<open>Trimming to the last \<open>n\<close> leaves of every family its newest \<open>n\<close> records, newest first.\<close>

lemma newest_first_idem: "newest_first (take n (newest_first rs)) = take n (newest_first rs)"
  unfolding newest_first_def by (rule sort_key_id_if_sorted) (simp flip: take_map add: sorted_wrt_take)

lemma filter_newest_first: "filter P (newest_first rs) = newest_first (filter P rs)"
  by (simp add: newest_first_def filter_sort)

lemma concat_one_key:
  assumes "distinct (map fst m)"
  shows "concat (map (\<lambda>(k, g). if k = fid then h g else []) m) = (case map_of m fid of Some g \<Rightarrow> h g | None \<Rightarrow> [])"
  using assms
proof (induction m)
  case (Cons kg m)
  have "concat (map (\<lambda>(k, g). if k = fid then h g else []) m) = []" if "fid \<notin> fst ` set m"
    using that by (induction m) auto
  with Cons show ?case by (cases kg) auto
qed simp

lemma filter_group:
  "concat (map (\<lambda>(k, g). filter (\<lambda>r. rj_family_id r = fid) (take n (newest_first g))) (group_by rj_family_id id rs))
   = take n (newest_first (filter (\<lambda>r. rj_family_id r = fid) rs))"
proof -
  let ?m = "group_by rj_family_id id rs"
  have keys: "distinct (map fst ?m)" using bt.distinct_keys[of ?m] by simp
  have one: "filter (\<lambda>r. rj_family_id r = fid) (take n (newest_first g)) = (if k = fid then take n (newest_first g) else [])"
    if "(k, g) \<in> set ?m" for k g
  proof -
    have "bt_get ?m k = Some g" using that keys by (simp add: bt_get_def)
    then have "g = filter (\<lambda>r. rj_family_id r = k) rs" by (auto simp: group_by_get Let_def split: if_splits)
    then have "\<forall>r \<in> set (take n (newest_first g)). rj_family_id r = k"
      by (auto simp: newest_first_def dest: in_set_takeD)
    then show ?thesis by (auto simp: filter_id_conv filter_empty_conv)
  qed
  have "concat (map (\<lambda>(k, g). filter (\<lambda>r. rj_family_id r = fid) (take n (newest_first g))) ?m)
      = concat (map (\<lambda>(k, g). if k = fid then take n (newest_first g) else []) ?m)"
    using one by (intro arg_cong[where f = concat] map_cong) auto
  also have "\<dots> = (case bt_get ?m fid of Some g \<Rightarrow> take n (newest_first g) | None \<Rightarrow> [])"
    using concat_one_key[OF keys] by (simp add: bt_get_def)
  also have "\<dots> = take n (newest_first (filter (\<lambda>r. rj_family_id r = fid) rs))"
    by (auto simp: group_by_get Let_def newest_first_def)
  finally show ?thesis .
qed

lemma keep_last_newest:
  "filter (\<lambda>r. rj_family_id r = fid) (keep_last_per_family n rs)
   = take n (newest_first (filter (\<lambda>r. rj_family_id r = fid) rs))"
proof -
  have "filter (\<lambda>r. rj_family_id r = fid) (concat (map (\<lambda>(_, group). take n (newest_first group)) (group_by rj_family_id id rs)))
      = take n (newest_first (filter (\<lambda>r. rj_family_id r = fid) rs))"
    unfolding filter_group[of fid n rs, symmetric] by (simp add: filter_concat comp_def case_prod_unfold)
  then show ?thesis by (simp only: keep_last_per_family_def filter_newest_first newest_first_idem)
qed

text \<open>
  The filter \<open>--before-sha\<close> also drops the records without a recorded commit, which its description
  says are not trimmed.
\<close>

lemma in_keep_last: "r \<in> set (keep_last_per_family n rs) \<Longrightarrow> r \<in> set rs"
proof -
  assume "r \<in> set (keep_last_per_family n rs)"
  then have "r \<in> set (filter (\<lambda>x. rj_family_id x = rj_family_id r) (keep_last_per_family n rs))" by simp
  then show ?thesis by (auto simp: keep_last_newest newest_first_def dest: in_set_takeD)
qed

lemma before_sha_drops_unrecorded:
  assumes "tr_before_sha args = Some p" "rj_stacks_core_sha r = None"
  shows "r \<notin> set (apply_filters args rs)"
  using assms by (auto simp: apply_filters_def Let_def split: option.splits dest!: in_keep_last)

end
