(* ===== verification/Optimizer_Memory.thy ===== *)
theory Optimizer_Memory
  imports Rejections History_Projection
begin

text \<open>
  Cross-session optimizer memory (\<open>models/optimizer_memory.rs\<close>, \<open>session/optimizer_memory.rs\<close>): a bounded
  digest of the history of the current families for the agents' prompts. The theorem says that it is
  the newest slice of the shared projection; the lemmas bound what a prompt gets.
\<close>

section \<open>The artifact\<close>

record memory_attempt =
  ma_session_id :: string
  ma_target_id :: string
  ma_finished_at :: string
  ma_status :: target_status
  ma_delivery_mode :: delivery_mode
  ma_reason_code :: "string option"
  ma_source_sha :: "string option"
  ma_pr_url :: "string option"
  ma_issue_url :: "string option"
  ma_lifecycle_kind :: "maint_event_kind option"
  ma_lifecycle_state :: "string option"
  ma_lifecycle_observed_at :: "string option"
  ma_head_sha :: "string option"

record memory_signature =
  mg_fix_signature :: string
  mg_attempts :: "memory_attempt list"
  mg_omitted_attempts :: nat

record memory_family =
  mm_family_id :: string
  mm_signatures :: "memory_signature list"
  mm_omitted_sibling_signatures :: nat

record optimizer_memory =
  om_generated_at :: string
  om_current_source_sha :: "string option"
  om_families :: "memory_family list"

datatype memory_model_error =
    EmptyGeneratedAt | EmptyMemoryFamily | EmptyMemorySignature
  | EmptyAttemptSession | EmptyAttemptTarget | EmptyAttemptFinished

definition validate_memory_attempt :: "memory_attempt \<Rightarrow> memory_model_error check" where
  "validate_memory_attempt a = checks [
     bail_if (is_blank (ma_session_id a)) EmptyAttemptSession,
     bail_if (is_blank (ma_target_id a)) EmptyAttemptTarget,
     bail_if (is_blank (ma_finished_at a)) EmptyAttemptFinished]"

definition validate_memory_signature :: "memory_signature \<Rightarrow> memory_model_error check" where
  "validate_memory_signature s = checks [
     bail_if (is_blank (mg_fix_signature s)) EmptyMemorySignature,
     for_each (\<lambda>_. validate_memory_attempt) 0 (mg_attempts s)]"

definition validate_memory_family :: "memory_family \<Rightarrow> memory_model_error check" where
  "validate_memory_family f = checks [
     bail_if (is_blank (mm_family_id f)) EmptyMemoryFamily,
     for_each (\<lambda>_. validate_memory_signature) 0 (mm_signatures f)]"

definition validate_optimizer_memory :: "optimizer_memory \<Rightarrow> memory_model_error check" where
  "validate_optimizer_memory m = checks [
     bail_if (is_blank (om_generated_at m)) EmptyGeneratedAt,
     for_each (\<lambda>_. validate_memory_family) 0 (om_families m)]"

datatype ('io, 'p, 's) memory_artifact_error =
    ReadingMemory 'io
  | ParsingMemory 'p
  | ValidatingMemory memory_model_error
  | NoMemoryParent
  | CreatingMemoryParent 'io
  | SerializingMemory 's
  | WritingMemoryTemp 'io
  | PersistingMemory 'io
  | MemoryCandidates 'p
  | MemoryCandidatesIo string
  | MemoryCandidatesInvalid candidates_error
  | MemoryLedgers "'io projection_error"

definition read_optional_memory ::
  "'io files \<Rightarrow> (string \<Rightarrow> 'p + optimizer_memory) \<Rightarrow> string \<Rightarrow> ('io, 'p, 's) memory_artifact_error + optimizer_memory option" where
  "read_optional_memory fs parse path =
     (case fs path of
        NotFound \<Rightarrow> Inr None
      | IoFailed e \<Rightarrow> Inl (ReadingMemory e)
      | Content raw \<Rightarrow>
          and_then (with_context ParsingMemory (parse raw)) (\<lambda>m.
          and_then (with_context ValidatingMemory (validate_optimizer_memory m)) (\<lambda>_. Inr (Some m))))"

text \<open>The temporary file is renamed onto the path only when it is complete: a failure leaves the path as it was.\<close>

record 'io atomic_io =
  at_create_dir :: "'io option"
  at_temp :: "'io option"
  at_persist :: "'io option"

definition write_atomic ::
  "'io atomic_io \<Rightarrow> (optimizer_memory \<Rightarrow> 's + string) \<Rightarrow> string \<Rightarrow> optimizer_memory \<Rightarrow> 'io files
     \<Rightarrow> (('io, 'p, 's) memory_artifact_error + unit) \<times> 'io files" where
  "write_atomic io to_json path m fs =
     (case and_then (with_context ValidatingMemory (validate_optimizer_memory m)) (\<lambda>_.
             case path_parent path of None \<Rightarrow> Inl NoMemoryParent
             | Some _ \<Rightarrow>
                 (case at_create_dir io of Some e \<Rightarrow> Inl (CreatingMemoryParent e)
                  | None \<Rightarrow>
                      and_then (with_context SerializingMemory (to_json m)) (\<lambda>pretty.
                        case at_temp io of Some e \<Rightarrow> Inl (WritingMemoryTemp e)
                        | None \<Rightarrow> (case at_persist io of Some e \<Rightarrow> Inl (PersistingMemory e) | None \<Rightarrow> Inr pretty))))
      of Inl e \<Rightarrow> (Inl e, fs)
       | Inr pretty \<Rightarrow> (Ok_unit, fs(path := Content pretty)))"

section \<open>Building\<close>

definition MAX_ATTEMPTS_PER_SIGNATURE :: nat where
  "MAX_ATTEMPTS_PER_SIGNATURE = 5"

definition MAX_SIGNATURES_PER_FAMILY :: nat where
  "MAX_SIGNATURES_PER_FAMILY = 3"

definition MEMORY_RENDER_BUDGET_CHARS :: nat where
  "MEMORY_RENDER_BUDGET_CHARS = 8000"

definition first_url :: "string option \<Rightarrow> string option \<Rightarrow> string option" where
  "first_url pr issue = (case pr of Some u \<Rightarrow> Some u | None \<Rightarrow> issue)"

definition attempt_from_projection :: "history_projection \<Rightarrow> projected_attempt \<Rightarrow> memory_attempt" where
  "attempt_from_projection h a =
     (let state = Option.bind (first_url (pa_pr_url a) (pa_issue_url a)) (latest_artifact_state h)
      in \<lparr>ma_session_id = pa_session_id a, ma_target_id = pa_target_id a, ma_finished_at = pa_finished_at a,
          ma_status = pa_status a, ma_delivery_mode = pa_delivery_mode a, ma_reason_code = pa_reason_code a,
          ma_source_sha = pa_source_sha a, ma_pr_url = pa_pr_url a, ma_issue_url = pa_issue_url a,
          ma_lifecycle_kind = map_option as_kind state, ma_lifecycle_state = map_option as_new_state state,
          ma_lifecycle_observed_at = map_option as_observed_at state,
          ma_head_sha = first_url (Option.bind state as_head_sha) (pa_target_head_sha a)\<rparr>)"

definition memory_attempt_key :: "memory_attempt \<Rightarrow> (string \<times> string \<times> string) reverse" where
  "memory_attempt_key a = Reverse (ma_finished_at a, ma_session_id a, ma_target_id a)"

definition signature_row :: "string \<Rightarrow> memory_attempt list \<Rightarrow> memory_signature" where
  "signature_row sig attempts =
     (let sorted_attempts = sort_key memory_attempt_key attempts
      in \<lparr>mg_fix_signature = sig, mg_attempts = take MAX_ATTEMPTS_PER_SIGNATURE sorted_attempts,
          mg_omitted_attempts = length sorted_attempts - MAX_ATTEMPTS_PER_SIGNATURE\<rparr>)"

definition memory_latest_finished_at :: "memory_signature \<Rightarrow> string" where
  "memory_latest_finished_at s = (case mg_attempts s of [] \<Rightarrow> [] | a # _ \<Rightarrow> ma_finished_at a)"

definition family_memory :: "history_projection \<Rightarrow> string \<Rightarrow> memory_family" where
  "family_memory h family_id =
     (let rows = map (\<lambda>s. signature_row (ps_fix_signature s) (map (attempt_from_projection h) (ps_attempts s)))
            (signatures_for_family h family_id);
          sorted_rows = sort_key (\<lambda>s. (Reverse (memory_latest_finished_at s), mg_fix_signature s)) rows
      in \<lparr>mm_family_id = family_id, mm_signatures = take MAX_SIGNATURES_PER_FAMILY sorted_rows,
          mm_omitted_sibling_signatures = length sorted_rows - MAX_SIGNATURES_PER_FAMILY\<rparr>)"

text \<open>A \<open>BTreeSet\<close> of family ids is the list of its elements in order.\<close>

definition build_for_families_from_projection ::
  "string list \<Rightarrow> history_projection \<Rightarrow> string option \<Rightarrow> string \<Rightarrow> optimizer_memory" where
  "build_for_families_from_projection family_ids h current_source_sha generated_at =
     \<lparr>om_generated_at = generated_at, om_current_source_sha = current_source_sha,
      om_families = map (family_memory h) family_ids\<rparr>"

definition build_for_families ::
  "string list \<Rightarrow> session_record list \<Rightarrow> maint_event list \<Rightarrow> string option \<Rightarrow> string \<Rightarrow> optimizer_memory" where
  "build_for_families family_ids sessions events =
     build_for_families_from_projection family_ids (from_ledgers_v1 sessions events)"

definition btree_set :: "string list \<Rightarrow> string list" where
  "btree_set xs = remdups_adj (sort xs)"

definition current_candidate_family_ids ::
  "'io files \<Rightarrow> (string \<Rightarrow> 'p + candidates) \<Rightarrow> session_layout \<Rightarrow> ('io, 'p, 's) memory_artifact_error + string list" where
  "current_candidate_family_ids fs parse l =
     (case fs (candidates_json l) of
        NotFound \<Rightarrow> Inl (MemoryCandidatesIo (candidates_json l))
      | IoFailed e \<Rightarrow> Inl (ReadingMemory e)
      | Content raw \<Rightarrow>
          and_then (with_context MemoryCandidates (parse raw)) (\<lambda>c.
          and_then (with_context MemoryCandidatesInvalid (validate_candidates c)) (\<lambda>_.
            Inr (btree_set (map tc_id (ca_candidates c))))))"

definition write_for_current_candidates_from_projection ::
  "'io atomic_io \<Rightarrow> (string \<Rightarrow> 'p + candidates) \<Rightarrow> (optimizer_memory \<Rightarrow> 's + string) \<Rightarrow> system_time \<Rightarrow> session_layout
     \<Rightarrow> history_projection \<Rightarrow> string option \<Rightarrow> 'io files
     \<Rightarrow> (('io, 'p, 's) memory_artifact_error + optimizer_memory) \<times> 'io files" where
  "write_for_current_candidates_from_projection io parse to_json now l h sha fs =
     (case current_candidate_family_ids fs parse l of Inl e \<Rightarrow> (Inl e, fs)
      | Inr family_ids \<Rightarrow>
          (let m = build_for_families_from_projection family_ids h sha (now_utc_iso8601 now)
           in case write_atomic io to_json (optimizer_memory_json l) m fs of
                (Inl e, fs') \<Rightarrow> (Inl e, fs')
              | (Inr _, fs') \<Rightarrow> (Inr m, fs')))"

definition write_for_current_candidates ::
  "(string \<Rightarrow> 'e + session_record) \<Rightarrow> (string \<Rightarrow> 'f + maint_event) \<Rightarrow> 'io read_outcome \<Rightarrow> 'io read_outcome
     \<Rightarrow> 'io atomic_io \<Rightarrow> (string \<Rightarrow> 'p + candidates) \<Rightarrow> (optimizer_memory \<Rightarrow> 's + string) \<Rightarrow> system_time \<Rightarrow> session_layout
     \<Rightarrow> string option \<Rightarrow> 'io files \<Rightarrow> (('io, 'p, 's) memory_artifact_error + optimizer_memory) \<times> 'io files" where
  "write_for_current_candidates ps pe sf mf io parse to_json now l sha fs =
     (case read_operator_projection_v1 ps pe sf mf of Inl e \<Rightarrow> (Inl (MemoryLedgers e), fs)
      | Inr history \<Rightarrow>
          write_for_current_candidates_from_projection io parse to_json now l (hr_projection history) sha fs)"

section \<open>Rendering\<close>

definition continuation_byte :: "char \<Rightarrow> bool" where
  "continuation_byte c \<longleftrightarrow> 128 \<le> (of_char c :: nat) \<and> (of_char c :: nat) < 192"

definition char_count :: "string \<Rightarrow> nat" where
  "char_count s = length (filter (\<lambda>c. \<not> continuation_byte c) s)"

fun take_chars :: "nat \<Rightarrow> string \<Rightarrow> string" where
  "take_chars n [] = []"
| "take_chars n (c # s) =
     (if continuation_byte c then c # take_chars n s else case n of 0 \<Rightarrow> [] | Suc k \<Rightarrow> c # take_chars k s)"

definition truncate_with_marker :: "string \<Rightarrow> nat \<Rightarrow> string \<Rightarrow> string" where
  "truncate_with_marker s max_chars label =
     (if char_count s \<le> max_chars then s
      else take_chars max_chars s @ [CHR 0x0A] @ ''... (optimizer memory for '' @ label @ '' truncated; more rows omitted)''
        @ [CHR 0x0A])"

definition debug_target_status :: "target_status \<Rightarrow> string" where
  "debug_target_status s =
     (case s of Accepted \<Rightarrow> ''Accepted'' | Rejected \<Rightarrow> ''Rejected'' | Aborted \<Rightarrow> ''Aborted'' | Failed \<Rightarrow> ''Failed'')"

definition debug_delivery_mode :: "delivery_mode \<Rightarrow> string" where
  "debug_delivery_mode m =
     (case m of NormalPr \<Rightarrow> ''NormalPr'' | ConsensusPocPr \<Rightarrow> ''ConsensusPocPr'' | ConsensusIssue \<Rightarrow> ''ConsensusIssue'')"

definition debug_event_kind :: "maint_event_kind \<Rightarrow> string" where
  "debug_event_kind k =
     (case k of PrOpen \<Rightarrow> ''PrOpen'' | PrMerged \<Rightarrow> ''PrMerged'' | PrClosedUnmerged \<Rightarrow> ''PrClosedUnmerged''
      | PrStale \<Rightarrow> ''PrStale'' | PrForcePushed \<Rightarrow> ''PrForcePushed'' | PrBranchDeleted \<Rightarrow> ''PrBranchDeleted''
      | IssueOpen \<Rightarrow> ''IssueOpen'' | IssueClosed \<Rightarrow> ''IssueClosed'')"

definition opt_text :: "('a \<Rightarrow> string) \<Rightarrow> 'a option \<Rightarrow> string" where
  "opt_text f x = (case x of None \<Rightarrow> [] | Some a \<Rightarrow> f a)"

definition render_attempt :: "string option \<Rightarrow> memory_attempt \<Rightarrow> string" where
  "render_attempt current_sha a =
     ''  - session `'' @ ma_session_id a @ ''` target `'' @ ma_target_id a @ ''`: status='' @ debug_target_status (ma_status a)
     @ '', mode='' @ debug_delivery_mode (ma_delivery_mode a) @ '', finished_at='' @ ma_finished_at a
     @ opt_text (\<lambda>r. '', reason='' @ r) (ma_reason_code a)
     @ (case ma_source_sha a of
          Some sha \<Rightarrow> '', source_sha='' @ sha @ '' (''
            @ (case current_sha of Some c \<Rightarrow> if c = sha then ''same as current'' else ''different from current''
               | None \<Rightarrow> ''current source unknown'') @ '')''
        | None \<Rightarrow> '', source_sha=unknown (drift unknown)'')
     @ opt_text (\<lambda>k. '', lifecycle='' @ debug_event_kind k) (ma_lifecycle_kind a)
     @ opt_text (\<lambda>s. '':'' @ s) (ma_lifecycle_state a)
     @ opt_text (\<lambda>u. '', url='' @ u) (first_url (ma_pr_url a) (ma_issue_url a)) @ [CHR 0x0A]"

definition render_signature :: "string option \<Rightarrow> memory_signature \<Rightarrow> string" where
  "render_signature current_sha s =
     [CHR 0x0A] @ ''- Signature `'' @ mg_fix_signature s @ ''`''
     @ (if 0 < mg_omitted_attempts s then '' ('' @ show_nat (mg_omitted_attempts s) @ '' older attempt(s) omitted)'' else [])
     @ [CHR 0x0A] @ concat (map (render_attempt current_sha) (mg_attempts s))"

text \<open>The exact signature first, then every signature not listed yet.\<close>

fun push_new :: "memory_signature list \<Rightarrow> memory_signature list \<Rightarrow> memory_signature list" where
  "push_new acc [] = acc"
| "push_new acc (s # ss) =
     push_new (if list_ex (\<lambda>x. mg_fix_signature x = mg_fix_signature s) acc then acc else acc @ [s]) ss"

definition render_family :: "optimizer_memory \<Rightarrow> memory_family \<Rightarrow> string option \<Rightarrow> string" where
  "render_family m f exact_signature =
     (let head = ''### Family `'' @ mm_family_id f @ ''`'' @ [CHR 0x0A, CHR 0x0A]
            @ ''Memory is advisory context only; do not drop current targets unless coordinator dedup already did. ''
            @ ''Missing source_sha means codebase drift is unknown.'' @ [CHR 0x0A]
      in if mm_signatures f = [] then
           head @ [CHR 0x0A] @ ''No prior attempts for this family in the compact memory view.'' @ [CHR 0x0A]
         else
           let exact = Option.bind exact_signature (\<lambda>e. find (\<lambda>s. mg_fix_signature s = e) (mm_signatures f));
               note = (case (exact_signature, exact) of
                   (Some e, None) \<Rightarrow> [CHR 0x0A] @ ''No exact prior signature row for `'' @ e
                      @ ''` in this compact view; same-family rows below are context, not a match.'' @ [CHR 0x0A]
                 | _ \<Rightarrow> []);
               rows = push_new (case exact of Some s \<Rightarrow> [s] | None \<Rightarrow> []) (mm_signatures f);
               tail_note = (if 0 < mm_omitted_sibling_signatures f
                  then [CHR 0x0A] @ ''... ('' @ show_nat (mm_omitted_sibling_signatures f)
                    @ '' more sibling signature(s) omitted for prompt budget)'' @ [CHR 0x0A] else [])
           in truncate_with_marker (head @ note @ concat (map (render_signature (om_current_source_sha m)) rows) @ tail_note)
                MEMORY_RENDER_BUDGET_CHARS (mm_family_id f))"

definition no_family_memory :: "string \<Rightarrow> string" where
  "no_family_memory family_id = ''No cross-session optimizer memory for family `'' @ family_id @ ''`.''"

definition render_family_memory :: "optimizer_memory option \<Rightarrow> string \<Rightarrow> string" where
  "render_family_memory memory family_id =
     (case memory of
        None \<Rightarrow> ''No optimizer memory artifact is available for family `'' @ family_id @ ''`.''
      | Some m \<Rightarrow>
          (case find (\<lambda>f. mm_family_id f = family_id) (om_families m) of
             None \<Rightarrow> no_family_memory family_id
           | Some f \<Rightarrow> render_family m f None))"

definition render_all_memory :: "optimizer_memory option \<Rightarrow> string" where
  "render_all_memory memory =
     (case memory of
        None \<Rightarrow> ''No optimizer memory artifact is available.''
      | Some m \<Rightarrow>
          if om_families m = [] then ''No relevant cross-session optimizer memory.''
          else truncate_with_marker
            (''Optimizer memory is advisory context only; v12 dedup owns hard skips.'' @ [CHR 0x0A]
             @ ''Missing source_sha means codebase drift is unknown.'' @ [CHR 0x0A]
             @ concat (map (\<lambda>f. [CHR 0x0A] @ render_family m f None) (om_families m)))
            MEMORY_RENDER_BUDGET_CHARS ''merge memory'')"

definition render_target_memory :: "optimizer_memory option \<Rightarrow> string \<Rightarrow> string \<Rightarrow> string" where
  "render_target_memory memory family_id fix_signature =
     (case memory of
        None \<Rightarrow> ''No optimizer memory artifact is available for target `'' @ fix_signature @ ''`.''
      | Some m \<Rightarrow>
          (case find (\<lambda>f. mm_family_id f = family_id) (om_families m) of
             None \<Rightarrow> no_family_memory family_id
           | Some f \<Rightarrow> render_family m f (Some fix_signature)))"

section \<open>The memory is the newest slice of the history\<close>

lemma attempt_keys: "memory_attempt_key (attempt_from_projection h a) = attempt_key a"
  by (simp add: memory_attempt_key_def attempt_key_def attempt_from_projection_def Let_def)

lemma sort_projected:
  "sort_key memory_attempt_key (map (attempt_from_projection h) (sort_attempts_newest_first as))
   = map (attempt_from_projection h) (sort_attempts_newest_first as)"
  by (rule sort_key_id_if_sorted) (simp add: sort_attempts_newest_first_def comp_def attempt_keys)

text \<open>What one signature of the projection becomes.\<close>

definition slice_row :: "history_projection \<Rightarrow> projected_signature \<Rightarrow> memory_signature" where
  "slice_row h s =
     \<lparr>mg_fix_signature = ps_fix_signature s, mg_attempts = map (attempt_from_projection h) (take 5 (ps_attempts s)),
      mg_omitted_attempts = length (ps_attempts s) - 5\<rparr>"

definition newest_first_attempts :: "projected_signature \<Rightarrow> bool" where
  "newest_first_attempts s \<longleftrightarrow> sort_attempts_newest_first (ps_attempts s) = ps_attempts s"

lemma signature_row_slice:
  "newest_first_attempts s \<Longrightarrow>
   signature_row (ps_fix_signature s) (map (attempt_from_projection h) (ps_attempts s)) = slice_row h s"
  using sort_projected[of h "ps_attempts s"]
  by (simp add: signature_row_def slice_row_def newest_first_attempts_def MAX_ATTEMPTS_PER_SIGNATURE_def take_map)

lemma slice_row_latest: "memory_latest_finished_at (slice_row h s) = latest_finished_at s"
  by (cases "ps_attempts s")
    (simp_all add: memory_latest_finished_at_def latest_finished_at_def slice_row_def attempt_from_projection_def Let_def)

lemma family_memory_slice:
  assumes "\<forall>s \<in> set (signatures_for_family h fam). newest_first_attempts s"
    "sorted (map (\<lambda>s. (Reverse (latest_finished_at s), ps_fix_signature s)) (signatures_for_family h fam))"
  shows "family_memory h fam =
    \<lparr>mm_family_id = fam, mm_signatures = map (slice_row h) (take 3 (signatures_for_family h fam)),
     mm_omitted_sibling_signatures = length (signatures_for_family h fam) - 3\<rparr>"
proof -
  have rows: "map (\<lambda>s. signature_row (ps_fix_signature s) (map (attempt_from_projection h) (ps_attempts s)))
      (signatures_for_family h fam) = map (slice_row h) (signatures_for_family h fam)"
    using assms(1) by (simp add: signature_row_slice)
  have "sort_key (\<lambda>s. (Reverse (memory_latest_finished_at s), mg_fix_signature s))
      (map (slice_row h) (signatures_for_family h fam)) = map (slice_row h) (signatures_for_family h fam)"
    using assms(2) by (intro sort_key_id_if_sorted) (simp add: comp_def slice_row_latest, simp add: slice_row_def)
  then show ?thesis unfolding family_memory_def rows by (simp add: Let_def MAX_SIGNATURES_PER_FAMILY_def take_map)
qed

lemma projection_sorted:
  "\<forall>s \<in> set (signatures_for_family (from_ledgers_v1 sessions events) fam). newest_first_attempts s"
  "sorted (map (\<lambda>s. (Reverse (latest_finished_at s), ps_fix_signature s))
     (signatures_for_family (from_ledgers_v1 sessions events) fam))"
proof -
  have idem: "sort_attempts_newest_first (sort_attempts_newest_first as) = sort_attempts_newest_first as" for as
    unfolding sort_attempts_newest_first_def by (rule sort_key_id_if_sorted) simp
  show "\<forall>s \<in> set (signatures_for_family (from_ledgers_v1 sessions events) fam). newest_first_attempts s"
    unfolding signatures_for_family_from_ledgers
    by (auto simp: family_signatures_def newest_first_attempts_def idem)
  show "sorted (map (\<lambda>s. (Reverse (latest_finished_at s), ps_fix_signature s))
     (signatures_for_family (from_ledgers_v1 sessions events) fam))"
    unfolding signatures_for_family_from_ledgers by (simp add: family_signatures_def)
qed

text \<open>C36: the memory of a session is the newest slice of the history. For every current family it holds
  the first three signatures of the shared projection, each with its first five attempts and the latest
  maintenance state of their pull request or issue, in the projection's order (newest first), and it counts
  exactly what it leaves out; no row comes from another family.\<close>

theorem optimizer_memory_is_newest_slice:
  "let h = from_ledgers_v1 sessions events; m = build_for_families family_ids sessions events sha ts
   in om_families m = map (\<lambda>fam.
        \<lparr>mm_family_id = fam,
         mm_signatures = map (\<lambda>s. \<lparr>mg_fix_signature = ps_fix_signature s,
             mg_attempts = map (attempt_from_projection h) (take 5 (ps_attempts s)),
             mg_omitted_attempts = length (ps_attempts s) - 5\<rparr>) (take 3 (signatures_for_family h fam)),
         mm_omitted_sibling_signatures = length (signatures_for_family h fam) - 3\<rparr>) family_ids"
proof -
  have "family_memory (from_ledgers_v1 sessions events) fam =
     \<lparr>mm_family_id = fam,
      mm_signatures = map (slice_row (from_ledgers_v1 sessions events))
        (take 3 (signatures_for_family (from_ledgers_v1 sessions events) fam)),
      mm_omitted_sibling_signatures = length (signatures_for_family (from_ledgers_v1 sessions events) fam) - 3\<rparr>" for fam
    by (rule family_memory_slice) (rule projection_sorted)+
  then show ?thesis
    by (simp add: build_for_families_def build_for_families_from_projection_def Let_def slice_row_def[abs_def])
qed

section \<open>The prompt budget\<close>

lemma char_count_append [simp]: "char_count (s @ t) = char_count s + char_count t"
  by (simp add: char_count_def)

lemma char_count_take_chars: "char_count (take_chars n s) = min n (char_count s)"
  by (induction n s rule: take_chars.induct) (auto simp: char_count_def split: nat.splits)

lemma truncate_bounded:
  "char_count (truncate_with_marker s n label) \<le> n + char_count label + 58"
proof -
  have "char_count (''... (optimizer memory for '' :: string) = 26" "char_count '' truncated; more rows omitted)'' = 30"
    "char_count [CHR 0x0A] = 1" by code_simp+
  then show ?thesis by (auto simp: truncate_with_marker_def char_count_take_chars simp del: append_Cons append_Nil append.simps)
qed

lemma render_all_memory_bounded: "char_count (render_all_memory (Some m)) \<le> 8070"
proof -
  have c: "char_count ''merge memory'' = 12" "char_count ''No relevant cross-session optimizer memory.'' = 43" by code_simp+
  have "char_count (truncate_with_marker s 8000 ''merge memory'') \<le> 8070" for s
    using truncate_bounded[of s 8000 "''merge memory''"] by (simp add: c)
  then show ?thesis by (simp add: render_all_memory_def MEMORY_RENDER_BUDGET_CHARS_def c)
qed

end
