(* ===== verification/Optimizer_Gate.thy ===== *)
theory Optimizer_Gate
  imports Git_Commands Loader Context_Docs Optimizer_Memory
begin

text \<open>
  What the coordinator does with an optimizer's report (\<open>session/optimizers.rs\<close>): reading it, checking its
  context, committing the change, recording the provenance, demoting a report that cannot be confirmed,
  and the gate that lets a resumed session skip a target. The results directory is a function from paths
  to contents; the clones are the state of git. The serde functions are arguments.
\<close>

section \<open>The world\<close>

record ('io, 's) opt_world =
  ow_files :: "'io files"
  ow_repos :: 's

record baseline_manifest =
  bm_source_sha :: string
  bm_dirty :: bool
  bm_cargo_version :: string
  bm_build_flags :: "string list"
  bm_archived_at :: string
  bm_archived_path :: string

datatype ('io, 'p) optimizer_error =
    OptIo 'io
  | OptLoad "('io, 'p) load_error"
  | OptGit "'io git_error"
  | OptSerialize 'p
  | OptProvenance provenance_error
  | OptManifestMissing string
  | OptManifestParse 'p
  | OptManifestSha string
  | OptSettings settings_error
  | OptDocsMissing "(string \<times> string) list"
  | OptContext "'p context_error"
  | OptMemory "('io, 'p, 'p) memory_artifact_error"
  | OptPanic 'p

text \<open>
  The answers of the file system, which may depend on the files as they are: a failed write leaves
  something at the path, a failed removal or rename leaves the files as they were. Beside them the serde
  functions, and the texts of an error (\<open>{e:#}\<close>) and of a quoted string (\<open>{msg:?}\<close>).
\<close>

record ('io, 'p) report_io =
  ri_write :: "'io files \<Rightarrow> string \<Rightarrow> ('io read_outcome \<times> 'io) option"
  ri_remove :: "'io files \<Rightarrow> string \<Rightarrow> bool"
  ri_rename :: "'io files \<Rightarrow> string \<Rightarrow> string \<Rightarrow> bool"
  ri_codecs :: "'p codecs"
  ri_parse_manifest :: "string \<Rightarrow> 'p + baseline_manifest"
  ri_aborted_json :: "aborted_report \<Rightarrow> 'p + string"
  ri_implemented_json :: "implemented_report \<Rightarrow> 'p + string"
  ri_provenance_json :: "coordinator_provenance \<Rightarrow> 'p + string"
  ri_show :: "('io, 'p) optimizer_error \<Rightarrow> string"
  ri_quote :: "string \<Rightarrow> string"

definition write_file ::
  "('io, 'p) report_io \<Rightarrow> string \<Rightarrow> string \<Rightarrow> ('io, 's) opt_world \<Rightarrow> (('io, 'p) optimizer_error + unit) \<times> ('io, 's) opt_world" where
  "write_file io path body w =
     (case ri_write io (ow_files w) path of
        None \<Rightarrow> (Ok_unit, w\<lparr>ow_files := (ow_files w)(path := Content body)\<rparr>)
      | Some (left, e) \<Rightarrow> (Inl (OptIo e), w\<lparr>ow_files := (ow_files w)(path := left)\<rparr>))"

definition remove_quiet :: "('io, 'p) report_io \<Rightarrow> string \<Rightarrow> ('io, 's) opt_world \<Rightarrow> ('io, 's) opt_world" where
  "remove_quiet io path w =
     (if ri_remove io (ow_files w) path then w\<lparr>ow_files := (ow_files w)(path := NotFound)\<rparr> else w)"

definition rename_quiet :: "('io, 'p) report_io \<Rightarrow> string \<Rightarrow> string \<Rightarrow> ('io, 's) opt_world \<Rightarrow> ('io, 's) opt_world" where
  "rename_quiet io from dest w =
     (if ri_rename io (ow_files w) from dest \<and> ow_files w from \<noteq> NotFound
      then w\<lparr>ow_files := (ow_files w)(dest := ow_files w from, from := NotFound)\<rparr> else w)"

definition on_repos ::
  "('s \<Rightarrow> ('io git_error + 'a) \<times> 's) \<Rightarrow> ('io, 's) opt_world \<Rightarrow> (('io, 'p) optimizer_error + 'a) \<times> ('io, 's) opt_world" where
  "on_repos m w = (case m (ow_repos w) of (r, s') \<Rightarrow> (with_context OptGit r, w\<lparr>ow_repos := s'\<rparr>))"

section \<open>Reports and sidecars\<close>

definition read_report_at :: "'io files \<Rightarrow> 'p codecs \<Rightarrow> string \<Rightarrow> ('io, 'p) load_error + optimizer_report option" where
  "read_report_at fs cd exp_dir =
     (let path = path_join exp_dir ''optimizer-report.json''
      in case fs path of
           NotFound \<Rightarrow> Inr None
         | IoFailed e \<Rightarrow> Inl (ReadingFailed path e)
         | Content raw \<Rightarrow>
             and_then (with_context (ParsingFailed path) (parse_report cd raw)) (\<lambda>report.
             and_then (with_context ReportInvalid (validate_optimizer_report report)) (\<lambda>_. Inr (Some report))))"

datatype ('io, 'p) sidecar_error = SidecarIo 'io | SidecarJson 'p | SidecarInvalid provenance_error

definition read_coordinator_provenance ::
  "'io files \<Rightarrow> 'p codecs \<Rightarrow> string \<Rightarrow> ('io, 'p) sidecar_error + coordinator_provenance option" where
  "read_coordinator_provenance fs cd exp_dir =
     (case fs (path_join exp_dir ''coordinator-provenance.json'') of
        NotFound \<Rightarrow> Inr None
      | IoFailed e \<Rightarrow> Inl (SidecarIo e)
      | Content raw \<Rightarrow>
          and_then (with_context SidecarJson (parse_provenance cd raw)) (\<lambda>p.
          and_then (with_context SidecarInvalid (validate_coordinator_provenance p)) (\<lambda>_. Inr (Some p))))"

definition validate_report_context ::
  "optimizer_report \<Rightarrow> string \<Rightarrow> string \<Rightarrow> delivery_mode \<Rightarrow> ('io, 'p) load_error check" where
  "validate_report_context report target_id session_id mode = checks [
     bail_if (report_target_id report \<noteq> target_id) (ReportTarget (report_target_id report) target_id),
     bail_if (report_session_id report \<noteq> session_id) (ReportSession (report_session_id report) session_id),
     bail_if (report_delivery_mode report \<noteq> mode) (ReportMode (report_delivery_mode report) mode)]"

definition validate_baseline_manifest :: "baseline_manifest \<Rightarrow> ('io, 'p) optimizer_error check" where
  "validate_baseline_manifest m = bail_if (\<not> is_full_sha (bm_source_sha m)) (OptManifestSha (bm_source_sha m))"

definition read_baseline_source_sha ::
  "('io, 'p) report_io \<Rightarrow> 'io files \<Rightarrow> string \<Rightarrow> ('io, 'p) optimizer_error + string" where
  "read_baseline_source_sha io fs session_results_dir =
     (let path = path_join session_results_dir ''baseline/bin/manifest.json''
      in case fs path of
           NotFound \<Rightarrow> Inl (OptManifestMissing path)
         | IoFailed e \<Rightarrow> Inl (OptIo e)
         | Content raw \<Rightarrow>
             and_then (with_context OptManifestParse (ri_parse_manifest io raw)) (\<lambda>m.
             and_then (validate_baseline_manifest m) (\<lambda>_. Inr (bm_source_sha m))))"

definition resume_target_is_complete ::
  "'io files \<Rightarrow> 'p codecs \<Rightarrow> string \<Rightarrow> merged_target \<Rightarrow> string \<Rightarrow> string \<Rightarrow> bool" where
  "resume_target_is_complete fs cd exp_dir t session_id baseline_source_sha \<longleftrightarrow>
     (case read_report_at fs cd exp_dir of
        Inr (Some report) \<Rightarrow>
          (case (validate_report_context report (mt_id t) session_id (mt_delivery_mode t) :: ('io, 'p) load_error check) of
             Inl _ \<Rightarrow> False
           | Inr _ \<Rightarrow>
               if \<not> is_implemented report then True
               else (case read_coordinator_provenance fs cd exp_dir of
                       Inr (Some p) \<Rightarrow>
                         (case provenance_validate_context p session_id (mt_id t) (mt_delivery_mode t) of
                            Inl _ \<Rightarrow> False | Inr _ \<Rightarrow> cp_base_sha p = baseline_source_sha)
                     | _ \<Rightarrow> False))
      | _ \<Rightarrow> False)"

section \<open>Companion documents\<close>

definition debug_gate :: "failed_gate \<Rightarrow> string" where
  "debug_gate g =
     (case g of Fmt \<Rightarrow> ''Fmt'' | Clippy \<Rightarrow> ''Clippy'' | Nextest \<Rightarrow> ''Nextest'' | ReleaseBuild \<Rightarrow> ''ReleaseBuild''
      | NonTargetsMatch \<Rightarrow> ''NonTargetsMatch'' | NoImplementationFound \<Rightarrow> ''NoImplementationFound''
      | ParityUnprovable \<Rightarrow> ''ParityUnprovable'' | TimeoutHit \<Rightarrow> ''TimeoutHit'' | EnvironmentalError \<Rightarrow> ''EnvironmentalError'')"

definition debug_mode :: "delivery_mode \<Rightarrow> string" where
  "debug_mode m =
     (case m of NormalPr \<Rightarrow> ''NormalPr'' | ConsensusPocPr \<Rightarrow> ''ConsensusPocPr'' | ConsensusIssue \<Rightarrow> ''ConsensusIssue'')"

definition nl :: string where
  "nl = [CHR 0x0A]"

definition companion_note :: string where
  "companion_note =
     ''_Coordinator-rendered companion view of `optimizer-report.json`. The JSON is authoritative; ''
     @ ''this file regenerates from it on every commit/demote pass._''"

definition render_implementation_md :: "implemented_report \<Rightarrow> string \<Rightarrow> string" where
  "render_implementation_md r json =
     ''# Implementation report '' @ em_dash @ '' `'' @ im_target_id r @ ''`'' @ nl @ nl @ companion_note @ nl @ nl
     @ ''- **Target**: `'' @ im_target_id r @ ''`'' @ nl
     @ ''- **Delivery mode**: `'' @ debug_mode (im_delivery_mode r) @ ''`'' @ nl
     @ ''- **PR title**: '' @ im_pr_title r @ nl @ nl @ ''```json'' @ nl @ json @ nl @ ''```'' @ nl"

definition render_abort_md :: "aborted_report \<Rightarrow> string \<Rightarrow> string" where
  "render_abort_md r json =
     ''# Abort report '' @ em_dash @ '' `'' @ ar_target_id r @ ''`'' @ nl @ nl @ companion_note @ nl @ nl
     @ ''- **Target**: `'' @ ar_target_id r @ ''`'' @ nl
     @ ''- **Delivery mode**: `'' @ debug_mode (ar_delivery_mode r) @ ''`'' @ nl
     @ ''- **Failed gate**: '' @ (case ar_failed_gate r of Some g \<Rightarrow> ''`'' @ debug_gate g @ ''`'' | None \<Rightarrow> em_dash) @ nl @ nl
     @ ''**Reason**: '' @ ar_reason r @ nl @ nl @ ''```json'' @ nl @ json @ nl @ ''```'' @ nl"

definition rendered_with ::
  "('a \<Rightarrow> 'p + string) \<Rightarrow> ('a \<Rightarrow> string \<Rightarrow> string) \<Rightarrow> 'a \<Rightarrow> ('io, 's) opt_world
     \<Rightarrow> (('io, 'p) optimizer_error + string) \<times> ('io, 's) opt_world" where
  "rendered_with to_json render r w = (map_sum OptPanic (render r) (to_json r), w)"

section \<open>Demotion\<close>

definition right_arrow :: string where
  "right_arrow = [CHR 0xE2, CHR 0x86, CHR 0x92]"

definition demoted_report :: "string \<Rightarrow> string \<Rightarrow> delivery_mode \<Rightarrow> string \<Rightarrow> failed_gate \<Rightarrow> aborted_report" where
  "demoted_report target_id session_id mode reason gate =
     \<lparr>ar_session_id = session_id, ar_target_id = target_id, ar_delivery_mode = mode,
      ar_reason = ''Coordinator demoted `outcome=implemented` '' @ right_arrow @ '' `outcome=aborted`: '' @ reason
        @ nl @ nl @ ''Original report preserved at `optimizer-report.json.demoted`.'',
      ar_failed_gate = Some gate, ar_failing_tests = None\<rparr>"

definition demote_implemented_to_aborted ::
  "('io, 'p) report_io \<Rightarrow> string \<Rightarrow> string \<Rightarrow> string \<Rightarrow> delivery_mode \<Rightarrow> string \<Rightarrow> failed_gate \<Rightarrow> ('io, 's) opt_world
     \<Rightarrow> (('io, 'p) optimizer_error + unit) \<times> ('io, 's) opt_world" where
  "demote_implemented_to_aborted io exp_dir target_id session_id mode reason gate w =
     (let report_path = path_join exp_dir ''optimizer-report.json'';
          preserved = path_join exp_dir ''optimizer-report.json.demoted'';
          r = demoted_report target_id session_id mode reason gate;
          w1 = rename_quiet io report_path preserved w
      in case ri_aborted_json io r of
           Inl e \<Rightarrow> (Inl (OptSerialize e), w1)
         | Inr json \<Rightarrow>
             then_do (write_file io report_path (json @ nl)) (\<lambda>_ w2.
               write_file io (path_join exp_dir ''abort.md'') (render_abort_md r json)
                 (remove_quiet io (path_join exp_dir ''implementation.md'') w2)) w1)"

section \<open>Committing\<close>

definition optimizer_git_env :: "settings \<Rightarrow> (string \<times> string) list" where
  "optimizer_git_env settings =
     (let name = effective_author_name (se_git settings);
          email = effective_author_email (se_git settings);
          overrides = [(''user.name'', name), (''user.email'', email), (''commit.gpgsign'', ''false''), (''tag.gpgsign'', ''false'')]
      in [(''GIT_AUTHOR_NAME'', name), (''GIT_AUTHOR_EMAIL'', email), (''GIT_COMMITTER_NAME'', name),
          (''GIT_COMMITTER_EMAIL'', email), (''GIT_CONFIG_COUNT'', show_nat (length overrides))]
         @ concat (map (\<lambda>(i, k, v). [(''GIT_CONFIG_KEY_'' @ show_nat i, k), (''GIT_CONFIG_VALUE_'' @ show_nat i, v)])
             (enumerate 0 overrides)))"

definition write_coordinator_provenance ::
  "('io, 'p) report_io \<Rightarrow> ('s, 'io) git_process \<Rightarrow> string \<Rightarrow> string \<Rightarrow> string \<Rightarrow> string \<Rightarrow> delivery_mode \<Rightarrow> string
     \<Rightarrow> ('io, 's) opt_world \<Rightarrow> (('io, 'p) optimizer_error + unit) \<times> ('io, 's) opt_world" where
  "write_coordinator_provenance io git exp_dir checkout target_id session_id mode commit_message =
     then_do (on_repos (rev_parse_head git checkout)) (\<lambda>head_sha.
     then_do (on_repos (rev_parse_head_parent git checkout)) (\<lambda>base_sha.
       let p = \<lparr>cp_session_id = session_id, cp_target_id = target_id, cp_delivery_mode = mode, cp_base_sha = base_sha,
                cp_head_sha = head_sha, cp_commit_message = commit_message\<rparr>
       in case and_then (with_context OptProvenance (validate_coordinator_provenance p))
                 (\<lambda>_. with_context OptSerialize (ri_provenance_json io p)) of
            Inl e \<Rightarrow> fail_with e
          | Inr json \<Rightarrow> write_file io (path_join exp_dir ''coordinator-provenance.json'') json))"

definition or_demote ::
  "(string \<Rightarrow> ('io, 's) opt_world \<Rightarrow> (('io, 'p) optimizer_error + unit) \<times> ('io, 's) opt_world)
     \<Rightarrow> (('io, 's) opt_world \<Rightarrow> (('io, 'p) optimizer_error + 'a) \<times> ('io, 's) opt_world) \<Rightarrow> (('io, 'p) optimizer_error \<Rightarrow> string)
     \<Rightarrow> ('a \<Rightarrow> ('io, 's) opt_world \<Rightarrow> (('io, 'p) optimizer_error + unit) \<times> ('io, 's) opt_world)
     \<Rightarrow> ('io, 's) opt_world \<Rightarrow> (('io, 'p) optimizer_error + unit) \<times> ('io, 's) opt_world" where
  "or_demote demote m reason k w = (case m w of (Inl e, w') \<Rightarrow> demote (reason e) w' | (Inr a, w') \<Rightarrow> k a w')"

text \<open>The reasons recorded with a demotion.\<close>

definition clean_tree_reason :: string where
  "clean_tree_reason =
     ''agent reported `outcome=implemented` but the worktree has no changes (`git status ''
     @ ''--porcelain` empty); coordinator has nothing to commit''"

definition add_failed_reason :: "('io, 'p) report_io \<Rightarrow> ('io, 'p) optimizer_error \<Rightarrow> string" where
  "add_failed_reason io e = ''coordinator `git add -A` failed: '' @ ri_show io e"

definition commit_failed_reason :: "('io, 'p) report_io \<Rightarrow> string \<Rightarrow> ('io, 'p) optimizer_error \<Rightarrow> string" where
  "commit_failed_reason io msg e =
     ''coordinator `git commit -m '' @ ri_quote io msg @ ''` failed: '' @ ri_show io e
     @ ''; check operator's git config / signing setup''"

definition provenance_failed_reason :: "('io, 'p) report_io \<Rightarrow> ('io, 'p) optimizer_error \<Rightarrow> string" where
  "provenance_failed_reason io e = ''coordinator could not record provenance after commit: '' @ ri_show io e"

definition commit_changes ::
  "('io, 'p) report_io \<Rightarrow> ('s, 'io) git_process \<Rightarrow> string \<Rightarrow> string \<Rightarrow> string \<Rightarrow> string \<Rightarrow> delivery_mode \<Rightarrow> settings
     \<Rightarrow> ('io, 's) opt_world \<Rightarrow> (('io, 'p) optimizer_error + unit) \<times> ('io, 's) opt_world" where
  "commit_changes io git exp_dir checkout target_id session_id mode settings =
     (let demote = (\<lambda>reason. demote_implemented_to_aborted io exp_dir target_id session_id mode reason EnvironmentalError);
          env = optimizer_git_env settings;
          msg = ''perf: optimize '' @ target_id
      in or_demote demote (on_repos (status_porcelain git checkout)) (ri_show io) (\<lambda>porcelain.
         if porcelain = [] then demote clean_tree_reason
         else or_demote demote (on_repos (add_all_with_env git checkout env)) (add_failed_reason io) (\<lambda>_.
              or_demote demote (on_repos (commit_with_message_and_env git checkout msg env)) (commit_failed_reason io msg) (\<lambda>_.
              or_demote demote (write_coordinator_provenance io git exp_dir checkout target_id session_id mode msg)
                (provenance_failed_reason io) give))))"

definition coordinator_commit_if_kept ::
  "('io, 'p) report_io \<Rightarrow> ('s, 'io) git_process \<Rightarrow> string \<Rightarrow> string \<Rightarrow> string \<Rightarrow> string \<Rightarrow> delivery_mode \<Rightarrow> settings
     \<Rightarrow> ('io, 's) opt_world \<Rightarrow> (('io, 'p) optimizer_error + unit) \<times> ('io, 's) opt_world" where
  "coordinator_commit_if_kept io git exp_dir checkout target_id session_id mode settings w =
     (case with_context OptLoad (read_report_at (ow_files w) (ri_codecs io) exp_dir) of
        Inl e \<Rightarrow> (Inl e, w)
      | Inr None \<Rightarrow> (Ok_unit, w)
      | Inr (Some report) \<Rightarrow>
          (case with_context OptLoad (validate_report_context report target_id session_id mode) of
             Inl e \<Rightarrow> (Inl e, w)
           | Inr _ \<Rightarrow>
               (case report of
                  ReportAborted r \<Rightarrow>
                    then_do (rendered_with (ri_aborted_json io) render_abort_md r)
                      (write_file io (path_join exp_dir ''abort.md'')) w
                | Implemented r \<Rightarrow>
                    then_do (then_do (rendered_with (ri_implemented_json io) render_implementation_md r)
                      (write_file io (path_join exp_dir ''implementation.md'')))
                      (\<lambda>_. commit_changes io git exp_dir checkout target_id session_id mode settings) w)))"

section \<open>Verifying\<close>

datatype demotion_outcome = NoMarker | HeadAdvanced | Demoted | Indeterminate

definition git_rev_parse_head :: "('s, 'io) git_process \<Rightarrow> string \<Rightarrow> 's \<Rightarrow> string option \<times> 's" where
  "git_rev_parse_head = rev_parse_head_optional"

definition unmoved_head_reason :: "string \<Rightarrow> string" where
  "unmoved_head_reason base =
     ''agent reported `outcome=implemented` but the worktree's HEAD is still at the base branch tip (`'' @ base
     @ ''`); no commits were made. Most common cause is a `git commit` that failed silently inside the codex sandbox ''
     @ ''(signing prompt blocked by missing socket / YubiKey, or a sandbox write deny on `.git/...`). Inspect ''
     @ ''`final-message.md` + `events.jsonl` for the agent's own diagnostics.''"

definition verify_kept_or_demote ::
  "('io, 'p) report_io \<Rightarrow> ('s, 'io) git_process \<Rightarrow> string \<Rightarrow> string \<Rightarrow> string option \<Rightarrow> string \<Rightarrow> string \<Rightarrow> delivery_mode
     \<Rightarrow> ('io, 's) opt_world \<Rightarrow> (('io, 'p) optimizer_error + demotion_outcome) \<times> ('io, 's) opt_world" where
  "verify_kept_or_demote io git exp_dir worktree baseline_head target_id session_id mode w =
     (case with_context OptLoad (read_report_at (ow_files w) (ri_codecs io) exp_dir) of
        Inl e \<Rightarrow> (Inl e, w)
      | Inr None \<Rightarrow> (Inr NoMarker, w)
      | Inr (Some report) \<Rightarrow>
          (case with_context OptLoad (validate_report_context report target_id session_id mode) of
             Inl e \<Rightarrow> (Inl e, w)
           | Inr _ \<Rightarrow>
               if \<not> is_implemented report then (Inr NoMarker, w)
               else let (head_now, s') = git_rev_parse_head git worktree (ow_repos w); w' = w\<lparr>ow_repos := s'\<rparr>
                    in case (baseline_head, head_now) of
                         (Some base, Some now) \<Rightarrow>
                           if base = now
                           then then_do (demote_implemented_to_aborted io exp_dir target_id session_id mode
                                  (unmoved_head_reason base) EnvironmentalError) (\<lambda>_. give Demoted) w'
                           else (Inr HeadAdvanced, w')
                       | _ \<Rightarrow> (Inr Indeterminate, w')))"

section \<open>Clearing\<close>

definition OPTIMIZER_ARTIFACTS :: "string list" where
  "OPTIMIZER_ARTIFACTS =
     [''optimizer-report.json'', ''optimizer-report.json.demoted'', ''abort.md'', ''implementation.md'',
      ''coordinator-provenance.json'', ''side-observations.md'', ''nextest.log'', ''nextest.stderr.log'', ''events.jsonl'',
      ''stderr.log'', ''final-message.md'', ''conversation-id'', ''prompt.md'']"

definition clear_optimizer_artifacts :: "('io, 'p) report_io \<Rightarrow> string \<Rightarrow> ('io, 's) opt_world \<Rightarrow> ('io, 's) opt_world" where
  "clear_optimizer_artifacts io exp_dir w = fold (\<lambda>name. remove_quiet io (path_join exp_dir name)) OPTIMIZER_ARTIFACTS w"

section \<open>What a surviving report means\<close>

lemma write_file_Ok:
  "write_file io path body w = (Ok_unit, w')
     \<longleftrightarrow> ri_write io (ow_files w) path = None \<and> w' = w\<lparr>ow_files := (ow_files w)(path := Content body)\<rparr>"
  by (auto simp: write_file_def split: option.splits prod.splits)

lemma on_repos_Inr:
  "on_repos m w = (Inr a, w') \<longleftrightarrow> (\<exists>s'. m (ow_repos w) = (Inr a, s') \<and> w' = w\<lparr>ow_repos := s'\<rparr>)"
  by (auto simp: on_repos_def with_context_def split: prod.splits sum.splits)

lemma on_repos_files: "on_repos m w = (r, w') \<Longrightarrow> ow_files w' = ow_files w"
  by (auto simp: on_repos_def split: prod.splits)

lemma remove_quiet_files: "q \<noteq> path \<Longrightarrow> ow_files (remove_quiet io path w) q = ow_files w q"
  by (simp add: remove_quiet_def)

lemma in_exp_dir_eq [simp]:
  "c \<noteq> CHR ''/'' \<Longrightarrow> d \<noteq> CHR ''/'' \<Longrightarrow> path_join dir (c # cs) = path_join dir (d # ds) \<longleftrightarrow> c # cs = d # ds"
  by (auto simp: path_join_def starts_with_def)

lemma demote_ok:
  assumes "demote_implemented_to_aborted io exp_dir t sid mode reason gate w = (Ok_unit, w')"
  obtains json where "ri_aborted_json io (demoted_report t sid mode reason gate) = Inr json"
    "ow_files w' (path_join exp_dir ''optimizer-report.json'') = Content (json @ nl)"
  using assms
  by (auto simp: demote_implemented_to_aborted_def Let_def then_do_Inr write_file_Ok remove_quiet_files split: sum.splits)

text \<open>What is assumed of serde: an aborted report written as JSON, with the line feed, is read back as it was.\<close>

definition aborted_roundtrip :: "('io, 'p) report_io \<Rightarrow> bool" where
  "aborted_roundtrip io \<longleftrightarrow>
     (\<forall>r json. ri_aborted_json io r = Inr json \<longrightarrow> parse_report (ri_codecs io) (json @ nl) = Inr (ReportAborted r))"

lemma demoted_not_implemented:
  assumes "demote_implemented_to_aborted io exp_dir t sid mode reason gate w = (Ok_unit, w')" "aborted_roundtrip io"
  shows "read_report_at (ow_files w') (ri_codecs io) exp_dir \<noteq> Inr (Some (Implemented i))"
  using assms(1) by (rule demote_ok)
    (use assms(2) in \<open>auto simp: aborted_roundtrip_def read_report_at_def with_context_def and_then_Inr\<close>)

text \<open>
  The coordinator's commit went through, from state \<open>s\<close> of the repositories to state \<open>s'\<close>: git reported
  changes, staged them and committed them with success under the bot identity, and the sidecar holds the
  commit and its parent as git reported them afterwards.
\<close>

definition commit_recorded ::
  "('io, 'p) report_io \<Rightarrow> ('s, 'io) git_process \<Rightarrow> settings \<Rightarrow> string \<Rightarrow> string \<Rightarrow> string \<Rightarrow> string \<Rightarrow> delivery_mode
     \<Rightarrow> 's \<Rightarrow> 's \<Rightarrow> 'io files \<Rightarrow> coordinator_provenance \<Rightarrow> bool" where
  "commit_recorded io git settings exp_dir checkout t sid mode s s' fs p \<longleftrightarrow>
     (\<exists>changes s0 s1 s2 s3 out err json.
        status_porcelain git checkout s = (Inr changes, s0) \<and> changes \<noteq> []
        \<and> add_all_with_env git checkout (optimizer_git_env settings) s0 = (Ok_unit, s1)
        \<and> git [''-C'', checkout, ''commit'', ''-m'', ''perf: optimize '' @ t] (optimizer_git_env settings) s1
            = (Exited (Some 0) out err, s2)
        \<and> rev_parse_head git checkout s2 = (Inr (cp_head_sha p), s3)
        \<and> rev_parse_head_parent git checkout s3 = (Inr (cp_base_sha p), s')
        \<and> ri_provenance_json io p = Inr json
        \<and> fs (path_join exp_dir ''coordinator-provenance.json'') = Content json)
     \<and> provenance_validate_context p sid t mode = Ok_unit
     \<and> validate_coordinator_provenance p = Ok_unit"

lemma provenance_written:
  assumes "write_coordinator_provenance io git exp_dir checkout t sid mode msg w = (Ok_unit, w')"
  shows "\<exists>p s2 json. rev_parse_head git checkout (ow_repos w) = (Inr (cp_head_sha p), s2)
    \<and> rev_parse_head_parent git checkout s2 = (Inr (cp_base_sha p), ow_repos w')
    \<and> ri_provenance_json io p = Inr json \<and> validate_coordinator_provenance p = Ok_unit
    \<and> provenance_validate_context p sid t mode = Ok_unit
    \<and> ow_files w' = (ow_files w)(path_join exp_dir ''coordinator-provenance.json'' := Content json)"
proof -
  from assms obtain head base s2 s3 where
    revs: "rev_parse_head git checkout (ow_repos w) = (Inr head, s2)" "rev_parse_head_parent git checkout s2 = (Inr base, s3)"
    and written: "(let p = \<lparr>cp_session_id = sid, cp_target_id = t, cp_delivery_mode = mode, cp_base_sha = base,
                  cp_head_sha = head, cp_commit_message = msg\<rparr>
       in case and_then (with_context OptProvenance (validate_coordinator_provenance p))
                 (\<lambda>_. with_context OptSerialize (ri_provenance_json io p)) of
            Inl e \<Rightarrow> fail_with e
          | Inr json \<Rightarrow> write_file io (path_join exp_dir ''coordinator-provenance.json'') json)
       (w\<lparr>ow_repos := s3\<rparr>) = (Ok_unit, w')"
    by (auto simp: write_coordinator_provenance_def then_do_Inr on_repos_Inr)
  let ?p = "\<lparr>cp_session_id = sid, cp_target_id = t, cp_delivery_mode = mode, cp_base_sha = base,
                  cp_head_sha = head, cp_commit_message = msg\<rparr>"
  from written obtain json where
    "ri_provenance_json io ?p = Inr json" "validate_coordinator_provenance ?p = Ok_unit"
    and w': "write_file io (path_join exp_dir ''coordinator-provenance.json'') json (w\<lparr>ow_repos := s3\<rparr>) = (Ok_unit, w')"
    by (auto simp: Let_def and_then_Inr split: sum.splits)
  with revs w' show ?thesis
    by (intro exI[of _ ?p] exI[of _ s2] exI[of _ json])
      (auto simp: write_file_Ok provenance_validate_context_def checks_Inr bail_if_Inr)
qed

lemma or_demote_kept:
  assumes "or_demote demote m reason k w = (Ok_unit, w')"
    and "\<And>r w1 w2. demote r w1 = (Ok_unit, w2) \<Longrightarrow> \<not> P w2" and "P w'"
  shows "\<exists>a w1. m w = (Inr a, w1) \<and> k a w1 = (Ok_unit, w')"
  using assms by (auto simp: or_demote_def split: prod.splits sum.splits)

lemma commit_recorded_intro:
  assumes staged: "status_porcelain git checkout s = (Inr changes, s0)" "changes \<noteq> []"
      "add_all_with_env git checkout (optimizer_git_env settings) s0 = (Ok_unit, s1)"
    and commit: "commit_with_message_and_env git checkout (''perf: optimize '' @ t) (optimizer_git_env settings) s1 = (Ok_unit, ow_repos w)"
    and prov: "write_coordinator_provenance io git exp_dir checkout t sid mode (''perf: optimize '' @ t) w = (Ok_unit, w')"
  shows "(\<exists>p. commit_recorded io git settings exp_dir checkout t sid mode s (ow_repos w') (ow_files w') p)
    \<and> (\<forall>q. q \<noteq> path_join exp_dir ''coordinator-provenance.json'' \<longrightarrow> ow_files w' q = ow_files w q)"
proof -
  from commit_ran[OF commit] obtain out err where ran: "git [''-C'', checkout, ''commit'', ''-m'', ''perf: optimize '' @ t]
      (optimizer_git_env settings) s1 = (Exited (Some 0) out err, ow_repos w)" by blast
  from provenance_written[OF prov] obtain p s2 json where
    p: "rev_parse_head git checkout (ow_repos w) = (Inr (cp_head_sha p), s2)"
      "rev_parse_head_parent git checkout s2 = (Inr (cp_base_sha p), ow_repos w')" "ri_provenance_json io p = Inr json"
    and valid: "validate_coordinator_provenance p = Ok_unit" "provenance_validate_context p sid t mode = Ok_unit"
    and w': "ow_files w' = (ow_files w)(path_join exp_dir ''coordinator-provenance.json'' := Content json)"
    by blast
  have "ow_files w' (path_join exp_dir ''coordinator-provenance.json'') = Content json" by (simp add: w')
  then have "commit_recorded io git settings exp_dir checkout t sid mode s (ow_repos w') (ow_files w') p"
    unfolding commit_recorded_def by (intro conjI exI) (rule staged ran p valid | assumption)+
  moreover have "ow_files w' q = ow_files w q" if "q \<noteq> path_join exp_dir ''coordinator-provenance.json''" for q
    using that by (simp add: w')
  ultimately show ?thesis by blast
qed

lemma commit_changes_kept:
  fixes io :: "('io, 'p) report_io" and git :: "('s, 'io) git_process"
  assumes "commit_changes io git exp_dir checkout t sid mode settings w = (Ok_unit, w')" "aborted_roundtrip io"
    and "read_report_at (ow_files w') (ri_codecs io) exp_dir = Inr (Some (Implemented i))"
  shows "(\<exists>p. commit_recorded io git settings exp_dir checkout t sid mode (ow_repos w) (ow_repos w') (ow_files w') p)
    \<and> (\<forall>q. q \<noteq> path_join exp_dir ''coordinator-provenance.json'' \<longrightarrow> ow_files w' q = ow_files w q)"
proof -
  let ?kept = "\<lambda>w. read_report_at (ow_files w) (ri_codecs io) exp_dir = Inr (Some (Implemented i))"
  have demotion: "\<not> ?kept w2"
    if "demote_implemented_to_aborted io exp_dir t sid mode r EnvironmentalError w1 = (Ok_unit, w2)" for r w1 w2
    using demoted_not_implemented[OF that assms(2)] by simp
  let ?demote = "\<lambda>r. demote_implemented_to_aborted io exp_dir t sid mode r EnvironmentalError"
  have step: "\<exists>a w1. m w0 = (Inr a, w1) \<and> k a w1 = (Ok_unit, w')"
    if "or_demote ?demote m reason k w0 = (Ok_unit, w')"
    for m :: "('io, 's) opt_world \<Rightarrow> (('io, 'p) optimizer_error + 'x) \<times> ('io, 's) opt_world" and reason k w0
    using that demotion assms(3) by (rule or_demote_kept)
  let ?env = "optimizer_git_env settings" and ?msg = "''perf: optimize '' @ t"
  let ?store = "or_demote ?demote (write_coordinator_provenance io git exp_dir checkout t sid mode ?msg)
    (provenance_failed_reason io) give"
  let ?commit = "or_demote ?demote (on_repos (commit_with_message_and_env git checkout ?msg ?env))
    (commit_failed_reason io ?msg) (\<lambda>_. ?store)"
  let ?add = "or_demote ?demote (on_repos (add_all_with_env git checkout ?env)) (add_failed_reason io) (\<lambda>_. ?commit)"
  from step[OF assms(1)[unfolded commit_changes_def Let_def]] obtain a w1 where
    status: "on_repos (status_porcelain git checkout) w = (Inr a :: ('io, 'p) optimizer_error + string, w1)"
    and "(if a = [] then ?demote clean_tree_reason else ?add) w1 = (Ok_unit, w')"
    by blast
  with assms(3) have "?add w1 = (Ok_unit, w')" "a \<noteq> []" by (auto split: if_splits dest: demotion)
  from step[OF this(1)] obtain w2 where add: "on_repos (add_all_with_env git checkout ?env) w1 = (Ok_unit :: ('io, 'p) optimizer_error + unit, w2)"
    and "?commit w2 = (Ok_unit, w')" by auto
  from step[OF this(2)] obtain w3 where
    commit: "on_repos (commit_with_message_and_env git checkout ?msg ?env) w2 = (Ok_unit :: ('io, 'p) optimizer_error + unit, w3)"
    and "?store w3 = (Ok_unit, w')" by auto
  from step[OF this(2)] have prov: "write_coordinator_provenance io git exp_dir checkout t sid mode ?msg w3 = (Ok_unit, w')"
    by (auto simp: give_Inr)
  have files: "ow_files w3 = ow_files w" using status add commit by (auto dest!: on_repos_files)
  have states: "status_porcelain git checkout (ow_repos w) = (Inr a, ow_repos w1)"
    "add_all_with_env git checkout ?env (ow_repos w1) = (Ok_unit, ow_repos w2)"
    "commit_with_message_and_env git checkout ?msg ?env (ow_repos w2) = (Ok_unit, ow_repos w3)"
    using status add commit by (auto simp: on_repos_Inr simp del: append_Cons append.simps)
  from commit_recorded_intro[OF states(1) \<open>a \<noteq> []\<close> states(2,3) prov] files show ?thesis by simp
qed

lemma read_report_at_cong:
  "fs (path_join dir ''optimizer-report.json'') = fs' (path_join dir ''optimizer-report.json'')
     \<Longrightarrow> read_report_at fs cd dir = read_report_at fs' cd dir"
  by (simp add: read_report_at_def)

lemma coordinator_kept:
  fixes io :: "('io, 'p) report_io" and git :: "('s, 'io) git_process"
  assumes run: "coordinator_commit_if_kept io git exp_dir checkout t sid mode settings w = (Ok_unit, w')"
    and "aborted_roundtrip io" and kept: "read_report_at (ow_files w') (ri_codecs io) exp_dir = Inr (Some (Implemented i))"
  shows "(\<exists>p. commit_recorded io git settings exp_dir checkout t sid mode (ow_repos w) (ow_repos w') (ow_files w') p)
    \<and> (validate_report_context (Implemented i) t sid mode :: ('io, 'p) load_error check) = Ok_unit"
proof -
  from run kept obtain report where report: "read_report_at (ow_files w) (ri_codecs io) exp_dir = Inr (Some report)"
    and ctx: "(validate_report_context report t sid mode :: ('io, 'p) load_error check) = Ok_unit"
    by (auto simp: coordinator_commit_if_kept_def split: sum.splits option.splits)
  show ?thesis
  proof (cases report)
    case (ReportAborted a)
    with run report ctx have "ow_files w' (path_join exp_dir ''optimizer-report.json'') = ow_files w (path_join exp_dir ''optimizer-report.json'')"
      by (auto simp: coordinator_commit_if_kept_def then_do_Inr rendered_with_def write_file_Ok)
    from read_report_at_cong[of "ow_files w'" exp_dir "ow_files w" "ri_codecs io", OF this] kept report ReportAborted show ?thesis by simp
  next
    case (Implemented r)
    with run report ctx obtain md where commit: "commit_changes io git exp_dir checkout t sid mode settings
        (w\<lparr>ow_files := (ow_files w)(path_join exp_dir ''implementation.md'' := Content md)\<rparr>) = (Ok_unit, w')"
      by (auto simp: coordinator_commit_if_kept_def then_do_Inr rendered_with_def write_file_Ok)
    note kept' = commit_changes_kept[OF this assms(2) kept]
    then have "ow_files w' (path_join exp_dir ''optimizer-report.json'') = ow_files w (path_join exp_dir ''optimizer-report.json'')"
      by simp
    from read_report_at_cong[of "ow_files w'" exp_dir "ow_files w" "ri_codecs io", OF this] kept report have "report = Implemented i" by simp
    with kept' ctx show ?thesis by simp
  qed
qed

lemma is_implemented_simps: "is_implemented (Implemented i)" "\<not> is_implemented (ReportAborted a)"
  by (simp_all add: is_implemented_def)

lemma verify_kept:
  assumes run: "verify_kept_or_demote io git exp_dir worktree baseline t sid mode w = (Inr outcome, w')"
    and "aborted_roundtrip io" and kept: "read_report_at (ow_files w') (ri_codecs io) exp_dir = Inr (Some (Implemented i))"
  shows "ow_files w' = ow_files w \<and> outcome \<in> {HeadAdvanced, Indeterminate}
    \<and> (\<exists>now. git_rev_parse_head git worktree (ow_repos w) = (now, ow_repos w') \<and> (baseline = None \<or> now = None \<or> baseline \<noteq> now))"
proof -
  have demotion: False if "demote_implemented_to_aborted io exp_dir t sid mode r g w1 = (Ok_unit, w')" for r g w1
    using demoted_not_implemented[OF that assms(2), of i] kept by simp
  from run kept show ?thesis
    by (auto simp: verify_kept_or_demote_def Let_def is_implemented_simps then_do_Inr give_Inr
        split: sum.splits option.splits if_splits prod.splits dest: demotion)
qed

end
