(* ===== verification/Optimizers.thy ===== *)
theory Optimizers
  imports Optimizer_Gate Publish_Generate
begin

text \<open>
  The optimizer fan-out (\<open>session/optimizers.rs\<close>): the clone of each target, the prompt and sandbox of
  its agent, one task from start to verified report, the run over all targets with its tally, and the
  removal of the clones that did not land. Template rendering, the agent and git are arguments. The tasks
  of a run are executed one after the other, in an order given as an argument: with one permit, the
  setting of every run that has a normal target, tokio does the same in some order. The directories of
  the clones belong to the state of git, the files under the session's results to \<open>ow_files\<close>.
\<close>

section \<open>Checkouts\<close>

record ('s, 'io) clone_dirs =
  cd_exists :: "string \<Rightarrow> 's \<Rightarrow> bool"
  cd_is_file :: "string \<Rightarrow> 's \<Rightarrow> bool"
  cd_remove_dir_all :: "string \<Rightarrow> 's \<Rightarrow> ('io + unit) \<times> 's"
  cd_create_dir_all :: "string \<Rightarrow> 's \<Rightarrow> ('io + unit) \<times> 's"
  cd_parent :: "string \<Rightarrow> string option"

datatype 'io checkout_error = CheckoutGit "'io git_error" | CheckoutIo 'io

record ('s, 'io) checkout_manager =
  cm_recreate :: "string \<Rightarrow> string \<Rightarrow> string \<Rightarrow> string \<Rightarrow> 's \<Rightarrow> ('io checkout_error + unit) \<times> 's"
  cm_remove :: "string \<Rightarrow> 's \<Rightarrow> ('io checkout_error + bool) \<times> 's"

definition remove_if_present :: "('s, 'io) clone_dirs \<Rightarrow> string \<Rightarrow> 's \<Rightarrow> ('io checkout_error + bool) \<times> 's" where
  "remove_if_present cd checkout s =
     (if \<not> cd_exists cd checkout s then (Inr False, s)
      else then_do (in_context CheckoutIo (cd_remove_dir_all cd checkout)) (\<lambda>_. give True) s)"

definition cleanup_existing_checkout ::
  "('s, 'io) git_process \<Rightarrow> ('s, 'io) clone_dirs \<Rightarrow> string \<Rightarrow> string \<Rightarrow> 's \<Rightarrow> ('io checkout_error + unit) \<times> 's" where
  "cleanup_existing_checkout git cd base checkout s =
     (if \<not> cd_exists cd checkout s then (Ok_unit, s)
      else let s1 = (if cd_is_file cd (path_join checkout ''.git'') s
                     then worktree_prune_quiet git base (worktree_remove_force_quiet git base checkout s) else s)
           in then_do (remove_if_present cd checkout) (\<lambda>_. give ()) s1)"

fun replicate_each ::
  "('s, 'io) git_process \<Rightarrow> string \<Rightarrow> string \<Rightarrow> string list \<Rightarrow> 's \<Rightarrow> ('io git_error + unit) \<times> 's" where
  "replicate_each git base checkout [] = give ()"
| "replicate_each git base checkout (name # names) =
     then_do (get_remote_url git base name) (\<lambda>url.
       if url = [] then fail_with (RemoteWithoutUrl name)
       else then_do (add_or_set_remote git checkout name url) (\<lambda>_. replicate_each git base checkout names))"

definition replicate_remotes ::
  "('s, 'io) git_process \<Rightarrow> string \<Rightarrow> string \<Rightarrow> 's \<Rightarrow> ('io git_error + unit) \<times> 's" where
  "replicate_remotes git base checkout = then_do (list_remotes git base) (replicate_each git base checkout)"

definition recreate_checkout ::
  "('s, 'io) git_process \<Rightarrow> ('s, 'io) clone_dirs \<Rightarrow> string \<Rightarrow> string \<Rightarrow> string \<Rightarrow> string \<Rightarrow> 's
     \<Rightarrow> ('io checkout_error + unit) \<times> 's" where
  "recreate_checkout git cd base checkout branch_name base_branch =
     then_do (cleanup_existing_checkout git cd base checkout) (\<lambda>_.
     then_do (case cd_parent cd checkout of Some parent \<Rightarrow> in_context CheckoutIo (cd_create_dir_all cd parent) | None \<Rightarrow> give ()) (\<lambda>_.
     in_context CheckoutGit (
       then_do (clone_with_reference git base base_branch checkout) (\<lambda>_.
       then_do (switch_create_branch git checkout branch_name) (\<lambda>_.
       replicate_remotes git base checkout)))))"

definition remove_checkout :: "('s, 'io) clone_dirs \<Rightarrow> string \<Rightarrow> 's \<Rightarrow> ('io checkout_error + bool) \<times> 's" where
  "remove_checkout cd checkout = remove_if_present cd checkout"

definition std_checkout_manager :: "('s, 'io) git_process \<Rightarrow> ('s, 'io) clone_dirs \<Rightarrow> ('s, 'io) checkout_manager" where
  "std_checkout_manager git cd = \<lparr>cm_recreate = recreate_checkout git cd, cm_remove = remove_checkout cd\<rparr>"

section \<open>Pruning\<close>

text \<open>A directory listing: the entries that could be read, by name, with whether they are directories.\<close>

datatype 'io dir_listing = DirMissing | DirFailed 'io | Entries "(string \<times> bool) list"

fun prune_each ::
  "('s, 'io) checkout_manager \<Rightarrow> 'p codecs \<Rightarrow> string \<Rightarrow> string \<Rightarrow> (string \<times> bool) list \<Rightarrow> ('io, 's) opt_world \<Rightarrow> nat
     \<Rightarrow> nat \<times> ('io, 's) opt_world" where
  "prune_each m cd checkouts_root experiments_dir [] w dropped = (dropped, w)"
| "prune_each m cd checkouts_root experiments_dir ((name, is_dir) # es) w dropped =
     (if \<not> is_dir then prune_each m cd checkouts_root experiments_dir es w dropped
      else case read_report_at (ow_files w) cd (path_join experiments_dir name) of
        Inr (Some (Implemented _)) \<Rightarrow> prune_each m cd checkouts_root experiments_dir es w dropped
      | _ \<Rightarrow>
          (case cm_remove m (path_join checkouts_root name) (ow_repos w) of
             (r, s') \<Rightarrow> prune_each m cd checkouts_root experiments_dir es (w\<lparr>ow_repos := s'\<rparr>)
                          (if r = Inr True then dropped + 1 else dropped)))"

definition prune_aborted_experiments ::
  "('s, 'io) checkout_manager \<Rightarrow> 'p codecs \<Rightarrow> (string \<Rightarrow> 'io dir_listing) \<Rightarrow> string \<Rightarrow> session_layout \<Rightarrow> ('io, 's) opt_world
     \<Rightarrow> (('io, 'p) optimizer_error + nat) \<times> ('io, 's) opt_world" where
  "prune_aborted_experiments m cd listing checkouts_root l w =
     (case listing (optimize_dir l) of
        DirMissing \<Rightarrow> (Inr 0, w)
      | DirFailed e \<Rightarrow> (Inl (OptIo e), w)
      | Entries es \<Rightarrow> (case prune_each m cd checkouts_root (optimize_dir l) es w 0 of (n, w') \<Rightarrow> (Inr n, w')))"

section \<open>One target\<close>

record optimizer_prompt =
  op_worktree_dir :: string
  op_output_dir :: string
  op_target_json :: string
  op_delivery_mode :: string
  op_poc_test_scope_expr :: string
  op_non_targets_path :: string
  op_domain_context_path :: string
  op_optimization_targets_schema_path :: string
  op_optimizer_report_schema_path :: string
  op_stacks_bench_data_dir :: string
  op_bench_source_dir :: string
  op_bench_network :: string
  op_bench_warmup :: string
  op_bench_filter :: string
  op_bench_shadow_dir_root :: string
  op_optimizer_attempts :: string
  op_optimizer_budget_minutes :: string
  op_optimizer_memory_markdown :: string

record ('s, 'io, 'p) optimizer_env =
  oe_io :: "('io, 'p) report_io"
  oe_git :: "('s, 'io) git_process"
  oe_manager :: "('s, 'io) checkout_manager"
  oe_create_dir_all :: "string \<Rightarrow> 'io files \<Rightarrow> 'io + unit"
  oe_target_json :: "merged_target \<Rightarrow> 'p + string"
  oe_parse_memory :: "string \<Rightarrow> 'p + optimizer_memory"
  oe_parse_manifest :: "'p toml_parser"
  oe_doc_texts :: "string \<Rightarrow> string"
  oe_render :: "optimizer_prompt \<Rightarrow> string \<Rightarrow> 'io + string"
  oe_invoke :: "invoke_inputs \<Rightarrow> ('io, 's) opt_world \<Rightarrow> ('io + string option) \<times> ('io, 's) opt_world"

record optimizer_inputs =
  oi_framework :: layout
  oi_settings :: settings
  oi_session_id :: string
  oi_session_results_dir :: string
  oi_worktrees_root :: string
  oi_base_branch :: string
  oi_resume :: bool
  oi_source_checkout :: string
  oi_optimizer_memory :: "optimizer_memory option"

definition lift_result :: "'e + 'a \<Rightarrow> 'w \<Rightarrow> ('e + 'a) \<times> 'w" where
  "lift_result r w = (r, w)"

definition checkout_failure :: "'io checkout_error \<Rightarrow> ('io, 'p) optimizer_error" where
  "checkout_failure e = (case e of CheckoutGit g \<Rightarrow> OptGit g | CheckoutIo i \<Rightarrow> OptIo i)"

definition manage_checkout ::
  "('s \<Rightarrow> ('io checkout_error + 'a) \<times> 's) \<Rightarrow> ('io, 's) opt_world \<Rightarrow> (('io, 'p) optimizer_error + 'a) \<times> ('io, 's) opt_world" where
  "manage_checkout m w = (case m (ow_repos w) of (r, s') \<Rightarrow> (with_context checkout_failure r, w\<lparr>ow_repos := s'\<rparr>))"

definition CONSENSUS_ISSUE_MARKER :: string where
  "CONSENSUS_ISSUE_MARKER =
     ''# Consensus issue: optimizer skipped'' @ nl @ nl @ ''delivery_mode = consensus_issue'' @ nl @ nl
     @ ''This target proposes a consensus-breaking change that the analyzer determined is not'' @ nl
     @ ''PoC-implementable (poc_implementable = false). The optimizer phase is intentionally'' @ nl
     @ ''skipped: the analyzer's consensus_writeup is the shipping artifact.'' @ nl @ nl
     @ ''Downstream phases:'' @ nl
     @ ''- `sbagent session bench` skips this target (bench_eligible=false).'' @ nl
     @ ''- `sbagent publish` routes this target to the issue writer.'' @ nl"

definition poc_test_scope_expr :: "merged_target \<Rightarrow> string" where
  "poc_test_scope_expr t =
     (if mt_delivery_mode t = ConsensusPocPr
      then (case mt_poc_test_scope t of Some scope \<Rightarrow> join_strings '' | '' scope | None \<Rightarrow> []) else [])"

definition prompt_values ::
  "optimizer_inputs \<Rightarrow> string \<Rightarrow> string \<Rightarrow> merged_target \<Rightarrow> string \<Rightarrow> string \<Rightarrow> string \<Rightarrow> optimizer_prompt" where
  "prompt_values i worktree exp_dir t target_json non_targets domain_context =
     (let s = oi_settings i; bench = se_stacks_bench s
      in \<lparr>op_worktree_dir = worktree, op_output_dir = exp_dir, op_target_json = target_json,
          op_delivery_mode = delivery_mode_str (mt_delivery_mode t), op_poc_test_scope_expr = poc_test_scope_expr t,
          op_non_targets_path = non_targets, op_domain_context_path = domain_context,
          op_optimization_targets_schema_path = path_join (ly_schemas_dir (oi_framework i)) ''optimization-targets.schema.json'',
          op_optimizer_report_schema_path = path_join (ly_schemas_dir (oi_framework i)) ''optimizer-report.schema.json'',
          op_stacks_bench_data_dir = ly_stacks_bench_data_dir (oi_framework i),
          op_bench_source_dir = unwrap_or (sb_source_dir bench) [], op_bench_network = effective_network bench,
          op_bench_warmup = unwrap_or (map_option show_nat (sb_warmup bench)) [],
          op_bench_filter = unwrap_or (sb_filter bench) [],
          op_bench_shadow_dir_root = unwrap_or (ly_stacks_bench_shadow_dir (oi_framework i)) [],
          op_optimizer_attempts = show_nat (effective_attempts (se_optimizer s)),
          op_optimizer_budget_minutes = show_nat (effective_budget_minutes (se_optimizer s)),
          op_optimizer_memory_markdown = render_target_memory (oi_optimizer_memory i)
            (case mt_merged_from t of [] \<Rightarrow> mt_id t | mf # _ \<Rightarrow> mf_family_id mf) (mt_id t)\<rparr>)"

definition prepare_prompt ::
  "('s, 'io, 'p) optimizer_env \<Rightarrow> optimizer_inputs \<Rightarrow> string \<Rightarrow> string \<Rightarrow> merged_target \<Rightarrow> string \<Rightarrow> 'io files
     \<Rightarrow> ('io, 'p) optimizer_error + string \<times> string" where
  "prepare_prompt e i worktree exp_dir t target_json fs =
     (let missing_docs = required_missing_for_phase (oe_parse_manifest e) (oe_doc_texts e) fs;
          doc_paths = paths_for_phase (oe_parse_manifest e) (oe_doc_texts e) fs;
          context_dir = ly_context_dir (oi_framework i)
      in and_then (with_context OptSettings (require_prompt_overrides_dir (oi_settings i))) (\<lambda>prompts_dir.
         and_then (with_context OptContext (missing_docs context_dir OptimizerPhase)) (\<lambda>missing.
         and_then (bail_if (missing \<noteq> []) (OptDocsMissing missing)) (\<lambda>_.
         and_then (with_context OptContext (doc_paths context_dir OptimizerPhase)) (\<lambda>paths.
         and_then (with_context OptContext (ctx_path paths ''non-targets'')) (\<lambda>non_targets.
         and_then (with_context OptContext (ctx_path paths ''stacks-domain-context'')) (\<lambda>domain_context.
         and_then (with_context OptIo (oe_render e (prompt_values i worktree exp_dir t target_json non_targets domain_context)
           prompts_dir)) (\<lambda>rendered.
         Inr (prompts_dir, rendered)))))))))"

definition optimizer_invocation ::
  "optimizer_inputs \<Rightarrow> string \<Rightarrow> string \<Rightarrow> string \<Rightarrow> string \<Rightarrow> invoke_inputs" where
  "optimizer_invocation i worktree exp_dir prompts_dir rendered =
     (let codex = se_codex (oi_settings i)
      in \<lparr>in_rendered_prompt = rendered, in_cwd = worktree,
          in_add_dirs = [ly_context_dir (oi_framework i), ly_schemas_dir (oi_framework i), prompts_dir, exp_dir]
            @ cx_extra_writable_roots codex,
          in_events_jsonl = path_join exp_dir ''events.jsonl'', in_stderr_log = path_join exp_dir ''stderr.log'',
          in_last_message = path_join exp_dir ''final-message.md'', in_timeout = effective_exec_timeout codex,
          in_model = effective_model codex, in_reasoning_effort = cx_reasoning_effort codex,
          in_skip_git_repo_check = False,
          in_dangerously_bypass_sandbox = unwrap_or (cx_dangerously_bypass_sandbox codex) False,
          in_enable_web_search = False, in_extra_env = optimizer_git_env (oi_settings i)\<rparr>)"

definition invoke_agent ::
  "('s, 'io, 'p) optimizer_env \<Rightarrow> string \<Rightarrow> invoke_inputs \<Rightarrow> ('io, 's) opt_world
     \<Rightarrow> (('io, 'p) optimizer_error + unit) \<times> ('io, 's) opt_world" where
  "invoke_agent e exp_dir invocation =
     then_do (in_context OptIo (oe_invoke e invocation)) (\<lambda>conversation_id.
       case conversation_id of None \<Rightarrow> give ()
       | Some cid \<Rightarrow> write_file (oe_io e) (path_join exp_dir ''conversation-id'') (cid @ nl))"

definition target_worktree :: "optimizer_inputs \<Rightarrow> merged_target \<Rightarrow> string" where
  "target_worktree i t = path_join (oi_worktrees_root i) (mt_id t)"

definition target_exp_dir :: "optimizer_inputs \<Rightarrow> merged_target \<Rightarrow> string" where
  "target_exp_dir i t = path_join (path_join (oi_session_results_dir i) ''optimize'') (mt_id t)"

definition agent_branch :: "optimizer_inputs \<Rightarrow> merged_target \<Rightarrow> string" where
  "agent_branch i t = ''agent/'' @ oi_session_id i @ ''/'' @ mt_id t"

definition optimize_target ::
  "('s, 'io, 'p) optimizer_env \<Rightarrow> optimizer_inputs \<Rightarrow> string \<Rightarrow> merged_target \<Rightarrow> string \<Rightarrow> ('io, 's) opt_world
     \<Rightarrow> (('io, 'p) optimizer_error + unit) \<times> ('io, 's) opt_world" where
  "optimize_target e i exp_dir t target_json =
     (let worktree = target_worktree i t
      in then_do (manage_checkout (cm_recreate (oe_manager e) (oi_source_checkout i) worktree (agent_branch i t) (oi_base_branch i))) (\<lambda>_ w.
         let (baseline_head, s') = git_rev_parse_head (oe_git e) worktree (ow_repos w);
             w1 = remove_quiet (oe_io e) (path_join exp_dir ''consensus-issue.md'')
                    (clear_optimizer_artifacts (oe_io e) exp_dir (w\<lparr>ow_repos := s'\<rparr>))
         in then_do (lift_result (prepare_prompt e i worktree exp_dir t target_json (ow_files w1))) (\<lambda>(prompts_dir, rendered).
            then_do (write_file (oe_io e) (path_join exp_dir ''prompt.md'') rendered) (\<lambda>_.
            then_do (invoke_agent e exp_dir (optimizer_invocation i worktree exp_dir prompts_dir rendered)) (\<lambda>_.
            then_do (coordinator_commit_if_kept (oe_io e) (oe_git e) exp_dir worktree (mt_id t) (oi_session_id i)
              (mt_delivery_mode t) (oi_settings i)) (\<lambda>_.
            then_do (verify_kept_or_demote (oe_io e) (oe_git e) exp_dir worktree baseline_head (mt_id t) (oi_session_id i)
              (mt_delivery_mode t)) (\<lambda>_. give ()))))) w1))"

definition resume_skips ::
  "('s, 'io, 'p) optimizer_env \<Rightarrow> optimizer_inputs \<Rightarrow> string \<Rightarrow> merged_target \<Rightarrow> 'io files \<Rightarrow> ('io, 'p) optimizer_error + bool" where
  "resume_skips e i exp_dir t fs =
     (if oi_resume i
      then and_then (read_baseline_source_sha (oe_io e) fs (oi_session_results_dir i)) (\<lambda>baseline.
        Inr (resume_target_is_complete fs (ri_codecs (oe_io e)) exp_dir t (oi_session_id i) baseline))
      else Inr False)"

definition run_one ::
  "('s, 'io, 'p) optimizer_env \<Rightarrow> optimizer_inputs \<Rightarrow> merged_target \<Rightarrow> string \<Rightarrow> ('io, 's) opt_world
     \<Rightarrow> (('io, 'p) optimizer_error + unit) \<times> ('io, 's) opt_world" where
  "run_one e i t target_json w =
     (let exp_dir = target_exp_dir i t
      in then_do (lift_result (with_context OptIo (oe_create_dir_all e exp_dir (ow_files w)))) (\<lambda>_.
         if mt_delivery_mode t = ConsensusIssue
         then (\<lambda>w. write_file (oe_io e) (path_join exp_dir ''consensus-issue.md'') CONSENSUS_ISSUE_MARKER
                (clear_optimizer_artifacts (oe_io e) exp_dir w))
         else then_do (lift_result (resume_skips e i exp_dir t (ow_files w))) (\<lambda>skip.
           if skip then give () else optimize_target e i exp_dir t target_json)) w)"

section \<open>All targets\<close>

record outputs =
  ou_total :: nat
  ou_landed :: nat
  ou_aborted :: nat
  ou_routed_to_issue :: nat

definition outputs_default :: outputs where
  "outputs_default = \<lparr>ou_total = 0, ou_landed = 0, ou_aborted = 0, ou_routed_to_issue = 0\<rparr>"

definition optimizer_permits :: "nat option \<Rightarrow> merged_target list \<Rightarrow> nat" where
  "optimizer_permits requested targets =
     (let wanted = max (unwrap_or requested (length targets)) 1
      in if list_ex (\<lambda>t. mt_delivery_mode t = NormalPr) targets \<and> wanted > 1 then 1 else wanted)"

definition is_file :: "'io files \<Rightarrow> string \<Rightarrow> bool" where
  "is_file fs p \<longleftrightarrow> (case fs p of Content _ \<Rightarrow> True | _ \<Rightarrow> False)"

definition tally_target :: "'io files \<Rightarrow> 'p codecs \<Rightarrow> session_layout \<Rightarrow> merged_target \<Rightarrow> outputs \<Rightarrow> outputs" where
  "tally_target fs cd l t out =
     (let dir = experiment_dir l (mt_id t)
      in if is_file fs (path_join dir ''consensus-issue.md'')
         then out\<lparr>ou_routed_to_issue := ou_routed_to_issue out + 1\<rparr>
         else case read_report_at fs cd dir of
           Inr (Some (Implemented _)) \<Rightarrow> out\<lparr>ou_landed := ou_landed out + 1\<rparr>
         | _ \<Rightarrow> out\<lparr>ou_aborted := ou_aborted out + 1\<rparr>)"

definition tally :: "'io files \<Rightarrow> 'p codecs \<Rightarrow> session_layout \<Rightarrow> merged_target list \<Rightarrow> outputs" where
  "tally fs cd l targets = fold (tally_target fs cd l) targets (outputs_default\<lparr>ou_total := length targets\<rparr>)"

fun run_tasks ::
  "('s, 'io, 'p) optimizer_env \<Rightarrow> optimizer_inputs \<Rightarrow> (merged_target \<times> string) list \<Rightarrow> ('io, 's) opt_world
     \<Rightarrow> ('io, 'p) optimizer_error list \<times> ('io, 's) opt_world" where
  "run_tasks e i [] w = ([], w)"
| "run_tasks e i ((t, target_json) # ts) w =
     (case run_one e i t target_json w of
        (Inr _, w') \<Rightarrow> run_tasks e i ts w'
      | (Inl err, w') \<Rightarrow> (case run_tasks e i ts w' of (errs, w'') \<Rightarrow> (err # errs, w'')))"

text \<open>
  A run. \<open>order\<close> arranges the spawned tasks in the order in which the scheduler runs them; every task is
  run, and the error of the first task that failed is the error of the run.
\<close>

definition optimizers_run ::
  "((merged_target \<times> string) list \<Rightarrow> (merged_target \<times> string) list) \<Rightarrow> ('s, 'io, 'p) optimizer_env \<Rightarrow> optimizer_inputs
     \<Rightarrow> session_layout \<Rightarrow> ('io, 's) opt_world \<Rightarrow> (('io, 'p) optimizer_error + outputs) \<times> ('io, 's) opt_world" where
  "optimizers_run order e i l w =
     (case and_then (with_context OptLoad (read_optimization_targets (ow_files w) (ri_codecs (oe_io e)) l)) (\<lambda>doc.
             if ot_targets doc = [] then Inr (doc, [], None)
             else and_then (with_context OptMemory (read_optional_memory (ow_files w) (oe_parse_memory e) (optimizer_memory_json l))) (\<lambda>memory.
               and_then (with_context OptIo (oe_create_dir_all e (session_optimizer_checkouts_dir (oi_framework i) (sl_id l)) (ow_files w))) (\<lambda>_.
               and_then (collect_results (map (\<lambda>t. and_then (with_context OptSerialize (oe_target_json e t)) (\<lambda>j. Inr (t, j)))
                 (ot_targets doc))) (\<lambda>tasks. Inr (doc, tasks, memory))))) of
        Inl err \<Rightarrow> (Inl err, w)
      | Inr (doc, tasks, memory) \<Rightarrow>
          if ot_targets doc = [] then (Inr outputs_default, w)
          else (case run_tasks e (i\<lparr>oi_session_id := sl_id l, oi_session_results_dir := sl_results_dir l,
                  oi_worktrees_root := session_optimizer_checkouts_dir (oi_framework i) (sl_id l),
                  oi_optimizer_memory := memory\<rparr>) (order tasks) w of
                  (err # _, w') \<Rightarrow> (Inl err, w')
                | ([], w') \<Rightarrow> (Inr (tally (ow_files w') (ri_codecs (oe_io e)) l (ot_targets doc)), w')))"

section \<open>A landed target is a committed target\<close>

lemma manage_checkout_Inr:
  "manage_checkout m w = (Inr a, w') \<longleftrightarrow> (\<exists>s'. m (ow_repos w) = (Inr a, s') \<and> w' = w\<lparr>ow_repos := s'\<rparr>)"
  by (auto simp: manage_checkout_def with_context_def split: prod.splits sum.splits)

lemma lift_result_Inr: "lift_result r w = (Inr a, w') \<longleftrightarrow> r = Inr a \<and> w' = w"
  by (auto simp: lift_result_def)

lemma invoke_agent_ok:
  assumes "invoke_agent e exp_dir invocation w = (Ok_unit, w')"
  shows "\<exists>conversation_id w1. oe_invoke e invocation w = (Inr conversation_id, w1) \<and> ow_repos w' = ow_repos w1"
  using assms by (auto simp: invoke_agent_def then_do_Inr in_context_Inr give_Inr write_file_Ok split: option.splits)

lemma optimize_target_ok:
  assumes "optimize_target e i exp_dir t target_json w = (Ok_unit, w')"
  shows "\<exists>s0 baseline s1 prompts_dir rendered w1 conversation_id w2 w3 w4 outcome.
    cm_recreate (oe_manager e) (oi_source_checkout i) (target_worktree i t) (agent_branch i t) (oi_base_branch i) (ow_repos w)
      = (Ok_unit, s0)
    \<and> git_rev_parse_head (oe_git e) (target_worktree i t) s0 = (baseline, s1)
    \<and> oe_invoke e (optimizer_invocation i (target_worktree i t) exp_dir prompts_dir rendered) w1 = (Inr conversation_id, w2)
    \<and> ow_repos w3 = ow_repos w2
    \<and> coordinator_commit_if_kept (oe_io e) (oe_git e) exp_dir (target_worktree i t) (mt_id t) (oi_session_id i)
        (mt_delivery_mode t) (oi_settings i) w3 = (Ok_unit, w4)
    \<and> verify_kept_or_demote (oe_io e) (oe_git e) exp_dir (target_worktree i t) baseline (mt_id t) (oi_session_id i)
        (mt_delivery_mode t) w4 = (Inr outcome, w')"
proof -
  let ?wt = "target_worktree i t"
  obtain baseline s1 where head: "\<And>s0. cm_recreate (oe_manager e) (oi_source_checkout i) ?wt (agent_branch i t) (oi_base_branch i)
      (ow_repos w) = (Ok_unit, s0) \<Longrightarrow> git_rev_parse_head (oe_git e) ?wt s0 = (baseline, s1)"
    by (metis old.prod.exhaust prod.inject)
  with assms obtain s0 prompts_dir rendered w1 w3 w4 outcome where
    start: "cm_recreate (oe_manager e) (oi_source_checkout i) ?wt (agent_branch i t) (oi_base_branch i) (ow_repos w) = (Ok_unit, s0)"
      "git_rev_parse_head (oe_git e) ?wt s0 = (baseline, s1)"
    and agent: "invoke_agent e exp_dir (optimizer_invocation i ?wt exp_dir prompts_dir rendered) w1 = (Ok_unit, w3)"
    and gates: "coordinator_commit_if_kept (oe_io e) (oe_git e) exp_dir ?wt (mt_id t) (oi_session_id i)
        (mt_delivery_mode t) (oi_settings i) w3 = (Ok_unit, w4)"
      "verify_kept_or_demote (oe_io e) (oe_git e) exp_dir ?wt baseline (mt_id t) (oi_session_id i) (mt_delivery_mode t) w4
        = (Inr outcome, w')"
    by (auto simp: optimize_target_def Let_def then_do_Inr manage_checkout_Inr lift_result_Inr give_Inr)
  from invoke_agent_ok[OF agent] start gates show ?thesis by blast
qed

lemma run_one_worked:
  assumes "run_one e i t target_json w = (Ok_unit, w')" "mt_delivery_mode t \<noteq> ConsensusIssue"
    "resume_skips e i (target_exp_dir i t) t (ow_files w) = Inr False"
  shows "optimize_target e i (target_exp_dir i t) t target_json w = (Ok_unit, w')"
  using assms by (auto simp: run_one_def Let_def then_do_Inr lift_result_Inr)

text \<open>C6: When the task of a target that is not routed to an issue and not skipped by the resume gate succeeds and leaves
  a report that says implemented, then the report names this target, session and delivery mode; the clone was
  made anew and the agent ran in it; from the state the agent left, git reported changes, staged them and
  committed them with success under the bot identity; the provenance sidecar is valid and holds the HEAD and
  HEAD^ that git reported after the commit; and the HEAD read last is not the one the clone started from,
  unless git could not tell one of the two. Serde is assumed to read an aborted report back as written.\<close>

theorem landed_report_is_committed:
  fixes e :: "('s, 'io, 'p) optimizer_env"
  assumes "run_one e i t target_json w = (Ok_unit, w')" "mt_delivery_mode t \<noteq> ConsensusIssue"
    "resume_skips e i (target_exp_dir i t) t (ow_files w) = Inr False" "aborted_roundtrip (oe_io e)"
    "read_report_at (ow_files w') (ri_codecs (oe_io e)) (target_exp_dir i t) = Inr (Some (Implemented r))"
  shows "\<exists>s0 baseline s1 prompts_dir rendered w1 conversation_id w2 s p now.
    (validate_report_context (Implemented r) (mt_id t) (oi_session_id i) (mt_delivery_mode t) :: ('io, 'p) load_error check) = Ok_unit
    \<and> cm_recreate (oe_manager e) (oi_source_checkout i) (target_worktree i t) (agent_branch i t) (oi_base_branch i) (ow_repos w)
        = (Ok_unit, s0)
    \<and> git_rev_parse_head (oe_git e) (target_worktree i t) s0 = (baseline, s1)
    \<and> oe_invoke e (optimizer_invocation i (target_worktree i t) (target_exp_dir i t) prompts_dir rendered) w1 = (Inr conversation_id, w2)
    \<and> commit_recorded (oe_io e) (oe_git e) (oi_settings i) (target_exp_dir i t) (target_worktree i t) (mt_id t) (oi_session_id i)
        (mt_delivery_mode t) (ow_repos w2) s (ow_files w') p
    \<and> git_rev_parse_head (oe_git e) (target_worktree i t) s = (now, ow_repos w')
    \<and> (baseline = None \<or> now = None \<or> baseline \<noteq> now)"
proof -
  let ?wt = "target_worktree i t" and ?dir = "target_exp_dir i t"
  from optimize_target_ok[OF run_one_worked[OF assms(1-3)]]
  obtain s0 baseline s1 prompts_dir rendered w1 conversation_id w2 w3 w4 outcome where
    start: "cm_recreate (oe_manager e) (oi_source_checkout i) ?wt (agent_branch i t) (oi_base_branch i) (ow_repos w) = (Ok_unit, s0)"
      "git_rev_parse_head (oe_git e) ?wt s0 = (baseline, s1)"
      "oe_invoke e (optimizer_invocation i ?wt ?dir prompts_dir rendered) w1 = (Inr conversation_id, w2)"
    and agent: "ow_repos w3 = ow_repos w2"
    and commit: "coordinator_commit_if_kept (oe_io e) (oe_git e) ?dir ?wt (mt_id t) (oi_session_id i)
        (mt_delivery_mode t) (oi_settings i) w3 = (Ok_unit, w4)"
    and verify: "verify_kept_or_demote (oe_io e) (oe_git e) ?dir ?wt baseline (mt_id t) (oi_session_id i)
        (mt_delivery_mode t) w4 = (Inr outcome, w')"
    by blast
  from verify_kept[OF verify assms(4,5)] obtain now where files: "ow_files w' = ow_files w4"
    and head: "git_rev_parse_head (oe_git e) ?wt (ow_repos w4) = (now, ow_repos w')" "baseline = None \<or> now = None \<or> baseline \<noteq> now"
    by blast
  from coordinator_kept[OF commit assms(4)] assms(5) files agent obtain p where
    "commit_recorded (oe_io e) (oe_git e) (oi_settings i) ?dir ?wt (mt_id t) (oi_session_id i) (mt_delivery_mode t)
       (ow_repos w2) (ow_repos w4) (ow_files w') p"
    "(validate_report_context (Implemented r) (mt_id t) (oi_session_id i) (mt_delivery_mode t) :: ('io, 'p) load_error check) = Ok_unit"
    by auto
  with start head show ?thesis by blast
qed

section \<open>Resuming\<close>

lemma demoted_context:
  assumes "demote_implemented_to_aborted io exp_dir t sid mode reason gate w = (Ok_unit, w')" "aborted_roundtrip io"
    "read_report_at (ow_files w') (ri_codecs io) exp_dir = Inr (Some report)"
  shows "validate_report_context report t sid mode = Ok_unit"
proof -
  from assms(1) obtain json where "ri_aborted_json io (demoted_report t sid mode reason gate) = Inr json"
    "ow_files w' (path_join exp_dir ''optimizer-report.json'') = Content (json @ nl)" by (rule demote_ok)
  with assms(2,3) have "report = ReportAborted (demoted_report t sid mode reason gate)"
    by (auto simp: aborted_roundtrip_def read_report_at_def and_then_Inr)
  then show ?thesis
    by (simp add: validate_report_context_def checks_Inr bail_if_Inr report_target_id_def report_session_id_def
        report_delivery_mode_def demoted_report_def)
qed

lemma verified_context:
  fixes io :: "('io, 'p) report_io"
  assumes run: "verify_kept_or_demote io git exp_dir worktree baseline t sid mode w = (Inr outcome, w')"
    and roundtrip: "aborted_roundtrip io" and report: "read_report_at (ow_files w') (ri_codecs io) exp_dir = Inr (Some report)"
  shows "(validate_report_context report t sid mode :: ('io, 'p) load_error check) = Ok_unit"
proof -
  have demotion: ?thesis if "demote_implemented_to_aborted io exp_dir t sid mode r g w1 = (Ok_unit, w')" for r g w1
    using that roundtrip report by (rule demoted_context)
  from run report show ?thesis
    by (auto simp: verify_kept_or_demote_def Let_def then_do_Inr give_Inr
        split: sum.splits option.splits if_splits prod.splits dest: demotion)
qed

text \<open>What is assumed of serde for the sidecar.\<close>

definition provenance_roundtrip :: "('io, 'p) report_io \<Rightarrow> bool" where
  "provenance_roundtrip io \<longleftrightarrow>
     (\<forall>p json. ri_provenance_json io p = Inr json \<longrightarrow> parse_provenance (ri_codecs io) json = Inr p)"

lemma commit_recorded_read:
  assumes "commit_recorded io git settings exp_dir checkout t sid mode s s' fs p" "provenance_roundtrip io"
  shows "read_coordinator_provenance fs (ri_codecs io) exp_dir = Inr (Some p) \<and> provenance_validate_context p sid t mode = Ok_unit"
  using assms by (auto simp: commit_recorded_def provenance_roundtrip_def read_coordinator_provenance_def)

lemma run_one_skips:
  assumes "mt_delivery_mode t \<noteq> ConsensusIssue" "oe_create_dir_all e (target_exp_dir i t) (ow_files w) = Ok_unit"
    "read_baseline_source_sha (oe_io e) (ow_files w) (oi_session_results_dir i) = Inr baseline_sha"
    "resume_target_is_complete (ow_files w) (ri_codecs (oe_io e)) (target_exp_dir i t) t (oi_session_id i) baseline_sha"
  shows "run_one e (i\<lparr>oi_resume := True\<rparr>) t target_json w = (Ok_unit, w)"
  using assms by (simp add: run_one_def then_do_def lift_result_def resume_skips_def give_def target_exp_dir_def)

lemma run_one_report:
  fixes e :: "('s, 'io, 'p) optimizer_env"
  assumes "run_one e i t target_json w = (Ok_unit, w')" "mt_delivery_mode t \<noteq> ConsensusIssue"
    "resume_skips e i (target_exp_dir i t) t (ow_files w) = Inr False" "aborted_roundtrip (oe_io e)"
    "read_report_at (ow_files w') (ri_codecs (oe_io e)) (target_exp_dir i t) = Inr (Some report)"
  shows "(validate_report_context report (mt_id t) (oi_session_id i) (mt_delivery_mode t) :: ('io, 'p) load_error check) = Ok_unit
    \<and> (is_implemented report \<longrightarrow> (\<exists>s s' p. commit_recorded (oe_io e) (oe_git e) (oi_settings i) (target_exp_dir i t)
        (target_worktree i t) (mt_id t) (oi_session_id i) (mt_delivery_mode t) s s' (ow_files w') p))"
proof -
  from optimize_target_ok[OF run_one_worked[OF assms(1-3)]] obtain baseline w3 w4 outcome where
    commit: "coordinator_commit_if_kept (oe_io e) (oe_git e) (target_exp_dir i t) (target_worktree i t) (mt_id t) (oi_session_id i)
        (mt_delivery_mode t) (oi_settings i) w3 = (Ok_unit, w4)"
    and verify: "verify_kept_or_demote (oe_io e) (oe_git e) (target_exp_dir i t) (target_worktree i t) baseline (mt_id t)
        (oi_session_id i) (mt_delivery_mode t) w4 = (Inr outcome, w')"
    by blast
  show ?thesis
  proof (cases report)
    case (Implemented r)
    with assms(5) verify_kept[OF verify assms(4)] have "ow_files w' = ow_files w4" by simp
    with Implemented assms(5) coordinator_kept[OF commit assms(4)] verified_context[OF verify assms(4,5)] show ?thesis by auto
  qed (use verified_context[OF verify assms(4,5)] in \<open>simp add: is_implemented_simps\<close>)
qed

text \<open>C18: Resuming is idempotent. When the task of a target succeeded and left a report, of either outcome, then running it
  again in resume mode succeeds and changes nothing, neither files nor repositories, provided the archived
  baseline is readable and, for a landed target, is the parent that the sidecar records. Serde is assumed to
  read aborted reports and sidecars back as written.\<close>

theorem resume_after_run_is_noop:
  fixes e :: "('s, 'io, 'p) optimizer_env"
  assumes "run_one e i t target_json w = (Ok_unit, w')" "mt_delivery_mode t \<noteq> ConsensusIssue"
    "resume_skips e i (target_exp_dir i t) t (ow_files w) = Inr False"
    "aborted_roundtrip (oe_io e)" "provenance_roundtrip (oe_io e)"
    "read_report_at (ow_files w') (ri_codecs (oe_io e)) (target_exp_dir i t) = Inr (Some report)"
    "oe_create_dir_all e (target_exp_dir i t) (ow_files w') = Ok_unit"
    "read_baseline_source_sha (oe_io e) (ow_files w') (oi_session_results_dir i) = Inr baseline_sha"
    "\<And>p. is_implemented report \<Longrightarrow>
       read_coordinator_provenance (ow_files w') (ri_codecs (oe_io e)) (target_exp_dir i t) = Inr (Some p) \<Longrightarrow> cp_base_sha p = baseline_sha"
  shows "run_one e (i\<lparr>oi_resume := True\<rparr>) t target_json w' = (Ok_unit, w')"
proof (rule run_one_skips[OF assms(2,7,8)])
  note report = run_one_report[OF assms(1-4,6)]
  have "\<exists>p. read_coordinator_provenance (ow_files w') (ri_codecs (oe_io e)) (target_exp_dir i t) = Inr (Some p)
    \<and> provenance_validate_context p (oi_session_id i) (mt_id t) (mt_delivery_mode t) = Ok_unit" if "is_implemented report"
  proof -
    from report that obtain s s' p where "commit_recorded (oe_io e) (oe_git e) (oi_settings i) (target_exp_dir i t)
        (target_worktree i t) (mt_id t) (oi_session_id i) (mt_delivery_mode t) s s' (ow_files w') p" by blast
    from commit_recorded_read[OF this assms(5)] show ?thesis by (rule exI)
  qed
  with report assms(6,9)
  show "resume_target_is_complete (ow_files w') (ri_codecs (oe_io e)) (target_exp_dir i t) t (oi_session_id i) baseline_sha"
    by (auto simp: resume_target_is_complete_def)
qed

section \<open>Pruning and tallying\<close>

lemma path_join_inj:
  assumes "plain a" "plain b"
  shows "path_join dir a = path_join dir b \<longleftrightarrow> a = b"
proof -
  have "\<not> starts_with a ''/''" "\<not> starts_with b ''/''"
    using assms by (auto simp: plain_def starts_with_def prefix_def)
  then show ?thesis by (simp add: path_join_def)
qed

text \<open>What each entry of the listing may do: nothing unless it is a directory without an implemented report.\<close>

definition prunable :: "'io files \<Rightarrow> 'p codecs \<Rightarrow> string \<Rightarrow> string \<times> bool \<Rightarrow> bool" where
  "prunable fs cd dir entry \<longleftrightarrow>
     snd entry \<and> (\<forall>r. read_report_at fs cd (path_join dir (fst entry)) \<noteq> Inr (Some (Implemented r)))"

definition remove_all :: "('s, 'io) checkout_manager \<Rightarrow> string \<Rightarrow> (string \<times> bool) list \<Rightarrow> nat \<times> 's \<Rightarrow> nat \<times> 's" where
  "remove_all m root_dir = fold (\<lambda>entry (n, s). case cm_remove m (path_join root_dir (fst entry)) s of
     (r, s') \<Rightarrow> (if r = Inr True then n + 1 else n, s'))"

lemma prune_each_fold:
  "prune_each m cd root_dir dir es w n =
     (let (n', s') = remove_all m root_dir (filter (prunable (ow_files w) cd dir) es) (n, ow_repos w)
      in (n', w\<lparr>ow_repos := s'\<rparr>))"
  by (induction m cd root_dir dir es w n rule: prune_each.induct)
    (auto simp: prunable_def remove_all_def Let_def split: prod.splits sum.splits option.splits optimizer_report.splits if_splits)

lemma remove_fold_invariant:
  fixes m :: "('s, 'io) checkout_manager"
  assumes "\<And>entry s r s'. entry \<in> set es \<Longrightarrow> cm_remove m (path_join root_dir (fst entry)) s = (r, s') \<Longrightarrow> P s \<Longrightarrow> P s'" "P s"
  shows "case remove_all m root_dir es (n, s) of (n', s') \<Rightarrow> P s' \<and> n' \<le> n + length es"
  using assms unfolding remove_all_def
proof (induction es arbitrary: n s)
  case (Cons entry es)
  obtain r s1 where step: "cm_remove m (path_join root_dir (fst entry)) s = (r, s1)" by fastforce
  then have "P s1" using Cons.prems by (meson list.set_intros(1))
  with Cons.IH[of s1 "if r = Inr True then n + 1 else n"] Cons.prems(1) step show ?case
    by (fastforce split: prod.splits if_splits)
qed simp

text \<open>C19: Pruning never touches the clone of a landed target. Let a target have a valid report that says implemented. Every
  property of the repositories that survives the removal of any other path, such as the contents of that
  target's clone, holds after pruning when it held before; no file of the results changes, and at most as many
  clones are counted as dropped as there are entries. Entry names are file names.\<close>

theorem prune_keeps_landed:
  fixes m :: "('s, 'io) checkout_manager" and P :: "'s \<Rightarrow> bool" and w :: "('io, 's) opt_world"
  assumes "prune_aborted_experiments m cd listing root_dir l w = (Inr n, w')" "listing (optimize_dir l) = Entries es"
    "list_all (\<lambda>entry. plain (fst entry)) es" "plain target"
    "read_report_at (ow_files w) cd (experiment_dir l target) = Inr (Some (Implemented r))"
    "\<And>path s a s'. path \<noteq> path_join root_dir target \<Longrightarrow> cm_remove m path s = (a, s') \<Longrightarrow> P s \<Longrightarrow> P s'" "P (ow_repos w)"
  shows "P (ow_repos w') \<and> ow_files w' = ow_files w \<and> n \<le> length es"
proof -
  let ?es = "filter (prunable (ow_files w) cd (optimize_dir l)) es"
  have "path_join root_dir (fst entry) \<noteq> path_join root_dir target" if "entry \<in> set ?es" for entry
  proof -
    from that assms(3) have "plain (fst entry)" by (auto simp: list_all_iff)
    moreover from that assms(5) have "fst entry \<noteq> target" by (auto simp: prunable_def experiment_dir_def)
    ultimately show ?thesis using path_join_inj assms(4) by blast
  qed
  then have "case remove_all m root_dir ?es (0, ow_repos w) of (n', s') \<Rightarrow> P s' \<and> n' \<le> 0 + length ?es"
    using assms(6,7) by (intro remove_fold_invariant) blast+
  with assms(1,2)
  show ?thesis
    by (auto simp: prune_aborted_experiments_def prune_each_fold Let_def split: prod.splits intro: le_trans[OF _ length_filter_le])
qed

lemma prune_total:
  "listing (optimize_dir l) = Entries es \<Longrightarrow> \<exists>n w'. prune_aborted_experiments m cd listing root_dir l w = (Inr n, w')"
  by (simp add: prune_aborted_experiments_def split: prod.splits)

text \<open>Every target is counted once.\<close>

lemma tally_total: "ou_landed (tally fs cd l ts) + ou_aborted (tally fs cd l ts) + ou_routed_to_issue (tally fs cd l ts)
    = ou_total (tally fs cd l ts)"
proof -
  have "ou_landed (fold (tally_target fs cd l) ts out) + ou_aborted (fold (tally_target fs cd l) ts out)
      + ou_routed_to_issue (fold (tally_target fs cd l) ts out)
      = ou_landed out + ou_aborted out + ou_routed_to_issue out + length ts
    \<and> ou_total (fold (tally_target fs cd l) ts out) = ou_total out" for out
    by (induction ts arbitrary: out)
      (auto simp: tally_target_def Let_def split: sum.splits option.splits optimizer_report.splits)
  then show ?thesis by (simp add: tally_def outputs_default_def)
qed

section \<open>A sample task\<close>

text \<open>
  A clone is fresh (0), edited by the agent (1) or committed (2). The agent edits it and writes a report.
  There are no stale artifacts to remove.
\<close>

definition sha_of :: "char \<Rightarrow> string" where
  "sha_of c = replicate 40 c"

definition sample_git :: "(nat, unit) git_process" where
  "sample_git args env s =
     (let command = drop 2 args
      in if command = [''rev-parse'', ''HEAD''] then (Exited (Some 0) (sha_of (if s < 2 then CHR ''a'' else CHR ''b'')) [], s)
         else if command = [''rev-parse'', ''HEAD^''] then (Exited (Some 0) (sha_of (CHR ''a'')) [], s)
         else if command = [''status'', ''--porcelain''] then (Exited (Some 0) (if s = 1 then ''M lib.rs'' else []) [], s)
         else if take 1 command = [''commit''] then (if s = 1 then (Exited (Some 0) [] [], 2) else (Exited (Some 1) [] [], s))
         else (Exited (Some 0) [] [], s))"

definition sample_manager :: "(nat, unit) checkout_manager" where
  "sample_manager = \<lparr>cm_recreate = (\<lambda>_ _ _ _ s. (Ok_unit, 0)), cm_remove = (\<lambda>_ s. (Inr True, s))\<rparr>"

definition sample_aborted :: aborted_report where
  "sample_aborted = \<lparr>ar_session_id = ''s1'', ar_target_id = ''fix'', ar_delivery_mode = NormalPr, ar_reason = ''slow'',
     ar_failed_gate = None, ar_failing_tests = None\<rparr>"

definition sample_provenance :: coordinator_provenance where
  "sample_provenance = \<lparr>cp_session_id = ''s1'', cp_target_id = ''fix'', cp_delivery_mode = NormalPr, cp_base_sha = sha_of (CHR ''a''),
     cp_head_sha = sha_of (CHR ''b''), cp_commit_message = ''perf: optimize fix''\<rparr>"

definition sample_report_io :: "(unit, unit) report_io" where
  "sample_report_io = \<lparr>ri_write = (\<lambda>_ _. None), ri_remove = (\<lambda>_ _. False), ri_rename = (\<lambda>_ _ _. True),
     ri_codecs = sample_codecs\<lparr>parse_report := (\<lambda>raw. Inr (if raw = ''A'' @ nl then ReportAborted sample_aborted else Implemented sample_report)),
       parse_provenance := (\<lambda>_. Inr sample_provenance)\<rparr>,
     ri_parse_manifest = (\<lambda>_. Inr \<lparr>bm_source_sha = sha_of (CHR ''a''), bm_dirty = False, bm_cargo_version = ''c'', bm_build_flags = [],
       bm_archived_at = ''t'', bm_archived_path = ''/b''\<rparr>),
     ri_aborted_json = (\<lambda>r. if r = sample_aborted then Inr ''A'' else Inl ()), ri_implemented_json = (\<lambda>_. Inr ''I''),
     ri_provenance_json = (\<lambda>p. if p = sample_provenance then Inr ''P'' else Inl ()),
     ri_show = (\<lambda>_. ''e''), ri_quote = (\<lambda>s. s)\<rparr>"

definition sample_optimizer_env :: "(nat, unit, unit) optimizer_env" where
  "sample_optimizer_env = \<lparr>oe_io = sample_report_io, oe_git = sample_git, oe_manager = sample_manager,
     oe_create_dir_all = (\<lambda>_ _. Ok_unit), oe_target_json = (\<lambda>_. Inr ''T''), oe_parse_memory = (\<lambda>_. Inl ()),
     oe_parse_manifest = (\<lambda>txt. Inr \<lparr>cm_id = stem txt, cm_title = ''t'', cm_description = ''d'', cm_phases = [OptimizerPhase],
       cm_required = True\<rparr>), oe_doc_texts = (\<lambda>name. name), oe_render = (\<lambda>_ _. Inr ''prompt''),
     oe_invoke = (\<lambda>invocation w. (Inr (Some ''c1''),
       \<lparr>ow_files = (ow_files w)(''/data/s1/results/optimize/fix/optimizer-report.json'' := Content ''I''), ow_repos = 1\<rparr>))\<rparr>"

definition sample_inputs :: optimizer_inputs where
  "sample_inputs = \<lparr>oi_framework = sample_framework, oi_settings = sample_settings_with_prompts, oi_session_id = ''s1'',
     oi_session_results_dir = ''/data/s1/results'', oi_worktrees_root = ''/data/s1/worktrees'', oi_base_branch = ''main'',
     oi_resume = False, oi_source_checkout = ''/src'', oi_optimizer_memory = None\<rparr>"

definition sample_world :: "(unit, nat) opt_world" where
  "sample_world = \<lparr>ow_files = (\<lambda>p. if p = ''/data/s1/results/baseline/bin/manifest.json'' then Content ''M''
       else if starts_with p ''/op/context'' \<and> ends_with p ''.md'' then Content ''x'' else NotFound), ow_repos = 0\<rparr>"

abbreviation sample_task :: merged_target where
  "sample_task \<equiv> carry_target ''fam'' 0 sample_target"

lemma sample_task_simps: "mt_id sample_task = ''fix''" "mt_delivery_mode sample_task = NormalPr"
  by code_simp+

lemma sample_dirs: "target_exp_dir sample_inputs sample_task = ''/data/s1/results/optimize/fix''"
  "target_worktree sample_inputs sample_task = ''/data/s1/worktrees/fix''"
  by code_simp+

lemma sample_prepared:
  "prepare_prompt sample_optimizer_env sample_inputs ''/data/s1/worktrees/fix'' ''/data/s1/results/optimize/fix'' sample_task ''T''
     (ow_files sample_world) = Inr (''/op/prompts'', ''prompt'')"
  by code_simp

lemma sha_of_facts: "c \<in> {CHR ''a'', CHR ''b''} \<Longrightarrow> trim_ws (sha_of c) = sha_of c \<and> is_full_sha (sha_of c) \<and> length (sha_of c) = 40
    \<and> list_all is_ascii_hexdigit (sha_of c)"
  using trim_ws_solid[of "sha_of c"]
  by (auto simp: sha_of_def is_full_sha_def is_ascii_hexdigit_def solid_def list_all_length)

lemma sample_git_simps:
  "status_porcelain sample_git wt 1 = (Inr ''M lib.rs'', 1)" "add_all_with_env sample_git wt env 1 = (Ok_unit, 1)"
  "commit_with_message_and_env sample_git wt msg env 1 = (Ok_unit, 2)"
  "rev_parse_head sample_git wt 2 = (Inr (sha_of (CHR ''b'')), 2)" "rev_parse_head_parent sample_git wt 2 = (Inr (sha_of (CHR ''a'')), 2)"
  "git_rev_parse_head sample_git wt 0 = (Some (sha_of (CHR ''a'')), 0)" "git_rev_parse_head sample_git wt 2 = (Some (sha_of (CHR ''b'')), 2)"
  by (simp_all add: status_porcelain_def run_git_output_def git_in_def sample_git_def run_git_output_ok_def add_all_with_env_def
      run_git_envs_def exit_check_def commit_with_message_and_env_def rev_parse_head_def rev_parse_head_parent_def rev_parse_def
      then_do_def give_def git_rev_parse_head_def rev_parse_head_optional_def sha_of_facts bail_if_def
      trim_ws_solid[of "''M lib.rs''"] solid_def)

lemma sample_valid: "validate_optimizer_report (Implemented sample_report) = Ok_unit"
  "validate_coordinator_provenance sample_provenance = Ok_unit"
  "(validate_report_context (Implemented sample_report) ''fix'' ''s1'' NormalPr :: (unit, unit) load_error check) = Ok_unit"
proof -
  have "sha_of (CHR ''a'') \<noteq> sha_of (CHR ''b'')" by (simp add: sha_of_def)
  then show "validate_coordinator_provenance sample_provenance = Ok_unit"
    by (simp add: validate_coordinator_provenance_def provenance_validate_sha_def checks_Inr bail_if_Inr sample_provenance_def
        sha_of_facts ascii_ws_def ws2_def ws3_def)
qed (code_simp, simp add: validate_report_context_def checks_Inr bail_if_Inr report_target_id_def report_session_id_def
  report_delivery_mode_def sample_report_def)

lemma sample_io_simps: "ri_write sample_report_io fs path = None" "ri_implemented_json sample_report_io r = Inr ''I''"
  by (simp_all add: sample_report_io_def)

lemma sample_report_read:
  "fs (path_join dir ''optimizer-report.json'') = Content ''I''
     \<Longrightarrow> read_report_at fs (ri_codecs sample_report_io) dir = Inr (Some (Implemented sample_report))"
  by (simp add: read_report_at_def sample_report_io_def nl_def sample_valid)

lemma sample_provenance_write:
  "write_coordinator_provenance sample_report_io sample_git dir wt ''fix'' ''s1'' NormalPr (''perf: optimize '' @ ''fix'') \<lparr>ow_files = fs, ow_repos = 2\<rparr>
     = (Ok_unit, \<lparr>ow_files = fs(path_join dir ''coordinator-provenance.json'' := Content ''P''), ow_repos = 2\<rparr>)"
proof -
  have p: "\<lparr>cp_session_id = ''s1'', cp_target_id = ''fix'', cp_delivery_mode = NormalPr, cp_base_sha = sha_of (CHR ''a''),
     cp_head_sha = sha_of (CHR ''b''), cp_commit_message = ''perf: optimize '' @ ''fix''\<rparr> = sample_provenance"
    by (simp add: sample_provenance_def)
  show ?thesis
    unfolding write_coordinator_provenance_def then_do_def on_repos_def
    by (simp add: sample_git_simps p sample_valid write_file_def sample_report_io_def del: append_Cons append.simps)
qed

lemma sample_commit:
  "commit_changes sample_report_io sample_git dir wt ''fix'' ''s1'' NormalPr settings \<lparr>ow_files = fs, ow_repos = 1\<rparr>
     = (Ok_unit, \<lparr>ow_files = fs(path_join dir ''coordinator-provenance.json'' := Content ''P''), ow_repos = 2\<rparr>)"
  unfolding commit_changes_def Let_def or_demote_def on_repos_def
  by (simp add: sample_git_simps sample_provenance_write give_def del: append_Cons append.simps One_nat_def)

lemma sample_coordinator:
  assumes "fs (path_join dir ''optimizer-report.json'') = Content ''I''"
  shows "coordinator_commit_if_kept sample_report_io sample_git dir wt ''fix'' ''s1'' NormalPr settings \<lparr>ow_files = fs, ow_repos = 1\<rparr>
     = (Ok_unit, \<lparr>ow_files = fs(path_join dir ''implementation.md'' := Content (render_implementation_md sample_report ''I''),
         path_join dir ''coordinator-provenance.json'' := Content ''P''), ow_repos = 2\<rparr>)"
  using sample_report_read[of fs dir, OF assms] sample_commit
  by (simp add: coordinator_commit_if_kept_def sample_valid then_do_def rendered_with_def write_file_def sample_io_simps del: One_nat_def)

lemma sample_verify:
  assumes "fs (path_join dir ''optimizer-report.json'') = Content ''I''"
  shows "verify_kept_or_demote sample_report_io sample_git dir wt (Some (sha_of (CHR ''a''))) ''fix'' ''s1'' NormalPr
       \<lparr>ow_files = fs, ow_repos = 2\<rparr> = (Inr HeadAdvanced, \<lparr>ow_files = fs, ow_repos = 2\<rparr>)"
proof -
  have "sha_of (CHR ''a'') \<noteq> sha_of (CHR ''b'')" by (simp add: sha_of_def)
  then show ?thesis
    by (simp add: verify_kept_or_demote_def sample_report_read[of fs dir, OF assms] sample_valid sample_git_simps is_implemented_simps)
qed

definition sample_after :: "(unit, nat) opt_world" where
  "sample_after = \<lparr>ow_files = (ow_files sample_world)(''/data/s1/results/optimize/fix/prompt.md'' := Content ''prompt'',
     ''/data/s1/results/optimize/fix/optimizer-report.json'' := Content ''I'',
     ''/data/s1/results/optimize/fix/conversation-id'' := Content (''c1'' @ nl),
     ''/data/s1/results/optimize/fix/implementation.md'' := Content (render_implementation_md sample_report ''I''),
     ''/data/s1/results/optimize/fix/coordinator-provenance.json'' := Content ''P''), ow_repos = 2\<rparr>"

lemma sample_paths:
  "path_join ''/data/s1/results/optimize/fix'' ''prompt.md'' = ''/data/s1/results/optimize/fix/prompt.md''"
  "path_join ''/data/s1/results/optimize/fix'' ''optimizer-report.json'' = ''/data/s1/results/optimize/fix/optimizer-report.json''"
  "path_join ''/data/s1/results/optimize/fix'' ''conversation-id'' = ''/data/s1/results/optimize/fix/conversation-id''"
  "path_join ''/data/s1/results/optimize/fix'' ''implementation.md'' = ''/data/s1/results/optimize/fix/implementation.md''"
  "path_join ''/data/s1/results/optimize/fix'' ''coordinator-provenance.json'' = ''/data/s1/results/optimize/fix/coordinator-provenance.json''"
  "path_join ''/data/s1/results'' ''baseline/bin/manifest.json'' = ''/data/s1/results/baseline/bin/manifest.json''"
  by code_simp+

lemma sample_clear: "clear_optimizer_artifacts sample_report_io dir w = w" "remove_quiet sample_report_io path w = w"
  by (simp_all add: clear_optimizer_artifacts_def remove_quiet_def sample_report_io_def fold_invariant[where P = "\<lambda>w'. w' = w" and Q = "\<lambda>_. True"])

lemma sample_agent:
  "invoke_agent sample_optimizer_env ''/data/s1/results/optimize/fix'' invocation w
     = (Ok_unit, \<lparr>ow_files = (ow_files w)(''/data/s1/results/optimize/fix/optimizer-report.json'' := Content ''I'',
         ''/data/s1/results/optimize/fix/conversation-id'' := Content (''c1'' @ nl)), ow_repos = 1\<rparr>)"
  unfolding invoke_agent_def then_do_def in_context_def
  by (simp add: sample_optimizer_env_def sample_report_io_def write_file_def sample_paths del: One_nat_def)

lemma sample_optimized:
  "optimize_target sample_optimizer_env sample_inputs ''/data/s1/results/optimize/fix'' sample_task ''T'' sample_world = (Ok_unit, sample_after)"
proof -
  have env: "oe_io sample_optimizer_env = sample_report_io" "oe_git sample_optimizer_env = sample_git"
    "oe_manager sample_optimizer_env = sample_manager" "oi_session_id sample_inputs = ''s1''"
    by (simp_all add: sample_optimizer_env_def sample_inputs_def)
  have world: "sample_world\<lparr>ow_repos := 0\<rparr> = sample_world" "ow_repos sample_world = 0" by (simp_all add: sample_world_def)
  have "manage_checkout (cm_recreate sample_manager src wt branch base) sample_world
      = (Ok_unit :: (unit, unit) optimizer_error check, sample_world)" for src wt branch base
    by (simp add: manage_checkout_def sample_manager_def world)
  moreover have "write_file sample_report_io path body w = (Ok_unit, w\<lparr>ow_files := (ow_files w)(path := Content body)\<rparr>)" for path body
    and w :: "(unit, nat) opt_world" by (simp add: write_file_def sample_report_io_def)
  ultimately show ?thesis
    unfolding optimize_target_def Let_def env sample_dirs sample_task_simps then_do_def
    by (simp add: sample_git_simps world sample_clear lift_result_def sample_prepared sample_agent sample_coordinator sample_verify
        sample_paths give_def sample_after_def del: One_nat_def)
qed

lemma sample_run: "run_one sample_optimizer_env sample_inputs sample_task ''T'' sample_world = (Ok_unit, sample_after)"
proof -
  have "oe_create_dir_all sample_optimizer_env dir fs = Ok_unit" "\<not> oi_resume sample_inputs" for dir fs
    by (simp_all add: sample_optimizer_env_def sample_inputs_def)
  then show ?thesis
    by (simp add: run_one_def then_do_def lift_result_def sample_dirs sample_task_simps resume_skips_def sample_optimized)
qed

lemma sample_roundtrips: "aborted_roundtrip (oe_io sample_optimizer_env)" "provenance_roundtrip (oe_io sample_optimizer_env)"
  by (auto simp: aborted_roundtrip_def provenance_roundtrip_def sample_optimizer_env_def sample_report_io_def split: if_splits)

lemma sample_facts:
  "mt_delivery_mode sample_task \<noteq> ConsensusIssue"
  "resume_skips sample_optimizer_env sample_inputs (target_exp_dir sample_inputs sample_task) sample_task (ow_files sample_world) = Inr False"
  "read_report_at (ow_files sample_after) (ri_codecs (oe_io sample_optimizer_env)) (target_exp_dir sample_inputs sample_task)
     = Inr (Some (Implemented sample_report))"
proof -
  have "ow_files sample_after (path_join ''/data/s1/results/optimize/fix'' ''optimizer-report.json'') = Content ''I''"
    by (simp add: sample_after_def sample_paths)
  from sample_report_read[of "ow_files sample_after", OF this]
  show "read_report_at (ow_files sample_after) (ri_codecs (oe_io sample_optimizer_env)) (target_exp_dir sample_inputs sample_task)
     = Inr (Some (Implemented sample_report))" by (simp add: sample_dirs sample_optimizer_env_def)
qed (simp_all add: sample_task_simps resume_skips_def sample_inputs_def)

theorem landed_report_is_committed_witness:
  "\<exists>s p. commit_recorded sample_report_io sample_git sample_settings_with_prompts ''/data/s1/results/optimize/fix''
     ''/data/s1/worktrees/fix'' ''fix'' ''s1'' NormalPr 1 s (ow_files sample_after) p"
proof -
  have fields: "oe_io sample_optimizer_env = sample_report_io" "oe_git sample_optimizer_env = sample_git"
    "oi_settings sample_inputs = sample_settings_with_prompts" "oi_session_id sample_inputs = ''s1''"
    by (simp_all add: sample_optimizer_env_def sample_inputs_def)
  have invoked: "ow_repos w2 = 1" if "oe_invoke sample_optimizer_env invocation w1 = (a, w2)" for invocation w1 a w2
    using that by (auto simp: sample_optimizer_env_def)
  from landed_report_is_committed[OF sample_run sample_facts(1,2) sample_roundtrips(1) sample_facts(3)]
  show ?thesis unfolding fields sample_dirs sample_task_simps using invoked by metis
qed

theorem resume_after_run_is_noop_witness:
  "run_one sample_optimizer_env (sample_inputs\<lparr>oi_resume := True\<rparr>) sample_task ''T'' sample_after = (Ok_unit, sample_after)"
proof (rule resume_after_run_is_noop[OF sample_run sample_facts(1,2) sample_roundtrips sample_facts(3)])
  show "oe_create_dir_all sample_optimizer_env (target_exp_dir sample_inputs sample_task) (ow_files sample_after) = Ok_unit"
    by (simp add: sample_optimizer_env_def)
  show "read_baseline_source_sha (oe_io sample_optimizer_env) (ow_files sample_after) (oi_session_results_dir sample_inputs)
      = Inr (sha_of (CHR ''a''))"
    by (simp add: read_baseline_source_sha_def sample_inputs_def sample_paths sample_after_def sample_world_def sample_optimizer_env_def
        sample_report_io_def validate_baseline_manifest_def sha_of_facts bail_if_def)
  show "cp_base_sha p = sha_of (CHR ''a'')"
    if "read_coordinator_provenance (ow_files sample_after) (ri_codecs (oe_io sample_optimizer_env))
        (target_exp_dir sample_inputs sample_task) = Inr (Some p)" for p
    using that by (auto simp: read_coordinator_provenance_def sample_optimizer_env_def sample_report_io_def and_then_Inr
        sample_provenance_def split: read_outcome.splits)
qed

theorem prune_keeps_landed_witness:
  "snd (prune_aborted_experiments (sample_manager\<lparr>cm_remove := (\<lambda>path s. (Inr True, if path = ''/w/fix'' then 0 else s))\<rparr>)
     (ri_codecs sample_report_io) (\<lambda>_. Entries [(''fix'', True), (''old'', True)]) ''/w'' (session_layout_new ''/data'' ''s1'') sample_after)
   = sample_after"
proof -
  let ?m = "sample_manager\<lparr>cm_remove := (\<lambda>path s. (Inr True, if path = ''/w/fix'' then 0 else s))\<rparr>"
  let ?l = "session_layout_new ''/data'' ''s1''" and ?es = "[(''fix'', True), (''old'', True)]"
  obtain n w' where run: "prune_aborted_experiments ?m (ri_codecs sample_report_io) (\<lambda>_. Entries ?es) ''/w'' ?l sample_after
      = (Inr n :: (unit, unit) optimizer_error + nat, w')"
    using prune_total[of "\<lambda>_. Entries ?es"] by blast
  have dir: "experiment_dir ?l ''fix'' = ''/data/s1/results/optimize/fix''" "path_join ''/w'' ''fix'' = ''/w/fix''" by code_simp+
  have report: "read_report_at (ow_files sample_after) (ri_codecs sample_report_io) (experiment_dir ?l ''fix'')
      = Inr (Some (Implemented sample_report))"
    using sample_facts(3) by (simp add: dir(1) sample_dirs sample_optimizer_env_def)
  have "ow_repos w' = 2 \<and> ow_files w' = ow_files sample_after \<and> n \<le> length ?es"
    by (rule prune_keeps_landed[OF run refl _ _ report, where P = "\<lambda>s. s = 2"])
      (auto simp: plain_def dir sample_after_def split: if_splits)
  then have "w' = sample_after" by (simp add: sample_after_def)
  with run show ?thesis by simp
qed

end
