(* ===== verification/Benching.thy ===== *)
theory Benching
  imports Loader
begin

text \<open>
  The benchmark phases: the client of the \<open>stacks-bench\<close> binary (\<open>session/bench.rs\<close>), cargo
  (\<open>session/cargo.rs\<close>), the calibration of the baseline per target (\<open>session/calibration.rs\<close>) and the
  benchmark of each change (\<open>session/bench_experiments.rs\<close>). Processes and the answers of the file
  system are arguments. The theorem says that what the two phases measure can be compared.
\<close>

section \<open>Processes\<close>

record command =
  co_program :: string
  co_cwd :: "string option"
  co_args :: "string list"
  co_stdout :: "string option"
  co_stderr :: "string option"

text \<open>
  The machine: answers about the files as they are, and operations that return the files after them. A
  process ends with an exit code, or was killed; \<open>mc_output\<close> captures its standard output. Opening a file
  for writing creates its parent and empties it.
\<close>

record 'io machine =
  mc_is_file :: "string \<Rightarrow> 'io files \<Rightarrow> bool"
  mc_exists :: "string \<Rightarrow> 'io files \<Rightarrow> bool"
  mc_create_dir_all :: "string \<Rightarrow> 'io files \<Rightarrow> 'io + unit"
  mc_lock :: "string \<Rightarrow> 'io files \<Rightarrow> 'io + unit"
  mc_open_write :: "string \<Rightarrow> 'io files \<Rightarrow> 'io + unit"
  mc_spawn :: "command \<Rightarrow> 'io files \<Rightarrow> ('io + int option) \<times> 'io files"
  mc_output :: "command \<Rightarrow> 'io files \<Rightarrow> ('io + int option \<times> string) \<times> 'io files"
  mc_copy :: "string \<Rightarrow> string \<Rightarrow> 'io files \<Rightarrow> ('io + unit) \<times> 'io files"
  mc_set_executable :: "string \<Rightarrow> 'io files \<Rightarrow> 'io + unit"
  mc_write :: "string \<Rightarrow> string \<Rightarrow> 'io files \<Rightarrow> ('io + unit) \<times> 'io files"

datatype ('io, 'p) bench_error =
    BenchIo 'io
  | StrictMissing string
  | StrictUnset
  | BenchExit "string list" "int option"
  | CargoBuildFailed string "int option"
  | BenchParse string 'p
  | BenchNotFound string
  | NoRunId string
  | NoReplay string
  | NoInvocations string
  | RunIdsInvalid string run_ids_error
  | RunIdsSerialize string 'p

type_synonym ('io, 'p, 'a) bench_step = "'io files \<Rightarrow> (('io, 'p) bench_error + 'a) \<times> 'io files"

definition ask :: "('io files \<Rightarrow> 'io + 'a) \<Rightarrow> ('io, 'p, 'a) bench_step" where
  "ask q fs = (with_context BenchIo (q fs), fs)"

definition open_for_write :: "'io machine \<Rightarrow> string \<Rightarrow> ('io, 'p, unit) bench_step" where
  "open_for_write m path = then_do (ask (mc_open_write m path)) (\<lambda>_ fs. (Ok_unit, fs(path := Content [])))"

definition open_optional :: "'io machine \<Rightarrow> string option \<Rightarrow> ('io, 'p, unit) bench_step" where
  "open_optional m path = (case path of Some p \<Rightarrow> open_for_write m p | None \<Rightarrow> give ())"

fun map_do :: "('a \<Rightarrow> 's \<Rightarrow> ('e + 'b) \<times> 's) \<Rightarrow> 'a list \<Rightarrow> 's \<Rightarrow> ('e + 'b list) \<times> 's" where
  "map_do f [] = give []"
| "map_do f (x # xs) = then_do (f x) (\<lambda>y. then_do (map_do f xs) (\<lambda>ys. give (y # ys)))"

section \<open>The client\<close>

record invoke_options =
  io_args :: "string list"
  io_stdout :: "string option"
  io_stderr :: "string option"
  io_lock :: "string option"

record ('io, 'p) bench_client =
  bc_invoke :: "invoke_options \<Rightarrow> ('io, 'p, unit) bench_step"
  bc_total_duration_us :: "int \<Rightarrow> ('io, 'p, int option) bench_step"

record stacks_bench_cli =
  sc_release_bin :: "string option"
  sc_data_dir :: string
  sc_cargo_cwd :: string
  sc_strict :: bool

definition strict_archived :: "string \<Rightarrow> string \<Rightarrow> string \<Rightarrow> stacks_bench_cli" where
  "strict_archived release_bin data_dir cargo_cwd =
     \<lparr>sc_release_bin = Some release_bin, sc_data_dir = data_dir, sc_cargo_cwd = cargo_cwd, sc_strict = True\<rparr>"

definition build_cmd ::
  "'io machine \<Rightarrow> stacks_bench_cli \<Rightarrow> 'io files \<Rightarrow> ('io, 'p) bench_error + string \<times> string option \<times> string list" where
  "build_cmd m cli fs =
     (let cargo = Inr (''cargo'', Some (sc_cargo_cwd cli), [''stacks-bench''])
      in case sc_release_bin cli of
           Some p \<Rightarrow> if mc_is_file m p fs then Inr (p, None, []) else if sc_strict cli then Inl (StrictMissing p) else cargo
         | None \<Rightarrow> if sc_strict cli then Inl StrictUnset else cargo)"

definition ensure_data_dir :: "'io machine \<Rightarrow> stacks_bench_cli \<Rightarrow> ('io, 'p, unit) bench_step" where
  "ensure_data_dir m cli = ask (mc_create_dir_all m (sc_data_dir cli))"

definition cli_command :: "stacks_bench_cli \<Rightarrow> string \<times> string option \<times> string list \<Rightarrow> invoke_options \<Rightarrow> command" where
  "cli_command cli base opts =
     (case base of (program, cwd, args) \<Rightarrow>
        \<lparr>co_program = program, co_cwd = cwd, co_args = args @ [''--db'', sc_data_dir cli, ''--json''] @ io_args opts,
         co_stdout = io_stdout opts, co_stderr = io_stderr opts\<rparr>)"

definition cli_invoke :: "'io machine \<Rightarrow> stacks_bench_cli \<Rightarrow> invoke_options \<Rightarrow> ('io, 'p, unit) bench_step" where
  "cli_invoke m cli opts =
     then_do (ensure_data_dir m cli) (\<lambda>_.
     then_do (case io_lock opts of Some p \<Rightarrow> ask (mc_lock m p) | None \<Rightarrow> give ()) (\<lambda>_.
     then_do (\<lambda>fs. (build_cmd m cli fs, fs)) (\<lambda>base.
     then_do (open_optional m (io_stdout opts)) (\<lambda>_.
     then_do (open_optional m (io_stderr opts)) (\<lambda>_.
     then_do (in_context BenchIo (mc_spawn m (cli_command cli base opts))) (\<lambda>code.
       if code = Some 0 then give () else fail_with (BenchExit (io_args opts) code)))))))"

text \<open>The envelope of \<open>bench show\<close>: \<open>data\<close>, its \<open>summary\<close> and its duration may each be missing.\<close>

type_synonym bench_show = "int option option option"

definition cli_total_duration_us ::
  "'io machine \<Rightarrow> (string \<Rightarrow> 'p + bench_show) \<Rightarrow> stacks_bench_cli \<Rightarrow> (int \<Rightarrow> string) \<Rightarrow> int \<Rightarrow> ('io, 'p, int option) bench_step" where
  "cli_total_duration_us m parse cli show_i64 run_id =
     (let opts = \<lparr>io_args = [''bench'', ''show'', ''--run-id'', show_i64 run_id], io_stdout = None, io_stderr = None, io_lock = None\<rparr>
      in then_do (ensure_data_dir m cli) (\<lambda>_.
         then_do (\<lambda>fs. (build_cmd m cli fs, fs)) (\<lambda>base.
         then_do (in_context BenchIo (mc_output m (cli_command cli base opts))) (\<lambda>(code, out).
           if code \<noteq> Some 0 then give None
           else (\<lambda>fs. (and_then (with_context (BenchParse ''bench show'') (parse out)) (\<lambda>envelope.
                  Inr (Option.bind (Option.bind envelope (\<lambda>summary. summary)) (\<lambda>duration. duration))), fs))))))"

definition stacks_bench_client ::
  "'io machine \<Rightarrow> (string \<Rightarrow> 'p + bench_show) \<Rightarrow> (int \<Rightarrow> string) \<Rightarrow> stacks_bench_cli \<Rightarrow> ('io, 'p) bench_client" where
  "stacks_bench_client m parse show_i64 cli =
     \<lparr>bc_invoke = cli_invoke m cli, bc_total_duration_us = cli_total_duration_us m parse cli show_i64\<rparr>"

definition stacks_bench_for ::
  "'io machine \<Rightarrow> (string \<Rightarrow> 'p + bench_show) \<Rightarrow> (int \<Rightarrow> string) \<Rightarrow> string \<Rightarrow> string \<Rightarrow> string \<Rightarrow> ('io, 'p) bench_client" where
  "stacks_bench_for m parse show_i64 binary data_dir cargo_cwd =
     stacks_bench_client m parse show_i64
       \<lparr>sc_release_bin = Some binary, sc_data_dir = data_dir, sc_cargo_cwd = cargo_cwd, sc_strict = False\<rparr>"

text \<open>\<open>Value::as_i64\<close>.\<close>

definition json_as_i64 :: "json \<Rightarrow> int option" where
  "json_as_i64 v = (case v of JInt i \<Rightarrow> if - (2 ^ 63) \<le> i \<and> i < 2 ^ 63 then Some i else None | _ \<Rightarrow> None)"

definition extract_run_id :: "(string \<Rightarrow> 'p + json) \<Rightarrow> string \<Rightarrow> 'io files \<Rightarrow> ('io, 'p) bench_error + int" where
  "extract_run_id parse path fs =
     (case fs path of
        NotFound \<Rightarrow> Inl (BenchNotFound path)
      | IoFailed e \<Rightarrow> Inl (BenchIo e)
      | Content raw \<Rightarrow>
          and_then (with_context (BenchParse path) (parse raw)) (\<lambda>v.
            case Option.bind (Option.bind (json_get v ''data'') (\<lambda>data. json_get data ''run_id'')) json_as_i64 of
              Some i \<Rightarrow> Inr i | None \<Rightarrow> Inl (NoRunId path)))"

section \<open>Cargo\<close>

definition build_release :: "'io machine \<Rightarrow> string \<Rightarrow> string \<Rightarrow> string \<Rightarrow> ('io, 'p, unit) bench_step" where
  "build_release m worktree stdout stderr =
     then_do (open_for_write m stdout) (\<lambda>_.
     then_do (open_for_write m stderr) (\<lambda>_.
     then_do (in_context BenchIo (mc_spawn m
       \<lparr>co_program = ''cargo'', co_cwd = Some worktree, co_args = [''build'', ''--release'', ''-p'', ''stacks-bench''],
        co_stdout = Some stdout, co_stderr = Some stderr\<rparr>)) (\<lambda>code.
       if code = Some 0 then give () else fail_with (CargoBuildFailed worktree code))))"

definition cargo_clean :: "'io machine \<Rightarrow> string \<Rightarrow> string \<Rightarrow> string \<Rightarrow> ('io, 'p, unit) bench_step" where
  "cargo_clean m worktree stdout stderr =
     then_do (open_for_write m stdout) (\<lambda>_.
     then_do (open_for_write m stderr) (\<lambda>_ fs.
       (Ok_unit, snd (mc_spawn m \<lparr>co_program = ''cargo'', co_cwd = Some worktree, co_args = [''clean''],
          co_stdout = Some stdout, co_stderr = Some stderr\<rparr> fs))))"

definition worktree_release_bin :: "string \<Rightarrow> string" where
  "worktree_release_bin worktree = path_join (path_join (path_join worktree ''target'') ''release'') ''stacks-bench''"

section \<open>Invocations\<close>

definition strip_hex_prefix :: "string \<Rightarrow> string" where
  "strip_hex_prefix s = (if starts_with s ''0x'' then drop 2 s else if starts_with s ''0X'' then drop 2 s else s)"

definition profiler_flags :: "profiler_mode \<Rightarrow> string list" where
  "profiler_flags mode = (case mode of Rich \<Rightarrow> [])"

definition build_invocation_args :: "bench_invocation \<Rightarrow> string list" where
  "build_invocation_args iv =
     [''--repetitions'', show_nat (bi_repetitions iv), ''--warmup'', show_nat (bi_warmup iv)]
     @ (case bi_samples iv of
          Txids txids \<Rightarrow> concat (map (\<lambda>tx. [''--txid'', strip_hex_prefix tx]) txids)
        | Blocks blocks \<Rightarrow> concat (map (\<lambda>b. [''--block'', strip_hex_prefix b]) blocks)
        | BlockRange start_at count \<Rightarrow> [''--start-at'', show_nat start_at, ''--count'', show_nat count])
     @ profiler_flags (bi_profiler iv)"

definition require_invocations :: "merged_target \<Rightarrow> ('io, 'p) bench_error + bench_invocation list" where
  "require_invocations t =
     (case mt_verification_replay t of
        None \<Rightarrow> Inl (NoReplay (mt_id t))
      | Some vr \<Rightarrow> if vr_invocations vr = [] then Inl (NoInvocations (mt_id t)) else Inr (vr_invocations vr))"

text \<open>What both phases share of their surroundings.\<close>

record ('io, 'p) bench_externals =
  bx_machine :: "'io machine"
  bx_parse_json :: "string \<Rightarrow> 'p + json"
  bx_ids_json :: "invocation_run_ids \<Rightarrow> 'p + string"
  bx_codecs :: "'p codecs"
  bx_show :: "('io, 'p) load_error \<Rightarrow> string"

definition write_run_ids ::
  "('io, 'p) bench_externals \<Rightarrow> string \<Rightarrow> string \<Rightarrow> invocation_run_ids \<Rightarrow> ('io, 'p, unit) bench_step" where
  "write_run_ids x path target_id ids =
     then_do (\<lambda>fs. (with_context (RunIdsSerialize target_id) (bx_ids_json x ids), fs)) (\<lambda>json.
       in_context BenchIo (mc_write (bx_machine x) path (json @ [CHR 0x0A])))"

section \<open>Calibration\<close>

record ('io, 'p) calibration_inputs =
  ci_layout :: session_layout
  ci_bench :: "('io, 'p) bench_client"
  ci_source_dir :: string
  ci_network :: string
  ci_shadow_dir_root :: "string option"
  ci_bench_lock :: string

definition calibration_args :: "('io, 'p) calibration_inputs \<Rightarrow> merged_target \<Rightarrow> bench_invocation \<Rightarrow> string list" where
  "calibration_args i t iv =
     [''bench'', ''run'', ''--source'', ci_source_dir i, ''--network'', ci_network i, ''--name'',
      ''baseline-'' @ mt_id t @ ''-'' @ bi_id iv]
     @ (case ci_shadow_dir_root i of Some sd \<Rightarrow> [''--shadow-dir-root'', sd] | None \<Rightarrow> [])
     @ build_invocation_args iv"

definition calibration_invoke_one ::
  "('io, 'p) bench_externals \<Rightarrow> ('io, 'p) calibration_inputs \<Rightarrow> merged_target \<Rightarrow> bench_invocation \<Rightarrow> ('io, 'p, int) bench_step" where
  "calibration_invoke_one x i t iv =
     (let json = verify_baseline_bench_run_json (ci_layout i) (mt_id t) (bi_id iv)
      in then_do (ask (mc_create_dir_all (bx_machine x) (verify_baseline_invocation_dir (ci_layout i) (mt_id t) (bi_id iv)))) (\<lambda>_.
         then_do (bc_invoke (ci_bench i) \<lparr>io_args = calibration_args i t iv, io_stdout = Some json,
           io_stderr = Some (verify_baseline_bench_run_stderr (ci_layout i) (mt_id t) (bi_id iv)),
           io_lock = Some (ci_bench_lock i)\<rparr>) (\<lambda>_ fs.
         (extract_run_id (bx_parse_json x) json fs, fs))))"

definition run_id_entry :: "('io, 'p, int) bench_step \<Rightarrow> bench_invocation \<Rightarrow> ('io, 'p, invocation_run_id) bench_step" where
  "run_id_entry m iv = then_do m (\<lambda>run_id. give \<lparr>ir_invocation_id = bi_id iv, ir_run_id = run_id\<rparr>)"

definition calibrate_target ::
  "('io, 'p) bench_externals \<Rightarrow> ('io, 'p) calibration_inputs \<Rightarrow> merged_target \<Rightarrow> ('io, 'p, invocation_run_ids) bench_step" where
  "calibrate_target x i t =
     (case mt_verification_replay t of
        None \<Rightarrow> fail_with (NoReplay (mt_id t))
      | Some vr \<Rightarrow>
          then_do (map_do (\<lambda>iv. run_id_entry (calibration_invoke_one x i t iv) iv) (vr_invocations vr)) (\<lambda>ids.
          then_do (\<lambda>fs. (with_context (RunIdsInvalid (mt_id t)) (validate_invocation_run_ids ids), fs)) (\<lambda>_.
          then_do (ask (mc_create_dir_all (bx_machine x) (verify_target_dir (ci_layout i) (mt_id t)))) (\<lambda>_.
          then_do (write_run_ids x (verify_baseline_run_ids_json (ci_layout i) (mt_id t)) (mt_id t) ids) (\<lambda>_. give ids)))))"

fun calibration_run ::
  "('io, 'p) bench_externals \<Rightarrow> ('io, 'p) calibration_inputs \<Rightarrow> merged_target list \<Rightarrow> (string, invocation_run_ids) btree_map
     \<Rightarrow> ('io, 'p, (string, invocation_run_ids) btree_map) bench_step" where
  "calibration_run x i [] out = give out"
| "calibration_run x i (t # ts) out =
     (if mt_delivery_mode t \<noteq> NormalPr then calibration_run x i ts out
      else then_do (calibrate_target x i t) (\<lambda>ids. calibration_run x i ts (bt_insert (mt_id t) ids out)))"

section \<open>Experiments\<close>

record ('io, 'p) bench_inputs =
  xi_layout :: session_layout
  xi_worktrees_root :: string
  xi_source_dir :: string
  xi_network :: string
  xi_shadow_dir_root :: "string option"
  xi_bench_lock :: string
  xi_skip_cargo_clean :: bool
  xi_bench_for_target :: "string \<Rightarrow> ('io, 'p) bench_client"

datatype target_outcome = Benched "int list" | SkippedTarget string

definition mode_text :: "delivery_mode \<Rightarrow> string" where
  "mode_text m =
     (case m of NormalPr \<Rightarrow> ''normal_pr'' | ConsensusPocPr \<Rightarrow> ''consensus_poc_pr'' | ConsensusIssue \<Rightarrow> ''consensus_issue'')"

definition static_skip_reason ::
  "('io, 'p) bench_externals \<Rightarrow> ('io, 'p) bench_inputs \<Rightarrow> merged_target \<Rightarrow> 'io files \<Rightarrow> string option" where
  "static_skip_reason x i t fs =
     (if \<not> mt_bench_eligible t then Some (''not bench_eligible (delivery_mode='' @ mode_text (mt_delivery_mode t) @ '')'')
      else if mc_exists (bx_machine x) (path_join (experiment_dir (xi_layout i) (mt_id t)) ''consensus-issue.md'') fs
      then Some ''consensus-issue (no optimizer ran)''
      else case read_optimizer_report_for_target fs (bx_codecs x) (xi_layout i) (mt_id t) (mt_delivery_mode t) of
        Inr (Some (Implemented _)) \<Rightarrow> None
      | Inr (Some (ReportAborted _)) \<Rightarrow> Some ''aborted (optimizer report outcome=aborted)''
      | Inr None \<Rightarrow> Some ''aborted (no optimizer-report.json on disk)''
      | Inl e \<Rightarrow> Some (''aborted (optimizer-report error: '' @ bx_show x e @ '')''))"

definition build_one ::
  "('io, 'p) bench_externals \<Rightarrow> ('io, 'p) bench_inputs \<Rightarrow> merged_target \<Rightarrow> ('io, 'p, target_outcome) bench_step" where
  "build_one x i t fs =
     (case static_skip_reason x i t fs of
        Some reason \<Rightarrow> (Inr (SkippedTarget reason), fs)
      | None \<Rightarrow>
          (let m = bx_machine x; worktree = path_join (xi_worktrees_root i) (mt_id t);
               exp_dir = experiment_dir (xi_layout i) (mt_id t); bin_dir = path_join exp_dir ''bin'';
               copied = path_join bin_dir ''stacks-bench''
           in then_do (ask (mc_create_dir_all m exp_dir)) (\<lambda>_.
              then_do (build_release m worktree (path_join exp_dir ''cargo-build.log'') (path_join exp_dir ''cargo-build.stderr.log'')) (\<lambda>_.
              then_do (ask (mc_create_dir_all m bin_dir)) (\<lambda>_.
              then_do (in_context BenchIo (mc_copy m (worktree_release_bin worktree) copied)) (\<lambda>_.
              then_do (ask (mc_set_executable m copied)) (\<lambda>_.
              then_do (if xi_skip_cargo_clean i then give ()
                       else cargo_clean m worktree (path_join exp_dir ''cargo-clean.log'') (path_join exp_dir ''cargo-clean.stderr.log'')) (\<lambda>_.
              give (Benched []))))))) fs))"

definition candidate_args :: "('io, 'p) bench_inputs \<Rightarrow> merged_target \<Rightarrow> bench_invocation \<Rightarrow> string list" where
  "candidate_args i t iv =
     [''bench'', ''run'', ''--source'', xi_source_dir i, ''--network'', xi_network i, ''--name'',
      ''candidate-'' @ mt_id t @ ''-'' @ bi_id iv]
     @ (case xi_shadow_dir_root i of Some sd \<Rightarrow> [''--shadow-dir-root'', sd] | None \<Rightarrow> [])
     @ build_invocation_args iv"

definition candidate_invoke_one ::
  "('io, 'p) bench_externals \<Rightarrow> ('io, 'p) bench_inputs \<Rightarrow> ('io, 'p) bench_client \<Rightarrow> merged_target \<Rightarrow> bench_invocation
     \<Rightarrow> ('io, 'p, int) bench_step" where
  "candidate_invoke_one x i bench t iv =
     (let json = experiment_candidate_bench_run_json (xi_layout i) (mt_id t) (bi_id iv)
      in then_do (ask (mc_create_dir_all (bx_machine x) (experiment_candidate_invocation_dir (xi_layout i) (mt_id t) (bi_id iv)))) (\<lambda>_.
         then_do (bc_invoke bench \<lparr>io_args = candidate_args i t iv, io_stdout = Some json,
           io_stderr = Some (experiment_candidate_bench_run_stderr (xi_layout i) (mt_id t) (bi_id iv)),
           io_lock = Some (xi_bench_lock i)\<rparr>) (\<lambda>_ fs.
         (extract_run_id (bx_parse_json x) json fs, fs))))"

definition bench_one ::
  "('io, 'p) bench_externals \<Rightarrow> ('io, 'p) bench_inputs \<Rightarrow> merged_target \<Rightarrow> ('io, 'p, target_outcome) bench_step" where
  "bench_one x i t fs =
     (let bin_path = path_join (path_join (experiment_dir (xi_layout i) (mt_id t)) ''bin'') ''stacks-bench''
      in if \<not> mc_is_file (bx_machine x) bin_path fs then (Inr (SkippedTarget (''no binary at '' @ bin_path)), fs)
         else then_do (\<lambda>fs. (require_invocations t, fs)) (\<lambda>invocations.
              then_do (map_do (\<lambda>iv. run_id_entry (candidate_invoke_one x i (xi_bench_for_target i bin_path) t iv) iv) invocations) (\<lambda>ids.
              then_do (\<lambda>fs. (with_context (RunIdsInvalid (mt_id t)) (validate_invocation_run_ids ids), fs)) (\<lambda>_.
              then_do (write_run_ids x (experiment_candidate_run_ids_json (xi_layout i) (mt_id t)) (mt_id t) ids) (\<lambda>_.
              give (Benched (map ir_run_id ids)))))) fs)"

definition bench_phase_a ::
  "('io, 'p) bench_externals \<Rightarrow> ('io, 'p) bench_inputs \<Rightarrow> merged_target \<Rightarrow> ('io, 'p, string \<times> target_outcome) bench_step" where
  "bench_phase_a x i t = then_do (build_one x i t) (\<lambda>outcome. give (mt_id t, outcome))"

definition bench_phase_b ::
  "('io, 'p) bench_externals \<Rightarrow> ('io, 'p) bench_inputs \<Rightarrow> merged_target \<times> string \<times> target_outcome
     \<Rightarrow> ('io, 'p, string \<times> target_outcome) bench_step" where
  "bench_phase_b x i tb =
     (case tb of (t, target_id, outcome) \<Rightarrow>
        (case outcome of
           SkippedTarget _ \<Rightarrow> give (target_id, outcome)
         | Benched _ \<Rightarrow> then_do (bench_one x i t) (\<lambda>outcome'. give (target_id, outcome'))))"

definition bench_experiments_run ::
  "('io, 'p) bench_externals \<Rightarrow> ('io, 'p) bench_inputs \<Rightarrow> merged_target list \<Rightarrow> ('io, 'p, (string \<times> target_outcome) list) bench_step" where
  "bench_experiments_run x i targets =
     then_do (map_do (bench_phase_a x i) targets) (\<lambda>outcomes.
       map_do (bench_phase_b x i) (zip targets outcomes))"

section \<open>Facts\<close>

lemma map_do_Inr:
  "map_do f xs s = (Inr ys, s') \<Longrightarrow> list_all2 (\<lambda>x y. \<exists>s1 s2. f x s1 = (Inr y, s2)) xs ys"
  by (induction xs arbitrary: s ys) (auto simp: then_do_Inr give_Inr)

lemma run_id_entries:
  assumes "map_do (\<lambda>iv. run_id_entry (m iv) iv) ivs s = (Inr ids, s')"
  shows "map ir_invocation_id ids = map bi_id ivs"
  using map_do_Inr[OF assms] by (induction ivs ids rule: list_all2_induct) (auto simp: run_id_entry_def then_do_Inr give_Inr)

lemma calibrate_target_ok:
  assumes "calibrate_target x i t fs = (Inr ids, fs')"
  obtains vr where "mt_verification_replay t = Some vr" "map ir_invocation_id ids = map bi_id (vr_invocations vr)"
    "validate_invocation_run_ids ids = Ok_unit"
  using assms by (auto simp: calibrate_target_def then_do_Inr give_Inr dest!: run_id_entries split: option.splits)

text \<open>The calibration keeps one entry per normal target, and entries under other ids.\<close>

lemma calibration_run_get:
  assumes "calibration_run x i ts out fs = (Inr out', fs')" "bt_invar out" "distinct (map mt_id ts)"
  shows "(\<forall>k. k \<notin> mt_id ` set ts \<longrightarrow> bt_get out' k = bt_get out k)
    \<and> (\<forall>t \<in> set ts. mt_delivery_mode t = NormalPr \<longrightarrow>
         (\<exists>ids fs1 fs2. bt_get out' (mt_id t) = Some ids \<and> calibrate_target x i t fs1 = (Inr ids, fs2)))"
  using assms
proof (induction x i ts out arbitrary: fs rule: calibration_run.induct)
  case (2 x i t ts out)
  show ?case
  proof (cases "mt_delivery_mode t = NormalPr")
    case True
    with "2.prems"(1) obtain ids fs1 where head: "calibrate_target x i t fs = (Inr ids, fs1)"
      and tail: "calibration_run x i ts (bt_insert (mt_id t) ids out) fs1 = (Inr out', fs')"
      by (auto simp: then_do_Inr)
    have "bt_invar (bt_insert (mt_id t) ids out)" using "2.prems"(2) by (rule bt_invar_insert)
    note IH = "2.IH"(2)[OF _ tail this] True
    have "bt_get out' (mt_id t) = Some ids"
      using IH "2.prems"(2,3) by (simp add: bt_get_insert)
    with IH head "2.prems"(2,3) show ?thesis by (auto simp: bt_get_insert)
  next
    case False
    with "2.IH"(1)[OF False _ "2.prems"(2)] "2.prems"(1,3) show ?thesis by auto
  qed
qed (simp add: give_Inr)

lemma build_one_benched:
  assumes "build_one x i t fs = (Inr (Benched ids), fs')"
  obtains r where "mt_bench_eligible t"
    "read_optimizer_report_for_target fs (bx_codecs x) (xi_layout i) (mt_id t) (mt_delivery_mode t) = Inr (Some (Implemented r))"
  using assms
  by (auto simp: build_one_def static_skip_reason_def Let_def split: if_splits sum.splits option.splits optimizer_report.splits)

lemma bench_one_benched:
  assumes "bench_one x i t fs = (Inr (Benched ids), fs')"
  obtains vr cand fs1 fs2 where "mt_verification_replay t = Some vr" "map ir_invocation_id cand = map bi_id (vr_invocations vr)"
    "validate_invocation_run_ids cand = Ok_unit" "ids = map ir_run_id cand"
    "write_run_ids x (experiment_candidate_run_ids_json (xi_layout i) (mt_id t)) (mt_id t) cand fs1 = (Ok_unit, fs2)"
  using assms
  by (auto simp: bench_one_def require_invocations_def Let_def then_do_Inr give_Inr dest!: run_id_entries split: if_splits option.splits)

lemma bench_run_benched:
  assumes "bench_experiments_run x i ts fs = (Inr outcomes, fs')" "k < length ts" "outcomes ! k = (target_id, Benched ids)"
  obtains fs1 fs2 fs3 fs4 ids0 where "target_id = mt_id (ts ! k)" "length outcomes = length ts"
    "build_one x i (ts ! k) fs1 = (Inr (Benched ids0), fs2)" "bench_one x i (ts ! k) fs3 = (Inr (Benched ids), fs4)"
proof -
  from assms(1) obtain built fsm where a: "map_do (bench_phase_a x i) ts fs = (Inr built, fsm)"
    and b: "map_do (bench_phase_b x i) (zip ts built) fsm = (Inr outcomes, fs')"
    by (auto simp: bench_experiments_run_def then_do_Inr)
  have len: "length built = length ts" "length outcomes = length ts"
    using list_all2_lengthD[OF map_do_Inr[OF a]] list_all2_lengthD[OF map_do_Inr[OF b]] by simp_all
  from list_all2_nthD2[OF map_do_Inr[OF a]] len(1) assms(2) obtain fs1 fs2 where
    pa: "bench_phase_a x i (ts ! k) fs1 = (Inr (built ! k), fs2)" by fastforce
  from list_all2_nthD2[OF map_do_Inr[OF b]] len assms(2) obtain fs3 fs4 where
    pb: "bench_phase_b x i (ts ! k, built ! k) fs3 = (Inr (outcomes ! k), fs4)" by fastforce
  from pa obtain o0 where o0: "built ! k = (mt_id (ts ! k), o0)" "build_one x i (ts ! k) fs1 = (Inr o0, fs2)"
    unfolding bench_phase_a_def then_do_Inr give_Inr by metis
  from pb[unfolded o0(1) assms(3)] obtain ids0 where "o0 = Benched ids0" "target_id = mt_id (ts ! k)"
    "bench_one x i (ts ! k) fs3 = (Inr (Benched ids), fs4)"
    by (auto simp: bench_phase_b_def then_do_Inr give_Inr split: target_outcome.splits)
  with o0 len(2) that show ?thesis by blast
qed

text \<open>A \<open>cargo clean\<close> that could not be started is not reported: once the logs are open the step succeeds.\<close>

lemma cargo_clean_hides_spawn_failure:
  assumes "mc_open_write m stdout fs = Ok_unit" "mc_open_write m stderr (fs(stdout := Content [])) = Ok_unit"
  shows "fst (cargo_clean m worktree stdout stderr fs) = Ok_unit"
  using assms by (simp add: cargo_clean_def open_for_write_def ask_def then_do_def with_context_def)

text \<open>The command lines of the two phases differ in the name of the run only.\<close>

lemma args_differ_in_name:
  assumes "xi_source_dir b = ci_source_dir c" "xi_network b = ci_network c" "xi_shadow_dir_root b = ci_shadow_dir_root c"
  shows "candidate_args b t iv = (calibration_args c t iv)[7 := ''candidate-'' @ mt_id t @ ''-'' @ bi_id iv]"
  using assms by (simp add: candidate_args_def calibration_args_def eval_nat_numeral)


text \<open>A machine on which everything works, and a benchmark that reports run 7.\<close>

definition sample_machine :: "unit machine" where
  "sample_machine = \<lparr>mc_is_file = (\<lambda>_ _. True), mc_exists = (\<lambda>_ _. False), mc_create_dir_all = (\<lambda>_ _. Ok_unit), mc_lock = (\<lambda>_ _. Ok_unit),
     mc_open_write = (\<lambda>_ _. Ok_unit), mc_spawn = (\<lambda>_ fs. (Inr (Some 0), fs)), mc_output = (\<lambda>_ fs. (Inr (Some 0, []), fs)),
     mc_copy = (\<lambda>_ _ fs. (Ok_unit, fs)), mc_set_executable = (\<lambda>_ _. Ok_unit), mc_write = (\<lambda>_ _ fs. (Ok_unit, fs))\<rparr>"

definition sample_externals :: "(unit, unit) bench_externals" where
  "sample_externals = \<lparr>bx_machine = sample_machine,
     bx_parse_json = (\<lambda>_. Inr (JObj [(''data'', JObj [(''run_id'', JInt 7)])])), bx_ids_json = (\<lambda>_. Inr ''ids''),
     bx_codecs = sample_codecs, bx_show = (\<lambda>_. ''e'')\<rparr>"

definition sample_client :: "(unit, unit) bench_client" where
  "sample_client = \<lparr>bc_invoke = (\<lambda>_ fs. (Ok_unit, fs)), bc_total_duration_us = (\<lambda>_ fs. (Inr None, fs))\<rparr>"

definition sample_calibration :: "(unit, unit) calibration_inputs" where
  "sample_calibration = \<lparr>ci_layout = sample_session, ci_bench = sample_client, ci_source_dir = ''/chain'', ci_network = ''mainnet'',
     ci_shadow_dir_root = None, ci_bench_lock = ''/l''\<rparr>"

definition sample_bench :: "(unit, unit) bench_inputs" where
  "sample_bench = \<lparr>xi_layout = sample_session, xi_worktrees_root = ''/w'', xi_source_dir = ''/chain'', xi_network = ''mainnet'',
     xi_shadow_dir_root = None, xi_bench_lock = ''/l'', xi_skip_cargo_clean = True, xi_bench_for_target = (\<lambda>_. sample_client)\<rparr>"


end
