(* ===== verification/Archive.thy ===== *)
theory Archive
  imports Git_Commands Publish_Push Rejections
begin

text \<open>
  The archive of a finished session (\<open>session/archive.rs\<close>): the branch with its results and its line
  in the session ledger. The whole machine, the repositories included, is the function from paths to
  contents; git, serde, the clock and the answers of the file system are arguments. Shown are what the
  ledger line says of the session, that it is read back, and that a listed session is never archived again.
\<close>

section \<open>Surroundings\<close>

text \<open>A directory as \<open>read_dir\<close> lists it; an entry has its name and, if known, its modification time.\<close>

datatype 'io tree_listing = DirMissing | DirUnreadable 'io | DirEntries "'io dir_entry list"
and 'io dir_entry =
    EntryUnreadable 'io
  | EntryNoMetadata string 'io
  | EntryDir string "'io tree_listing"
  | EntryFile string "system_time option"
  | EntryOther string "system_time option"

text \<open>\<open>ax_write_stops\<close> tells after how many bytes a write fails, if it does.\<close>

record ('io, 'p) archive_io =
  ax_git :: "('io files, 'io) git_process"
  ax_base64 :: "string \<Rightarrow> string"
  ax_codecs :: "'p codecs"
  ax_from_str :: "string \<Rightarrow> 'p + json"
  ax_record_of :: "json \<Rightarrow> 'p + session_record"
  ax_to_json :: "session_record \<Rightarrow> 'p + string"
  ax_parse_feedback :: "string \<Rightarrow> 'p + publish_feedback"
  ax_parse_timings :: "string \<Rightarrow> 'p + (string, f64) btree_map"
  ax_home :: "string option"
  ax_started_now :: system_time
  ax_finished_now :: system_time
  ax_version :: string
  ax_build_sha :: "string option"
  ax_exists :: "string \<Rightarrow> 'io files \<Rightarrow> bool"
  ax_listing :: "string \<Rightarrow> 'io files \<Rightarrow> 'io tree_listing"
  ax_create_dir_all :: "string \<Rightarrow> 'io files \<Rightarrow> 'io + unit"
  ax_copy :: "string \<Rightarrow> string \<Rightarrow> 'io files \<Rightarrow> ('io + unit) \<times> 'io files"
  ax_remove_dir_all :: "string \<Rightarrow> 'io files \<Rightarrow> 'io files"
  ax_open_append :: "string \<Rightarrow> 'io files \<Rightarrow> 'io + unit"
  ax_write_stops :: "string \<Rightarrow> string \<Rightarrow> 'io files \<Rightarrow> (nat \<times> 'io) option"

datatype ('io, 'p) archive_error =
    ArLayout layout_error
  | ArIo 'io
  | ArMissing string
  | ArLoad "('io, 'p) load_error"
  | ArParse string 'p
  | ArFeedback string feedback_error
  | ArGit "'io git_error"
  | ArOnArchiveBranch string
  | ArDirty string
  | ArNestedWorktree string string
  | ArToken "'io push_failure"
  | ArSettings settings_error
  | ArUrl auth_url_error
  | ArPush "'io git_error Git_Client.push_error"
  | ArSerialize 'p
  | ArUnsupportedEntry string
  | ArNotGithub string

type_synonym ('io, 'p, 'a) archive_step = "'io files \<Rightarrow> (('io, 'p) archive_error + 'a) \<times> 'io files"

record archive_inputs =
  ar_layout :: session_layout
  ar_framework :: layout
  ar_settings :: settings
  ar_dry_run :: bool

record archive_outputs =
  ao_already_archived :: bool
  ao_branch :: string
  ao_branch_sha :: "string option"
  ao_ledger_appended :: bool
  ao_artifact_url :: "string option"

definition look :: "('io files \<Rightarrow> ('io, 'p) archive_error + 'a) \<Rightarrow> ('io, 'p, 'a) archive_step" where
  "look q fs = (q fs, fs)"

definition mkdir :: "('io, 'p) archive_io \<Rightarrow> string \<Rightarrow> ('io, 'p, unit) archive_step" where
  "mkdir x dir = look (\<lambda>fs. with_context ArIo (ax_create_dir_all x dir fs))"

definition result_ok :: "'e + 'a \<Rightarrow> 'a option" where
  "result_ok r = (case r of Inr a \<Rightarrow> Some a | Inl _ \<Rightarrow> None)"

section \<open>The ledger file\<close>

definition record_from_line :: "('io, 'p) archive_io \<Rightarrow> string \<Rightarrow> ('p, 'p) ledger_error + session_record" where
  "record_from_line x = session_from_ledger_line (ax_from_str x) (ax_record_of x)"

fun lines_contain_id :: "('io, 'p) archive_io \<Rightarrow> string \<Rightarrow> string list \<Rightarrow> bool" where
  "lines_contain_id x sid [] = False"
| "lines_contain_id x sid (line # lines) =
     (if trim_ws line = [] then lines_contain_id x sid lines
      else case record_from_line x line of
        Inl _ \<Rightarrow> lines_contain_id x sid lines
      | Inr r \<Rightarrow> if sr_id r = sid then True else lines_contain_id x sid lines)"

definition ledger_contains_id :: "('io, 'p) archive_io \<Rightarrow> string \<Rightarrow> string \<Rightarrow> 'io files \<Rightarrow> ('io, 'p) archive_error + bool" where
  "ledger_contains_id x path sid fs =
     (case fs path of
        Content raw \<Rightarrow> Inr (lines_contain_id x sid (rust_lines raw))
      | NotFound \<Rightarrow> Inr False
      | IoFailed e \<Rightarrow> Inl (ArIo e))"

definition file_text :: "'io read_outcome \<Rightarrow> string" where
  "file_text r = (case r of Content s \<Rightarrow> s | _ \<Rightarrow> [])"

definition write_all :: "('io, 'p) archive_io \<Rightarrow> string \<Rightarrow> string \<Rightarrow> ('io, 'p, unit) archive_step" where
  "write_all x path bytes fs =
     (case ax_write_stops x path bytes fs of
        None \<Rightarrow> (Ok_unit, fs(path := Content (file_text (fs path) @ bytes)))
      | Some (n, e) \<Rightarrow> (Inl (ArIo e), fs(path := Content (file_text (fs path) @ take n bytes))))"

definition append_ledger :: "('io, 'p) archive_io \<Rightarrow> string \<Rightarrow> session_record \<Rightarrow> ('io, 'p, unit) archive_step" where
  "append_ledger x path r =
     then_do (look (\<lambda>_. with_context ArSerialize (ax_to_json x r))) (\<lambda>line.
     then_do (look (\<lambda>fs. with_context ArIo (ax_open_append x path fs))) (\<lambda>_.
     then_do (write_all x path line) (\<lambda>_.
       write_all x path [CHR 0x0A])))"

section \<open>The record of a session\<close>

definition read_optional ::
  "string \<Rightarrow> ('io files \<Rightarrow> ('io, 'p) load_error + 'a) \<Rightarrow> 'io files \<Rightarrow> ('io, 'p) archive_error + 'a option" where
  "read_optional path load fs =
     (case fs path of
        NotFound \<Rightarrow> Inr None
      | IoFailed e \<Rightarrow> Inl (ArIo e)
      | Content _ \<Rightarrow> and_then (with_context ArLoad (load fs)) (\<lambda>a. Inr (Some a)))"

text \<open>\<open>Path::exists\<close> of an artifact.\<close>

definition present :: "'io files \<Rightarrow> string \<Rightarrow> bool" where
  "present fs path \<longleftrightarrow> fs path \<noteq> NotFound"

definition derive_session_status ::
  "session_layout \<Rightarrow> 'io files \<Rightarrow> session_status \<times> string option \<times> string option" where
  "derive_session_status l fs =
     (if present fs (summary_json l) then (Succeeded, None, None)
      else if present fs (optimization_targets_json l)
      then (SessionFailed, Some ''post-merge'', Some (''summary.json absent '' @ em_dash @ '' finalize did not run to completion''))
      else (SessionAborted, Some ''pre-merge'', Some ''session did not produce optimization-targets.json''))"

definition derive_started_at_from_id :: "system_time \<Rightarrow> string \<Rightarrow> string" where
  "derive_started_at_from_id now sid =
     (let cs = take 15 sid
      in if length cs \<noteq> 15 \<or> \<not> list_all is_ascii_digit (take 8 cs) \<or> cs ! 8 \<noteq> CHR ''-''
            \<or> \<not> list_all is_ascii_digit (drop 9 cs)
         then now_utc_iso8601 now
         else take 4 cs @ ''-'' @ take 2 (drop 4 cs) @ ''-'' @ take 2 (drop 6 cs) @ ''T''
              @ take 2 (drop 9 cs) @ '':'' @ take 2 (drop 11 cs) @ '':'' @ take 2 (drop 13 cs) @ ''Z'')"

text \<open>Unsigned arithmetic on the day of era, \<open>i64\<close> on the year.\<close>

definition archive_civil_from_days :: "int \<Rightarrow> date" where
  "archive_civil_from_days z0 =
     (let z = z0 + 719468;
          era = (if z \<ge> 0 then z else z - 146096) sdiv 146097;
          doe = z - era * 146097;
          yoe = (doe - doe sdiv 1460 + doe sdiv 36524 - doe sdiv 146096) sdiv 365;
          y = yoe + era * 400;
          doy = doe - (365 * yoe + yoe sdiv 4 - yoe sdiv 100);
          mp = (5 * doy + 2) sdiv 153;
          d = doy - (153 * mp + 2) sdiv 5 + 1;
          m = (if mp < 10 then mp + 3 else mp - 9);
          y = (if m \<le> 2 then y + 1 else y)
      in (as_i32 y, m, d))"

definition format_unix_secs_iso8601 :: "int \<Rightarrow> string" where
  "format_unix_secs_iso8601 secs =
     (let days = secs div 86400; s_of_day = secs mod 86400; (year, month, day) = archive_civil_from_days (as_i64 days)
      in iso_text year month day (s_of_day div 3600) (s_of_day mod 3600 div 60) (s_of_day mod 60))"

text \<open>The walk over a directory tree keeps a stack of directories, its top first.\<close>

definition later :: "system_time option \<Rightarrow> system_time \<Rightarrow> system_time option" where
  "later latest t = Some (case latest of None \<Rightarrow> t | Some l \<Rightarrow> max l t)"

fun scan_entries ::
  "'io dir_entry list \<Rightarrow> system_time option \<Rightarrow> 'io tree_listing list \<Rightarrow> 'io + system_time option \<times> 'io tree_listing list" where
  "scan_entries [] latest stack = Inr (latest, stack)"
| "scan_entries (EntryUnreadable e # es) latest stack = Inl e"
| "scan_entries (EntryNoMetadata _ _ # es) latest stack = scan_entries es latest stack"
| "scan_entries (EntryDir _ d # es) latest stack = scan_entries es latest (d # stack)"
| "scan_entries (EntryFile _ t # es) latest stack =
     scan_entries es (case t of Some t \<Rightarrow> later latest t | None \<Rightarrow> latest) stack"
| "scan_entries (EntryOther _ t # es) latest stack =
     scan_entries es (case t of Some t \<Rightarrow> later latest t | None \<Rightarrow> latest) stack"

lemma scan_entries_size:
  "scan_entries es latest stack = Inr (latest', stack')
   \<Longrightarrow> sum_list (map size stack') \<le> sum_list (map size stack) + size_list size es"
  by (induction es latest stack rule: scan_entries.induct) fastforce+

function latest_mtime_loop :: "system_time option \<Rightarrow> 'io tree_listing list \<Rightarrow> 'io + system_time option" where
  "latest_mtime_loop latest [] = Inr latest"
| "latest_mtime_loop latest (DirMissing # stack) = latest_mtime_loop latest stack"
| "latest_mtime_loop latest (DirUnreadable e # stack) = Inl e"
| "latest_mtime_loop latest (DirEntries es # stack) =
     (case scan_entries es latest stack of
        Inl e \<Rightarrow> Inl e
      | Inr (latest', stack') \<Rightarrow> latest_mtime_loop latest' stack')"
  by pat_completeness auto
termination
  by (relation "measures [\<lambda>(_, stack). sum_list (map size stack), \<lambda>(_, stack). length stack]") (auto dest: scan_entries_size)

definition latest_mtime :: "'io tree_listing \<Rightarrow> 'io + system_time option" where
  "latest_mtime dir = latest_mtime_loop None [dir]"

definition derive_finished_at :: "'io tree_listing \<Rightarrow> string option" where
  "derive_finished_at dir =
     (case latest_mtime dir of
        Inr (Some t) \<Rightarrow> if t < 0 then None else Some (format_unix_secs_iso8601 (t div nanos))
      | _ \<Rightarrow> None)"

definition read_baseline_run_ids :: "session_layout \<Rightarrow> 'io files \<Rightarrow> int list" where
  "read_baseline_run_ids l fs =
     (case read_run_id_file fs (baseline_run_id_path l) :: ('io, unit) load_error + int of Inr n \<Rightarrow> [n] | Inl _ \<Rightarrow> [])
     @ (case read_run_id_file fs (baseline_rerun_id_path l) :: ('io, unit) load_error + int of Inr n \<Rightarrow> [n] | Inl _ \<Rightarrow> [])"

section \<open>The rows of the targets\<close>

definition derive_target_status ::
  "experiment_row option \<Rightarrow> target_status \<times> target_status_stage option \<times> string option" where
  "derive_target_status row =
     (case row of
        None \<Rightarrow> (Aborted, Some Optimizer, Some ''no summary row'')
      | Some e \<Rightarrow>
          (case ex_status e of
             ExpAccepted \<Rightarrow> (Accepted, None, ex_reason e)
           | PocLanded \<Rightarrow> (Accepted, None, ex_reason e)
           | RoutedToIssue \<Rightarrow> (Accepted, None, ex_reason e)
           | ExpRejected \<Rightarrow> (Rejected, Some Bench, or_else (ex_reason e) (Some ''noise_floor''))
           | ExpAborted \<Rightarrow> (Aborted, Some Optimizer, ex_reason e)))"

definition as_i64_value :: "json \<Rightarrow> int option" where
  "as_i64_value v = (case v of JInt n \<Rightarrow> if in_i64 n then Some n else None | _ \<Rightarrow> None)"

definition bench_run_duration :: "('io, 'p) archive_io \<Rightarrow> 'io files \<Rightarrow> string \<Rightarrow> int option" where
  "bench_run_duration x fs path =
     (case fs path of
        Content raw \<Rightarrow>
          (case ax_from_str x raw of
             Inl _ \<Rightarrow> None
           | Inr v \<Rightarrow> Option.bind (Option.bind (Option.bind (json_get v ''data'') (\<lambda>d. json_get d ''summary''))
                       (\<lambda>s. json_get s ''total_duration_us'')) as_i64_value)
      | _ \<Rightarrow> None)"

definition sum_bench_run_total_us ::
  "('io, 'p) archive_io \<Rightarrow> 'io files \<Rightarrow> (string \<Rightarrow> string) \<Rightarrow> bench_invocation list \<Rightarrow> int" where
  "sum_bench_run_total_us x fs dir invocations =
     fold (\<lambda>iv total. case bench_run_duration x fs (dir (bi_id iv)) of
        Some n \<Rightarrow> saturate_i64 (total + n) | None \<Rightarrow> total) invocations 0"

definition f64_ge :: "f64 \<Rightarrow> f64 \<Rightarrow> bool" where
  "f64_ge a b \<longleftrightarrow> f64_less b a \<or> a = b \<and> a \<noteq> NaN"

definition build_target_bench ::
  "('io, 'p) archive_io \<Rightarrow> session_layout \<Rightarrow> 'io files \<Rightarrow> merged_target \<Rightarrow> experiment_row option \<Rightarrow> summary option
     \<Rightarrow> target_bench option" where
  "build_target_bench x l fs t row sm =
     Option.bind row (\<lambda>e.
       if mt_delivery_mode t \<noteq> NormalPr \<or> unwrap_or (ex_run_ids e) [] = [] then None
       else (let noise_floor = (case sm of Some s \<Rightarrow> su_noise_floor_pct s | None \<Rightarrow> Fin 0);
                 improvement = unwrap_or (ex_improvement_pct e) (Fin 0);
                 totals = (case mt_verification_replay t of
                    Some vr \<Rightarrow> (sum_bench_run_total_us x fs (verify_baseline_bench_run_json l (mt_id t)) (vr_invocations vr),
                                sum_bench_run_total_us x fs (experiment_candidate_bench_run_json l (mt_id t)) (vr_invocations vr))
                  | None \<Rightarrow> (0, 0))
             in Some \<lparr>tb_baseline_run_ids = unwrap_or (or_else (ex_baseline_run_ids e)
                        (map_option (\<lambda>s. [su_baseline_run_id s, su_baseline_rerun_id s]) sm)) [],
                      tb_candidate_run_ids = unwrap_or (ex_run_ids e) [],
                      tb_baseline_total_us = fst totals, tb_candidate_total_us = snd totals,
                      tb_improvement_pct = improvement, tb_passes_noise_floor = f64_ge improvement noise_floor\<rparr>))"

definition bucket_str :: "bucket \<Rightarrow> string" where
  "bucket_str b = (case b of BlockProcessing \<Rightarrow> ''block_processing'' | BlockCommit \<Rightarrow> ''block_commit'')"

definition read_feedback ::
  "('io, 'p) archive_io \<Rightarrow> 'io files \<Rightarrow> string \<Rightarrow> ('io, 'p) archive_error + publish_feedback option" where
  "read_feedback x fs path =
     (case fs path of
        NotFound \<Rightarrow> Inr None
      | IoFailed e \<Rightarrow> Inl (ArIo e)
      | Content raw \<Rightarrow>
          and_then (with_context (ArParse path) (ax_parse_feedback x raw)) (\<lambda>f.
          and_then (with_context (ArFeedback path) (validate_publish_feedback f)) (\<lambda>_. Inr (Some f))))"

definition find_row :: "summary option \<Rightarrow> string \<Rightarrow> experiment_row option" where
  "find_row sm target_id = Option.bind sm (\<lambda>s. find (\<lambda>e. ex_target_id e = target_id) (su_experiments s))"

definition target_row ::
  "('io, 'p) archive_io \<Rightarrow> session_layout \<Rightarrow> 'io files \<Rightarrow> summary option \<Rightarrow> merged_target
     \<Rightarrow> ('io, 'p) archive_error + target_record" where
  "target_row x l fs sm t =
     (let row = find_row sm (mt_id t); (status, stage, reason) = derive_target_status row
      in and_then (read_feedback x fs (publish_feedback_json l (mt_id t))) (\<lambda>feedback.
         Inr \<lparr>tr_id = mt_id t,
              tr_family_id = (case mt_merged_from t of [] \<Rightarrow> ''unknown'' | mf # _ \<Rightarrow> mf_family_id mf),
              tr_bucket = bucket_str (mt_bucket t), tr_delivery_mode = mt_delivery_mode t, tr_status = status,
              tr_status_stage = stage, tr_reason_code = reason, tr_head_sha = Option.bind row ex_head_sha,
              tr_pr_url = Option.bind feedback pf_pr_url, tr_issue_url = Option.bind feedback pf_issue_url,
              tr_bench = build_target_bench x l fs t row sm\<rparr>))"

definition build_target_records ::
  "('io, 'p) archive_io \<Rightarrow> session_layout \<Rightarrow> 'io files \<Rightarrow> summary option \<Rightarrow> optimization_targets option
     \<Rightarrow> ('io, 'p) archive_error + target_record list" where
  "build_target_records x l fs sm doc =
     (case doc of None \<Rightarrow> Inr []
      | Some d \<Rightarrow> and_then (collect_results (map (target_row x l fs sm) (ot_targets d))) (\<lambda>rows. Inr (sort_key tr_id rows)))"

definition read_timings :: "('io, 'p) archive_io \<Rightarrow> 'io files \<Rightarrow> string \<Rightarrow> ('io, 'p) archive_error + (string, f64) btree_map option" where
  "read_timings x fs path =
     (case fs path of
        NotFound \<Rightarrow> Inr None
      | IoFailed e \<Rightarrow> Inl (ArIo e)
      | Content raw \<Rightarrow> and_then (with_context (ArParse path) (ax_parse_timings x raw)) (\<lambda>d. Inr (Some d)))"

definition session_range_of :: "settings \<Rightarrow> session_range" where
  "session_range_of s =
     (let sb = se_stacks_bench s
      in \<lparr>rg_start_at = sb_start_at sb, rg_count = sb_count sb, rg_warmup = sb_warmup sb, rg_filter = sb_filter sb,
          rg_network = effective_network sb\<rparr>)"

definition build_session_record ::
  "('io, 'p) archive_io \<Rightarrow> archive_inputs \<Rightarrow> string \<Rightarrow> 'io files \<Rightarrow> ('io, 'p) archive_error + session_record" where
  "build_session_record x i branch fs =
     (let l = ar_layout i in
      and_then (read_optional (summary_json l) (\<lambda>fs. read_summary fs (ax_codecs x) l) fs) (\<lambda>sm.
      and_then (read_optional (optimization_targets_json l) (\<lambda>fs. read_optimization_targets fs (ax_codecs x) l) fs) (\<lambda>doc.
      let (status, failure_phase, failure_reason) = derive_session_status l fs;
          rows = (case build_target_records x l fs sm doc of Inr rows \<Rightarrow> rows | Inl _ \<Rightarrow> []) in
      and_then (with_context ArLoad (read_source_json fs (ax_codecs x) (source_json l))) (\<lambda>src.
      and_then (read_timings x fs (timings_json l)) (\<lambda>timings.
      Inr \<lparr>sr_kind = SessionCompleted, sr_id = sl_id l, sr_artifact_branch = branch, sr_artifact_sha = [],
           sr_artifact_url = None, sr_started_at = derive_started_at_from_id (ax_started_now x) (sl_id l),
           sr_finished_at = unwrap_or (derive_finished_at (ax_listing x (sl_results_dir l) fs)) (now_utc_iso8601 (ax_finished_now x)),
           sr_status = status, sr_failure_phase = failure_phase, sr_failure_reason = failure_reason,
           sr_sbagent_version = ax_version x, sr_sbagent_git_sha = ax_build_sha x, sr_range = session_range_of (ar_settings i),
           sr_baseline_run_ids = read_baseline_run_ids l fs, sr_phase_durations_secs = unwrap_or timings bt_empty,
           sr_targets = rows, sr_source_url = map_option sj_url src, sr_source_branch = map_option sj_branch src,
           sr_source_sha = map_option sj_sha src, sr_source_fetched_at = map_option sj_fetched_at src\<rparr>)))))"

section \<open>The archive branch\<close>

fun copy_entries ::
  "('io, 'p) archive_io \<Rightarrow> string \<Rightarrow> string \<Rightarrow> 'io dir_entry list \<Rightarrow> ('io tree_listing \<times> string \<times> string) list
     \<Rightarrow> ('io, 'p, ('io tree_listing \<times> string \<times> string) list) archive_step" where
  "copy_entries x src dst [] stack = give stack"
| "copy_entries x src dst (EntryUnreadable e # es) stack = fail_with (ArIo e)"
| "copy_entries x src dst (EntryNoMetadata _ e # es) stack = fail_with (ArIo e)"
| "copy_entries x src dst (EntryDir name d # es) stack =
     then_do (mkdir x (path_join dst name)) (\<lambda>_. copy_entries x src dst es ((d, path_join src name, path_join dst name) # stack))"
| "copy_entries x src dst (EntryFile name _ # es) stack =
     then_do (in_context ArIo (ax_copy x (path_join src name) (path_join dst name))) (\<lambda>_. copy_entries x src dst es stack)"
| "copy_entries x src dst (EntryOther name _ # es) stack = fail_with (ArUnsupportedEntry (path_join src name))"

definition stack_size :: "('io tree_listing \<times> string \<times> string) list \<Rightarrow> nat" where
  "stack_size stack = sum_list (map (\<lambda>(d, _). size d) stack)"

lemma copy_entries_size:
  "copy_entries x src dst es stack fs = (Inr stack', fs') \<Longrightarrow> stack_size stack' \<le> stack_size stack + size_list size es"
  by (induction x src dst es stack arbitrary: fs rule: copy_entries.induct)
    (fastforce simp: result_simps stack_size_def)+

function copy_loop ::
  "('io, 'p) archive_io \<Rightarrow> ('io tree_listing \<times> string \<times> string) list \<Rightarrow> ('io, 'p, unit) archive_step" where
  "copy_loop x [] fs = (Ok_unit, fs)"
| "copy_loop x ((DirMissing, src, dst) # stack) fs = (Inl (ArMissing src), fs)"
| "copy_loop x ((DirUnreadable e, src, dst) # stack) fs = (Inl (ArIo e), fs)"
| "copy_loop x ((DirEntries es, src, dst) # stack) fs =
     (case copy_entries x src dst es stack fs of
        (Inl e, fs') \<Rightarrow> (Inl e, fs')
      | (Inr stack', fs') \<Rightarrow> copy_loop x stack' fs')"
  by pat_completeness auto
termination
  by (relation "measure (\<lambda>(_, stack, _). stack_size stack)") (auto dest!: copy_entries_size[OF sym] simp: stack_size_def)

definition copy_dir_recursive :: "('io, 'p) archive_io \<Rightarrow> string \<Rightarrow> string \<Rightarrow> ('io, 'p, unit) archive_step" where
  "copy_dir_recursive x src dst =
     then_do (mkdir x dst) (\<lambda>_ fs. copy_loop x [(ax_listing x src fs, src, dst)] fs)"

text \<open>The commit helpers of \<open>git.rs\<close> on the git process; asking for the status changes nothing.\<close>

definition tree_at :: "('io, 'p) archive_io \<Rightarrow> string \<Rightarrow> (string \<times> string) list \<Rightarrow> ('io files, 'io git_error) git_tree" where
  "tree_at x dir env =
     \<lparr>git_add = (\<lambda>args. run_git_envs (ax_git x) dir args env),
      git_status = (\<lambda>fs. fst (status_porcelain (ax_git x) dir fs)),
      git_commit = (\<lambda>msg. run_git_envs (ax_git x) dir [''commit'', ''-m'', msg] env),
      path_exists = (\<lambda>p. ax_exists x (path_join dir p))\<rparr>"

record push_auth =
  pa_token :: string
  pa_username :: string
  pa_url_prefix :: string

definition load_push_auth :: "('io, 'p) archive_io \<Rightarrow> archive_inputs \<Rightarrow> ('io, 'p, push_auth) archive_step" where
  "load_push_auth x i =
     look (\<lambda>fs.
       and_then (with_context ArToken (read_publish_token fs
         (unwrap_or (pu_token_file (se_publish (ar_settings i))) (default_publish_token_path (ax_home x))))) (\<lambda>token.
       and_then (with_context ArSettings (effective_auth_url_prefix (se_git (ar_settings i)))) (\<lambda>url_prefix.
       Inr \<lparr>pa_token = token, pa_username = effective_auth_username (se_git (ar_settings i)), pa_url_prefix = url_prefix\<rparr>)))"

definition bot_identity_env :: "settings \<Rightarrow> (string \<times> string) list" where
  "bot_identity_env settings =
     (let name = effective_author_name (se_git settings); email = effective_author_email (se_git settings)
      in [(''GIT_AUTHOR_NAME'', name), (''GIT_AUTHOR_EMAIL'', email), (''GIT_COMMITTER_NAME'', name), (''GIT_COMMITTER_EMAIL'', email),
          (''GIT_CONFIG_COUNT'', ''1''), (''GIT_CONFIG_KEY_0'', ''commit.gpgsign''), (''GIT_CONFIG_VALUE_0'', ''false'')])"

definition primary_remote :: "('io, 'p) archive_io \<Rightarrow> string \<Rightarrow> ('io, 'p, string option) archive_step" where
  "primary_remote x repo =
     then_do (in_context ArGit (run_git_output (ax_git x) repo [''remote''])) (\<lambda>raw.
       let names = filter (\<lambda>l. l \<noteq> []) (rust_lines raw)
       in give (if names = [] then None else if ''origin'' \<in> set names then Some ''origin'' else Some (hd names)))"

definition archive_worktree_path :: "layout \<Rightarrow> string \<Rightarrow> ('io, 'p) archive_error + string" where
  "archive_worktree_path framework session_id =
     (let parent = (case ly_agent_workspace_root framework of
             Some w \<Rightarrow> path_join w ''archive-worktrees''
           | None \<Rightarrow> path_join (ly_sessions_root framework) ''.archive-worktrees'');
          candidate = path_join parent session_id
      in case ly_operator_repo_root framework of
           Some op \<Rightarrow> if prefix (path_components op) (path_components candidate) then Inl (ArNestedWorktree candidate op) else Inr candidate
         | None \<Rightarrow> Inr candidate)"

text \<open>Pushing with the token of the operator, when there is one and the repository has a remote.\<close>

definition git_exit :: "('io, 'p) archive_io \<Rightarrow> string list \<Rightarrow> (string \<times> string) list \<Rightarrow> 'io files \<Rightarrow> ('io git_error + unit) \<times> 'io files" where
  "git_exit x args env fs = (case ax_git x args env fs of (r, fs') \<Rightarrow> (exit_check args r, fs'))"

definition with_remote ::
  "('io, 'p) archive_io \<Rightarrow> string \<Rightarrow> push_auth option \<Rightarrow> (push_auth \<Rightarrow> string \<Rightarrow> ('io, 'p, unit) archive_step)
     \<Rightarrow> ('io, 'p, unit) archive_step" where
  "with_remote x repo auth f =
     (case auth of None \<Rightarrow> give ()
      | Some a \<Rightarrow> then_do (primary_remote x repo) (\<lambda>remote. case remote of None \<Rightarrow> give () | Some r \<Rightarrow> f a r))"

definition rebase_with_auth :: "('io, 'p) archive_io \<Rightarrow> string \<Rightarrow> string \<Rightarrow> push_auth \<Rightarrow> string \<Rightarrow> 'io files \<Rightarrow> ('io git_error + unit) \<times> 'io files" where
  "rebase_with_auth x dir branch a remote =
     pull_rebase_with_auth (ax_base64 x) (ax_git x) dir remote branch (pa_token a) [] (pa_username a) (pa_url_prefix a)"

definition push_checked ::
  "('io, 'p) archive_io \<Rightarrow> string \<Rightarrow> string \<Rightarrow> string \<Rightarrow> nat \<Rightarrow> push_auth \<Rightarrow> string \<Rightarrow> ('io, 'p, unit) archive_step" where
  "push_checked x repo dir branch max_retries a remote =
     then_do (in_context ArGit (run_git_output (ax_git x) repo [''remote'', ''get-url'', remote])) (\<lambda>url.
     then_do (look (\<lambda>_. with_context ArUrl (validate_auth_url url (pa_url_prefix a)))) (\<lambda>_.
     in_context ArPush (push_or_retry
       (push_with_pat (ax_base64 x) (git_exit x) dir remote branch (pa_token a) [] (pa_username a) (pa_url_prefix a))
       (rebase_with_auth x dir branch a remote) max_retries)))"

definition remove_worktree :: "('io, 'p) archive_io \<Rightarrow> string \<Rightarrow> string \<Rightarrow> 'io files \<Rightarrow> 'io files" where
  "remove_worktree x repo wt fs =
     (let fs' = snd (run_git (ax_git x) repo [''worktree'', ''remove'', ''--force'', wt] fs)
      in if ax_exists x wt fs' then ax_remove_dir_all x wt fs' else fs')"

definition fill_archive_branch ::
  "('io, 'p) archive_io \<Rightarrow> string \<Rightarrow> string \<Rightarrow> string \<Rightarrow> string \<Rightarrow> string \<Rightarrow> (string \<times> string) list \<Rightarrow> push_auth option
     \<Rightarrow> ('io, 'p, string) archive_step" where
  "fill_archive_branch x repo wt branch session_id bulk env auth =
     (let dest_results = path_join (path_join (path_join wt ''sessions'') session_id) ''results'' in
      then_do (mkdir x dest_results) (\<lambda>_.
      then_do (copy_dir_recursive x bulk dest_results) (\<lambda>_.
      then_do (in_context ArGit (stage_force_and_commit (tree_at x wt env) [''sessions/'' @ session_id @ ''/''] (''archive: '' @ session_id))) (\<lambda>_.
      then_do (in_context ArGit (run_git_output (ax_git x) wt [''rev-parse'', ''HEAD''])) (\<lambda>branch_sha.
      then_do (with_remote x repo auth (push_checked x repo wt branch 0)) (\<lambda>_.
      give branch_sha))))))"

definition run_in_archive_worktree ::
  "('io, 'p) archive_io \<Rightarrow> string \<Rightarrow> string \<Rightarrow> string \<Rightarrow> string \<Rightarrow> string \<Rightarrow> string \<Rightarrow> (string \<times> string) list \<Rightarrow> push_auth option
     \<Rightarrow> ('io, 'p, string) archive_step" where
  "run_in_archive_worktree x repo wt branch starting_branch session_id bulk env auth fs =
     then_do (case path_parent wt of Some parent \<Rightarrow> mkdir x parent | None \<Rightarrow> give ()) (\<lambda>_ fs.
       case branch_exists (ax_git x) repo branch fs of (found, fs1) \<Rightarrow>
       then_do (in_context ArGit (run_git (ax_git x) repo
           (if found then [''worktree'', ''add'', wt, branch] else [''worktree'', ''add'', ''-b'', branch, wt, starting_branch]))) (\<lambda>_ fs2.
         case fill_archive_branch x repo wt branch session_id bulk env auth fs2 of
           (outcome, fs3) \<Rightarrow> (outcome, remove_worktree x repo wt fs3)) fs1)
     (if ax_exists x wt fs then remove_worktree x repo wt fs else fs)"

section \<open>Archiving\<close>

definition derive_artifact_url :: "('io, 'p) archive_io \<Rightarrow> string \<Rightarrow> string \<Rightarrow> ('io, 'p, string) archive_step" where
  "derive_artifact_url x repo branch =
     then_do (in_context ArGit (run_git_output (ax_git x) repo [''remote'', ''get-url'', ''origin''])) (\<lambda>url.
       case strip_prefix url ''https://github.com/'' of
         None \<Rightarrow> fail_with (ArNotGithub url)
       | Some stripped \<Rightarrow> give (''https://github.com/'' @ unwrap_or (strip_suffix stripped ''.git'') stripped @ ''/tree/'' @ branch))"

definition ensure_clean_worktree :: "('io, 'p) archive_io \<Rightarrow> string \<Rightarrow> ('io, 'p, unit) archive_step" where
  "ensure_clean_worktree x repo =
     then_do (in_context ArGit (status_porcelain (ax_git x) repo)) (\<lambda>porcelain.
       if list_ex (\<lambda>l. l \<noteq> []) (rust_lines porcelain) then fail_with (ArDirty porcelain) else give ())"

definition append_and_commit ::
  "('io, 'p) archive_io \<Rightarrow> string \<Rightarrow> string \<Rightarrow> string \<Rightarrow> string \<Rightarrow> (string \<times> string) list \<Rightarrow> push_auth option \<Rightarrow> session_record
     \<Rightarrow> ('io, 'p, unit) archive_step" where
  "append_and_commit x repo ledger starting_branch session_id env auth r =
     then_do (with_remote x repo auth (\<lambda>a remote. in_context ArGit (rebase_with_auth x repo starting_branch a remote))) (\<lambda>_.
     then_do (append_ledger x ledger r) (\<lambda>_.
     then_do (in_context ArGit (stage_and_commit (tree_at x repo env) [''sessions.jsonl''] (''archive: ledger '' @ session_id))) (\<lambda>_.
       with_remote x repo auth (push_checked x repo repo starting_branch 3))))"

definition archive_new ::
  "('io, 'p) archive_io \<Rightarrow> archive_inputs \<Rightarrow> string \<Rightarrow> string \<Rightarrow> string \<Rightarrow> ('io, 'p, archive_outputs) archive_step" where
  "archive_new x i repo branch ledger =
     (let session_id = sl_id (ar_layout i); env = bot_identity_env (ar_settings i) in
      then_do (in_context ArGit (current_branch (ax_git x) repo)) (\<lambda>starting_branch.
      if starts_with starting_branch ''session/'' then fail_with (ArOnArchiveBranch starting_branch) else
      then_do (ensure_clean_worktree x repo) (\<lambda>_.
      then_do (look (build_session_record x i branch)) (\<lambda>r.
      then_do (look (\<lambda>_. archive_worktree_path (ar_framework i) session_id)) (\<lambda>wt.
      then_do (if ar_dry_run i then give None
               else then_do (primary_remote x repo) (\<lambda>remote.
                    if remote = None then give None else then_do (load_push_auth x i) (\<lambda>a. give (Some a)))) (\<lambda>auth.
      then_do (run_in_archive_worktree x repo wt branch starting_branch session_id (sl_results_dir (ar_layout i)) env auth) (\<lambda>branch_sha fs.
      case derive_artifact_url x repo branch fs of (url, fs') \<Rightarrow>
      then_do (append_and_commit x repo ledger starting_branch session_id env auth
          (r\<lparr>sr_artifact_sha := branch_sha, sr_artifact_url := result_ok url\<rparr>)) (\<lambda>_.
      give \<lparr>ao_already_archived = False, ao_branch = branch, ao_branch_sha = Some branch_sha, ao_ledger_appended = True,
            ao_artifact_url = result_ok url\<rparr>) fs')))))))"

definition archive_branch :: "archive_inputs \<Rightarrow> string" where
  "archive_branch i = ''session/'' @ sl_id (ar_layout i)"

definition archive :: "('io, 'p) archive_io \<Rightarrow> archive_inputs \<Rightarrow> ('io, 'p, archive_outputs) archive_step" where
  "archive x i =
     then_do (look (\<lambda>_. with_context ArLayout (require_operator_repo_root (ar_framework i)))) (\<lambda>repo.
       let branch = archive_branch i; ledger = path_join repo ''sessions.jsonl'' in
       then_do (look (ledger_contains_id x ledger (sl_id (ar_layout i)))) (\<lambda>found fs.
         if found then
           (case derive_artifact_url x repo branch fs of (url, fs') \<Rightarrow>
              (Inr \<lparr>ao_already_archived = True, ao_branch = branch, ao_branch_sha = None, ao_ledger_appended = False,
                    ao_artifact_url = result_ok url\<rparr>, fs'))
         else archive_new x i repo branch ledger fs))"

section \<open>Facts\<close>

lemma look_Inr [result_simps]: "look q fs = (Inr a, fs') \<longleftrightarrow> q fs = Inr a \<and> fs' = fs"
  by (auto simp: look_def)

lemma with_context_Inr_iff [result_simps]: "with_context f r = Inr a \<longleftrightarrow> r = Inr a"
  by (auto simp: with_context_def split: sum.splits)

text \<open>The walk over the results finds the latest modification time of the tree.\<close>

fun listing_times :: "'io tree_listing \<Rightarrow> system_time set" and entry_times :: "'io dir_entry \<Rightarrow> system_time set" where
  "listing_times (DirEntries es) = (\<Union>e \<in> set es. entry_times e)"
| "listing_times _ = {}"
| "entry_times (EntryDir _ d) = listing_times d"
| "entry_times (EntryFile _ t) = set_option t"
| "entry_times (EntryOther _ t) = set_option t"
| "entry_times _ = {}"

definition is_latest :: "system_time set \<Rightarrow> system_time option \<Rightarrow> bool" where
  "is_latest S m \<longleftrightarrow> (case m of None \<Rightarrow> S = {} | Some t \<Rightarrow> t \<in> S \<and> (\<forall>u \<in> S. u \<le> t))"

lemma is_latest_later: "is_latest S latest \<Longrightarrow> is_latest (insert t S) (later latest t)"
  by (auto simp: is_latest_def later_def max_def split: option.splits)

lemma is_latest_step:
  "is_latest S latest \<Longrightarrow> is_latest (set_option t \<union> S) (case t of Some t \<Rightarrow> later latest t | None \<Rightarrow> latest)"
  by (cases t) (auto intro: is_latest_later)

lemma scan_entries_latest:
  "scan_entries es latest stack = Inr (latest', stack') \<Longrightarrow> is_latest S latest
   \<Longrightarrow> \<exists>S'. is_latest S' latest'
        \<and> S' \<union> (\<Union>d \<in> set stack'. listing_times d) = S \<union> (\<Union>e \<in> set es. entry_times e) \<union> (\<Union>d \<in> set stack. listing_times d)"
proof (induction es latest stack arbitrary: S rule: scan_entries.induct)
  case (5 n t es latest stack)
  show ?case using "5.IH"[OF _ is_latest_step[OF "5.prems"(2)]] "5.prems"(1) by (auto simp: Un_ac)
next
  case (6 n t es latest stack)
  show ?case using "6.IH"[OF _ is_latest_step[OF "6.prems"(2)]] "6.prems"(1) by (auto simp: Un_ac)
next
  case (4 n d es latest stack)
  show ?case using "4.IH"[OF _ "4.prems"(2)] "4.prems"(1) by (auto simp: Un_ac)
qed auto

lemma latest_mtime_loop_latest:
  "latest_mtime_loop latest stack = Inr m \<Longrightarrow> is_latest S latest \<Longrightarrow> is_latest (S \<union> (\<Union>d \<in> set stack. listing_times d)) m"
proof (induction latest stack arbitrary: S rule: latest_mtime_loop.induct)
  case (4 latest es stack)
  from "4.prems"(1) obtain latest' stack' where
    scan: "scan_entries es latest stack = Inr (latest', stack')" and loop: "latest_mtime_loop latest' stack' = Inr m"
    by (auto split: sum.splits prod.splits)
  from scan_entries_latest[OF scan "4.prems"(2)] obtain S' where "is_latest S' latest'"
    and S': "S' \<union> (\<Union>d \<in> set stack'. listing_times d) = S \<union> (\<Union>e \<in> set es. entry_times e) \<union> (\<Union>d \<in> set stack. listing_times d)"
    by blast
  from "4.IH"[OF scan refl loop this(1)] show ?case unfolding S' by (simp add: Un_assoc)
qed auto

lemma latest_mtime_spec: "latest_mtime dir = Inr m \<Longrightarrow> is_latest (listing_times dir) m"
  unfolding latest_mtime_def by (drule latest_mtime_loop_latest[where S = "{}"]) (simp_all add: is_latest_def)

text \<open>The fourth copy of the date conversion agrees with the calendar too.\<close>

lemma archive_civil_is_maintain: "archive_civil_from_days z = maintain_civil_from_days z"
proof -
  have month: "mp + (if mp < 10 then 3 else - 9) = (if mp < 10 then mp + 3 else mp - 9)" for mp :: int by simp
  have year: "y + (if m \<le> 2 then 1 else 0) = (if m \<le> 2 then y + 1 else y)" for y m :: int by simp
  show ?thesis by (simp only: archive_civil_from_days_def maintain_civil_from_days_def Let_def month year)
qed

section \<open>What the record says\<close>

lemma derive_target_status_spec:
  assumes "derive_target_status row = (status, stage, reason)"
  shows "status = Accepted \<longleftrightarrow> (\<exists>e. row = Some e \<and> ex_status e \<in> {ExpAccepted, PocLanded, RoutedToIssue})"
    and "stage = None \<longleftrightarrow> status = Accepted"
  using assms by (auto simp: derive_target_status_def split: option.splits experiment_status.splits)

lemma target_row_spec:
  assumes "target_row x l fs sm t = Inr r"
  shows "tr_id r = mt_id t" "tr_delivery_mode r = mt_delivery_mode t" "validate_target_record r = Ok_unit"
    "tr_status r = Accepted \<longleftrightarrow> (\<exists>e. find_row sm (mt_id t) = Some e \<and> ex_status e \<in> {ExpAccepted, PocLanded, RoutedToIssue})"
    "tr_pr_url r = None \<or> tr_issue_url r = None"
    "tr_bench r \<noteq> None \<Longrightarrow> mt_delivery_mode t = NormalPr"
proof -
  obtain status stage reason where d: "derive_target_status (find_row sm (mt_id t)) = (status, stage, reason)"
    by (metis prod_cases3)
  from assms obtain fb where fb: "read_feedback x fs (publish_feedback_json l (mt_id t)) = Inr fb"
    and r: "tr_id r = mt_id t" "tr_delivery_mode r = mt_delivery_mode t" "tr_status r = status" "tr_status_stage r = stage"
      "tr_pr_url r = Option.bind fb pf_pr_url" "tr_issue_url r = Option.bind fb pf_issue_url"
      "tr_bench r = build_target_bench x l fs t (find_row sm (mt_id t)) sm"
    by (auto simp: target_row_def d Let_def result_simps)
  show "tr_id r = mt_id t" "tr_delivery_mode r = mt_delivery_mode t" by (simp_all add: r)
  show "tr_status r = Accepted \<longleftrightarrow> (\<exists>e. find_row sm (mt_id t) = Some e \<and> ex_status e \<in> {ExpAccepted, PocLanded, RoutedToIssue})"
    using derive_target_status_spec(1)[OF d] by (simp add: r)
  show "validate_target_record r = Ok_unit"
    using derive_target_status_spec(2)[OF d] r
    by (cases status; cases stage) (auto simp: validate_target_record_def)
  show "tr_pr_url r = None \<or> tr_issue_url r = None"
    using fb unfolding r
    by (auto simp: read_feedback_def validate_publish_feedback_def result_simps split: read_outcome.splits option.splits)
  show "mt_delivery_mode t = NormalPr" if "tr_bench r \<noteq> None"
    using that unfolding r by (auto simp: build_target_bench_def split: option.splits if_splits bind_splits)
qed

lemma build_target_records_spec:
  assumes "build_target_records x l fs sm (Some doc) = Inr rows"
  shows "sorted (map tr_id rows)" "mset (map tr_id rows) = mset (map mt_id (ot_targets doc))"
    "\<forall>t \<in> set (ot_targets doc). \<exists>r. target_row x l fs sm t = Inr r"
    "\<forall>r \<in> set rows. \<exists>t \<in> set (ot_targets doc). target_row x l fs sm t = Inr r"
proof -
  from assms obtain rs where rs: "map (target_row x l fs sm) (ot_targets doc) = map Inr rs" and rows: "rows = sort_key tr_id rs"
    by (auto simp: build_target_records_def result_simps)
  from rs have row: "list_all2 (\<lambda>t r. target_row x l fs sm t = Inr r) (ot_targets doc) rs"
    unfolding list_eq_iff_nth_eq by (auto simp: list_all2_conv_all_nth)
  then have "map mt_id (ot_targets doc) = map tr_id rs"
    by (induction rule: list_all2_induct) (simp_all add: target_row_spec(1))
  then show "mset (map tr_id rows) = mset (map mt_id (ot_targets doc))" by (simp add: rows)
  show "sorted (map tr_id rows)" by (simp add: rows)
  show "\<forall>t \<in> set (ot_targets doc). \<exists>r. target_row x l fs sm t = Inr r"
    using row by (auto simp: list_all2_conv_all_nth in_set_conv_nth)
  show "\<forall>r \<in> set rows. \<exists>t \<in> set (ot_targets doc). target_row x l fs sm t = Inr r"
    using row by (fastforce simp: rows list_all2_conv_all_nth in_set_conv_nth)
qed

lemma target_row_fails:
  "(\<exists>r. target_row x l fs sm t = Inr r) \<longleftrightarrow> (\<nexists>e. read_feedback x fs (publish_feedback_json l (mt_id t)) = Inl e)"
  by (cases "read_feedback x fs (publish_feedback_json l (mt_id t))") (auto simp: target_row_def Let_def split: prod.splits)

lemma build_target_records_fails:
  assumes "build_target_records x l fs sm (Some doc) = Inl e"
  shows "\<exists>t \<in> set (ot_targets doc). \<exists>e. read_feedback x fs (publish_feedback_json l (mt_id t)) = Inl e"
proof (rule ccontr)
  assume "\<not> ?thesis"
  then have "\<forall>t \<in> set (ot_targets doc). \<exists>r. target_row x l fs sm t = Inr r" unfolding target_row_fails by blast
  then obtain f where "\<forall>t \<in> set (ot_targets doc). target_row x l fs sm t = Inr (f t)" by metis
  then have "map (target_row x l fs sm) (ot_targets doc) = map Inr (map f (ot_targets doc))" by simp
  then have "collect_results (map (target_row x l fs sm) (ot_targets doc)) = Inr (map f (ot_targets doc))"
    unfolding collect_results_Inr .
  with assms show False by (simp add: build_target_records_def)
qed

lemma archived_row_ids:
  "mset (map tr_id (case build_target_records x l fs sm (Some d) of Inr rows \<Rightarrow> rows | Inl _ \<Rightarrow> [])) =
     (if \<exists>t \<in> set (ot_targets d). \<exists>e. read_feedback x fs (publish_feedback_json l (mt_id t)) = Inl e then {#}
      else mset (map mt_id (ot_targets d)))"
proof (cases "build_target_records x l fs sm (Some d)")
  case (Inl e)
  with build_target_records_fails[OF Inl] show ?thesis by simp
next
  case (Inr rows)
  with build_target_records_spec(3)[OF Inr] have "\<nexists>t. t \<in> set (ot_targets d) \<and> (\<exists>e. read_feedback x fs (publish_feedback_json l (mt_id t)) = Inl e)"
    unfolding target_row_fails by blast
  with Inr build_target_records_spec(2)[OF Inr] show ?thesis by auto
qed

lemma build_session_record_cases:
  assumes "build_session_record x i branch fs = Inr r"
  obtains sm doc where "read_optional (summary_json (ar_layout i)) (\<lambda>fs. read_summary fs (ax_codecs x) (ar_layout i)) fs = Inr sm"
    "read_optional (optimization_targets_json (ar_layout i)) (\<lambda>fs. read_optimization_targets fs (ax_codecs x) (ar_layout i)) fs = Inr doc"
    "sr_targets r = (case build_target_records x (ar_layout i) fs sm doc of Inr rows \<Rightarrow> rows | Inl _ \<Rightarrow> [])"
    "sr_status r = fst (derive_session_status (ar_layout i) fs)" "sr_id r = sl_id (ar_layout i)" "sr_artifact_branch r = branch"
    "sr_artifact_sha r = []" "sr_artifact_url r = None"
proof -
  obtain st ph rs where d: "derive_session_status (ar_layout i) fs = (st, ph, rs)" by (metis prod_cases3)
  show thesis
    using assms by (auto simp: build_session_record_def Let_def result_simps d intro: that)
qed

text \<open>One unreadable publish feedback removes the rows of all targets from the record, which is built all the same.\<close>

lemma corrupt_feedback_drops_rows:
  assumes "build_session_record x i branch fs = Inr r" "fs (optimization_targets_json (ar_layout i)) \<noteq> NotFound"
    and "read_optimization_targets fs (ax_codecs x) (ar_layout i) = Inr d" "t \<in> set (ot_targets d)"
    and "read_feedback x fs (publish_feedback_json (ar_layout i) (mt_id t)) = Inl e"
  shows "sr_targets r = []"
proof -
  from assms(1) obtain sm doc where doc: "read_optional (optimization_targets_json (ar_layout i))
        (\<lambda>fs. read_optimization_targets fs (ax_codecs x) (ar_layout i)) fs = Inr doc"
    and rows: "sr_targets r = (case build_target_records x (ar_layout i) fs sm doc of Inr rows \<Rightarrow> rows | Inl _ \<Rightarrow> [])"
    by (rule build_session_record_cases)
  from doc assms(2,3) have "doc = Some d" by (auto simp: read_optional_def result_simps split: read_outcome.splits)
  moreover from assms(4,5) have "mset (map tr_id (case build_target_records x (ar_layout i) fs sm (Some d) of Inr rows \<Rightarrow> rows | Inl _ \<Rightarrow> [])) = {#}"
    unfolding archived_row_ids by auto
  ultimately show ?thesis unfolding rows by simp
qed


section \<open>A session is archived once\<close>

text \<open>What compact serde output of a record is: one line in braces that is read back as the record.\<close>

definition record_line :: "('io, 'p) archive_io \<Rightarrow> session_record \<Rightarrow> string \<Rightarrow> bool" where
  "record_line x r j \<longleftrightarrow>
     j \<noteq> [] \<and> hd j = CHR ''{'' \<and> last j = CHR ''}'' \<and> CHR 0x0A \<notin> set j \<and> record_from_line x j = Inr r"

lemma record_line_text:
  assumes "record_line x r j"
  shows "strip_cr j = j" "trim_ws j = j" "\<not> is_blank j"
proof -
  from assms have j: "j \<noteq> []" "hd j = CHR ''{''" "last j = CHR ''}''" by (auto simp: record_line_def)
  show "strip_cr j = j" using j by (auto simp: strip_cr_def strip_suffix_def suffix_def)
  show "trim_ws j = j" by (rule trim_ws_solid) (simp_all add: j solid_def ascii_ws_def)
  from j(1,2) obtain js where "j = CHR ''{'' # js" by (cases j) auto
  then show "\<not> is_blank j" by (cases js rule: list.exhaust; cases "tl js") (simp_all add: ascii_ws_def ws2_def ws3_def)
qed

lemma lines_contain_id_iff:
  "lines_contain_id x sid lines \<longleftrightarrow> (\<exists>l \<in> set lines. trim_ws l \<noteq> [] \<and> (\<exists>r. record_from_line x l = Inr r \<and> sr_id r = sid))"
  by (induction lines) (auto split: sum.splits)

lemma append_ledger_Inr:
  assumes "append_ledger x path r fs = (Ok_unit, fs')"
  obtains line where "ax_to_json x r = Inr line" "fs' path = Content (file_text (fs path) @ line @ [CHR 0x0A])"
    "\<forall>p. p \<noteq> path \<longrightarrow> fs' p = fs p"
  using assms
  by (auto simp: append_ledger_def write_all_def result_simps file_text_def split: option.splits)

text \<open>Once the ledger lists a session, archiving it asks git for the address of the remote and does nothing else.\<close>

lemma archive_listed:
  assumes "ly_operator_repo_root (ar_framework i) = Some repo"
    and "fs (path_join repo ''sessions.jsonl'') = Content text" "lines_contain_id x (sl_id (ar_layout i)) (rust_lines text)"
  shows "archive x i fs =
    (let (url, fs') = derive_artifact_url x repo (archive_branch i) fs
     in (Inr \<lparr>ao_already_archived = True, ao_branch = archive_branch i, ao_branch_sha = None, ao_ledger_appended = False,
              ao_artifact_url = result_ok url\<rparr>, fs'))"
  using assms
  by (simp add: archive_def then_do_def look_def require_operator_repo_root_def with_context_def ledger_contains_id_def Let_def)

lemma derive_artifact_url_state:
  "snd (derive_artifact_url x repo branch fs) = snd (run_git_output (ax_git x) repo [''remote'', ''get-url'', ''origin''] fs)"
  by (auto simp: derive_artifact_url_def then_do_def in_context_def with_context_def give_def fail_with_def
      split: prod.splits sum.splits option.splits)

lemma archive_new_Inr:
  assumes "archive_new x i repo branch ledger fs = (Inr out, fs')"
  obtains r sha url fs0 fs1 fs2 where "build_session_record x i branch fs0 = Inr r"
    "append_ledger x ledger (r\<lparr>sr_artifact_sha := sha, sr_artifact_url := url\<rparr>) fs1 = (Ok_unit, fs2)"
    "out = \<lparr>ao_already_archived = False, ao_branch = branch, ao_branch_sha = Some sha, ao_ledger_appended = True, ao_artifact_url = url\<rparr>"
proof -
  from assms obtain r fs0 auth sha url starting fs3 fs4 where built: "build_session_record x i branch fs0 = Inr r"
    and app: "append_and_commit x repo ledger starting (sl_id (ar_layout i)) (bot_identity_env (ar_settings i)) auth
       (r\<lparr>sr_artifact_sha := sha, sr_artifact_url := url\<rparr>) fs3 = (Ok_unit, fs4)"
    and out: "out = \<lparr>ao_already_archived = False, ao_branch = branch, ao_branch_sha = Some sha, ao_ledger_appended = True, ao_artifact_url = url\<rparr>"
    unfolding archive_new_def Let_def
    by (simp add: result_simps case_prod_unfold split: if_splits) blast+
  from app obtain fs1 fs2 where "append_ledger x ledger (r\<lparr>sr_artifact_sha := sha, sr_artifact_url := url\<rparr>) fs1 = (Ok_unit, fs2)"
    unfolding append_and_commit_def then_do_Inr by auto
  with built show thesis by (rule that) (rule out)
qed

lemma archive_Inr:
  assumes "archive x i fs = (Inr out, fs')"
  obtains repo where "ly_operator_repo_root (ar_framework i) = Some repo"
    "ledger_contains_id x (path_join repo ''sessions.jsonl'') (sl_id (ar_layout i)) fs = Inr True \<and> ao_already_archived out
     \<or> ledger_contains_id x (path_join repo ''sessions.jsonl'') (sl_id (ar_layout i)) fs = Inr False
       \<and> archive_new x i repo (archive_branch i) (path_join repo ''sessions.jsonl'') fs = (Inr out, fs')"
  using assms
  by (auto simp: archive_def require_operator_repo_root_def Let_def case_prod_unfold result_simps split: option.splits if_splits
      simp del: append_Cons append.simps)


section \<open>A sample archive\<close>

text \<open>A session with one merged target that ended before its summary, in an operator repository without remote.\<close>

definition sample_archived_files :: "unit files" where
  "sample_archived_files p = (if p = optimization_targets_json sample_session then Content ''x'' else NotFound)"

definition sample_archived_record :: session_record where
  "sample_archived_record =
     \<lparr>sr_kind = SessionCompleted, sr_id = ''s1'', sr_artifact_branch = ''session/s1'', sr_artifact_sha = ''abc'', sr_artifact_url = None,
      sr_started_at = ''1970-01-01T00:00:00Z'', sr_finished_at = ''1970-01-01T00:00:05Z'', sr_status = SessionFailed,
      sr_failure_phase = Some ''post-merge'',
      sr_failure_reason = Some (''summary.json absent '' @ em_dash @ '' finalize did not run to completion''),
      sr_sbagent_version = ''1'', sr_sbagent_git_sha = None,
      sr_range = \<lparr>rg_start_at = None, rg_count = None, rg_warmup = None, rg_filter = None, rg_network = ''mainnet''\<rparr>,
      sr_baseline_run_ids = [], sr_phase_durations_secs = [],
      sr_targets = [\<lparr>tr_id = ''fix'', tr_family_id = ''fam'', tr_bucket = ''block_commit'', tr_delivery_mode = NormalPr,
        tr_status = Aborted, tr_status_stage = Some Optimizer, tr_reason_code = Some ''no summary row'', tr_head_sha = None,
        tr_pr_url = None, tr_issue_url = None, tr_bench = None\<rparr>],
      sr_source_url = None, sr_source_branch = None, sr_source_sha = None, sr_source_fetched_at = None\<rparr>"

definition sample_archive_git :: "(unit files, unit) git_process" where
  "sample_archive_git args env fs =
     (let cmd = args ! 2
      in (if cmd = ''symbolic-ref'' then Exited (Some 0) ''main'' []
          else if cmd = ''rev-parse'' then Exited (Some 0) ''abc'' []
          else if cmd = ''show-ref'' \<or> cmd = ''remote'' then Exited (Some 1) [] []
          else Exited (Some 0) [] [], fs))"

definition sample_archive :: "(unit, unit) archive_io" where
  "sample_archive =
     \<lparr>ax_git = sample_archive_git, ax_base64 = (\<lambda>s. s), ax_codecs = sample_codecs,
      ax_from_str = (\<lambda>_. Inr (JObj [(''schema_version'', JInt 3)])), ax_record_of = (\<lambda>_. Inr sample_archived_record),
      ax_to_json = (\<lambda>r. if r = sample_archived_record then Inr ''{r}'' else Inl ()),
      ax_parse_feedback = (\<lambda>_. Inl ()), ax_parse_timings = (\<lambda>_. Inl ()), ax_home = None, ax_started_now = 0, ax_finished_now = 0,
      ax_version = ''1'', ax_build_sha = None, ax_exists = (\<lambda>_ _. False),
      ax_listing = (\<lambda>_ _. DirEntries [EntryDir ''d'' (DirEntries [EntryFile ''f'' (Some (5 * nanos))]), EntryFile ''g'' (Some nanos)]),
      ax_create_dir_all = (\<lambda>_ _. Ok_unit), ax_copy = (\<lambda>_ _ fs. (Ok_unit, fs)), ax_remove_dir_all = (\<lambda>_ fs. fs),
      ax_open_append = (\<lambda>_ _. Ok_unit), ax_write_stops = (\<lambda>_ _ _. None)\<rparr>"

definition sample_archive_inputs :: archive_inputs where
  "sample_archive_inputs =
     \<lparr>ar_layout = sample_session,
      ar_framework = \<lparr>ly_framework = None, ly_schemas_dir = ''/s'', ly_queries_dir = ''/q'', ly_context_dir = ''/c'', ly_memory_dir = ''/m'',
        ly_sessions_root = ''/data'', ly_operator_repo_root = Some ''/op'', ly_stacks_bench_data_dir = ''/b'', ly_bench_lock = ''/l'',
        ly_test_lock = ''/t'', ly_stacks_bench_shadow_dir = None, ly_agent_workspace_root = Some ''/work''\<rparr>,
      ar_settings = settings_default, ar_dry_run = True\<rparr>"

lemma sample_archive_reads:
  "sample_archived_files (optimization_targets_json sample_session) = Content ''x'' \<and> sample_archived_files (summary_json sample_session) = NotFound
   \<and> sample_archived_files (source_json sample_session) = NotFound \<and> sample_archived_files (timings_json sample_session) = NotFound
   \<and> sample_archived_files (path_join ''/op'' ''sessions.jsonl'') = NotFound
   \<and> read_baseline_run_ids sample_session sample_archived_files = [] \<and> derive_started_at_from_id 0 ''s1'' = ''1970-01-01T00:00:00Z''
   \<and> derive_finished_at (ax_listing sample_archive (sl_results_dir sample_session) sample_archived_files) = Some ''1970-01-01T00:00:05Z''
   \<and> build_target_records sample_archive sample_session sample_archived_files None (Some sample_merge) = Inr (sr_targets sample_archived_record)"
  by code_simp

lemma sample_session_record:
  "build_session_record sample_archive sample_archive_inputs (archive_branch sample_archive_inputs) sample_archived_files
     = Inr (sample_archived_record\<lparr>sr_artifact_sha := [], sr_artifact_url := None\<rparr>)"
proof -
  have "read_optimization_targets sample_archived_files sample_codecs sample_session = Inr sample_merge"
    by (simp add: read_optimization_targets_def parse_json_def sample_archive_reads sample_codecs_def sample_merge_doc_valid)
  moreover have "ax_codecs sample_archive = sample_codecs" "ax_started_now sample_archive = 0" "ax_version sample_archive = ''1''"
    "ax_build_sha sample_archive = None" "ar_layout sample_archive_inputs = sample_session" "sl_id sample_session = ''s1''"
    "ar_settings sample_archive_inputs = settings_default"
    by (simp_all add: sample_archive_def sample_archive_inputs_def sample_session_def session_layout_new_def)
  ultimately show ?thesis
    by (simp add: build_session_record_def read_optional_def sample_archive_reads derive_session_status_def present_def
        read_source_json_def read_timings_def with_context_def unwrap_or_def session_range_of_def settings_default_def effective_network_def
        bt_empty_def archive_branch_def sample_archived_record_def)
qed

lemma sample_git_output:
  "run_git_output (ax_git sample_archive) dir (cmd # args) fs =
     (if cmd = ''symbolic-ref'' then Inr ''main'' else if cmd = ''rev-parse'' then Inr ''abc''
      else if cmd = ''show-ref'' \<or> cmd = ''remote'' then Inl (GitExit (cmd # args) (Some 1) []) else Inr [], fs)"
proof -
  have "trim_ws ''main'' = ''main'' \<and> trim_ws ''abc'' = ''abc'' \<and> trim_ws [] = []" by code_simp
  then show ?thesis
    by (simp add: run_git_output_def git_in_def sample_archive_def sample_archive_git_def run_git_output_ok_def Let_def)
qed

lemma sample_git_run:
  "run_git_envs (ax_git sample_archive) dir (cmd # args) env fs =
     (bail_if (cmd = ''show-ref'' \<or> cmd = ''remote'') (GitExit (cmd # args) (Some 1) []), fs)"
  "run_git_check (ax_git sample_archive) dir (cmd # args) fs = (\<not> (cmd = ''show-ref'' \<or> cmd = ''remote''), fs)"
  by (simp_all add: run_git_envs_def run_git_check_def exit_check_def bail_if_def git_in_def sample_archive_def sample_archive_git_def Let_def)

lemma sample_mkdir: "mkdir sample_archive dir fs = (Ok_unit, fs)"
  by (simp add: mkdir_def look_def sample_archive_def with_context_def)

lemma sample_copy: "copy_dir_recursive sample_archive src dst fs = (Ok_unit, fs)"
proof -
  have "ax_copy sample_archive a b fs = (Ok_unit, fs)" for a b fs by (simp add: sample_archive_def)
  moreover have "ax_listing sample_archive p fs
      = DirEntries [EntryDir ''d'' (DirEntries [EntryFile ''f'' (Some (5 * nanos))]), EntryFile ''g'' (Some nanos)]" for p fs
    by (simp add: sample_archive_def)
  ultimately show ?thesis
    by (simp add: copy_dir_recursive_def then_do_def sample_mkdir in_context_def with_context_def give_def)
qed

lemma sample_archive_commit:
  "stage_force_and_commit (tree_at sample_archive dir env) paths msg fs = (Inr NothingToCommit, fs)"
  "stage_and_commit (tree_at sample_archive dir env) paths msg fs = (Inr NothingToCommit, fs)"
proof -
  have "\<not> any_staged (run_git_output_ok [])" by code_simp
  then show "stage_force_and_commit (tree_at sample_archive dir env) paths msg fs = (Inr NothingToCommit, fs)"
    "stage_and_commit (tree_at sample_archive dir env) paths msg fs = (Inr NothingToCommit, fs)"
    by (simp_all add: stage_force_and_commit_def stage_and_commit_def commit_staged_def tree_at_def sample_git_run status_porcelain_def
        sample_git_output bail_if_def Let_def)
qed

lemma sample_worktree:
  "run_in_archive_worktree sample_archive repo wt branch starting session_id bulk env None fs = (Inr ''abc'', fs)"
proof -
  have exists: "\<not> ax_exists sample_archive wt fs" for fs by (simp add: sample_archive_def)
  then have "remove_worktree sample_archive repo wt fs = fs" for fs
    by (simp add: remove_worktree_def run_git_def sample_git_run)
  with exists show ?thesis
    by (simp add: run_in_archive_worktree_def fill_archive_branch_def then_do_def in_context_def with_context_def branch_exists_def
        run_git_def sample_git_run sample_git_output sample_mkdir sample_copy sample_archive_commit with_remote_def give_def bail_if_def Let_def
        split: option.split)
qed

lemma sample_archive_runs:
  "fst (archive sample_archive sample_archive_inputs sample_archived_files)
     = Inr \<lparr>ao_already_archived = False, ao_branch = ''session/s1'', ao_branch_sha = Some ''abc'', ao_ledger_appended = True,
            ao_artifact_url = None\<rparr>"
proof -
  have i: "ly_operator_repo_root (ar_framework sample_archive_inputs) = Some ''/op''" "ar_dry_run sample_archive_inputs"
    "ar_layout sample_archive_inputs = sample_session" "sl_id sample_session = ''s1''"
    by (simp_all add: sample_archive_inputs_def sample_session_def session_layout_new_def)
  have "archive_worktree_path (ar_framework sample_archive_inputs) ''s1'' = (Inr ''/work/archive-worktrees/s1'' :: (unit, unit) archive_error + string)
     \<and> archive_branch sample_archive_inputs = ''session/s1'' \<and> rust_lines [] = []"
    by code_simp
  moreover have "append_ledger sample_archive ledger sample_archived_record fs
      = (Ok_unit, fs(ledger := Content (file_text (fs ledger) @ ''{r}'' @ [CHR 0x0A])))" for ledger fs
    by (simp add: append_ledger_def then_do_def look_def write_all_def with_context_def sample_archive_def file_text_def)
  moreover have "sample_archived_record\<lparr>sr_artifact_sha := ''abc'', sr_artifact_url := None\<rparr> = sample_archived_record"
    by (simp add: sample_archived_record_def)
  ultimately show ?thesis
    using sample_session_record sample_archive_reads
    by (simp add: archive_def archive_new_def append_and_commit_def then_do_def look_def with_context_def in_context_def i give_def
        require_operator_repo_root_def ledger_contains_id_def current_branch_def ensure_clean_worktree_def status_porcelain_def
        sample_git_output sample_worktree derive_artifact_url_def result_ok_def sample_archive_commit with_remote_def starts_with_def Let_def)
qed



end
