(* ===== verification/Spec2Isabelle.thy ===== *)
theory Spec2Isabelle
  imports Merge Maintain_Command Session_Id Finalize Publish_Generate Context_Docs Preflight Optimizers Benching Archive
begin

text \<open>
  A verification library for \<open>sbagent\<close>, the coordinator of agent sessions that look for performance
  improvements of a Stacks node (crate \<open>src/crates/stacks-bench-agent\<close>; paths below are relative to its
  \<open>src/\<close>).

  \<^bold>\<open>The program.\<close> A session runs in phases, each a module of \<open>session/\<close>: preflight and autonomy gates, a
  baseline benchmark, triage into candidate families, one analyzer agent per family, a merge of the analyzer
  targets, one optimizer agent per merged target, a benchmark of each change, an agent's verdict on the
  numbers, the summary (finalize), and publication as pull requests or issues. The phases share no state in
  memory: each reads the JSON artifacts of the earlier ones from the session's results directory and writes
  its own. Across sessions two append-only ledgers (\<open>sessions.jsonl\<close>, \<open>maintain.jsonl\<close>) and the ledger of
  analyzed rejections carry what was tried; dedup, the optimizer memory, triage and maintenance read them.

  \<^bold>\<open>How it is modelled.\<close> A \<open>String\<close> is its list of UTF-8 bytes, a path is its text, \<open>anyhow::Result\<close> is
  \<open>error + value\<close> with an error datatype per component, \<open>BTreeMap\<close> is a sorted association list, machine
  integers are bounded where the code can reach the bound. Files are a function from paths to what reading
  them gives (\<open>Loader\<close>); operations that write return the files after them. Code that is not in the
  repository is an argument: serde's parsers and printers, git, GitHub, the agent, template rendering,
  SHA-256, base64, the clock and the file system's answers. What a theorem needs of them is a named
  hypothesis, mostly that a value written as JSON is read back as it was, and its witness instantiates them.

  \<^bold>\<open>The theories\<close>, each with the code it models and what its lemmas show.

  \<^item> \<open>Rust_Prelude\<close>, \<open>Rust_Strings\<close>, \<open>Rust_Text\<close>, \<open>BTree_Map\<close>: what the code uses of the language and
    \<open>std\<close>. Sequences of checks and fallible steps with the simplification rules that carry the component
    proofs (\<open>result_simps\<close>), string and path operations, the map interface \<open>ordered_map\<close> and its
    interpretation on sorted association lists.
  \<^item> \<open>Calendar\<close>, \<open>Timestamps\<close>, \<open>Session_Id\<close> (\<open>types.rs\<close>, parts of \<open>session/maintain.rs\<close> and
    \<open>session/autonomy.rs\<close>): the three copies of the civil-date conversions agree with the calendar, text
    of timestamps is read back as the time it was printed from, minted ids are valid and ordered by time.
  \<^item> \<open>Model_Common\<close>, \<open>Target_Models\<close>, \<open>Phase_Models\<close>, \<open>Ledger_Model\<close> (\<open>models/\<close>): the artifacts and their
    validators. A merged target that validates is routed by the delivery table; the analyzer's and the
    merge's validators agree on a target.
  \<^item> \<open>Ledger_IO\<close>, \<open>History_Projection\<close>, \<open>Dedup\<close> (\<open>session/ledger_reader.rs\<close>, \<open>session/maintain_ledger.rs\<close>,
    \<open>session/history_projection.rs\<close>, \<open>session/dedup.rs\<close>): every ledger line is accounted for, appending
    keeps the history, the state of an artifact is the newest event, and a signature is dropped exactly when
    the policy says so.
  \<^item> \<open>Merge\<close> (\<open>session/merge.rs\<close>): an accepted merge output accounts for every analyzer target exactly
    once and revives none that dedup dropped.
  \<^item> \<open>Maintain\<close>, \<open>Maintain_Command\<close> (\<open>session/maintain.rs\<close>, \<open>cli/maintain.rs\<close>): the scan of open
    artifacts stays within its limit, is complete when it is not cut off, writes valid events and, run
    often enough on an unchanged GitHub, has nothing left to write.
  \<^item> \<open>Autonomy\<close>, \<open>Preflight\<close> (\<open>session/autonomy.rs\<close>, \<open>session/preflight.rs\<close>, \<open>cli/preflight.rs\<close>): when a session
    may start, and that a tripped circuit breaker stays tripped until the operator removes the pause file.
  \<^item> \<open>Settings\<close>, \<open>Framework_Layout\<close>, \<open>Session_Layout\<close>, \<open>Source_Config\<close>, \<open>Bundles\<close>, \<open>Context_Docs\<close> (\<open>settings.rs\<close>,
    \<open>layout.rs\<close>, \<open>session/layout.rs\<close>, \<open>source/cache_id.rs\<close>, \<open>models/source.rs\<close>, \<open>prompts.rs\<close>, \<open>schemas.rs\<close>,
    \<open>queries.rs\<close>, \<open>context.rs\<close>): loaded settings, absolute and pairwise different paths, cache ids of
    remotes, and the copies of the embedded files an operator may edit.
  \<^item> \<open>Rejections\<close>, \<open>Optimizer_Memory\<close> (\<open>analyzed_rejections.rs\<close>, \<open>session/optimizer_memory.rs\<close> and their
    commands): a recorded rejection is found again; the memory in a prompt is the newest slice of history.
  \<^item> \<open>Git_Client\<close>, \<open>Git_Commands\<close> (\<open>git.rs\<close>): the token is sent to the configured host only, pushes are
    retried a bounded number of times, and every other wrapper around the git process.
  \<^item> \<open>Optimizer_Gate\<close>, \<open>Optimizers\<close> (\<open>session/optimizers.rs\<close>): a report that still says implemented after a
    task was committed and recorded by the coordinator; resuming a finished target changes nothing; pruning
    leaves landed clones alone; every target is tallied once.
  \<^item> \<open>Benching\<close> (\<open>session/bench.rs\<close>, \<open>session/cargo.rs\<close>, \<open>session/calibration.rs\<close>,
    \<open>session/bench_experiments.rs\<close>): what calibration and benchmark measure for a target can be compared.
  \<^item> \<open>Archive\<close> (\<open>session/archive.rs\<close>): the ledger line of a session accounts for its targets, and a session
    is listed once. The lines it writes are the ones \<open>Ledger_IO\<close> reads.
  \<^item> \<open>Loader\<close>, \<open>Finalize\<close>, \<open>Publish_Generate\<close>, \<open>Publish_Push\<close> (\<open>session/loader.rs\<close>, \<open>session/finalize.rs\<close>,
    \<open>session/publish.rs\<close>): an accepted row has its evidence, only what passed the gates is written up, and
    pushing again opens no second pull request or issue. The interface of GitHub is the locale of
    \<open>Publish_Push\<close>, interpreted on the model of the standard client.

  \<^bold>\<open>Loops and bounds.\<close> All loops are structural recursions over what they iterate, but for the two
  walks over a directory tree in \<open>Archive\<close>, which keep the code's stack and end by the size of the tree on it.
  \<open>push_or_retry\<close> has the code's attempt counter and ends by it. No definition uses fuel. Counters that the code keeps in
  \<open>u32\<close> or \<open>u64\<close> are natural numbers where their values are bounded by lengths of inputs.

  \<^bold>\<open>Not modelled.\<close> Interleaving: the optimizer tasks run one after the other, in any order, which is what
  one permit gives; with several permits the tasks of a run without normal targets interleave, on disjoint
  directories. The agent harness (\<open>harnesses/\<close>), process and signal handling, template rendering and prompt
  linting, the Markdown reports (\<open>session/render.rs\<close>, \<open>cli/history/\<close>), the schema exporter, the
  baseline benchmark and the SQLite queries (\<open>session/baseline.rs\<close>, \<open>session/triage_queries.rs\<close>,
  \<open>session/db_consistency.rs\<close>), checkouts of the source repository (\<open>source/repo.rs\<close>, \<open>source/session.rs\<close>,
  \<open>session/workspace.rs\<close>) and the argument handling of the commands: they are input and output around the
  parts above, with little state of their own. Triage, the analyzer fan-out and the verdict agent
  (\<open>session/triage.rs\<close>, \<open>session/analyzers.rs\<close>, \<open>session/results_analyzer.rs\<close>) are agent invocations followed
  by the validators modelled here; of them only the recording of rejections is modelled. The wording of
  error messages is kept only where it reaches an artifact.
\<close>

end
